(* ===== verification/Rim_Prelude.thy ===== *)
theory Rim_Prelude
  imports Main "HOL-Library.Word" "HOL-Library.Multiset" "HOL-Library.Code_Target_Nat"
begin

text \<open>
  Shared vocabulary of the development: byte strings and Go results, 64-bit wrap-around,
  and the interfaces (locales) that several components implement: bounded buffers,
  invariants of step relations and of event-driven machines, simulations. The components interpret these locales on their own definitions.
\<close>

section \<open>Types and automation\<close>

text \<open>A Go byte slice is a list of bytes; a Go string is a \<open>string\<close>, whose characters are the
  bytes of its UTF-8 text. A call that returns a value and an error is a sum: \<open>Inl\<close> carries the
  text of the error.\<close>

type_synonym byte = "8 word"
type_synonym bytes = "byte list"
type_synonym 'a res = "string + 'a"

named_theorems go_simps \<open>rewrite rules for the modelled parts of the Go standard library\<close>
named_theorems node_simps \<open>what the passes over the node list leave unchanged\<close>
named_theorems inv_intros \<open>preservation of the components' invariants\<close>

section \<open>Lists\<close>

lemma find_SomeD: "find P xs = Some x \<Longrightarrow> x \<in> set xs \<and> P x"
  by (auto simp: find_Some_iff)

lemma find_append: "find P (xs @ ys) = (case find P xs of Some x \<Rightarrow> Some x | None \<Rightarrow> find P ys)"
  by (induction xs) auto

section \<open>64-bit signed integers\<close>

text \<open>Go's int, int64 and time.Duration have 64 bits here. They are modelled as \<open>int\<close>; an
  operation that can leave the range wraps explicitly.\<close>

definition wrap64 :: "int \<Rightarrow> int" where
  "wrap64 x = (x + 2 ^ 63) mod 2 ^ 64 - 2 ^ 63"

definition int64_range :: "int \<Rightarrow> bool" where
  "int64_range x \<longleftrightarrow> - (2 ^ 63) \<le> x \<and> x < 2 ^ 63"

lemma wrap64_id [simp]: "int64_range x \<Longrightarrow> wrap64 x = x"
  by (simp add: wrap64_def int64_range_def)

lemma wrap64_range: "int64_range (wrap64 x)"
proof -
  have "0 \<le> (x + 2 ^ 63) mod 2 ^ 64" and "(x + 2 ^ 63) mod 2 ^ 64 < 2 ^ 64"
    by simp_all
  then show ?thesis
    unfolding int64_range_def wrap64_def by simp
qed

section \<open>Invariants of step relations and machines\<close>

inductive reach :: "('s \<Rightarrow> bool) \<Rightarrow> ('s \<Rightarrow> 's \<Rightarrow> bool) \<Rightarrow> 's \<Rightarrow> bool"
  for initial :: "'s \<Rightarrow> bool" and step :: "'s \<Rightarrow> 's \<Rightarrow> bool" where
  reach_initial: "initial s \<Longrightarrow> reach initial step s"
| reach_step: "reach initial step s \<Longrightarrow> step s t \<Longrightarrow> reach initial step t"

locale invariant_system =
  fixes initial :: "'s \<Rightarrow> bool"
    and step :: "'s \<Rightarrow> 's \<Rightarrow> bool"
    and invar :: "'s \<Rightarrow> bool"
  assumes invar_initial: "initial s \<Longrightarrow> invar s"
    and invar_step: "invar s \<Longrightarrow> step s t \<Longrightarrow> invar t"
begin

lemma reach_invar: "reach initial step s \<Longrightarrow> invar s"
  by (induction rule: reach.induct) (auto intro: invar_initial invar_step)

end

text \<open>A detailed step relation refines an abstract one when every step from a reachable state is an
  abstract step of the images or leaves the image unchanged.\<close>

locale simulation =
  fixes initial :: "'s \<Rightarrow> bool"
    and step :: "'s \<Rightarrow> 's \<Rightarrow> bool"
    and abs_of :: "'s \<Rightarrow> 'a"
    and abs_initial :: "'a \<Rightarrow> bool"
    and abs_step :: "'a \<Rightarrow> 'a \<Rightarrow> bool"
  assumes sim_initial: "initial s \<Longrightarrow> abs_initial (abs_of s)"
    and sim_step: "reach initial step s \<Longrightarrow> step s t \<Longrightarrow> abs_of t = abs_of s \<or> abs_step (abs_of s) (abs_of t)"
begin

lemma reach_abs: "reach initial step s \<Longrightarrow> reach abs_initial abs_step (abs_of s)"
proof (induction rule: reach.induct)
  case (reach_initial s)
  then show ?case by (intro reach.reach_initial sim_initial)
next
  case (reach_step s t)
  then show ?case
    using sim_step [OF reach_step.hyps] by (metis reach.reach_step)
qed

end

text \<open>A deterministic machine is a function of its state and the next event; a run folds it over
  the events.\<close>

definition run_events :: "('s \<Rightarrow> 'e \<Rightarrow> 's) \<Rightarrow> 's \<Rightarrow> 'e list \<Rightarrow> 's" where
  "run_events f s es = foldl f s es"

lemma run_events_simps [simp]:
  "run_events f s [] = s"
  "run_events f s (e # es) = run_events f (f s e) es"
  "run_events f s (es @ fs) = run_events f (run_events f s es) fs"
  by (simp_all add: run_events_def)

locale event_machine =
  fixes handle :: "'s \<Rightarrow> 'e \<Rightarrow> 's"
    and invar :: "'s \<Rightarrow> bool"
  assumes handle_invar: "invar s \<Longrightarrow> invar (handle s e)"
begin

lemma run_invar: "invar s \<Longrightarrow> invar (run_events handle s es)"
  by (induction es arbitrary: s) (auto intro: handle_invar)

end

section \<open>Bounded buffers\<close>

text \<open>Several components keep at most a fixed number of entries. The weak contract bounds the
  size; the dropping contract says in addition that a full buffer refuses the entry and that a
  buffer with room takes it.\<close>

locale bounded_buffer =
  fixes occupancy :: "'s \<Rightarrow> nat"
    and capacity :: nat
    and put :: "'x \<Rightarrow> 's \<Rightarrow> 's"
  assumes put_bounded: "occupancy s \<le> capacity \<Longrightarrow> occupancy (put x s) \<le> capacity"
begin

lemma fold_put_bounded:
  "occupancy s \<le> capacity \<Longrightarrow> occupancy (fold put xs s) \<le> capacity"
  by (induction xs arbitrary: s) (auto intro: put_bounded)

end

locale dropping_buffer = bounded_buffer occupancy capacity put
  for occupancy :: "'s \<Rightarrow> nat" and capacity :: nat and put :: "'x \<Rightarrow> 's \<Rightarrow> 's" +
  assumes put_full: "capacity \<le> occupancy s \<Longrightarrow> put x s = s"
    and put_room: "occupancy s < capacity \<Longrightarrow> occupancy (put x s) = Suc (occupancy s)"
begin

lemma fold_put_occupancy:
  "occupancy s \<le> capacity \<Longrightarrow>
   occupancy (fold put xs s) = min capacity (occupancy s + length xs)"
proof (induction xs arbitrary: s)
  case Nil
  then show ?case by simp
next
  case (Cons x xs)
  show ?case
  proof (cases "occupancy s < capacity")
    case True
    with Cons.IH [of "put x s"] put_room [OF True, of x] show ?thesis by simp
  next
    case False
    with Cons put_full [of s x] show ?thesis by simp
  qed
qed

end

end
