(* ===== verification/Go_Strings.thy ===== *)
theory Go_Strings
  imports Rim_Prelude "HOL-Library.Char_ord" "HOL-Library.List_Lexorder"
begin

text \<open>
  The functions of packages strings, strconv and fmt that the program calls, over byte strings.
  White space is the Unicode notion of unicode.IsSpace, recognised on the UTF-8 encoding. Case
  mapping covers the ASCII letters and the non-ASCII runes whose image is ASCII; the mapping of
  a non-ASCII rune to another non-ASCII rune is left out, which no comparison of the program
  against its (ASCII) keywords can observe. Strings are ordered bytewise, as in Go.
\<close>

section \<open>Searching, cutting, joining\<close>

definition has_prefix :: "string \<Rightarrow> string \<Rightarrow> bool" where
  "has_prefix s p \<longleftrightarrow> take (length p) s = p"

definition has_suffix :: "string \<Rightarrow> string \<Rightarrow> bool" where
  "has_suffix s p \<longleftrightarrow> has_prefix (rev s) (rev p)"

definition trim_prefix :: "string \<Rightarrow> string \<Rightarrow> string" where
  "trim_prefix s p = (if has_prefix s p then drop (length p) s else s)"

fun str_contains :: "string \<Rightarrow> string \<Rightarrow> bool" where
  "str_contains [] sub \<longleftrightarrow> sub = []"
| "str_contains (c # s) sub \<longleftrightarrow> has_prefix (c # s) sub \<or> str_contains s sub"

fun split_on :: "char \<Rightarrow> string \<Rightarrow> string list" where
  "split_on sep [] = [[]]"
| "split_on sep (c # s) =
     (if c = sep then [] # split_on sep s
      else (case split_on sep s of [] \<Rightarrow> [[c]] | w # ws \<Rightarrow> (c # w) # ws))"

fun join :: "string \<Rightarrow> string list \<Rightarrow> string" where
  "join sep [] = []"
| "join sep [w] = w"
| "join sep (w # v # ws) = w @ sep @ join sep (v # ws)"

text \<open>strings.ReplaceAll with a non-empty old string.\<close>

function replace_all :: "string \<Rightarrow> string \<Rightarrow> string \<Rightarrow> string" where
  "replace_all old new s =
     (if old = [] \<or> s = [] then s
      else if has_prefix s old then new @ replace_all old new (drop (length old) s)
      else hd s # replace_all old new (tl s))"
  by pat_completeness auto
termination
  by (relation "measure (\<lambda>(old, new, s). length s)") auto

declare replace_all.simps [simp del]

definition trim_left_set :: "char set \<Rightarrow> string \<Rightarrow> string" where
  "trim_left_set cs s = dropWhile (\<lambda>c. c \<in> cs) s"

definition trim_right_set :: "char set \<Rightarrow> string \<Rightarrow> string" where
  "trim_right_set cs s = rev (dropWhile (\<lambda>c. c \<in> cs) (rev s))"

definition trim_set :: "char set \<Rightarrow> string \<Rightarrow> string" where
  "trim_set cs s = trim_right_set cs (trim_left_set cs s)"

section \<open>White space\<close>

definition ascii_space :: "char \<Rightarrow> bool" where
  "ascii_space c \<longleftrightarrow> c \<in> {CHR 0x09, CHR 0x0A, CHR 0x0B, CHR 0x0C, CHR 0x0D, CHR 0x20}"

text \<open>The three-byte encodings of the white space runes: U+1680, U+2000 to U+200A, U+2028, U+2029,
  U+202F, U+205F and U+3000.\<close>

definition wide_space :: "char \<Rightarrow> char \<Rightarrow> char \<Rightarrow> bool" where
  "wide_space a b c \<longleftrightarrow>
     a = CHR 0xE1 \<and> b = CHR 0x9A \<and> c = CHR 0x80 \<or>
     a = CHR 0xE2 \<and> b = CHR 0x80 \<and>
       c \<in> {CHR 0x80, CHR 0x81, CHR 0x82, CHR 0x83, CHR 0x84, CHR 0x85, CHR 0x86, CHR 0x87,
            CHR 0x88, CHR 0x89, CHR 0x8A, CHR 0xA8, CHR 0xA9, CHR 0xAF} \<or>
     a = CHR 0xE2 \<and> b = CHR 0x81 \<and> c = CHR 0x9F \<or>
     a = CHR 0xE3 \<and> b = CHR 0x80 \<and> c = CHR 0x80"

text \<open>The length of the white space rune a string starts with, 0 if it starts with none; the
  second function reads a reversed string, so it sees the rune a string ends with.\<close>

fun space_len :: "string \<Rightarrow> nat" where
  "space_len [] = 0"
| "space_len (a # s) =
     (if ascii_space a then 1
      else (case s of
          [] \<Rightarrow> 0
        | b # t \<Rightarrow>
            if a = CHR 0xC2 \<and> (b = CHR 0x85 \<or> b = CHR 0xA0) then 2
            else (case t of [] \<Rightarrow> 0 | c # u \<Rightarrow> if wide_space a b c then 3 else 0)))"

fun rspace_len :: "string \<Rightarrow> nat" where
  "rspace_len [] = 0"
| "rspace_len (a # s) =
     (if ascii_space a then 1
      else (case s of
          [] \<Rightarrow> 0
        | b # t \<Rightarrow>
            if b = CHR 0xC2 \<and> (a = CHR 0x85 \<or> a = CHR 0xA0) then 2
            else (case t of [] \<Rightarrow> 0 | c # u \<Rightarrow> if wide_space c b a then 3 else 0)))"

text \<open>Ranging over a string: the width of the well-formed encoding it starts with, 0 for a byte that
  starts none; such a byte reads as one replacement rune, U+FFFD.\<close>

definition byte_in :: "nat \<Rightarrow> nat \<Rightarrow> char \<Rightarrow> bool" where
  "byte_in lo hi c \<longleftrightarrow> (let n = of_char c :: nat in lo \<le> n \<and> n \<le> hi)"

definition rune_width :: "string \<Rightarrow> nat" where
  "rune_width s =
     (case s of
        [] \<Rightarrow> 0
      | c # t \<Rightarrow>
          let ok = (\<lambda>i lo hi. i < length t \<and> byte_in lo hi (t ! i)); more = (\<lambda>i. ok i 0x80 0xBF)
          in if byte_in 0 0x7F c then 1
             else if byte_in 0xC2 0xDF c then (if more 0 then 2 else 0)
             else if byte_in 0xE0 0xEF c then
               (if ok 0 (if byte_in 0xE0 0xE0 c then 0xA0 else 0x80)
                        (if byte_in 0xED 0xED c then 0x9F else 0xBF) \<and> more 1 then 3 else 0)
             else if byte_in 0xF0 0xF4 c then
               (if ok 0 (if byte_in 0xF0 0xF0 c then 0x90 else 0x80)
                        (if byte_in 0xF4 0xF4 c then 0x8F else 0xBF) \<and> more 1 \<and> more 2 then 4 else 0)
             else 0)"

function runes :: "string \<Rightarrow> string list" where
  "runes [] = []"
| "runes (c # s) =
     (let w = rune_width (c # s)
      in if w = 0 then [CHR 0xEF, CHR 0xBF, CHR 0xBD] # runes s
         else take w (c # s) # runes (drop (w - 1) s))"
  by pat_completeness auto

termination
  by (relation "measure length") auto

lemma runes_nonempty: "r \<in> set (runes s) \<Longrightarrow> r \<noteq> []"
  by (induction s rule: runes.induct) (auto simp: Let_def split: if_splits)

function strip_runes :: "(string \<Rightarrow> nat) \<Rightarrow> string \<Rightarrow> string" where
  "strip_runes w s =
     (if s \<noteq> [] \<and> 0 < w s then strip_runes w (drop (w s) s) else s)"
  by pat_completeness auto
termination
  by (relation "measure (\<lambda>(w, s). length s)") auto

declare strip_runes.simps [simp del]

definition trim_space :: "string \<Rightarrow> string" where
  "trim_space s = strip_runes space_len (rev (strip_runes rspace_len (rev s)))"

text \<open>strings.Fields: \<open>cur\<close> is the field being read, reversed.\<close>

function str_fields_from :: "string \<Rightarrow> string \<Rightarrow> string list" where
  "str_fields_from cur s =
     (if s = [] then (if cur = [] then [] else [rev cur])
      else if space_len s = 0 then str_fields_from (hd s # cur) (tl s)
      else (if cur = [] then [] else [rev cur]) @ str_fields_from [] (drop (space_len s) s))"
  by pat_completeness auto
termination
  by (relation "measure (\<lambda>(cur, s). length s)") auto

declare str_fields_from.simps [simp del]

definition str_fields :: "string \<Rightarrow> string list" where
  "str_fields s = str_fields_from [] s"

section \<open>Case\<close>

definition lower_char :: "char \<Rightarrow> char" where
  "lower_char c =
     (let n = of_char c :: nat in if 65 \<le> n \<and> n \<le> 90 then char_of (n + 32) else c)"

definition upper_char :: "char \<Rightarrow> char" where
  "upper_char c =
     (let n = of_char c :: nat in if 97 \<le> n \<and> n \<le> 122 then char_of (n - 32) else c)"

text \<open>U+212A (Kelvin sign) and U+0130 map to the letters k and i.\<close>

fun to_lower :: "string \<Rightarrow> string" where
  "to_lower [] = []"
| "to_lower [a] = [lower_char a]"
| "to_lower [a, b] =
     (if a = CHR 0xC4 \<and> b = CHR 0xB0 then ''i'' else lower_char a # to_lower [b])"
| "to_lower (a # b # c # s) =
     (if a = CHR 0xE2 \<and> b = CHR 0x84 \<and> c = CHR 0xAA then CHR ''k'' # to_lower s
      else if a = CHR 0xC4 \<and> b = CHR 0xB0 then CHR ''i'' # to_lower (c # s)
      else lower_char a # to_lower (b # c # s))"

text \<open>U+017F (long s) and U+0131 (dotless i) map to the letters S and I.\<close>

fun to_upper :: "string \<Rightarrow> string" where
  "to_upper [] = []"
| "to_upper [a] = [upper_char a]"
| "to_upper (a # b # s) =
     (if a = CHR 0xC5 \<and> b = CHR 0xBF then CHR ''S'' # to_upper s
      else if a = CHR 0xC4 \<and> b = CHR 0xB1 then CHR ''I'' # to_upper s
      else upper_char a # to_upper (b # s))"

text \<open>Simple folding, under which strings.EqualFold compares: the Kelvin sign folds to k and the
  long s to s.\<close>

fun fold_case :: "string \<Rightarrow> string" where
  "fold_case [] = []"
| "fold_case [a] = [lower_char a]"
| "fold_case [a, b] =
     (if a = CHR 0xC5 \<and> b = CHR 0xBF then ''s'' else lower_char a # fold_case [b])"
| "fold_case (a # b # c # s) =
     (if a = CHR 0xE2 \<and> b = CHR 0x84 \<and> c = CHR 0xAA then CHR ''k'' # fold_case s
      else if a = CHR 0xC5 \<and> b = CHR 0xBF then CHR ''s'' # fold_case (c # s)
      else lower_char a # fold_case (b # c # s))"

definition equal_fold :: "string \<Rightarrow> string \<Rightarrow> bool" where
  "equal_fold s t \<longleftrightarrow> fold_case s = fold_case t"

section \<open>Numbers\<close>

definition digit_char :: "nat \<Rightarrow> char" where
  "digit_char d = char_of (48 + d)"

fun nat_digits :: "nat \<Rightarrow> string" where
  "nat_digits n =
     (if n < 10 then [digit_char n] else nat_digits (n div 10) @ [digit_char (n mod 10)])"

declare nat_digits.simps [simp del]

text \<open>The verb d of fmt, and strconv.Itoa.\<close>

definition itoa :: "int \<Rightarrow> string" where
  "itoa i = (if i < 0 then CHR ''-'' # nat_digits (nat (- i)) else nat_digits (nat i))"

definition is_digit :: "char \<Rightarrow> bool" where
  "is_digit c \<longleftrightarrow> 48 \<le> (of_char c :: nat) \<and> (of_char c :: nat) \<le> 57"

definition digit_val :: "char \<Rightarrow> nat" where
  "digit_val c = of_char c - 48"

definition digits_val :: "string \<Rightarrow> nat" where
  "digits_val s = foldl (\<lambda>v c. 10 * v + digit_val c) 0 s"

text \<open>strconv.Atoi: an optional sign, one digit at least, and a value of 64 bits.\<close>

definition atoi :: "string \<Rightarrow> int option" where
  "atoi s =
     (let neg = has_prefix s ''-'';
          ds = (if neg \<or> has_prefix s ''+'' then tl s else s)
      in if ds = [] \<or> \<not> list_all is_digit ds then None
         else let v = (if neg then - int (digits_val ds) else int (digits_val ds))
              in if int64_range v then Some v else None)"

text \<open>The value strconv.Atoi returns beside an error: 0 for bad syntax, the nearest bound for a
  number out of range.\<close>

definition atoi_value :: "string \<Rightarrow> int" where
  "atoi_value s =
     (case atoi s of
        Some v \<Rightarrow> v
      | None \<Rightarrow>
          let neg = has_prefix s ''-'';
              ds = (if neg \<or> has_prefix s ''+'' then tl s else s)
          in if ds = [] \<or> \<not> list_all is_digit ds then 0
             else if neg then - (2 ^ 63) else 2 ^ 63 - 1)"

definition show_bool :: "bool \<Rightarrow> string" where
  "show_bool b = (if b then ''true'' else ''false'')"

definition hex_digit :: "nat \<Rightarrow> char" where
  "hex_digit d = (if d < 10 then char_of (48 + d) else char_of (87 + d))"

definition hex_byte :: "byte \<Rightarrow> string" where
  "hex_byte b = [hex_digit (unat b div 16), hex_digit (unat b mod 16)]"

text \<open>hex.EncodeToString\<close>

definition hex_encode :: "bytes \<Rightarrow> string" where
  "hex_encode bs = concat (map hex_byte bs)"

text \<open>strconv.Quote, the verb q of fmt, written out for the bytes it escapes with a letter or a
  hexadecimal code below 128.\<close>

definition quote_char :: "char \<Rightarrow> string" where
  "quote_char c =
     (let n = of_char c :: nat
      in if n = 0x22 \<or> n = 0x5C then [CHR 0x5C, c]
         else if n = 0x07 then [CHR 0x5C, CHR ''a'']
         else if n = 0x08 then [CHR 0x5C, CHR ''b'']
         else if n = 0x0C then [CHR 0x5C, CHR ''f'']
         else if n = 0x0A then [CHR 0x5C, CHR ''n'']
         else if n = 0x0D then [CHR 0x5C, CHR ''r'']
         else if n = 0x09 then [CHR 0x5C, CHR ''t'']
         else if n = 0x0B then [CHR 0x5C, CHR ''v'']
         else if n < 0x20 \<or> n = 0x7F then [CHR 0x5C, CHR ''x''] @ hex_byte (of_nat n)
         else [c])"

definition go_quote :: "string \<Rightarrow> string" where
  "go_quote s = [CHR 0x22] @ concat (map quote_char s) @ [CHR 0x22]"

section \<open>Conversions between strings and byte slices\<close>

definition string_bytes :: "string \<Rightarrow> bytes" where
  "string_bytes s = map of_char s"

definition bytes_string :: "bytes \<Rightarrow> string" where
  "bytes_string bs = map (\<lambda>b. char_of (unat b)) bs"

section \<open>Laws of splitting and joining\<close>

lemma has_prefix_Nil [simp]: "has_prefix s []"
  by (simp add: has_prefix_def)

lemma has_prefix_append [simp]: "has_prefix (p @ s) p"
  by (simp add: has_prefix_def)

lemma has_prefix_Cons [simp]:
  "has_prefix (c # s) (d # p) \<longleftrightarrow> c = d \<and> has_prefix s p"
  "\<not> has_prefix [] (d # p)"
  by (auto simp: has_prefix_def)

lemma has_prefix_iff: "has_prefix s p \<longleftrightarrow> (\<exists>t. s = p @ t)"
  unfolding has_prefix_def by (metis append_take_drop_id append_eq_conv_conj)

lemma trim_prefix_absent [simp]: "\<not> has_prefix s p \<Longrightarrow> trim_prefix s p = s"
  by (simp add: trim_prefix_def)

lemma split_on_nonempty [simp]: "split_on sep s \<noteq> []"
  by (induction s) (auto split: list.splits)

lemma split_on_absent [go_simps]: "sep \<notin> set s \<Longrightarrow> split_on sep s = [s]"
  by (induction s) auto

lemma split_on_piece: "w \<in> set (split_on sep s) \<Longrightarrow> sep \<notin> set w \<and> set w \<subseteq> set s"
proof (induction s arbitrary: w)
  case Nil
  then show ?case by simp
next
  case (Cons a s)
  then show ?case
    by (cases "split_on sep s") (fastforce split: if_splits)+
qed

lemma split_on_step [go_simps]: "sep \<notin> set w \<Longrightarrow> split_on sep (w @ sep # s) = w # split_on sep s"
  by (induction w) (auto split: list.splits)

lemma split_on_join:
  "ws \<noteq> [] \<Longrightarrow> \<forall>w\<in>set ws. sep \<notin> set w \<Longrightarrow> split_on sep (join [sep] ws) = ws"
  by (induction "[sep]" ws rule: join.induct) (auto simp: go_simps)

lemma join_snoc_Nil: "ws \<noteq> [] \<Longrightarrow> join sep ws @ sep = join sep (ws @ [[]])"
  by (induction sep ws rule: join.induct) auto

lemma join_Cons: "join sep (w # ws) = (if ws = [] then w else w @ sep @ join sep ws)"
  by (cases ws) auto

lemma join_split_on: "join [sep] (split_on sep s) = s"
proof (induction s)
  case Nil
  then show ?case by simp
next
  case (Cons c s)
  then show ?case
    by (cases "split_on sep s") (auto simp: join_Cons split: if_splits)
qed

lemma set_join_subset: "set (join sep ws) \<subseteq> set sep \<union> (\<Union>w\<in>set ws. set w)"
  by (induction sep ws rule: join.induct) auto

section \<open>Laws of replacement\<close>

lemma replace_all_Nil [simp]: "replace_all old new [] = []"
  by (simp add: replace_all.simps)

lemma replace_all_char:
  "replace_all [c] new s = concat (map (\<lambda>x. if x = c then new else [x]) s)"
  by (induction s) (simp_all add: replace_all.simps [of _ _ "_ # _"])

lemma replace_all_absent: "c \<notin> set s \<Longrightarrow> replace_all (c # old) new s = s"
  by (induction s) (auto simp: replace_all.simps [of _ _ "_ # _"])

lemma set_replace_all: "set (replace_all old new s) \<subseteq> set s \<union> set new"
proof (induction old new s rule: replace_all.induct)
  case (1 old new s)
  show ?case
  proof (cases "old = [] \<or> s = []")
    case True
    then show ?thesis by (auto simp: replace_all.simps [of old new s])
  next
    case False
    then have "hd s \<in> set s" and "set (tl s) \<subseteq> set s" and "set (drop (length old) s) \<subseteq> set s"
      by (auto simp: list.set_sel set_drop_subset)
    moreover have "replace_all old new s =
        (if has_prefix s old then new @ replace_all old new (drop (length old) s)
         else hd s # replace_all old new (tl s))"
      using False by (simp add: replace_all.simps [of old new s])
    ultimately show ?thesis
      using 1 False by (cases "has_prefix s old") (simp_all, blast+)
  qed
qed

text \<open>The two nested calls with which the program turns every line ending into a line feed.\<close>

definition normalize_newlines :: "string \<Rightarrow> string" where
  "normalize_newlines s =
     replace_all [CHR 0x0D] [CHR 0x0A] (replace_all [CHR 0x0D, CHR 0x0A] [CHR 0x0A] s)"

lemma normalize_newlines_no_cr: "CHR 0x0D \<notin> set (normalize_newlines s)"
  by (auto simp: normalize_newlines_def replace_all_char)

lemma normalize_newlines_id: "CHR 0x0D \<notin> set s \<Longrightarrow> normalize_newlines s = s"
  by (simp add: normalize_newlines_def replace_all_absent)

section \<open>Laws of trimming\<close>

lemma trim_right_set_subset: "set (trim_right_set cs s) \<subseteq> set s"
  unfolding trim_right_set_def by (auto dest: set_dropWhileD)

lemma trim_right_set_idem [simp]: "trim_right_set cs (trim_right_set cs s) = trim_right_set cs s"
  by (simp add: trim_right_set_def dropWhile_idem)

lemma strip_runes_Nil [simp]: "strip_runes w [] = []"
  by (simp add: strip_runes.simps)

lemma strip_runes_stop: "w s = 0 \<Longrightarrow> strip_runes w s = s"
  by (simp add: strip_runes.simps)

lemma strip_runes_done: "strip_runes w s = [] \<or> w (strip_runes w s) = 0"
proof (induction w s rule: strip_runes.induct)
  case (1 w s)
  then show ?case
    by (cases "s \<noteq> [] \<and> 0 < w s") (auto simp: strip_runes.simps [of w s])
qed

lemma strip_runes_idem [simp]: "strip_runes w (strip_runes w s) = strip_runes w s"
  using strip_runes_done [of w s] by (auto intro: strip_runes_stop)

lemma strip_runes_drop: "\<exists>n. strip_runes w s = drop n s"
proof (induction w s rule: strip_runes.induct)
  case (1 w s)
  show ?case
  proof (cases "s \<noteq> [] \<and> 0 < w s")
    case True
    with 1 obtain n where "strip_runes w (drop (w s) s) = drop n (drop (w s) s)" by auto
    with True show ?thesis by (auto simp: strip_runes.simps [of w s])
  next
    case False
    then show ?thesis by (auto simp: strip_runes.simps [of w s] intro: exI [of _ 0])
  qed
qed

lemma set_strip_runes: "set (strip_runes w s) \<subseteq> set s"
  using strip_runes_drop [of w s] by (auto dest: in_set_dropD)

lemma strip_runes_dropWhile:
  assumes "\<And>c t. c \<in> cs \<Longrightarrow> w (c # t) = 1"
  shows "strip_runes w (dropWhile (\<lambda>c. c \<in> cs) s) = strip_runes w s"
  by (induction s) (auto simp: strip_runes.simps [of w "_ # _"] assms)

lemma trim_space_trim_right:
  assumes "\<And>c. c \<in> cs \<Longrightarrow> ascii_space c"
  shows "trim_space (trim_right_set cs s) = trim_space s"
proof -
  have "strip_runes rspace_len (dropWhile (\<lambda>c. c \<in> cs) (rev s)) = strip_runes rspace_len (rev s)"
    by (rule strip_runes_dropWhile) (simp add: assms)
  then show ?thesis by (simp add: trim_space_def trim_right_set_def)
qed

lemma set_trim_space: "set (trim_space s) \<subseteq> set s"
proof -
  have "set (trim_space s) \<subseteq> set (strip_runes rspace_len (rev s))"
    unfolding trim_space_def using set_strip_runes by (metis set_rev)
  then show ?thesis using set_strip_runes [of rspace_len "rev s"] by auto
qed

lemma trim_space_head: "trim_space s = [] \<or> space_len (trim_space s) = 0"
  unfolding trim_space_def by (rule strip_runes_done)

text \<open>The last rune of a string is found on the reversed string; cutting the front does not
  create white space at the end.\<close>

lemma rspace_len_append: "0 < rspace_len s \<Longrightarrow> 0 < rspace_len (s @ t)"
  by (cases s) (auto split: list.splits if_splits)

lemma trim_space_idem [simp]: "trim_space (trim_space s) = trim_space s"
proof -
  let ?r = "strip_runes rspace_len (rev s)"
  obtain n where n: "strip_runes space_len (rev ?r) = drop n (rev ?r)"
    using strip_runes_drop by blast
  have front: "rev (drop n (rev ?r)) @ rev (take n (rev ?r)) = ?r"
    by (metis append_take_drop_id rev_append rev_rev_ident)
  have "rspace_len (rev (drop n (rev ?r))) = 0"
    using rspace_len_append [of "rev (drop n (rev ?r))" "rev (take n (rev ?r))"]
      strip_runes_done [of rspace_len "rev s"] front by (cases "?r = []") auto
  then have "strip_runes rspace_len (rev (trim_space s)) = rev (trim_space s)"
    by (simp add: trim_space_def n strip_runes_stop)
  then show ?thesis
    by (simp add: trim_space_def)
qed

section \<open>Laws of fields\<close>

lemma str_fields_from_Nil [simp]: "str_fields_from cur [] = (if cur = [] then [] else [rev cur])"
  by (simp add: str_fields_from.simps)

lemma str_fields_from_nonempty: "w \<in> set (str_fields_from cur s) \<Longrightarrow> w \<noteq> []"
proof (induction cur s rule: str_fields_from.induct)
  case (1 cur s)
  then show ?case
    by (cases "s = []"; cases "space_len s = 0")
      (auto simp: str_fields_from.simps [of cur s] split: if_splits)
qed

lemma str_fields_nonempty: "w \<in> set (str_fields s) \<Longrightarrow> w \<noteq> []"
  unfolding str_fields_def by (rule str_fields_from_nonempty)

lemma ascii_space_space_len: "ascii_space a \<Longrightarrow> space_len (a # s) = 1"
  by simp

lemma str_fields_from_no_space:
  "\<forall>c\<in>set cur. \<not> ascii_space c \<Longrightarrow> w \<in> set (str_fields_from cur s) \<Longrightarrow> c \<in> set w \<Longrightarrow> \<not> ascii_space c"
proof (induction cur s rule: str_fields_from.induct)
  case (1 cur s)
  show ?case
  proof (cases "s = []")
    case True
    with 1 show ?thesis by (auto split: if_splits)
  next
    case False
    then obtain a t where s: "s = a # t" by (cases s) auto
    show ?thesis
    proof (cases "space_len s = 0")
      case True
      then have "\<not> ascii_space a" using s by (auto split: if_splits)
      moreover have "w \<in> set (str_fields_from (a # cur) t)"
        using 1(4) True s str_fields_from.simps [of cur s] by (simp del: space_len.simps)
      ultimately show ?thesis
        using 1(1) [OF False True] 1(3,5) s by simp
    next
      case nz: False
      with 1 False show ?thesis
        by (auto simp: str_fields_from.simps [of cur s] split: if_splits)
    qed
  qed
qed

lemma str_fields_no_space: "w \<in> set (str_fields s) \<Longrightarrow> c \<in> set w \<Longrightarrow> \<not> ascii_space c"
  unfolding str_fields_def by (rule str_fields_from_no_space [of "[]"]) auto

section \<open>Laws of numbers\<close>

lemma nat_digits_nonempty [simp]: "nat_digits n \<noteq> []"
  by (subst nat_digits.simps) simp

lemma digit_char_props: "d < 10 \<Longrightarrow> is_digit (digit_char d) \<and> digit_val (digit_char d) = d"
  by (simp add: digit_char_def is_digit_def digit_val_def)

lemma nat_digits_digits: "list_all is_digit (nat_digits n)"
proof (induction n rule: nat_digits.induct)
  case (1 n)
  then show ?case
    by (cases "n < 10") (simp_all add: nat_digits.simps [of n] digit_char_props)
qed

lemma digits_val_snoc: "digits_val (s @ [c]) = 10 * digits_val s + digit_val c"
  by (simp add: digits_val_def)

lemma digits_val_nat_digits [simp]: "digits_val (nat_digits n) = n"
proof (induction n rule: nat_digits.induct)
  case (1 n)
  show ?case
  proof (cases "n < 10")
    case True
    then show ?thesis
      by (simp add: nat_digits.simps [of n] digits_val_def digit_char_props)
  next
    case False
    with 1 show ?thesis
      by (simp add: nat_digits.simps [of n] digits_val_snoc digit_char_props)
  qed
qed

lemma is_digit_not_sign: "is_digit c \<Longrightarrow> c \<noteq> CHR ''-'' \<and> c \<noteq> CHR ''+''"
  by (auto simp: is_digit_def)

lemma atoi_digits:
  assumes "ds \<noteq> []" and "list_all is_digit ds"
  shows "atoi ds = (if digits_val ds < 2 ^ 63 then Some (int (digits_val ds)) else None)"
proof -
  obtain c t where ds: "ds = c # t" using assms(1) by (cases ds) auto
  then have "is_digit c" using assms(2) by simp
  then have "\<not> has_prefix ds ''-''" and "\<not> has_prefix ds ''+''"
    using is_digit_not_sign ds by auto
  moreover have "int64_range (int (digits_val ds)) \<longleftrightarrow> digits_val ds < 2 ^ 63"
    unfolding int64_range_def by (simp add: zless_nat_eq_int_zless flip: of_nat_less_iff)
  ultimately show ?thesis using assms by (simp add: atoi_def Let_def)
qed

lemma atoi_itoa: "int64_range i \<Longrightarrow> atoi (itoa i) = Some i"
proof (cases "i < 0")
  case True
  assume "int64_range i"
  with True show ?thesis
    by (simp add: itoa_def atoi_def nat_digits_digits)
next
  case False
  assume "int64_range i"
  then have "nat i < 2 ^ 63"
    using False by (simp add: int64_range_def nat_less_iff)
  with False show ?thesis
    by (simp add: itoa_def atoi_digits nat_digits_digits)
qed

section \<open>Laws of conversions\<close>

lemma of_char_less_256: "(of_char c :: nat) < 256"
  using range_nat_of_char by (metis atLeastLessThan_iff rangeI)

lemma unat_of_char_byte: "unat (of_char c :: byte) = of_char c"
proof -
  have "(of_char c :: byte) = of_nat (of_char c)" by (simp only: of_nat_of_char)
  then have "unat (of_char c :: byte) = of_char c mod 2 ^ LENGTH(8)"
    by (metis unat_of_nat)
  then show ?thesis using of_char_less_256 [of c] by simp
qed

lemma bytes_string_bytes [simp]: "bytes_string (string_bytes s) = s"
proof -
  have "char_of (unat (of_char c :: byte)) = c" for c :: char
    by (simp add: unat_of_char_byte)
  then show ?thesis by (simp add: bytes_string_def string_bytes_def map_idI)
qed

lemma length_string_bytes [simp]:
  "length (string_bytes s) = length s" "length (bytes_string bs) = length bs"
  by (simp_all add: bytes_string_def string_bytes_def)

lemma length_hex_encode [simp]: "length (hex_encode bs) = 2 * length bs"
  by (induction bs) (simp_all add: hex_encode_def hex_byte_def)

section \<open>Plain words\<close>

text \<open>ASCII characters other than white space: they end and start words without being trimmed.\<close>

definition plain_char :: "char \<Rightarrow> bool" where
  "plain_char c \<longleftrightarrow> \<not> digit7 c \<and> \<not> ascii_space c"

lemma plain_not_wide:
  "plain_char a \<Longrightarrow> \<not> wide_space a b c \<and> \<not> wide_space c b a \<and>
     a \<noteq> CHR 0xC2 \<and> a \<noteq> CHR 0x85 \<and> a \<noteq> CHR 0xA0"
  unfolding plain_char_def wide_space_def by fastforce

lemma plain_space_len: "plain_char a \<Longrightarrow> space_len (a # s) = 0"
  using plain_not_wide [of a] by (auto simp: plain_char_def split: list.split)

lemma plain_rspace_len: "plain_char a \<Longrightarrow> rspace_len (a # s) = 0"
  using plain_not_wide [of a] by (auto simp: plain_char_def split: list.split)

lemma digit7_of_char: "digit7 c \<Longrightarrow> 128 \<le> (of_char c :: nat)"
  by (cases c) (simp add: of_char_Char)

lemma trim_space_plain:
  assumes "s \<noteq> []" and "plain_char (hd s)" and "plain_char (last s)"
  shows "trim_space s = s"
proof -
  obtain a t where "s = a # t" "plain_char a" using assms by (cases s) auto
  then have left: "strip_runes space_len s = s" by (metis plain_space_len strip_runes_stop)
  obtain b u where "rev s = b # u" "plain_char b"
    using assms(1,3) by (metis hd_rev list.exhaust_sel rev_is_Nil_conv)
  then have "strip_runes rspace_len (rev s) = rev s" by (metis plain_rspace_len strip_runes_stop)
  with left show ?thesis by (simp add: trim_space_def)
qed

lemma str_fields_from_word:
  "list_all plain_char w \<Longrightarrow> str_fields_from cur (w @ s) = str_fields_from (rev w @ cur) s"
proof (induction w arbitrary: cur)
  case Nil
  then show ?case by simp
next
  case (Cons a w)
  then have "space_len (a # w @ s) = 0" by (intro plain_space_len) simp
  then have "str_fields_from cur (a # w @ s) = str_fields_from (a # cur) (w @ s)"
    by (subst str_fields_from.simps) (simp only: list.sel if_True if_False list.distinct, simp)
  with Cons show ?case by simp
qed

lemma str_fields_word:
  "w \<noteq> [] \<Longrightarrow> list_all plain_char w \<Longrightarrow> str_fields (w @ CHR '' '' # s) = w # str_fields s"
  unfolding str_fields_def
  by (simp add: str_fields_from_word str_fields_from.simps [of _ "CHR '' '' # s"] ascii_space_def)

lemma str_fields_single: "w \<noteq> [] \<Longrightarrow> list_all plain_char w \<Longrightarrow> str_fields w = [w]"
  using str_fields_from_word [of w "[]" "[]"] by (simp add: str_fields_def)

lemma is_digit_plain: "is_digit c \<Longrightarrow> plain_char c"
  using digit7_of_char [of c] by (auto simp: is_digit_def plain_char_def ascii_space_def)

lemma nat_digits_plain: "list_all plain_char (nat_digits n)"
  using nat_digits_digits [of n] by (auto simp: list_all_iff is_digit_plain)

lemma itoa_plain: "list_all plain_char (itoa i)"
proof -
  have "plain_char CHR ''-''" by (simp add: plain_char_def ascii_space_def)
  then show ?thesis by (simp add: itoa_def nat_digits_plain)
qed

lemma itoa_nonempty [simp]: "itoa i \<noteq> []"
  by (simp add: itoa_def)

end
