(* ===== verification/Messages.thy ===== *)
theory Messages
  imports Main
begin

text \<open>
  The message literals of the program that are not ASCII, as the bytes of their UTF-8 text. The
  comment before each gives its meaning in English.
\<close>

text \<open>ready\<close>

definition msg_ready :: string where
  "msg_ready =
    [CHR 0xE5, CHR 0x87, CHR 0x86, CHR 0xE5, CHR 0xA4, CHR 0x87, CHR 0xE5, CHR 0xB0, CHR 0xB1,
     CHR 0xE7, CHR 0xBB, CHR 0xAA]"

text \<open>the TCP probe does not apply to a UDP node\<close>

definition msg_udp_not_probed :: string where
  "msg_udp_not_probed =
    [CHR ''U'', CHR ''D'', CHR ''P'', CHR 0x20, CHR 0xE8, CHR 0x8A, CHR 0x82, CHR 0xE7, CHR 0x82,
     CHR 0xB9, CHR 0xE4, CHR 0xB8, CHR 0x8D, CHR 0xE9, CHR 0x80, CHR 0x82, CHR 0xE7, CHR 0x94,
     CHR 0xA8, CHR 0x20, CHR ''T'', CHR ''C'', CHR ''P'', CHR 0x20, CHR 0xE5, CHR 0xBB, CHR 0xBA,
     CHR 0xE8, CHR 0xBF, CHR 0x9E, CHR 0xE6, CHR 0x8E, CHR 0xA2, CHR 0xE6, CHR 0xB5, CHR 0x8B]"

text \<open>the TCP probe failed\<close>

definition msg_tcp_probe_failed :: string where
  "msg_tcp_probe_failed =
    [CHR ''T'', CHR ''C'', CHR ''P'', CHR 0x20, CHR 0xE5, CHR 0xBB, CHR 0xBA, CHR 0xE8, CHR 0xBF,
     CHR 0x9E, CHR 0xE6, CHR 0x8E, CHR 0xA2, CHR 0xE6, CHR 0xB5, CHR 0x8B, CHR 0xE5, CHR 0xA4,
     CHR 0xB1, CHR 0xE8, CHR 0xB4, CHR 0xA5]"

text \<open>the TCP connection was made suspiciously fast, a local proxy or network extension may have taken it over\<close>

definition msg_latency_too_low :: string where
  "msg_latency_too_low =
    [CHR ''T'', CHR ''C'', CHR ''P'', CHR 0x20, CHR 0xE5, CHR 0xBB, CHR 0xBA, CHR 0xE8, CHR 0xBF,
     CHR 0x9E, CHR 0xE8, CHR 0x80, CHR 0x97, CHR 0xE6, CHR 0x97, CHR 0xB6, CHR 0xE5, CHR 0xBC,
     CHR 0x82, CHR 0xE5, CHR 0xB8, CHR 0xB8, CHR 0xE4, CHR 0xBD, CHR 0x8E, CHR 0xEF, CHR 0xBC,
     CHR 0x8C, CHR 0xE7, CHR 0x96, CHR 0x91, CHR 0xE4, CHR 0xBC, CHR 0xBC, CHR 0xE8, CHR 0xA2,
     CHR 0xAB, CHR 0xE6, CHR 0x9C, CHR 0xAC, CHR 0xE6, CHR 0x9C, CHR 0xBA, CHR 0xE4, CHR 0xBB,
     CHR 0xA3, CHR 0xE7, CHR 0x90, CHR 0x86, CHR 0xE6, CHR 0x88, CHR 0x96, CHR 0xE7, CHR 0xBD,
     CHR 0x91, CHR 0xE7, CHR 0xBB, CHR 0x9C, CHR 0xE6, CHR 0x89, CHR 0xA9, CHR 0xE5, CHR 0xB1,
     CHR 0x95, CHR 0xE6, CHR 0x8E, CHR 0xA5, CHR 0xE7, CHR 0xAE, CHR 0xA1]"

text \<open>public nodes of several countries are suspiciously fast at once, the probe may have been taken over\<close>

definition msg_batch_anomaly :: string where
  "msg_batch_anomaly =
    [CHR 0xE5, CHR 0xA4, CHR 0x9A, CHR 0xE4, CHR 0xB8, CHR 0xAA, CHR 0xE5, CHR 0x9B, CHR 0xBD,
     CHR 0xE5, CHR 0xAE, CHR 0xB6, CHR 0xE7, CHR 0x9A, CHR 0x84, CHR 0xE5, CHR 0x85, CHR 0xAC,
     CHR 0xE7, CHR 0xBD, CHR 0x91, CHR 0xE8, CHR 0x8A, CHR 0x82, CHR 0xE7, CHR 0x82, CHR 0xB9,
     CHR 0xE5, CHR 0x90, CHR 0x8C, CHR 0xE6, CHR 0x97, CHR 0xB6, CHR 0xE5, CHR 0x87, CHR 0xBA,
     CHR 0xE7, CHR 0x8E, CHR 0xB0, CHR 0xE5, CHR 0xBC, CHR 0x82, CHR 0xE5, CHR 0xB8, CHR 0xB8,
     CHR 0xE4, CHR 0xBD, CHR 0x8E, CHR 0xE8, CHR 0x80, CHR 0x97, CHR 0xE6, CHR 0x97, CHR 0xB6,
     CHR 0xEF, CHR 0xBC, CHR 0x8C, CHR 0xE6, CHR 0x8E, CHR 0xA2, CHR 0xE6, CHR 0xB5, CHR 0x8B,
     CHR 0xE7, CHR 0x96, CHR 0x91, CHR 0xE4, CHR 0xBC, CHR 0xBC, CHR 0xE8, CHR 0xA2, CHR 0xAB,
     CHR 0xE6, CHR 0x9C, CHR 0xAC, CHR 0xE6, CHR 0x9C, CHR 0xBA, CHR 0xE4, CHR 0xBB, CHR 0xA3,
     CHR 0xE7, CHR 0x90, CHR 0x86, CHR 0xE6, CHR 0x88, CHR 0x96, CHR 0xE7, CHR 0xBD, CHR 0x91,
     CHR 0xE7, CHR 0xBB, CHR 0x9C, CHR 0xE6, CHR 0x89, CHR 0xA9, CHR 0xE5, CHR 0xB1, CHR 0x95,
     CHR 0xE6, CHR 0x8E, CHR 0xA5, CHR 0xE7, CHR 0xAE, CHR 0xA1]"

text \<open>the classification source is unavailable\<close>

definition msg_classifier_down :: string where
  "msg_classifier_down =
    [CHR 0xE5, CHR 0x88, CHR 0x86, CHR 0xE7, CHR 0xB1, CHR 0xBB, CHR 0xE6, CHR 0xBA, CHR 0x90,
     CHR 0xE4, CHR 0xB8, CHR 0x8D, CHR 0xE5, CHR 0x8F, CHR 0xAF, CHR 0xE7, CHR 0x94, CHR 0xA8,
     CHR '':'', CHR 0x20]"

text \<open>no usable classification was returned\<close>

definition msg_no_classification :: string where
  "msg_no_classification =
    [CHR 0xE6, CHR 0x9C, CHR 0xAA, CHR 0xE8, CHR 0xBF, CHR 0x94, CHR 0xE5, CHR 0x9B, CHR 0x9E,
     CHR 0xE5, CHR 0x8F, CHR 0xAF, CHR 0xE7, CHR 0x94, CHR 0xA8, CHR 0xE5, CHR 0x88, CHR 0x86,
     CHR 0xE7, CHR 0xB1, CHR 0xBB, CHR 0xE7, CHR 0xBB, CHR 0x93, CHR 0xE6, CHR 0x9E, CHR 0x9C]"

text \<open>evidence against: proxy=\<close>

definition msg_denied_proxy :: string where
  "msg_denied_proxy =
    [CHR 0xE6, CHR 0x8B, CHR 0x92, CHR 0xE7, CHR 0xBB, CHR 0x9D, CHR 0xE8, CHR 0xAF, CHR 0x81,
     CHR 0xE6, CHR 0x8D, CHR 0xAE, CHR 0x20, CHR ''p'', CHR ''r'', CHR ''o'', CHR ''x'',
     CHR ''y'', CHR ''='']"

text \<open>matches a residential broadband operator\<close>

definition msg_home_evidence :: string where
  "msg_home_evidence =
    [CHR 0xE5, CHR 0x91, CHR 0xBD, CHR 0xE4, CHR 0xB8, CHR 0xAD, CHR 0xE5, CHR 0xAE, CHR 0xB6,
     CHR 0xE5, CHR 0xBA, CHR 0xAD, CHR 0xE5, CHR 0xAE, CHR 0xBD, CHR 0xE5, CHR 0xB8, CHR 0xA6,
     CHR 0xE8, CHR 0xBF, CHR 0x90, CHR 0xE8, CHR 0x90, CHR 0xA5, CHR 0xE5, CHR 0x95, CHR 0x86,
     CHR 0xE8, CHR 0xAF, CHR 0x81, CHR 0xE6, CHR 0x8D, CHR 0xAE, CHR '':'', CHR 0x20]"

text \<open>no clear residential evidence\<close>

definition msg_no_home_evidence :: string where
  "msg_no_home_evidence =
    [CHR 0xE6, CHR 0x97, CHR 0xA0, CHR 0xE6, CHR 0x98, CHR 0x8E, CHR 0xE7, CHR 0xA1, CHR 0xAE,
     CHR 0xE5, CHR 0xAE, CHR 0xB6, CHR 0xE5, CHR 0xBA, CHR 0xAD, CHR 0xE5, CHR 0xAE, CHR 0xBD,
     CHR 0xE5, CHR 0xB8, CHR 0xA6, CHR 0xE8, CHR 0xAF, CHR 0x81, CHR 0xE6, CHR 0x8D, CHR 0xAE,
     CHR '':'', CHR 0x20]"

text \<open>restored from the local state\<close>

definition msg_restored_prefix :: string where
  "msg_restored_prefix =
    [CHR 0xE5, CHR 0xB7, CHR 0xB2, CHR 0xE4, CHR 0xBB, CHR 0x8E, CHR 0xE6, CHR 0x9C, CHR 0xAC,
     CHR 0xE5, CHR 0x9C, CHR 0xB0, CHR 0xE7, CHR 0x8A, CHR 0xB6, CHR 0xE6, CHR 0x80, CHR 0x81,
     CHR 0xE6, CHR 0x81, CHR 0xA2, CHR 0xE5, CHR 0xA4, CHR 0x8D, CHR 0x20]"

text \<open>nodes\<close>

definition msg_nodes_suffix :: string where
  "msg_nodes_suffix =
    [CHR 0x20, CHR 0xE4, CHR 0xB8, CHR 0xAA, CHR 0xE8, CHR 0x8A, CHR 0x82, CHR 0xE7, CHR 0x82,
     CHR 0xB9]"

text \<open>restoring the local state failed\<close>

definition msg_restore_failed :: string where
  "msg_restore_failed =
    [CHR 0xE6, CHR 0x9C, CHR 0xAC, CHR 0xE5, CHR 0x9C, CHR 0xB0, CHR 0xE7, CHR 0x8A, CHR 0xB6,
     CHR 0xE6, CHR 0x80, CHR 0x81, CHR 0xE6, CHR 0x81, CHR 0xA2, CHR 0xE5, CHR 0xA4, CHR 0x8D,
     CHR 0xE5, CHR 0xA4, CHR 0xB1, CHR 0xE8, CHR 0xB4, CHR 0xA5, CHR '':'', CHR 0x20]"

text \<open>service started, data directory\<close>

definition msg_started :: string where
  "msg_started =
    [CHR 0xE6, CHR 0x9C, CHR 0x8D, CHR 0xE5, CHR 0x8A, CHR 0xA1, CHR 0xE5, CHR 0xB7, CHR 0xB2,
     CHR 0xE5, CHR 0x90, CHR 0xAF, CHR 0xE5, CHR 0x8A, CHR 0xA8, CHR 0xEF, CHR 0xBC, CHR 0x8C,
     CHR 0xE6, CHR 0x95, CHR 0xB0, CHR 0xE6, CHR 0x8D, CHR 0xAE, CHR 0xE7, CHR 0x9B, CHR 0xAE,
     CHR 0xE5, CHR 0xBD, CHR 0x95, CHR '':'', CHR 0x20]"

text \<open>automatic start of VMESS failed\<close>

definition msg_vmess_autostart_failed :: string where
  "msg_vmess_autostart_failed =
    [CHR ''V'', CHR ''M'', CHR ''E'', CHR ''S'', CHR ''S'', CHR 0x20, CHR 0xE8, CHR 0x87,
     CHR 0xAA, CHR 0xE5, CHR 0x8A, CHR 0xA8, CHR 0xE5, CHR 0x90, CHR 0xAF, CHR 0xE5, CHR 0x8A,
     CHR 0xA8, CHR 0xE5, CHR 0xA4, CHR 0xB1, CHR 0xE8, CHR 0xB4, CHR 0xA5, CHR '':'', CHR 0x20]"

text \<open>VMESS entry started automatically\<close>

definition msg_vmess_autostarted :: string where
  "msg_vmess_autostarted =
    [CHR ''V'', CHR ''M'', CHR ''E'', CHR ''S'', CHR ''S'', CHR 0x20, CHR 0xE5, CHR 0x85,
     CHR 0xA5, CHR 0xE5, CHR 0x8F, CHR 0xA3, CHR 0xE5, CHR 0xB7, CHR 0xB2, CHR 0xE8, CHR 0x87,
     CHR 0xAA, CHR 0xE5, CHR 0x8A, CHR 0xA8, CHR 0xE5, CHR 0x90, CHR 0xAF, CHR 0xE5, CHR 0x8A,
     CHR 0xA8]"

text \<open>health check of the exit failed\<close>

definition msg_health_failed :: string where
  "msg_health_failed =
    [CHR ''V'', CHR ''P'', CHR ''N'', CHR ''G'', CHR ''a'', CHR ''t'', CHR ''e'', CHR 0x20,
     CHR 0xE5, CHR 0x87, CHR 0xBA, CHR 0xE5, CHR 0x8F, CHR 0xA3, CHR 0xE5, CHR 0x81, CHR 0xA5,
     CHR 0xE5, CHR 0xBA, CHR 0xB7, CHR 0xE6, CHR 0xA3, CHR 0x80, CHR 0xE6, CHR 0x9F, CHR 0xA5,
     CHR 0xE5, CHR 0xA4, CHR 0xB1, CHR 0xE8, CHR 0xB4, CHR 0xA5, CHR 0x20]"

text \<open>the active node is missing\<close>

definition msg_active_node_missing :: string where
  "msg_active_node_missing =
    [CHR 0xE6, CHR 0xB4, CHR 0xBB, CHR 0xE5, CHR 0x8A, CHR 0xA8, CHR 0xE8, CHR 0x8A, CHR 0x82,
     CHR 0xE7, CHR 0x82, CHR 0xB9, CHR 0xE7, CHR 0x8A, CHR 0xB6, CHR 0xE6, CHR 0x80, CHR 0x81,
     CHR 0xE7, CHR 0xBC, CHR 0xBA, CHR 0xE5, CHR 0xA4, CHR 0xB1]"

text \<open>strict verification failed\<close>

definition msg_strict_failed :: string where
  "msg_strict_failed =
    [CHR 0xE4, CHR 0xB8, CHR 0xA5, CHR 0xE6, CHR 0xA0, CHR 0xBC, CHR 0xE9, CHR 0xAA, CHR 0x8C,
     CHR 0xE8, CHR 0xAF, CHR 0x81, CHR 0xE5, CHR 0xA4, CHR 0xB1, CHR 0xE8, CHR 0xB4, CHR 0xA5,
     CHR '':'', CHR 0x20]"

text \<open>; the fallback probe failed\<close>

definition msg_probe_failed_too :: string where
  "msg_probe_failed_too =
    [CHR 0xEF, CHR 0xBC, CHR 0x9B, CHR 0xE5, CHR 0xA4, CHR 0x87, CHR 0xE7, CHR 0x94, CHR 0xA8,
     CHR 0xE5, CHR 0x85, CHR 0xAC, CHR 0xE7, CHR 0xBD, CHR 0x91, CHR 0xE6, CHR 0x8E, CHR 0xA2,
     CHR 0xE6, CHR 0xB5, CHR 0x8B, CHR 0xE5, CHR 0xA4, CHR 0xB1, CHR 0xE8, CHR 0xB4, CHR 0xA5,
     CHR '':'', CHR 0x20]"

text \<open>the data channel has stopped\<close>

definition msg_channel_stopped :: string where
  "msg_channel_stopped =
    [CHR ''V'', CHR ''P'', CHR ''N'', CHR ''G'', CHR ''a'', CHR ''t'', CHR ''e'', CHR 0x20,
     CHR 0xE6, CHR 0x95, CHR 0xB0, CHR 0xE6, CHR 0x8D, CHR 0xAE, CHR 0xE9, CHR 0x80, CHR 0x9A,
     CHR 0xE9, CHR 0x81, CHR 0x93, CHR 0xE5, CHR 0xB7, CHR 0xB2, CHR 0xE5, CHR 0x81, CHR 0x9C,
     CHR 0xE6, CHR 0xAD, CHR 0xA2]"

text \<open>the exit is lost, switching nodes\<close>

definition msg_exit_lost :: string where
  "msg_exit_lost =
    [CHR 0xE6, CHR 0xA3, CHR 0x80, CHR 0xE6, CHR 0xB5, CHR 0x8B, CHR 0xE5, CHR 0x88, CHR 0xB0,
     CHR 0x20, CHR ''V'', CHR ''P'', CHR ''N'', CHR ''G'', CHR ''a'', CHR ''t'', CHR ''e'',
     CHR 0x20, CHR 0xE5, CHR 0x87, CHR 0xBA, CHR 0xE5, CHR 0x8F, CHR 0xA3, CHR 0xE5, CHR 0xA4,
     CHR 0xB1, CHR 0xE6, CHR 0x95, CHR 0x88, CHR 0xEF, CHR 0xBC, CHR 0x8C, CHR 0xE6, CHR 0xAD,
     CHR 0xA3, CHR 0xE5, CHR 0x9C, CHR 0xA8, CHR 0xE8, CHR 0x87, CHR 0xAA, CHR 0xE5, CHR 0x8A,
     CHR 0xA8, CHR 0xE5, CHR 0x88, CHR 0x87, CHR 0xE6, CHR 0x8D, CHR 0xA2, CHR 0xE8, CHR 0x8A,
     CHR 0x82, CHR 0xE7, CHR 0x82, CHR 0xB9]"

text \<open>exit lost, switching to node\<close>

definition msg_switching :: string where
  "msg_switching =
    [CHR 0xE5, CHR 0x87, CHR 0xBA, CHR 0xE5, CHR 0x8F, CHR 0xA3, CHR 0xE5, CHR 0xA4, CHR 0xB1,
     CHR 0xE6, CHR 0x95, CHR 0x88, CHR 0xEF, CHR 0xBC, CHR 0x8C, CHR 0xE6, CHR 0xAD, CHR 0xA3,
     CHR 0xE5, CHR 0x9C, CHR 0xA8, CHR 0xE5, CHR 0x88, CHR 0x87, CHR 0xE6, CHR 0x8D, CHR 0xA2,
     CHR 0xE8, CHR 0x8A, CHR 0x82, CHR 0xE7, CHR 0x82, CHR 0xB9, CHR 0x20]"

text \<open>colon\<close>

definition msg_colon :: string where
  "msg_colon =
    [CHR 0xEF, CHR 0xBC, CHR 0x9A]"

text \<open>the exit was switched\<close>

definition msg_switched :: string where
  "msg_switched =
    [CHR ''V'', CHR ''P'', CHR ''N'', CHR ''G'', CHR ''a'', CHR ''t'', CHR ''e'', CHR 0x20,
     CHR 0xE5, CHR 0x87, CHR 0xBA, CHR 0xE5, CHR 0x8F, CHR 0xA3, CHR 0xE8, CHR 0x87, CHR 0xAA,
     CHR 0xE5, CHR 0x8A, CHR 0xA8, CHR 0xE5, CHR 0x88, CHR 0x87, CHR 0xE6, CHR 0x8D, CHR 0xA2,
     CHR 0xE6, CHR 0x88, CHR 0x90, CHR 0xE5, CHR 0x8A, CHR 0x9F]"

text \<open>exit lost, no cached candidate is usable\<close>

definition msg_no_cached_candidate :: string where
  "msg_no_cached_candidate =
    [CHR ''V'', CHR ''P'', CHR ''N'', CHR ''G'', CHR ''a'', CHR ''t'', CHR ''e'', CHR 0x20,
     CHR 0xE5, CHR 0x87, CHR 0xBA, CHR 0xE5, CHR 0x8F, CHR 0xA3, CHR 0xE5, CHR 0xA4, CHR 0xB1,
     CHR 0xE6, CHR 0x95, CHR 0x88, CHR 0xEF, CHR 0xBC, CHR 0x8C, CHR 0xE7, CHR 0xBC, CHR 0x93,
     CHR 0xE5, CHR 0xAD, CHR 0x98, CHR 0xE4, CHR 0xB8, CHR 0xAD, CHR 0xE7, CHR 0x9A, CHR 0x84,
     CHR 0xE5, CHR 0x80, CHR 0x99, CHR 0xE9, CHR 0x80, CHR 0x89, CHR 0xE8, CHR 0x8A, CHR 0x82,
     CHR 0xE7, CHR 0x82, CHR 0xB9, CHR 0xE5, CHR 0x9D, CHR 0x87, CHR 0xE4, CHR 0xB8, CHR 0x8D,
     CHR 0xE5, CHR 0x8F, CHR 0xAF, CHR 0xE7, CHR 0x94, CHR 0xA8]"

text \<open>switching failed, refresh the nodes\<close>

definition msg_switch_failed :: string where
  "msg_switch_failed =
    [CHR ''V'', CHR ''P'', CHR ''N'', CHR ''G'', CHR ''a'', CHR ''t'', CHR ''e'', CHR 0x20,
     CHR 0xE8, CHR 0x87, CHR 0xAA, CHR 0xE5, CHR 0x8A, CHR 0xA8, CHR 0xE5, CHR 0x88, CHR 0x87,
     CHR 0xE6, CHR 0x8D, CHR 0xA2, CHR 0xE5, CHR 0xA4, CHR 0xB1, CHR 0xE8, CHR 0xB4, CHR 0xA5,
     CHR 0xEF, CHR 0xBC, CHR 0x8C, CHR 0xE8, CHR 0xAF, CHR 0xB7, CHR 0xE5, CHR 0x88, CHR 0xB7,
     CHR 0xE6, CHR 0x96, CHR 0xB0, CHR 0xE8, CHR 0x8A, CHR 0x82, CHR 0xE7, CHR 0x82, CHR 0xB9,
     CHR 0xE5, CHR 0x90, CHR 0x8E, CHR 0xE9, CHR 0x87, CHR 0x8D, CHR 0xE8, CHR 0xAF, CHR 0x95]"

text \<open>preparing the exit\<close>

definition msg_auto_preparing :: string where
  "msg_auto_preparing =
    [CHR 0xE6, CHR 0xAD, CHR 0xA3, CHR 0xE5, CHR 0x9C, CHR 0xA8, CHR 0xE8, CHR 0x87, CHR 0xAA,
     CHR 0xE5, CHR 0x8A, CHR 0xA8, CHR 0xE5, CHR 0x87, CHR 0x86, CHR 0xE5, CHR 0xA4, CHR 0x87,
     CHR 0x20, CHR ''V'', CHR ''P'', CHR ''N'', CHR ''G'', CHR ''a'', CHR ''t'', CHR ''e'',
     CHR ''/'', CHR ''O'', CHR ''p'', CHR ''e'', CHR ''n'', CHR ''V'', CHR ''P'', CHR ''N'',
     CHR 0x20, CHR 0xE5, CHR 0x87, CHR 0xBA, CHR 0xE5, CHR 0x8F, CHR 0xA3]"

text \<open>automatic connection skipped\<close>

definition msg_auto_skipped :: string where
  "msg_auto_skipped =
    [CHR ''O'', CHR ''p'', CHR ''e'', CHR ''n'', CHR ''V'', CHR ''P'', CHR ''N'', CHR 0x20,
     CHR 0xE5, CHR 0x87, CHR 0xBA, CHR 0xE5, CHR 0x8F, CHR 0xA3, CHR 0xE8, CHR 0x87, CHR 0xAA,
     CHR 0xE5, CHR 0x8A, CHR 0xA8, CHR 0xE8, CHR 0xBF, CHR 0x9E, CHR 0xE6, CHR 0x8E, CHR 0xA5,
     CHR 0xE8, CHR 0xB7, CHR 0xB3, CHR 0xE8, CHR 0xBF, CHR 0x87, CHR '':'', CHR 0x20]"

text \<open>fetching nodes\<close>

definition msg_auto_fetching :: string where
  "msg_auto_fetching =
    [CHR 0xE6, CHR 0xAD, CHR 0xA3, CHR 0xE5, CHR 0x9C, CHR 0xA8, CHR 0xE8, CHR 0x87, CHR 0xAA,
     CHR 0xE5, CHR 0x8A, CHR 0xA8, CHR 0xE8, CHR 0x8E, CHR 0xB7, CHR 0xE5, CHR 0x8F, CHR 0x96,
     CHR 0x20, CHR ''V'', CHR ''P'', CHR ''N'', CHR ''G'', CHR ''a'', CHR ''t'', CHR ''e'',
     CHR 0x20, CHR 0xE8, CHR 0x8A, CHR 0x82, CHR 0xE7, CHR 0x82, CHR 0xB9]"

text \<open>fetching nodes failed\<close>

definition msg_auto_fetch_failed :: string where
  "msg_auto_fetch_failed =
    [CHR 0xE8, CHR 0x87, CHR 0xAA, CHR 0xE5, CHR 0x8A, CHR 0xA8, CHR 0xE8, CHR 0x8E, CHR 0xB7,
     CHR 0xE5, CHR 0x8F, CHR 0x96, CHR 0x20, CHR ''V'', CHR ''P'', CHR ''N'', CHR ''G'',
     CHR ''a'', CHR ''t'', CHR ''e'', CHR 0x20, CHR 0xE8, CHR 0x8A, CHR 0x82, CHR 0xE7, CHR 0x82,
     CHR 0xB9, CHR 0xE5, CHR 0xA4, CHR 0xB1, CHR 0xE8, CHR 0xB4, CHR 0xA5, CHR '':'', CHR 0x20]"

text \<open>classifying nodes\<close>

definition msg_auto_classifying :: string where
  "msg_auto_classifying =
    [CHR 0xE6, CHR 0xAD, CHR 0xA3, CHR 0xE5, CHR 0x9C, CHR 0xA8, CHR 0xE8, CHR 0x87, CHR 0xAA,
     CHR 0xE5, CHR 0x8A, CHR 0xA8, CHR 0xE6, CHR 0x89, CHR 0xA7, CHR 0xE8, CHR 0xA1, CHR 0x8C,
     CHR 0xE5, CHR 0xAE, CHR 0xB6, CHR 0xE5, CHR 0xAE, CHR 0xBD, CHR 0xE5, CHR 0x88, CHR 0xA4,
     CHR 0xE5, CHR 0xAE, CHR 0x9A]"

text \<open>probing nodes\<close>

definition msg_auto_probing :: string where
  "msg_auto_probing =
    [CHR 0xE6, CHR 0xAD, CHR 0xA3, CHR 0xE5, CHR 0x9C, CHR 0xA8, CHR 0xE8, CHR 0x87, CHR 0xAA,
     CHR 0xE5, CHR 0x8A, CHR 0xA8, CHR 0x20, CHR ''T'', CHR ''C'', CHR ''P'', CHR 0x20, CHR 0xE6,
     CHR 0x8E, CHR 0xA2, CHR 0xE6, CHR 0xB4, CHR 0xBB]"

text \<open>prepared, cached\<close>

definition msg_auto_prepared :: string where
  "msg_auto_prepared =
    [CHR 0xE8, CHR 0x87, CHR 0xAA, CHR 0xE5, CHR 0x8A, CHR 0xA8, CHR 0xE5, CHR 0x87, CHR 0x86,
     CHR 0xE5, CHR 0xA4, CHR 0x87, CHR 0xE5, CHR 0xAE, CHR 0x8C, CHR 0xE6, CHR 0x88, CHR 0x90,
     CHR 0xEF, CHR 0xBC, CHR 0x8C, CHR 0xE5, CHR 0xB7, CHR 0xB2, CHR 0xE7, CHR 0xBC, CHR 0x93,
     CHR 0xE5, CHR 0xAD, CHR 0x98, CHR 0x20]"

text \<open>no connectable node\<close>

definition msg_auto_no_node :: string where
  "msg_auto_no_node =
    [CHR 0xE8, CHR 0x87, CHR 0xAA, CHR 0xE5, CHR 0x8A, CHR 0xA8, CHR 0xE8, CHR 0xBF, CHR 0x9E,
     CHR 0xE6, CHR 0x8E, CHR 0xA5, CHR 0xE5, CHR 0x87, CHR 0xBA, CHR 0xE5, CHR 0x8F, CHR 0xA3,
     CHR 0xE5, CHR 0xA4, CHR 0xB1, CHR 0xE8, CHR 0xB4, CHR 0xA5, CHR '':'', CHR 0x20, CHR 0xE6,
     CHR 0xB2, CHR 0xA1, CHR 0xE6, CHR 0x9C, CHR 0x89, CHR 0xE5, CHR 0x8F, CHR 0xAF, CHR 0xE8,
     CHR 0xBF, CHR 0x9E, CHR 0xE6, CHR 0x8E, CHR 0xA5, CHR 0xE7, CHR 0x9A, CHR 0x84, CHR 0x20,
     CHR ''V'', CHR ''P'', CHR ''N'', CHR ''G'', CHR ''a'', CHR ''t'', CHR ''e'', CHR 0x20,
     CHR 0xE8, CHR 0x8A, CHR 0x82, CHR 0xE7, CHR 0x82, CHR 0xB9]"

text \<open>connecting the exit\<close>

definition msg_auto_connecting :: string where
  "msg_auto_connecting =
    [CHR 0xE6, CHR 0xAD, CHR 0xA3, CHR 0xE5, CHR 0x9C, CHR 0xA8, CHR 0xE8, CHR 0x87, CHR 0xAA,
     CHR 0xE5, CHR 0x8A, CHR 0xA8, CHR 0xE8, CHR 0xBF, CHR 0x9E, CHR 0xE6, CHR 0x8E, CHR 0xA5,
     CHR 0x20, CHR ''V'', CHR ''P'', CHR ''N'', CHR ''G'', CHR ''a'', CHR ''t'', CHR ''e'',
     CHR 0x20, CHR 0xE5, CHR 0x87, CHR 0xBA, CHR 0xE5, CHR 0x8F, CHR 0xA3, CHR 0x20]"

text \<open>connecting node\<close>

definition msg_auto_node_prefix :: string where
  "msg_auto_node_prefix =
    [CHR 0xE8, CHR 0x87, CHR 0xAA, CHR 0xE5, CHR 0x8A, CHR 0xA8, CHR 0xE8, CHR 0xBF, CHR 0x9E,
     CHR 0xE6, CHR 0x8E, CHR 0xA5, CHR 0xE8, CHR 0x8A, CHR 0x82, CHR 0xE7, CHR 0x82, CHR 0xB9,
     CHR 0x20]"

text \<open>failed\<close>

definition msg_failed_infix :: string where
  "msg_failed_infix =
    [CHR 0x20, CHR 0xE5, CHR 0xA4, CHR 0xB1, CHR 0xE8, CHR 0xB4, CHR 0xA5, CHR '':'', CHR 0x20]"

text \<open>exit connected\<close>

definition msg_auto_connected :: string where
  "msg_auto_connected =
    [CHR ''V'', CHR ''P'', CHR ''N'', CHR ''G'', CHR ''a'', CHR ''t'', CHR ''e'', CHR ''/'',
     CHR ''O'', CHR ''p'', CHR ''e'', CHR ''n'', CHR ''V'', CHR ''P'', CHR ''N'', CHR 0x20,
     CHR 0xE5, CHR 0x87, CHR 0xBA, CHR 0xE5, CHR 0x8F, CHR 0xA3, CHR 0xE5, CHR 0xB7, CHR 0xB2,
     CHR 0xE8, CHR 0x87, CHR 0xAA, CHR 0xE5, CHR 0x8A, CHR 0xA8, CHR 0xE8, CHR 0xBF, CHR 0x9E,
     CHR 0xE6, CHR 0x8E, CHR 0xA5]"

text \<open>connecting the exit failed\<close>

definition msg_auto_failed :: string where
  "msg_auto_failed =
    [CHR 0xE8, CHR 0x87, CHR 0xAA, CHR 0xE5, CHR 0x8A, CHR 0xA8, CHR 0xE8, CHR 0xBF, CHR 0x9E,
     CHR 0xE6, CHR 0x8E, CHR 0xA5, CHR 0x20, CHR ''V'', CHR ''P'', CHR ''N'', CHR ''G'',
     CHR ''a'', CHR ''t'', CHR ''e'', CHR ''/'', CHR ''O'', CHR ''p'', CHR ''e'', CHR ''n'',
     CHR ''V'', CHR ''P'', CHR ''N'', CHR 0x20, CHR 0xE5, CHR 0x87, CHR 0xBA, CHR 0xE5, CHR 0x8F,
     CHR 0xA3, CHR 0xE5, CHR 0xA4, CHR 0xB1, CHR 0xE8, CHR 0xB4, CHR 0xA5]"

text \<open>login failed\<close>

definition msg_login_failed :: string where
  "msg_login_failed =
    [CHR 0xE7, CHR 0x99, CHR 0xBB, CHR 0xE5, CHR 0xBD, CHR 0x95, CHR 0xE5, CHR 0xA4, CHR 0xB1,
     CHR 0xE8, CHR 0xB4, CHR 0xA5]"

text \<open>user name or password is wrong\<close>

definition msg_bad_credentials :: string where
  "msg_bad_credentials =
    [CHR 0xE7, CHR 0x94, CHR 0xA8, CHR 0xE6, CHR 0x88, CHR 0xB7, CHR 0xE5, CHR 0x90, CHR 0x8D,
     CHR 0xE6, CHR 0x88, CHR 0x96, CHR 0xE5, CHR 0xAF, CHR 0x86, CHR 0xE7, CHR 0xA0, CHR 0x81,
     CHR 0xE4, CHR 0xB8, CHR 0x8D, CHR 0xE6, CHR 0xAD, CHR 0xA3, CHR 0xE7, CHR 0xA1, CHR 0xAE]"

text \<open>cannot generate a session\<close>

definition msg_no_session_token :: string where
  "msg_no_session_token =
    [CHR 0xE6, CHR 0x97, CHR 0xA0, CHR 0xE6, CHR 0xB3, CHR 0x95, CHR 0xE7, CHR 0x94, CHR 0x9F,
     CHR 0xE6, CHR 0x88, CHR 0x90, CHR 0xE5, CHR 0xAE, CHR 0x89, CHR 0xE5, CHR 0x85, CHR 0xA8,
     CHR 0xE4, CHR 0xBC, CHR 0x9A, CHR 0xE8, CHR 0xAF, CHR 0x9D]"

text \<open>cannot create a session\<close>

definition msg_no_session :: string where
  "msg_no_session =
    [CHR 0xE6, CHR 0x97, CHR 0xA0, CHR 0xE6, CHR 0xB3, CHR 0x95, CHR 0xE5, CHR 0x88, CHR 0x9B,
     CHR 0xE5, CHR 0xBB, CHR 0xBA, CHR 0xE7, CHR 0x99, CHR 0xBB, CHR 0xE5, CHR 0xBD, CHR 0x95,
     CHR 0xE4, CHR 0xBC, CHR 0x9A, CHR 0xE8, CHR 0xAF, CHR 0x9D]"

text \<open>login succeeded\<close>

definition msg_login_ok :: string where
  "msg_login_ok =
    [CHR 0xE6, CHR 0x8E, CHR 0xA7, CHR 0xE5, CHR 0x88, CHR 0xB6, CHR 0xE5, CHR 0x8F, CHR 0xB0,
     CHR 0xE7, CHR 0x99, CHR 0xBB, CHR 0xE5, CHR 0xBD, CHR 0x95, CHR 0xE6, CHR 0x88, CHR 0x90,
     CHR 0xE5, CHR 0x8A, CHR 0x9F]"

text \<open>fetching nodes\<close>

definition msg_fetching :: string where
  "msg_fetching =
    [CHR 0xE6, CHR 0xAD, CHR 0xA3, CHR 0xE5, CHR 0x9C, CHR 0xA8, CHR 0xE8, CHR 0x8E, CHR 0xB7,
     CHR 0xE5, CHR 0x8F, CHR 0x96, CHR 0x20, CHR ''V'', CHR ''P'', CHR ''N'', CHR ''G'',
     CHR ''a'', CHR ''t'', CHR ''e'', CHR 0x20, CHR 0xE8, CHR 0x8A, CHR 0x82, CHR 0xE7, CHR 0x82,
     CHR 0xB9]"

text \<open>refreshing the nodes failed\<close>

definition msg_refresh_failed :: string where
  "msg_refresh_failed =
    [CHR 0xE8, CHR 0x8A, CHR 0x82, CHR 0xE7, CHR 0x82, CHR 0xB9, CHR 0xE5, CHR 0x88, CHR 0xB7,
     CHR 0xE6, CHR 0x96, CHR 0xB0, CHR 0xE5, CHR 0xA4, CHR 0xB1, CHR 0xE8, CHR 0xB4, CHR 0xA5,
     CHR '':'', CHR 0x20]"

text \<open>refreshed\<close>

definition msg_refreshed_prefix :: string where
  "msg_refreshed_prefix =
    [CHR 0xE5, CHR 0xB7, CHR 0xB2, CHR 0xE5, CHR 0x88, CHR 0xB7, CHR 0xE6, CHR 0x96, CHR 0xB0,
     CHR 0x20]"

text \<open>VPNGate nodes\<close>

definition msg_vpngate_nodes_suffix :: string where
  "msg_vpngate_nodes_suffix =
    [CHR 0x20, CHR 0xE4, CHR 0xB8, CHR 0xAA, CHR 0x20, CHR ''V'', CHR ''P'', CHR ''N'',
     CHR ''G'', CHR ''a'', CHR ''t'', CHR ''e'', CHR 0x20, CHR 0xE8, CHR 0x8A, CHR 0x82,
     CHR 0xE7, CHR 0x82, CHR 0xB9]"

text \<open>refresh the nodes first\<close>

definition msg_refresh_first :: string where
  "msg_refresh_first =
    [CHR 0xE8, CHR 0xAF, CHR 0xB7, CHR 0xE5, CHR 0x85, CHR 0x88, CHR 0xE5, CHR 0x88, CHR 0xB7,
     CHR 0xE6, CHR 0x96, CHR 0xB0, CHR 0xE8, CHR 0x8A, CHR 0x82, CHR 0xE7, CHR 0x82, CHR 0xB9]"

text \<open>classifying nodes\<close>

definition msg_classifying :: string where
  "msg_classifying =
    [CHR 0xE6, CHR 0xAD, CHR 0xA3, CHR 0xE5, CHR 0x9C, CHR 0xA8, CHR 0xE6, CHR 0x89, CHR 0xA7,
     CHR 0xE8, CHR 0xA1, CHR 0x8C, CHR 0xE4, CHR 0xB8, CHR 0xA5, CHR 0xE6, CHR 0xA0, CHR 0xBC,
     CHR 0xE5, CHR 0xAE, CHR 0xB6, CHR 0xE5, CHR 0xAE, CHR 0xBD, CHR 0xE5, CHR 0x88, CHR 0xA4,
     CHR 0xE5, CHR 0xAE, CHR 0x9A]"

text \<open>classification finished\<close>

definition msg_classified :: string where
  "msg_classified =
    [CHR 0xE4, CHR 0xB8, CHR 0xA5, CHR 0xE6, CHR 0xA0, CHR 0xBC, CHR 0xE5, CHR 0xAE, CHR 0xB6,
     CHR 0xE5, CHR 0xAE, CHR 0xBD, CHR 0xE5, CHR 0x88, CHR 0xA4, CHR 0xE5, CHR 0xAE, CHR 0x9A,
     CHR 0xE5, CHR 0xAE, CHR 0x8C, CHR 0xE6, CHR 0x88, CHR 0x90]"

text \<open>classified: residential\<close>

definition msg_classified_counts :: string where
  "msg_classified_counts =
    [CHR 0xE5, CHR 0x88, CHR 0x86, CHR 0xE7, CHR 0xB1, CHR 0xBB, CHR 0xE5, CHR 0xAE, CHR 0x8C,
     CHR 0xE6, CHR 0x88, CHR 0x90, CHR 0xEF, CHR 0xBC, CHR 0x9A, CHR 0xE4, CHR 0xB8, CHR 0xA5,
     CHR 0xE6, CHR 0xA0, CHR 0xBC, CHR 0xE5, CHR 0xAE, CHR 0xB6, CHR 0xE5, CHR 0xAE, CHR 0xBD,
     CHR 0x20]"

text \<open>, candidates\<close>

definition msg_candidates_infix :: string where
  "msg_candidates_infix =
    [CHR 0xEF, CHR 0xBC, CHR 0x8C, CHR 0xE5, CHR 0x80, CHR 0x99, CHR 0xE9, CHR 0x80, CHR 0x89,
     CHR 0x20]"

text \<open>probing nodes\<close>

definition msg_probing :: string where
  "msg_probing =
    [CHR 0xE6, CHR 0xAD, CHR 0xA3, CHR 0xE5, CHR 0x9C, CHR 0xA8, CHR 0x20, CHR ''T'', CHR ''C'',
     CHR ''P'', CHR 0x20, CHR 0xE6, CHR 0x8E, CHR 0xA2, CHR 0xE6, CHR 0xB4, CHR 0xBB, CHR 0xE8,
     CHR 0x8A, CHR 0x82, CHR 0xE7, CHR 0x82, CHR 0xB9]"

text \<open>probe finished\<close>

definition msg_probed :: string where
  "msg_probed =
    [CHR ''T'', CHR ''C'', CHR ''P'', CHR 0x20, CHR 0xE6, CHR 0x8E, CHR 0xA2, CHR 0xE6, CHR 0xB4,
     CHR 0xBB, CHR 0xE5, CHR 0xAE, CHR 0x8C, CHR 0xE6, CHR 0x88, CHR 0x90]"

text \<open>probed: available\<close>

definition msg_probed_counts :: string where
  "msg_probed_counts =
    [CHR 0xE6, CHR 0x8E, CHR 0xA2, CHR 0xE6, CHR 0xB4, CHR 0xBB, CHR 0xE5, CHR 0xAE, CHR 0x8C,
     CHR 0xE6, CHR 0x88, CHR 0x90, CHR 0xEF, CHR 0xBC, CHR 0x9A, CHR 0xE5, CHR 0x8F, CHR 0xAF,
     CHR 0xE7, CHR 0x94, CHR 0xA8, CHR 0x20]"

text \<open>, unavailable\<close>

definition msg_unavailable_infix :: string where
  "msg_unavailable_infix =
    [CHR 0xEF, CHR 0xBC, CHR 0x8C, CHR 0xE4, CHR 0xB8, CHR 0x8D, CHR 0xE5, CHR 0x8F, CHR 0xAF,
     CHR 0xE7, CHR 0x94, CHR 0xA8, CHR 0x20]"

text \<open>there is no active node\<close>

definition msg_no_active_node :: string where
  "msg_no_active_node =
    [CHR 0xE5, CHR 0xBD, CHR 0x93, CHR 0xE5, CHR 0x89, CHR 0x8D, CHR 0xE6, CHR 0xB2, CHR 0xA1,
     CHR 0xE6, CHR 0x9C, CHR 0x89, CHR 0xE6, CHR 0xB4, CHR 0xBB, CHR 0xE5, CHR 0x8A, CHR 0xA8,
     CHR 0xE8, CHR 0x8A, CHR 0x82, CHR 0xE7, CHR 0x82, CHR 0xB9]"

text \<open>verification of the exit failed\<close>

definition msg_verify_failed :: string where
  "msg_verify_failed =
    [CHR 0xE5, CHR 0x87, CHR 0xBA, CHR 0xE5, CHR 0x8F, CHR 0xA3, CHR 0xE5, CHR 0xA4, CHR 0x8D,
     CHR 0xE6, CHR 0xA0, CHR 0xB8, CHR 0xE5, CHR 0xA4, CHR 0xB1, CHR 0xE8, CHR 0xB4, CHR 0xA5,
     CHR '':'', CHR 0x20]"

text \<open>starting VMESS failed\<close>

definition msg_core_start_failed :: string where
  "msg_core_start_failed =
    [CHR ''V'', CHR ''M'', CHR ''E'', CHR ''S'', CHR ''S'', CHR 0x20, CHR 0xE6, CHR 0xA0,
     CHR 0xB8, CHR 0xE5, CHR 0xBF, CHR 0x83, CHR 0xE5, CHR 0x90, CHR 0xAF, CHR 0xE5, CHR 0x8A,
     CHR 0xA8, CHR 0xE5, CHR 0xA4, CHR 0xB1, CHR 0xE8, CHR 0xB4, CHR 0xA5, CHR '':'', CHR 0x20]"

text \<open>VMESS started\<close>

definition msg_core_started :: string where
  "msg_core_started =
    [CHR ''V'', CHR ''M'', CHR ''E'', CHR ''S'', CHR ''S'', CHR 0x20, CHR 0xE6, CHR 0xA0,
     CHR 0xB8, CHR 0xE5, CHR 0xBF, CHR 0x83, CHR 0xE5, CHR 0xB7, CHR 0xB2, CHR 0xE5, CHR 0x90,
     CHR 0xAF, CHR 0xE5, CHR 0x8A, CHR 0xA8]"

text \<open>stopping VMESS failed\<close>

definition msg_core_stop_failed :: string where
  "msg_core_stop_failed =
    [CHR ''V'', CHR ''M'', CHR ''E'', CHR ''S'', CHR ''S'', CHR 0x20, CHR 0xE6, CHR 0xA0,
     CHR 0xB8, CHR 0xE5, CHR 0xBF, CHR 0x83, CHR 0xE5, CHR 0x81, CHR 0x9C, CHR 0xE6, CHR 0xAD,
     CHR 0xA2, CHR 0xE5, CHR 0xA4, CHR 0xB1, CHR 0xE8, CHR 0xB4, CHR 0xA5, CHR '':'', CHR 0x20]"

text \<open>VMESS stopped\<close>

definition msg_core_stopped :: string where
  "msg_core_stopped =
    [CHR ''V'', CHR ''M'', CHR ''E'', CHR ''S'', CHR ''S'', CHR 0x20, CHR 0xE6, CHR 0xA0,
     CHR 0xB8, CHR 0xE5, CHR 0xBF, CHR 0x83, CHR 0xE5, CHR 0xB7, CHR 0xB2, CHR 0xE5, CHR 0x81,
     CHR 0x9C, CHR 0xE6, CHR 0xAD, CHR 0xA2]"

text \<open>the exit stays connected\<close>

definition msg_exit_kept :: string where
  "msg_exit_kept =
    [CHR ''V'', CHR ''P'', CHR ''N'', CHR ''G'', CHR ''a'', CHR ''t'', CHR ''e'', CHR 0x20,
     CHR 0xE5, CHR 0x87, CHR 0xBA, CHR 0xE5, CHR 0x8F, CHR 0xA3, CHR 0xE5, CHR 0xB7, CHR 0xB2,
     CHR 0xE4, CHR 0xBF, CHR 0x9D, CHR 0xE6, CHR 0x8C, CHR 0x81, CHR 0xE8, CHR 0xBF, CHR 0x9E,
     CHR 0xE6, CHR 0x8E, CHR 0xA5]"

text \<open>no connectable node\<close>

definition msg_no_connectable :: string where
  "msg_no_connectable =
    [CHR 0xE6, CHR 0xB2, CHR 0xA1, CHR 0xE6, CHR 0x9C, CHR 0x89, CHR 0xE5, CHR 0x8F, CHR 0xAF,
     CHR 0xE8, CHR 0xBF, CHR 0x9E, CHR 0xE6, CHR 0x8E, CHR 0xA5, CHR 0xE7, CHR 0x9A, CHR 0x84,
     CHR 0xE8, CHR 0x8A, CHR 0x82, CHR 0xE7, CHR 0x82, CHR 0xB9]"

text \<open>connecting node\<close>

definition msg_connecting :: string where
  "msg_connecting =
    [CHR 0xE6, CHR 0xAD, CHR 0xA3, CHR 0xE5, CHR 0x9C, CHR 0xA8, CHR 0xE8, CHR 0xBF, CHR 0x9E,
     CHR 0xE6, CHR 0x8E, CHR 0xA5, CHR 0xE8, CHR 0x8A, CHR 0x82, CHR 0xE7, CHR 0x82, CHR 0xB9,
     CHR 0x20]"

text \<open>node\<close>

definition msg_node_prefix :: string where
  "msg_node_prefix =
    [CHR 0xE8, CHR 0x8A, CHR 0x82, CHR 0xE7, CHR 0x82, CHR 0xB9, CHR 0x20]"

text \<open>failed, trying the next\<close>

definition msg_next_infix :: string where
  "msg_next_infix =
    [CHR 0x20, CHR 0xE5, CHR 0xA4, CHR 0xB1, CHR 0xE8, CHR 0xB4, CHR 0xA5, CHR 0xEF, CHR 0xBC,
     CHR 0x8C, CHR 0xE8, CHR 0x87, CHR 0xAA, CHR 0xE5, CHR 0x8A, CHR 0xA8, CHR 0xE5, CHR 0xB0,
     CHR 0x9D, CHR 0xE8, CHR 0xAF, CHR 0x95, CHR 0xE4, CHR 0xB8, CHR 0x8B, CHR 0xE4, CHR 0xB8,
     CHR 0x80, CHR 0xE4, CHR 0xB8, CHR 0xAA, CHR 0xEF, CHR 0xBC, CHR 0x9A]"

text \<open>all candidates failed\<close>

definition msg_all_failed :: string where
  "msg_all_failed =
    [CHR 0xE6, CHR 0x89, CHR 0x80, CHR 0xE6, CHR 0x9C, CHR 0x89, CHR 0xE5, CHR 0x80, CHR 0x99,
     CHR 0xE9, CHR 0x80, CHR 0x89, CHR 0xE8, CHR 0x8A, CHR 0x82, CHR 0xE7, CHR 0x82, CHR 0xB9,
     CHR 0xE8, CHR 0xBF, CHR 0x9E, CHR 0xE6, CHR 0x8E, CHR 0xA5, CHR 0xE5, CHR 0xA4, CHR 0xB1,
     CHR 0xE8, CHR 0xB4, CHR 0xA5]"

text \<open>disconnected\<close>

definition msg_disconnected :: string where
  "msg_disconnected =
    [CHR 0xE5, CHR 0xB7, CHR 0xB2, CHR 0xE6, CHR 0x96, CHR 0xAD, CHR 0xE5, CHR 0xBC, CHR 0x80,
     CHR 0xE5, CHR 0xBD, CHR 0x93, CHR 0xE5, CHR 0x89, CHR 0x8D, CHR 0xE6, CHR 0x8E, CHR 0xA7,
     CHR 0xE5, CHR 0x88, CHR 0xB6, CHR 0xE7, CHR 0x8A, CHR 0xB6, CHR 0xE6, CHR 0x80, CHR 0x81]"

text \<open>OpenVPN connection failed\<close>

definition msg_openvpn_failed :: string where
  "msg_openvpn_failed =
    [CHR ''O'', CHR ''p'', CHR ''e'', CHR ''n'', CHR ''V'', CHR ''P'', CHR ''N'', CHR 0x20,
     CHR 0xE8, CHR 0xBF, CHR 0x9E, CHR 0xE6, CHR 0x8E, CHR 0xA5, CHR 0xE5, CHR 0xA4, CHR 0xB1,
     CHR 0xE8, CHR 0xB4, CHR 0xA5, CHR '':'', CHR 0x20]"

text \<open>connected, verification pending\<close>

definition msg_connected_unverified :: string where
  "msg_connected_unverified =
    [CHR ''O'', CHR ''p'', CHR ''e'', CHR ''n'', CHR ''V'', CHR ''P'', CHR ''N'', CHR 0x20,
     CHR 0xE5, CHR 0xB7, CHR 0xB2, CHR 0xE8, CHR 0xBF, CHR 0x9E, CHR 0xE6, CHR 0x8E, CHR 0xA5,
     CHR 0xEF, CHR 0xBC, CHR 0x8C, CHR 0xE7, CHR 0xAD, CHR 0x89, CHR 0xE5, CHR 0xBE, CHR 0x85,
     CHR 0xE5, CHR 0x87, CHR 0xBA, CHR 0xE5, CHR 0x8F, CHR 0xA3, CHR 0xE5, CHR 0xA4, CHR 0x8D,
     CHR 0xE6, CHR 0xA0, CHR 0xB8, CHR 0xE6, CHR 0x8E, CHR 0xA5, CHR 0xE5, CHR 0x85, CHR 0xA5]"

text \<open>verifying the exit\<close>

definition msg_verifying :: string where
  "msg_verifying =
    [CHR 0xE6, CHR 0xAD, CHR 0xA3, CHR 0xE5, CHR 0x9C, CHR 0xA8, CHR 0xE5, CHR 0xA4, CHR 0x8D,
     CHR 0xE6, CHR 0xA0, CHR 0xB8, CHR 0xE5, CHR 0x85, CHR 0xAC, CHR 0xE7, CHR 0xBD, CHR 0x91,
     CHR 0xE5, CHR 0x87, CHR 0xBA, CHR 0xE5, CHR 0x8F, CHR 0xA3]"

text \<open>the exit did not pass\<close>

definition msg_not_passed :: string where
  "msg_not_passed =
    [CHR 0xE5, CHR 0x87, CHR 0xBA, CHR 0xE5, CHR 0x8F, CHR 0xA3, CHR 0xE5, CHR 0xA4, CHR 0x8D,
     CHR 0xE6, CHR 0xA0, CHR 0xB8, CHR 0xE6, CHR 0x9C, CHR 0xAA, CHR 0xE9, CHR 0x80, CHR 0x9A,
     CHR 0xE8, CHR 0xBF, CHR 0x87, CHR '':'', CHR 0x20]"

text \<open>connected and verified\<close>

definition msg_connected_verified :: string where
  "msg_connected_verified =
    [CHR ''O'', CHR ''p'', CHR ''e'', CHR ''n'', CHR ''V'', CHR ''P'', CHR ''N'', CHR 0x20,
     CHR 0xE5, CHR 0xB7, CHR 0xB2, CHR 0xE8, CHR 0xBF, CHR 0x9E, CHR 0xE6, CHR 0x8E, CHR 0xA5,
     CHR 0xEF, CHR 0xBC, CHR 0x8C, CHR 0xE5, CHR 0x87, CHR 0xBA, CHR 0xE5, CHR 0x8F, CHR 0xA3,
     CHR 0xE5, CHR 0xA4, CHR 0x8D, CHR 0xE6, CHR 0xA0, CHR 0xB8, CHR 0xE9, CHR 0x80, CHR 0x9A,
     CHR 0xE8, CHR 0xBF, CHR 0x87]"

text \<open>connected to node\<close>

definition msg_connected_node :: string where
  "msg_connected_node =
    [CHR ''O'', CHR ''p'', CHR ''e'', CHR ''n'', CHR ''V'', CHR ''P'', CHR ''N'', CHR 0x20,
     CHR 0xE5, CHR 0xB7, CHR 0xB2, CHR 0xE8, CHR 0xBF, CHR 0x9E, CHR 0xE6, CHR 0x8E, CHR 0xA5,
     CHR 0xE8, CHR 0x8A, CHR 0x82, CHR 0xE7, CHR 0x82, CHR 0xB9, CHR 0x20]"

text \<open>node cools down\<close>

definition msg_cooling :: string where
  "msg_cooling =
    [CHR 0xE8, CHR 0x8A, CHR 0x82, CHR 0xE7, CHR 0x82, CHR 0xB9, CHR 0xE8, CHR 0xBF, CHR 0x9B,
     CHR 0xE5, CHR 0x85, CHR 0xA5, CHR 0xE5, CHR 0x86, CHR 0xB7, CHR 0xE5, CHR 0x8D, CHR 0xB4,
     CHR 0x20]"

text \<open>saving the local state failed\<close>

definition msg_save_failed :: string where
  "msg_save_failed =
    [CHR 0xE6, CHR 0x9C, CHR 0xAC, CHR 0xE5, CHR 0x9C, CHR 0xB0, CHR 0xE7, CHR 0x8A, CHR 0xB6,
     CHR 0xE6, CHR 0x80, CHR 0x81, CHR 0xE4, CHR 0xBF, CHR 0x9D, CHR 0xE5, CHR 0xAD, CHR 0x98,
     CHR 0xE5, CHR 0xA4, CHR 0xB1, CHR 0xE8, CHR 0xB4, CHR 0xA5, CHR '':'', CHR 0x20]"

text \<open>verification of the exit\<close>

definition msg_verified :: string where
  "msg_verified =
    [CHR 0xE5, CHR 0x87, CHR 0xBA, CHR 0xE5, CHR 0x8F, CHR 0xA3, CHR 0xE5, CHR 0xA4, CHR 0x8D,
     CHR 0xE6, CHR 0xA0, CHR 0xB8, CHR '':'', CHR 0x20]"

text \<open>user-space mode needs no administrator rights and no driver\<close>

definition msg_userspace :: string where
  "msg_userspace =
    [CHR 0xE7, CHR 0x94, CHR 0xA8, CHR 0xE6, CHR 0x88, CHR 0xB7, CHR 0xE6, CHR 0x80, CHR 0x81,
     CHR 0xE6, CHR 0xA8, CHR 0xA1, CHR 0xE5, CHR 0xBC, CHR 0x8F, CHR 0xE6, CHR 0x97, CHR 0xA0,
     CHR 0xE9, CHR 0x9C, CHR 0x80, CHR 0xE7, CHR 0xAE, CHR 0xA1, CHR 0xE7, CHR 0x90, CHR 0x86,
     CHR 0xE5, CHR 0x91, CHR 0x98, CHR 0xE6, CHR 0x9D, CHR 0x83, CHR 0xE9, CHR 0x99, CHR 0x90,
     CHR 0xEF, CHR 0xBC, CHR 0x8C, CHR 0xE4, CHR 0xB9, CHR 0x9F, CHR 0xE6, CHR 0x97, CHR 0xA0,
     CHR 0xE9, CHR 0x9C, CHR 0x80, CHR 0xE5, CHR 0xAE, CHR 0x89, CHR 0xE8, CHR 0xA3, CHR 0x85,
     CHR 0x20, CHR ''O'', CHR ''p'', CHR ''e'', CHR ''n'', CHR ''V'', CHR ''P'', CHR ''N'',
     CHR 0x20, CHR 0xE6, CHR 0x88, CHR 0x96, CHR 0x20, CHR ''T'', CHR ''U'', CHR ''N'', CHR 0x20,
     CHR 0xE9, CHR 0xA9, CHR 0xB1, CHR 0xE5, CHR 0x8A, CHR 0xA8]"

text \<open>the OpenVPN engine is ready\<close>

definition msg_engine_ready :: string where
  "msg_engine_ready =
    [CHR 0xE5, CHR 0x86, CHR 0x85, CHR 0xE7, CHR 0xBD, CHR 0xAE, CHR 0x20, CHR ''O'', CHR ''p'',
     CHR ''e'', CHR ''n'', CHR ''V'', CHR ''P'', CHR ''N'', CHR 0x20, CHR 0xE5, CHR 0x8D,
     CHR 0x8F, CHR 0xE8, CHR 0xAE, CHR 0xAE, CHR 0xE5, CHR 0xBC, CHR 0x95, CHR 0xE6, CHR 0x93,
     CHR 0x8E, CHR 0xE5, CHR 0xB0, CHR 0xB1, CHR 0xE7, CHR 0xBB, CHR 0xAA]"

text \<open>setting up the tunnel\<close>

definition msg_tunnel_connecting :: string where
  "msg_tunnel_connecting =
    [CHR 0xE6, CHR 0xAD, CHR 0xA3, CHR 0xE5, CHR 0x9C, CHR 0xA8, CHR 0xE5, CHR 0xBB, CHR 0xBA,
     CHR 0xE7, CHR 0xAB, CHR 0x8B, CHR 0x20, CHR ''V'', CHR ''P'', CHR ''N'', CHR ''G'',
     CHR ''a'', CHR ''t'', CHR ''e'', CHR 0x20, CHR 0xE9, CHR 0x9A, CHR 0xA7, CHR 0xE9, CHR 0x81,
     CHR 0x93]"

text \<open>the tunnel is connected\<close>

definition msg_tunnel_connected :: string where
  "msg_tunnel_connected =
    [CHR 0xE5, CHR 0x86, CHR 0x85, CHR 0xE7, CHR 0xBD, CHR 0xAE, CHR 0x20, CHR ''O'', CHR ''p'',
     CHR ''e'', CHR ''n'', CHR ''V'', CHR ''P'', CHR ''N'', CHR 0x20, CHR 0xE9, CHR 0x9A,
     CHR 0xA7, CHR 0xE9, CHR 0x81, CHR 0x93, CHR 0xE5, CHR 0xB7, CHR 0xB2, CHR 0xE8, CHR 0xBF,
     CHR 0x9E, CHR 0xE6, CHR 0x8E, CHR 0xA5]"

text \<open>the last connection failed\<close>

definition msg_last_failure :: string where
  "msg_last_failure =
    [CHR 0xE4, CHR 0xB8, CHR 0x8A, CHR 0xE6, CHR 0xAC, CHR 0xA1, CHR 0xE8, CHR 0xBF, CHR 0x9E,
     CHR 0xE6, CHR 0x8E, CHR 0xA5, CHR 0xE5, CHR 0xA4, CHR 0xB1, CHR 0xE8, CHR 0xB4, CHR 0xA5,
     CHR '':'', CHR 0x20]"

text \<open>VMESS is not enabled\<close>

definition msg_vmess_disabled :: string where
  "msg_vmess_disabled =
    [CHR ''V'', CHR ''M'', CHR ''E'', CHR ''S'', CHR ''S'', CHR 0x20, CHR 0xE6, CHR 0x9C,
     CHR 0x8D, CHR 0xE5, CHR 0x8A, CHR 0xA1, CHR 0xE6, CHR 0x9C, CHR 0xAA, CHR 0xE5, CHR 0x90,
     CHR 0xAF, CHR 0xE7, CHR 0x94, CHR 0xA8]"

text \<open>VMESS is already running\<close>

definition msg_vmess_already :: string where
  "msg_vmess_already =
    [CHR 0xE5, CHR 0x86, CHR 0x85, CHR 0xE7, CHR 0xBD, CHR 0xAE, CHR 0x20, CHR ''V'', CHR ''M'',
     CHR ''E'', CHR ''S'', CHR ''S'', CHR 0x20, CHR 0xE6, CHR 0x9C, CHR 0x8D, CHR 0xE5, CHR 0x8A,
     CHR 0xA1, CHR 0xE5, CHR 0xB7, CHR 0xB2, CHR 0xE8, CHR 0xBF, CHR 0x90, CHR 0xE8, CHR 0xA1,
     CHR 0x8C]"

text \<open>no exit dialer is configured\<close>

definition msg_no_dialer :: string where
  "msg_no_dialer =
    [CHR 0xE6, CHR 0x9C, CHR 0xAA, CHR 0xE9, CHR 0x85, CHR 0x8D, CHR 0xE7, CHR 0xBD, CHR 0xAE,
     CHR 0x20, CHR ''V'', CHR ''P'', CHR ''N'', CHR ''G'', CHR ''a'', CHR ''t'', CHR ''e'',
     CHR 0x20, CHR 0xE5, CHR 0x87, CHR 0xBA, CHR 0xE5, CHR 0x8F, CHR 0xA3, CHR 0xE6, CHR 0x8B,
     CHR 0xA8, CHR 0xE5, CHR 0x8F, CHR 0xB7, CHR 0xE5, CHR 0x99, CHR 0xA8]"

text \<open>start cancelled\<close>

definition msg_start_cancelled :: string where
  "msg_start_cancelled =
    [CHR ''V'', CHR ''M'', CHR ''E'', CHR ''S'', CHR ''S'', CHR 0x20, CHR 0xE6, CHR 0x9C,
     CHR 0x8D, CHR 0xE5, CHR 0x8A, CHR 0xA1, CHR 0xE5, CHR 0x90, CHR 0xAF, CHR 0xE5, CHR 0x8A,
     CHR 0xA8, CHR 0xE5, CHR 0xB7, CHR 0xB2, CHR 0xE5, CHR 0x8F, CHR 0x96, CHR 0xE6, CHR 0xB6,
     CHR 0x88]"

text \<open>building the configuration failed\<close>

definition msg_config_failed :: string where
  "msg_config_failed =
    [CHR ''V'', CHR ''M'', CHR ''E'', CHR ''S'', CHR ''S'', CHR 0x20, CHR 0xE9, CHR 0x85,
     CHR 0x8D, CHR 0xE7, CHR 0xBD, CHR 0xAE, CHR 0xE7, CHR 0x94, CHR 0x9F, CHR 0xE6, CHR 0x88,
     CHR 0x90, CHR 0xE5, CHR 0xA4, CHR 0xB1, CHR 0xE8, CHR 0xB4, CHR 0xA5]"

text \<open>encoding the configuration failed\<close>

definition msg_encode_failed :: string where
  "msg_encode_failed =
    [CHR ''V'', CHR ''M'', CHR ''E'', CHR ''S'', CHR ''S'', CHR 0x20, CHR 0xE9, CHR 0x85,
     CHR 0x8D, CHR 0xE7, CHR 0xBD, CHR 0xAE, CHR 0xE5, CHR 0xBA, CHR 0x8F, CHR 0xE5, CHR 0x88,
     CHR 0x97, CHR 0xE5, CHR 0x8C, CHR 0x96, CHR 0xE5, CHR 0xA4, CHR 0xB1, CHR 0xE8, CHR 0xB4,
     CHR 0xA5]"

text \<open>start failed\<close>

definition msg_start_failed :: string where
  "msg_start_failed =
    [CHR 0xE5, CHR 0x86, CHR 0x85, CHR 0xE7, CHR 0xBD, CHR 0xAE, CHR 0x20, CHR ''V'', CHR ''M'',
     CHR ''E'', CHR ''S'', CHR ''S'', CHR 0x20, CHR 0xE6, CHR 0x9C, CHR 0x8D, CHR 0xE5, CHR 0x8A,
     CHR 0xA1, CHR 0xE5, CHR 0x90, CHR 0xAF, CHR 0xE5, CHR 0x8A, CHR 0xA8, CHR 0xE5, CHR 0xA4,
     CHR 0xB1, CHR 0xE8, CHR 0xB4, CHR 0xA5]"

text \<open>VMESS started\<close>

definition msg_vmess_started :: string where
  "msg_vmess_started =
    [CHR 0xE5, CHR 0x86, CHR 0x85, CHR 0xE7, CHR 0xBD, CHR 0xAE, CHR 0x20, CHR ''V'', CHR ''M'',
     CHR ''E'', CHR ''S'', CHR ''S'', CHR 0x20, CHR 0xE6, CHR 0x9C, CHR 0x8D, CHR 0xE5, CHR 0x8A,
     CHR 0xA1, CHR 0xE5, CHR 0xB7, CHR 0xB2, CHR 0xE5, CHR 0x90, CHR 0xAF, CHR 0xE5, CHR 0x8A,
     CHR 0xA8]"

text \<open>VMESS is not running\<close>

definition msg_vmess_not_running :: string where
  "msg_vmess_not_running =
    [CHR 0xE5, CHR 0x86, CHR 0x85, CHR 0xE7, CHR 0xBD, CHR 0xAE, CHR 0x20, CHR ''V'', CHR ''M'',
     CHR ''E'', CHR ''S'', CHR ''S'', CHR 0x20, CHR 0xE6, CHR 0x9C, CHR 0x8D, CHR 0xE5, CHR 0x8A,
     CHR 0xA1, CHR 0xE6, CHR 0x9C, CHR 0xAA, CHR 0xE8, CHR 0xBF, CHR 0x90, CHR 0xE8, CHR 0xA1,
     CHR 0x8C]"

text \<open>VMESS stopped\<close>

definition msg_vmess_stopped :: string where
  "msg_vmess_stopped =
    [CHR 0xE5, CHR 0x86, CHR 0x85, CHR 0xE7, CHR 0xBD, CHR 0xAE, CHR 0x20, CHR ''V'', CHR ''M'',
     CHR ''E'', CHR ''S'', CHR ''S'', CHR 0x20, CHR 0xE6, CHR 0x9C, CHR 0x8D, CHR 0xE5, CHR 0x8A,
     CHR 0xA1, CHR 0xE5, CHR 0xB7, CHR 0xB2, CHR 0xE5, CHR 0x81, CHR 0x9C, CHR 0xE6, CHR 0xAD,
     CHR 0xA2]"

text \<open>VMESS is running\<close>

definition msg_vmess_running :: string where
  "msg_vmess_running =
    [CHR 0xE5, CHR 0x86, CHR 0x85, CHR 0xE7, CHR 0xBD, CHR 0xAE, CHR 0x20, CHR ''V'', CHR ''M'',
     CHR ''E'', CHR ''S'', CHR ''S'', CHR 0x20, CHR 0xE6, CHR 0x9C, CHR 0x8D, CHR 0xE5, CHR 0x8A,
     CHR 0xA1, CHR 0xE8, CHR 0xBF, CHR 0x90, CHR 0xE8, CHR 0xA1, CHR 0x8C, CHR 0xE4, CHR 0xB8,
     CHR 0xAD]"

text \<open>the exit is flagged: proxy=\<close>

definition msg_exit_flags :: string where
  "msg_exit_flags =
    [CHR 0xE5, CHR 0x87, CHR 0xBA, CHR 0xE5, CHR 0x8F, CHR 0xA3, CHR 0xE6, CHR 0x83, CHR 0x85,
     CHR 0xE6, CHR 0x8A, CHR 0xA5, CHR 0xE5, CHR 0x8C, CHR 0x85, CHR 0xE5, CHR 0x90, CHR 0xAB,
     CHR 0xE4, CHR 0xBB, CHR 0xA3, CHR 0xE7, CHR 0x90, CHR 0x86, CHR ''/'', CHR 0xE6, CHR 0x89,
     CHR 0x98, CHR 0xE7, CHR 0xAE, CHR 0xA1, CHR ''/'', CHR 0xE7, CHR 0xA7, CHR 0xBB, CHR 0xE5,
     CHR 0x8A, CHR 0xA8, CHR 0xE6, CHR 0xA0, CHR 0x87, CHR 0xE8, CHR 0xAE, CHR 0xB0, CHR 0x20,
     CHR ''p'', CHR ''r'', CHR ''o'', CHR ''x'', CHR ''y'', CHR ''='']"

text \<open>country mismatch: node\<close>

definition msg_country_prefix :: string where
  "msg_country_prefix =
    [CHR 0xE5, CHR 0x9B, CHR 0xBD, CHR 0xE5, CHR 0xAE, CHR 0xB6, CHR 0xE4, CHR 0xB8, CHR 0x8D,
     CHR 0xE5, CHR 0x8C, CHR 0xB9, CHR 0xE9, CHR 0x85, CHR 0x8D, CHR 0xEF, CHR 0xBC, CHR 0x9A,
     CHR 0xE8, CHR 0x8A, CHR 0x82, CHR 0xE7, CHR 0x82, CHR 0xB9, CHR 0x20]"

text \<open>, exit\<close>

definition msg_exit_infix :: string where
  "msg_exit_infix =
    [CHR 0xEF, CHR 0xBC, CHR 0x8C, CHR 0xE5, CHR 0x87, CHR 0xBA, CHR 0xE5, CHR 0x8F, CHR 0xA3,
     CHR 0x20]"

text \<open>AS mismatch: node AS\<close>

definition msg_asn_prefix :: string where
  "msg_asn_prefix =
    [CHR ''A'', CHR ''S'', CHR ''N'', CHR 0x20, CHR 0xE4, CHR 0xB8, CHR 0x8D, CHR 0xE5, CHR 0x8C,
     CHR 0xB9, CHR 0xE9, CHR 0x85, CHR 0x8D, CHR 0xEF, CHR 0xBC, CHR 0x9A, CHR 0xE8, CHR 0x8A,
     CHR 0x82, CHR 0xE7, CHR 0x82, CHR 0xB9, CHR 0x20, CHR ''A'', CHR ''S'']"

text \<open>, exit AS\<close>

definition msg_exit_as_infix :: string where
  "msg_exit_as_infix =
    [CHR 0xEF, CHR 0xBC, CHR 0x8C, CHR 0xE5, CHR 0x87, CHR 0xBA, CHR 0xE5, CHR 0x8F, CHR 0xA3,
     CHR 0x20, CHR ''A'', CHR ''S'']"

text \<open>address, country and AS of the exit verified\<close>

definition msg_exit_passed :: string where
  "msg_exit_passed =
    [CHR 0xE5, CHR 0x87, CHR 0xBA, CHR 0xE5, CHR 0x8F, CHR 0xA3, CHR 0x20, CHR ''I'', CHR ''P'',
     CHR 0xE3, CHR 0x80, CHR 0x81, CHR 0xE5, CHR 0x9B, CHR 0xBD, CHR 0xE5, CHR 0xAE, CHR 0xB6,
     CHR 0xE5, CHR 0x92, CHR 0x8C, CHR 0x20, CHR ''A'', CHR ''S'', CHR ''N'', CHR 0x20, CHR 0xE5,
     CHR 0xA4, CHR 0x8D, CHR 0xE6, CHR 0xA0, CHR 0xB8, CHR 0xE9, CHR 0x80, CHR 0x9A, CHR 0xE8,
     CHR 0xBF, CHR 0x87]"

text \<open>node cache restored, reconnect\<close>

definition msg_cache_restored :: string where
  "msg_cache_restored =
    [CHR 0xE5, CHR 0xB7, CHR 0xB2, CHR 0xE6, CHR 0x81, CHR 0xA2, CHR 0xE5, CHR 0xA4, CHR 0x8D,
     CHR 0xE8, CHR 0x8A, CHR 0x82, CHR 0xE7, CHR 0x82, CHR 0xB9, CHR 0xE7, CHR 0xBC, CHR 0x93,
     CHR 0xE5, CHR 0xAD, CHR 0x98, CHR 0xEF, CHR 0xBC, CHR 0x8C, CHR 0xE8, CHR 0xAF, CHR 0xB7,
     CHR 0xE9, CHR 0x87, CHR 0x8D, CHR 0xE6, CHR 0x96, CHR 0xB0, CHR 0xE8, CHR 0xBF, CHR 0x9E,
     CHR 0xE6, CHR 0x8E, CHR 0xA5]"

text \<open>semicolon\<close>

definition msg_semicolon :: string where
  "msg_semicolon =
    [CHR 0xEF, CHR 0xBC, CHR 0x9B]"

end
