(* ===== verification/Domain.thy ===== *)
theory Domain
  imports Rim_Prelude Go_Strings Messages
begin

text \<open>
  The data model of package domain (src/internal/domain/models.go): VPN nodes with their probe,
  purity and cooldown state, and the snapshot of the connection. The string types of the source
  stay strings with named constants, since stored data may carry any text. A pointer that the
  source only replaces and never writes through is an option. Times are nanoseconds.

  The interface \<open>node_pass\<close> is what every pass over the node list (classifier, probe, cooldown
  bookkeeping) promises the server: it neither adds, drops nor reorders nodes and leaves alone
  what a connection is made from.
\<close>

section \<open>Types\<close>

type_synonym time = int
type_synonym duration = int
type_synonym connection_state = string
type_synonym node_status = string
type_synonym purity_grade = string

definition StateIdle :: connection_state where "StateIdle = ''idle''"
definition StateFetchingNodes :: connection_state where "StateFetchingNodes = ''fetching_nodes''"
definition StateProbingNodes :: connection_state where "StateProbingNodes = ''probing_nodes''"
definition StateConnecting :: connection_state where "StateConnecting = ''connecting''"
definition StateVerifying :: connection_state where "StateVerifying = ''verifying''"
definition StateConnected :: connection_state where "StateConnected = ''connected''"
definition StateFailingOver :: connection_state where "StateFailingOver = ''failing_over''"
definition StateDisconnecting :: connection_state where "StateDisconnecting = ''disconnecting''"
definition StateError :: connection_state where "StateError = ''error''"

definition NodeUnknown :: node_status where "NodeUnknown = ''unknown''"
definition NodeChecking :: node_status where "NodeChecking = ''checking''"
definition NodeAvailable :: node_status where "NodeAvailable = ''available''"
definition NodeUnavailable :: node_status where "NodeUnavailable = ''unavailable''"
definition NodeCooldown :: node_status where "NodeCooldown = ''cooldown''"

definition PurityRejected :: purity_grade where "PurityRejected = ''rejected''"
definition PurityCandidate :: purity_grade where "PurityCandidate = ''candidate''"
definition PurityStrictHome :: purity_grade where "PurityStrictHome = ''strict_home''"

lemmas state_defs =
  StateIdle_def StateFetchingNodes_def StateProbingNodes_def StateConnecting_def
  StateVerifying_def StateConnected_def StateFailingOver_def StateDisconnecting_def StateError_def

lemmas status_defs =
  NodeUnknown_def NodeChecking_def NodeAvailable_def NodeUnavailable_def NodeCooldown_def

lemmas purity_defs = PurityRejected_def PurityCandidate_def PurityStrictHome_def

record residential_evidence =
  Provider :: string
  Passed :: bool
  Summary :: string
  CheckedAt :: time

record vpn_node =
  ID :: string
  IP :: string
  RemoteHost :: string
  RemotePort :: int
  Protocol :: string
  CountryCode :: string
  Country :: string
  City :: string
  ISP :: string
  ASN :: string
  ReverseDNS :: string
  Score :: int
  AdvertisedPingMS :: int
  SpeedBPS :: int
  Sessions :: int
  LatencyMS :: "int option"
  LatencySuspicious :: bool
  ProbeAttempts :: int
  ProbeSuccesses :: int
  PurityGrade :: purity_grade
  PurityScore :: int
  Status :: node_status
  Evidence :: "residential_evidence list"
  LastCheckedAt :: "time option"
  LastError :: string
  CooldownUntil :: "time option"
  OpenVPNConfig :: string

record connection_snapshot =
  State :: connection_state
  Message :: string
  ActiveNodeID :: string
  ExitIP :: string
  ConnectedSince :: "time option"
  LastVerifiedAt :: "time option"
  ConsecutiveFailures :: int
  Metadata :: "(string \<times> string) list"

definition InitialSnapshot :: connection_snapshot where
  "InitialSnapshot =
     \<lparr>State = StateIdle, Message = msg_ready, ActiveNodeID = '''', ExitIP = '''',
      ConnectedSince = None, LastVerifiedAt = None, ConsecutiveFailures = 0, Metadata = []\<rparr>"

text \<open>The zero value of the node struct.\<close>

definition zero_node :: vpn_node where
  "zero_node =
     \<lparr>ID = '''', IP = '''', RemoteHost = '''', RemotePort = 0, Protocol = '''', CountryCode = '''',
      Country = '''', City = '''', ISP = '''', ASN = '''', ReverseDNS = '''', Score = 0,
      AdvertisedPingMS = 0, SpeedBPS = 0, Sessions = 0, LatencyMS = None,
      LatencySuspicious = False, ProbeAttempts = 0, ProbeSuccesses = 0, PurityGrade = '''',
      PurityScore = 0, Status = '''', Evidence = [], LastCheckedAt = None, LastError = '''',
      CooldownUntil = None, OpenVPNConfig = ''''\<rparr>"

section \<open>Passes over the node list\<close>

definition node_identity :: "vpn_node \<Rightarrow> string \<times> string \<times> string \<times> int \<times> string \<times> string" where
  "node_identity n = (ID n, IP n, RemoteHost n, RemotePort n, Protocol n, OpenVPNConfig n)"

lemma node_identity_eq_iff:
  "node_identity n = node_identity m \<longleftrightarrow>
     ID n = ID m \<and> IP n = IP m \<and> RemoteHost n = RemoteHost m \<and> RemotePort n = RemotePort m \<and>
     Protocol n = Protocol m \<and> OpenVPNConfig n = OpenVPNConfig m"
  by (simp add: node_identity_def)

locale node_pass =
  fixes pass :: "vpn_node list \<Rightarrow> vpn_node list"
  assumes pass_identity: "map node_identity (pass ns) = map node_identity ns"
begin

lemma pass_ids: "map ID (pass ns) = map ID ns"
  using pass_identity [of ns] by (metis (no_types, lifting) list.map_comp map_eq_conv comp_apply
    fst_conv node_identity_def)

lemma pass_length: "length (pass ns) = length ns"
  using pass_identity [of ns] by (metis length_map)

lemma pass_distinct: "distinct (map ID ns) \<Longrightarrow> distinct (map ID (pass ns))"
  by (simp add: pass_ids)

lemma pass_nth: "i < length ns \<Longrightarrow> node_identity (pass ns ! i) = node_identity (ns ! i)"
  using pass_identity [of ns] pass_length [of ns] by (metis nth_map)

lemma pass_member: "n \<in> set (pass ns) \<Longrightarrow> \<exists>m\<in>set ns. node_identity m = node_identity n"
  using pass_nth pass_length by (metis in_set_conv_nth)

lemma pass_iterate: "map node_identity ((pass ^^ k) ns) = map node_identity ns"
  by (induction k) (simp_all add: pass_identity)

end

lemma node_pass_comp: "node_pass f \<Longrightarrow> node_pass g \<Longrightarrow> node_pass (\<lambda>ns. g (f ns))"
  by (simp add: node_pass_def)

text \<open>A pass that works node by node keeps the identity as soon as its step does.\<close>

lemma node_pass_map: "(\<And>n. node_identity (f n) = node_identity n) \<Longrightarrow> node_pass (map f)"
  by (simp add: node_pass_def)

end
