(* ===== verification/Go_Sort.thy ===== *)
theory Go_Sort
  imports Rim_Prelude
begin

text \<open>
  Package sort. A call of sort.SliceStable, and of sort.Sort on at most twelve elements (where the
  library runs its insertion sort), is \<open>insertion_sort\<close> over the caller's less function. The
  contract of a comparator is the locale \<open>strict_weak_order\<close>; under it the result is a sorted,
  stable permutation, and it does not depend on the input order where the comparator separates
  all elements.
\<close>

section \<open>Insertion sort\<close>

text \<open>The sorted prefix is kept in reverse: a new element moves left past every element it is
  less than, as the swaps of insertionSort do.\<close>

fun ins_rev :: "('a \<Rightarrow> 'a \<Rightarrow> bool) \<Rightarrow> 'a \<Rightarrow> 'a list \<Rightarrow> 'a list" where
  "ins_rev lt x [] = [x]"
| "ins_rev lt x (y # ys) = (if lt x y then y # ins_rev lt x ys else x # y # ys)"

definition insertion_sort :: "('a \<Rightarrow> 'a \<Rightarrow> bool) \<Rightarrow> 'a list \<Rightarrow> 'a list" where
  "insertion_sort lt xs = rev (fold (ins_rev lt) xs [])"

lemma mset_ins_rev [simp]: "mset (ins_rev lt x ys) = add_mset x (mset ys)"
  by (induction ys) auto

lemma mset_fold_ins_rev: "mset (fold (ins_rev lt) xs acc) = mset xs + mset acc"
  by (induction xs arbitrary: acc) auto

lemma mset_insertion_sort [simp]: "mset (insertion_sort lt xs) = mset xs"
  by (simp add: insertion_sort_def mset_fold_ins_rev)

lemma set_insertion_sort [simp]: "set (insertion_sort lt xs) = set xs"
  by (metis mset_insertion_sort set_mset_mset)

lemma length_insertion_sort [simp]: "length (insertion_sort lt xs) = length xs"
  by (metis mset_insertion_sort size_mset)

lemma distinct_insertion_sort [simp]: "distinct (insertion_sort lt xs) = distinct xs"
  by (metis mset_insertion_sort mset_eq_imp_distinct_iff)

text \<open>Stability needs nothing of the comparator but that it does not order the elements of the
  class that is observed.\<close>

lemma filter_ins_rev:
  assumes "\<And>a b. P a \<Longrightarrow> P b \<Longrightarrow> \<not> lt a b"
  shows "filter P (ins_rev lt x ys) = (if P x then x # filter P ys else filter P ys)"
  by (induction ys) (auto dest: assms)

lemma filter_fold_ins_rev:
  assumes "\<And>a b. P a \<Longrightarrow> P b \<Longrightarrow> \<not> lt a b"
  shows "filter P (fold (ins_rev lt) xs acc) = rev (filter P xs) @ filter P acc"
  by (induction xs arbitrary: acc) (simp_all add: filter_ins_rev [OF assms])

lemma filter_insertion_sort:
  assumes "\<And>a b. P a \<Longrightarrow> P b \<Longrightarrow> \<not> lt a b"
  shows "filter P (insertion_sort lt xs) = filter P xs"
  by (simp add: insertion_sort_def filter_fold_ins_rev [OF assms] flip: rev_filter)

lemma ins_rev_cong:
  "(\<And>y. y \<in> set ys \<Longrightarrow> lt x y = lt' x y) \<Longrightarrow> ins_rev lt x ys = ins_rev lt' x ys"
  by (induction ys) auto

lemma insertion_sort_cong:
  assumes "\<And>x y. x \<in> set xs \<Longrightarrow> y \<in> set xs \<Longrightarrow> lt x y = lt' x y"
  shows "insertion_sort lt xs = insertion_sort lt' xs"
proof -
  have "set ys \<union> set acc \<subseteq> set xs \<Longrightarrow> fold (ins_rev lt) ys acc = fold (ins_rev lt') ys acc" for ys acc
  proof (induction ys arbitrary: acc)
    case (Cons y ys)
    have "ins_rev lt y acc = ins_rev lt' y acc"
      by (rule ins_rev_cong) (use Cons.prems assms in auto)
    moreover have "set (ins_rev lt' y acc) = insert y (set acc)"
      by (metis mset_ins_rev set_mset_add_mset_insert set_mset_mset)
    ultimately show ?case using Cons by simp
  qed simp
  then show ?thesis by (simp add: insertion_sort_def)
qed

section \<open>Comparators\<close>

lemma sorted_wrt_mset_unique:
  assumes "mset xs = mset ys" and "sorted_wrt R xs" and "sorted_wrt R ys"
    and "\<And>a b. a \<in> set xs \<Longrightarrow> b \<in> set xs \<Longrightarrow> R a b \<Longrightarrow> R b a \<Longrightarrow> a = b"
  shows "xs = ys"
  using assms
proof (induction xs arbitrary: ys)
  case Nil
  then show ?case by simp
next
  case (Cons x xs)
  then obtain y ys' where ys: "ys = y # ys'"
    by (cases ys) auto
  have set_eq: "set (x # xs) = set (y # ys')"
    using Cons.prems(1) ys by (metis set_mset_mset)
  have "x = y"
  proof (rule ccontr)
    assume neq: "x \<noteq> y"
    then have "x \<in> set ys'" and "y \<in> set xs"
      using set_eq by auto
    then have "R y x" and "R x y"
      using Cons.prems(2,3) ys by auto
    with Cons.prems(4) \<open>y \<in> set xs\<close> neq show False by auto
  qed
  moreover have "xs = ys'"
    using Cons.prems ys \<open>x = y\<close> by (intro Cons.IH) auto
  ultimately show ?case using ys by simp
qed

locale strict_weak_order =
  fixes lt :: "'a \<Rightarrow> 'a \<Rightarrow> bool"
  assumes asym: "lt x y \<Longrightarrow> \<not> lt y x"
    and neg_trans: "\<not> lt x y \<Longrightarrow> \<not> lt y z \<Longrightarrow> \<not> lt x z"
begin

lemma sorted_ins_rev:
  "sorted_wrt (\<lambda>a b. \<not> lt a b) ys \<Longrightarrow> sorted_wrt (\<lambda>a b. \<not> lt a b) (ins_rev lt x ys)"
proof (induction ys)
  case Nil
  then show ?case by simp
next
  case (Cons y ys)
  have set_ins: "set (ins_rev lt x ys) = insert x (set ys)"
    by (metis mset_ins_rev set_mset_add_mset_insert set_mset_mset)
  show ?case
    using Cons neg_trans [of x y] by (auto simp: set_ins dest: asym)
qed

lemma sorted_insertion_sort:
  "sorted_wrt (\<lambda>a b. \<not> lt b a) (insertion_sort lt xs)"
proof -
  have "sorted_wrt (\<lambda>a b. \<not> lt a b) (fold (ins_rev lt) xs acc)"
    if "sorted_wrt (\<lambda>a b. \<not> lt a b) acc" for acc
    using that by (induction xs arbitrary: acc) (auto intro: sorted_ins_rev)
  then show ?thesis
    by (simp add: insertion_sort_def sorted_wrt_rev)
qed

lemma stable_insertion_sort:
  "filter (\<lambda>y. \<not> lt x y \<and> \<not> lt y x) (insertion_sort lt xs) =
   filter (\<lambda>y. \<not> lt x y \<and> \<not> lt y x) xs"
  by (rule filter_insertion_sort) (metis neg_trans)

lemma insertion_sort_permutation:
  assumes "mset xs = mset ys"
    and "\<And>a b. a \<in> set xs \<Longrightarrow> b \<in> set xs \<Longrightarrow> a \<noteq> b \<Longrightarrow> lt a b \<or> lt b a"
  shows "insertion_sort lt xs = insertion_sort lt ys"
  by (rule sorted_wrt_mset_unique [where R = "\<lambda>a b. \<not> lt b a"])
    (use assms sorted_insertion_sort in auto)

end

end
