(* ===== verification/Failover.thy ===== *)
theory Failover
  imports Domain Go_Sort "HOL-Library.Product_Lexorder"
begin

text \<open>
  Choice of the nodes to dial and the cooldown of failed ones (src/internal/web/failover.go).
  The comparator is a strict weak order, so the candidates are the best connectable nodes in
  order, whatever order the source lists them in; a failed node is not chosen again before its
  cooldown ends, also when the node list is replaced by a fresh one in between.
\<close>

section \<open>Definitions\<close>

definition connectable :: "vpn_node \<Rightarrow> time \<Rightarrow> bool" where
  "connectable node now =
     (if Protocol node \<noteq> ''tcp'' \<or> PurityGrade node = PurityRejected then False
      else if Status node = NodeUnavailable then False
      else (case CooldownUntil node of
              Some until \<Rightarrow> \<not> now < until
            | None \<Rightarrow> True))"

definition nodeRank :: "vpn_node \<Rightarrow> int" where
  "nodeRank node =
     (let score = 0;
          score = (if PurityGrade node = PurityStrictHome then score + 1000 else score);
          score = (if Status node = NodeAvailable then score + 200 else score)
      in wrap64 (score + PurityScore node))"

definition latencyRank :: "vpn_node \<Rightarrow> int" where
  "latencyRank node =
     (case LatencyMS node of
        Some ms \<Rightarrow>
          if \<not> LatencySuspicious node then ms
          else if 0 < AdvertisedPingMS node then wrap64 (100000 + AdvertisedPingMS node)
          else 1000000
      | None \<Rightarrow>
          if 0 < AdvertisedPingMS node then wrap64 (100000 + AdvertisedPingMS node) else 1000000)"

text \<open>The less function that connectionCandidates passes to sort.SliceStable.\<close>

definition candidateLess :: "vpn_node \<Rightarrow> vpn_node \<Rightarrow> bool" where
  "candidateLess a b =
     (if nodeRank a \<noteq> nodeRank b then nodeRank b < nodeRank a
      else if latencyRank a \<noteq> latencyRank b then latencyRank a < latencyRank b
      else if Score a \<noteq> Score b then Score b < Score a
      else ID a < ID b)"

definition connectionCandidates :: "vpn_node list \<Rightarrow> string \<Rightarrow> int \<Rightarrow> time \<Rightarrow> vpn_node list" where
  "connectionCandidates nodes requestedID maxAttempts now =
     (if requestedID \<noteq> '''' then
        (case find (\<lambda>node. ID node = requestedID \<and> connectable node now) nodes of
           Some node \<Rightarrow> [node]
         | None \<Rightarrow> [])
      else
        let candidates = insertion_sort candidateLess (filter (\<lambda>node. connectable node now) nodes)
        in if maxAttempts \<le> 0 \<or> int (length candidates) < maxAttempts then candidates
           else take (nat maxAttempts) candidates)"

text \<open>The body of the loop of markNodeFailure for the node it stops at.\<close>

definition failedNode :: "string \<Rightarrow> duration \<Rightarrow> time \<Rightarrow> vpn_node \<Rightarrow> vpn_node" where
  "failedNode message cooldown now n =
     (let n = n\<lparr>Status := NodeCooldown, LastError := message, LastCheckedAt := Some now\<rparr>
      in if 0 < cooldown then n\<lparr>CooldownUntil := Some (now + cooldown)\<rparr> else n)"

fun markNodeFailure ::
  "vpn_node list \<Rightarrow> string \<Rightarrow> string \<Rightarrow> duration \<Rightarrow> time \<Rightarrow> vpn_node list" where
  "markNodeFailure [] nodeID message cooldown now = []"
| "markNodeFailure (n # ns) nodeID message cooldown now =
     (if ID n \<noteq> nodeID then n # markNodeFailure ns nodeID message cooldown now
      else failedNode message cooldown now n # ns)"

text \<open>The map byID of preserveNodeCooldowns: a later node overwrites an earlier one of its ID.\<close>

definition cooling :: "vpn_node \<Rightarrow> time \<Rightarrow> bool" where
  "cooling node now = (case CooldownUntil node of Some until \<Rightarrow> now < until | None \<Rightarrow> False)"

definition cooldownsByID :: "vpn_node list \<Rightarrow> time \<Rightarrow> (string \<rightharpoonup> vpn_node)" where
  "cooldownsByID previous now =
     fold (\<lambda>node byID. if cooling node now then byID(ID node \<mapsto> node) else byID) previous Map.empty"

definition preserveNodeCooldowns :: "vpn_node list \<Rightarrow> vpn_node list \<Rightarrow> time \<Rightarrow> vpn_node list" where
  "preserveNodeCooldowns nodes previous now =
     (let byID = cooldownsByID previous now
      in map (\<lambda>node. case byID (ID node) of
                None \<Rightarrow> node
              | Some old \<Rightarrow> node\<lparr>Status := NodeCooldown, CooldownUntil := CooldownUntil old,
                               LastError := LastError old\<rparr>) nodes)"

section \<open>The comparator\<close>

text \<open>The comparator orders by a key in a linear order, component by component.\<close>

definition candidateKey :: "vpn_node \<Rightarrow> int \<times> int \<times> int \<times> string" where
  "candidateKey n = (- nodeRank n, latencyRank n, - Score n, ID n)"

lemma candidateLess_key: "candidateLess a b \<longleftrightarrow> candidateKey a < candidateKey b"
  by (auto simp: candidateLess_def candidateKey_def less_prod_simp)

interpretation candidates: strict_weak_order candidateLess
  by unfold_locales (auto simp: candidateLess_key)

lemma candidateLess_total: "ID a \<noteq> ID b \<Longrightarrow> candidateLess a b \<or> candidateLess b a"
  by (auto simp: candidateLess_key candidateKey_def)

section \<open>Passes\<close>

lemma failedNode_simps [simp]:
  "node_identity (failedNode m c now n) = node_identity n"
  "ID (failedNode m c now n) = ID n"
  "Protocol (failedNode m c now n) = Protocol n"
  "PurityGrade (failedNode m c now n) = PurityGrade n"
  "Status (failedNode m c now n) = NodeCooldown"
  "0 < c \<Longrightarrow> CooldownUntil (failedNode m c now n) = Some (now + c)"
  by (simp_all add: failedNode_def Let_def node_identity_def)

lemma markNodeFailure_identity [node_simps]:
  "map node_identity (markNodeFailure ns i m c t) = map node_identity ns"
  by (induction ns) simp_all

interpretation mark: node_pass "\<lambda>ns. markNodeFailure ns nodeID message cooldown now"
  for nodeID message cooldown now
  by unfold_locales (rule markNodeFailure_identity)

interpretation preserve: node_pass "\<lambda>ns. preserveNodeCooldowns ns previous now"
  for previous now
  by unfold_locales (auto simp: preserveNodeCooldowns_def Let_def node_identity_def split: option.splits)

lemma connectable_cooling: "cooling n t \<Longrightarrow> \<not> connectable n t"
  by (auto simp: cooling_def connectable_def split: option.splits)

lemma connectionCandidates_connectable:
  "n \<in> set (connectionCandidates ns req k t) \<Longrightarrow> n \<in> set ns \<and> connectable n t"
  by (auto simp: connectionCandidates_def Let_def
      split: if_splits option.splits dest: in_set_takeD find_SomeD [OF sym])

lemma connectionCandidates_cooling:
  "(\<And>n. n \<in> set ns \<Longrightarrow> ID n = i \<Longrightarrow> cooling n t) \<Longrightarrow> i \<notin> ID ` set (connectionCandidates ns req k t)"
  by (auto dest: connectionCandidates_connectable connectable_cooling)

lemma markNodeFailure_failedNode:
  assumes "distinct (map ID ns)" and "n \<in> set (markNodeFailure ns i m c now)" and "ID n = i"
  shows "\<exists>n'. n = failedNode m c now n'"
  using assms by (induction ns) (auto split: if_splits)

lemma markNodeFailure_cooling:
  assumes "distinct (map ID ns)" and "0 < c" and "t < now + c"
    and "n \<in> set (markNodeFailure ns i m c now)" and "ID n = i"
  shows "cooling n t"
  using markNodeFailure_failedNode [OF assms(1,4,5)] assms(2,3) by (auto simp: cooling_def)

lemma cooldownsByID_fold:
  "fold (\<lambda>node byID. if cooling node now then byID(ID node \<mapsto> node) else byID) ns m i =
     (case find (\<lambda>n. ID n = i \<and> cooling n now) (rev ns) of Some n \<Rightarrow> Some n | None \<Rightarrow> m i)"
proof (induction ns arbitrary: m)
  case Nil
  then show ?case by simp
next
  case (Cons a ns)
  then show ?case by (auto simp: find_append split: option.splits)
qed

lemma cooldownsByID_find:
  "cooldownsByID ns now i = find (\<lambda>n. ID n = i \<and> cooling n now) (rev ns)"
  by (simp add: cooldownsByID_def cooldownsByID_fold split: option.split)

lemma cooldownsByID_Some:
  "cooldownsByID ns now i = Some n \<Longrightarrow> n \<in> set ns \<and> ID n = i \<and> cooling n now"
  using find_SomeD [of _ "rev ns" n] by (auto simp: cooldownsByID_find)

lemma cooldownsByID_unique:
  "distinct (map ID ns) \<Longrightarrow> n \<in> set ns \<Longrightarrow> cooling n now \<Longrightarrow> cooldownsByID ns now (ID n) = Some n"
proof -
  assume ns: "distinct (map ID ns)" "n \<in> set ns" "cooling n now"
  then have "cooldownsByID ns now (ID n) \<noteq> None"
    by (auto simp: cooldownsByID_find find_None_iff)
  then obtain n' where "cooldownsByID ns now (ID n) = Some n'" by auto
  with cooldownsByID_Some ns show ?thesis
    by (metis distinct_map inj_on_eq_iff)
qed

lemma preserveNodeCooldowns_cooling:
  assumes "distinct (map ID prev)" and "p \<in> set prev" and "cooling p now" and "cooling p t"
    and "n \<in> set (preserveNodeCooldowns ns prev now)" and "ID n = ID p"
  shows "cooling n t"
proof -
  obtain m where m: "m \<in> set ns"
    and n: "n = (case cooldownsByID prev now (ID m) of
                None \<Rightarrow> m
              | Some old \<Rightarrow> m\<lparr>Status := NodeCooldown, CooldownUntil := CooldownUntil old,
                               LastError := LastError old\<rparr>)"
    using assms(5) by (auto simp: preserveNodeCooldowns_def Let_def)
  have "ID m = ID p" using n assms(6) by (auto split: option.splits)
  then show ?thesis
    using n cooldownsByID_unique [OF assms(1-3)] assms(4) by (simp add: cooling_def)
qed

section \<open>Properties\<close>

text \<open>C26: with no node requested, the candidates are a prefix of a permutation of the connectable
  nodes that is sorted by rank, latency, score and ID; the prefix has the length the attempt limit
  allows (all of them when the limit is not positive).\<close>

theorem connectionCandidates_best:
  "\<exists>rest. mset (connectionCandidates ns '''' k now @ rest) =
            mset (filter (\<lambda>n. connectable n now) ns) \<and>
          sorted_wrt (\<lambda>a b. \<not> candidateLess b a) (connectionCandidates ns '''' k now @ rest) \<and>
          length (connectionCandidates ns '''' k now) =
            (let m = length (filter (\<lambda>n. connectable n now) ns)
             in if k \<le> 0 then m else min (nat k) m)"
proof -
  let ?all = "insertion_sort candidateLess (filter (\<lambda>n. connectable n now) ns)"
  obtain j where j: "connectionCandidates ns '''' k now = take j ?all"
    and len: "length (take j ?all) = (if k \<le> 0 then length ?all else min (nat k) (length ?all))"
    by (cases "k \<le> 0 \<or> int (length ?all) < k")
      (auto simp: connectionCandidates_def Let_def intro: that [of "length ?all"] that [of "nat k"])
  show ?thesis
    by (rule exI [of _ "drop j ?all"], unfold j len)
      (simp add: candidates.sorted_insertion_sort Let_def)
qed

text \<open>Where node IDs are distinct, the choice does not depend on the order in which the nodes
  are listed.\<close>

theorem connectionCandidates_order_independent:
  assumes "distinct (map ID ns)" and "mset ns = mset ms"
  shows "connectionCandidates ns req k now = connectionCandidates ms req k now"
proof (cases "req = ''''")
  case True
  have "mset (filter (\<lambda>n. connectable n now) ns) = mset (filter (\<lambda>n. connectable n now) ms)"
    using assms(2) by simp
  moreover have "candidateLess a b \<or> candidateLess b a"
    if "a \<in> set ns" "b \<in> set ns" "a \<noteq> b" for a b
    using that assms(1) by (intro candidateLess_total) (auto simp: distinct_map inj_on_def)
  ultimately have "insertion_sort candidateLess (filter (\<lambda>n. connectable n now) ns) =
      insertion_sort candidateLess (filter (\<lambda>n. connectable n now) ms)"
    by (intro candidates.insertion_sort_permutation) auto
  with True show ?thesis by (simp add: connectionCandidates_def)
next
  case False
  let ?P = "\<lambda>n. ID n = req \<and> connectable n now"
  have set_eq: "set ns = set ms" using assms(2) by (metis set_mset_mset)
  have unique: "a = b" if "a \<in> set ns" "b \<in> set ns" "?P a" "?P b" for a b
    using that assms(1) by (metis distinct_map inj_on_eq_iff)
  have "find ?P ns = find ?P ms"
  proof (cases "find ?P ns")
    case None
    then show ?thesis using set_eq by (metis find_None_iff)
  next
    case (Some a)
    then have "a \<in> set ns" "?P a" by (auto simp: find_Some_iff)
    moreover obtain b where "find ?P ms = Some b"
      using calculation set_eq by (cases "find ?P ms") (auto simp: find_None_iff)
    moreover then have "b \<in> set ms" "?P b" by (auto simp: find_Some_iff)
    ultimately show ?thesis using Some unique set_eq by simp
  qed
  with False show ?thesis by (simp add: connectionCandidates_def)
qed

text \<open>Once a node has failed with a positive cooldown, it is connectable at a time exactly when
  the cooldown has passed then and the node is a TCP node that is not rejected; the status it had
  before plays no part.\<close>

theorem markNodeFailure_connectable:
  assumes "distinct (map ID ns)" and "0 < cooldown"
    and "n \<in> set (markNodeFailure ns nodeID message cooldown now)" and "ID n = nodeID"
  shows "connectable n t \<longleftrightarrow>
    now + cooldown \<le> t \<and> Protocol n = ''tcp'' \<and> PurityGrade n \<noteq> PurityRejected"
  using markNodeFailure_failedNode [OF assms(1,3,4)] assms(2)
  by (auto simp: connectable_def status_defs)

text \<open>C27: a node that failed is not chosen, requested or not, before its cooldown ends, even when
  the list is replaced in the meantime by a freshly fetched one that reuses the cooldowns.\<close>

theorem failed_node_not_chosen:
  assumes "distinct (map ID ns)" and "nodeID \<in> ID ` set ns" and "0 < cooldown"
    and "refreshed \<le> t" and "t < now + cooldown"
  shows "nodeID \<notin> ID ` set (connectionCandidates
           (markNodeFailure ns nodeID message cooldown now) req k t) \<and>
         nodeID \<notin> ID ` set (connectionCandidates
           (preserveNodeCooldowns fresh (markNodeFailure ns nodeID message cooldown now) refreshed)
           req k t)"
proof
  let ?failed = "markNodeFailure ns nodeID message cooldown now"
  have cool: "cooling n u" if "n \<in> set ?failed" "ID n = nodeID" "u \<le> t" for n u
    by (rule markNodeFailure_cooling [OF assms(1,3) _ that(1,2)]) (use assms(5) that(3) in simp)
  show "nodeID \<notin> ID ` set (connectionCandidates ?failed req k t)"
    by (rule connectionCandidates_cooling) (use cool in auto)
  have "set (map ID ?failed) = set (map ID ns)" by (simp only: mark.pass_ids)
  then obtain p where p: "p \<in> set ?failed" "ID p = nodeID"
    using assms(2) by (metis (no_types, lifting) imageE image_set)
  have distinct: "distinct (map ID ?failed)" by (rule mark.pass_distinct) (rule assms(1))
  show "nodeID \<notin> ID ` set (connectionCandidates
      (preserveNodeCooldowns fresh ?failed refreshed) req k t)"
    by (rule connectionCandidates_cooling, rule preserveNodeCooldowns_cooling [OF distinct p(1)])
      (use cool p assms(4) in auto)
qed

section \<open>Witnesses\<close>

text \<open>Two TCP nodes of which the second is in the strict grade.\<close>

definition node_a :: vpn_node where
  "node_a = zero_node\<lparr>ID := ''a'', Protocol := ''tcp'', PurityGrade := PurityCandidate\<rparr>"

definition node_b :: vpn_node where
  "node_b = zero_node\<lparr>ID := ''b'', Protocol := ''tcp'', PurityGrade := PurityStrictHome\<rparr>"

lemma node_ab_simps [simp]:
  "ID node_a = ''a''" "ID node_b = ''b''" "Protocol node_a = ''tcp''" "Protocol node_b = ''tcp''"
  by (simp_all add: node_a_def node_b_def)

theorem connectionCandidates_order_independent_witness:
  "connectionCandidates [node_a, node_b] '''' 1 5 = [node_b] \<and>
   connectionCandidates [node_b, node_a] '''' 1 5 = [node_b]"
proof -
  have "connectionCandidates [node_b, node_a] '''' 1 5 = [node_b]" by code_simp
  moreover have "connectionCandidates [node_a, node_b] '''' 1 5 =
      connectionCandidates [node_b, node_a] '''' 1 5"
    by (rule connectionCandidates_order_independent) (simp_all add: add_mset_commute)
  ultimately show ?thesis by simp
qed

theorem markNodeFailure_connectable_witness:
  "connectable ((markNodeFailure [node_a, node_b] ''b'' ''refused'' 10 100) ! 1) 110 \<and>
   \<not> connectable ((markNodeFailure [node_a, node_b] ''b'' ''refused'' 10 100) ! 1) 109"
proof -
  have "PurityGrade node_b \<noteq> PurityRejected" by (simp add: node_b_def purity_defs)
  then show ?thesis
    using markNodeFailure_connectable [of "[node_a, node_b]" 10 _ "''b''" "''refused''" 100]
    by simp
qed

theorem failed_node_not_chosen_witness:
  "''b'' \<notin> ID ` set (connectionCandidates
     (preserveNodeCooldowns [node_b] (markNodeFailure [node_a, node_b] ''b'' ''refused'' 10 100) 103)
     ''b'' 3 109)"
  using failed_node_not_chosen [of "[node_a, node_b]" "''b''" 10 103 109 100 "''refused''" "''b''" 3
    "[node_b]"] by simp

end
