(* ===== verification/Go_Net.thy ===== *)
theory Go_Net
  imports Go_Strings
begin

text \<open>
  The parts of package net that the program uses: net.ParseIP with the textual forms of both
  address families, the text of an address, its classification, and the host-port functions. An
  address is its list of sixteen octets, IPv4 in the mapped form, as net.ParseIP returns it.
\<close>

section \<open>Parsing\<close>

type_synonym ip = "nat list"

definition v4_prefix :: "nat list" where
  "v4_prefix = [0, 0, 0, 0, 0, 0, 0, 0, 0, 0, 255, 255]"

text \<open>A decimal octet: no empty field, no leading zero, at most 255.\<close>

definition parse_octet :: "string \<Rightarrow> nat option" where
  "parse_octet s =
     (if s = [] \<or> \<not> list_all is_digit s \<or> (1 < length s \<and> hd s = CHR ''0'') then None
      else if digits_val s \<le> 255 then Some (digits_val s) else None)"

definition parse_v4_fields :: "string \<Rightarrow> nat list option" where
  "parse_v4_fields s =
     (case map parse_octet (split_on CHR ''.'' s) of
        [Some a, Some b, Some c, Some d] \<Rightarrow> Some [a, b, c, d]
      | _ \<Rightarrow> None)"

definition hex_val :: "char \<Rightarrow> nat option" where
  "hex_val ch =
     (let n = of_char ch :: nat
      in if 48 \<le> n \<and> n \<le> 57 then Some (n - 48)
         else if 97 \<le> n \<and> n \<le> 102 then Some (n - 87)
         else if 65 \<le> n \<and> n \<le> 70 then Some (n - 55)
         else None)"

text \<open>The leading hexadecimal digits: their number, their value and the rest.\<close>

fun hex_run :: "string \<Rightarrow> nat \<Rightarrow> nat \<Rightarrow> nat \<times> nat \<times> string" where
  "hex_run [] off acc = (off, acc, [])"
| "hex_run (ch # s) off acc =
     (case hex_val ch of
        None \<Rightarrow> (off, acc, ch # s)
      | Some d \<Rightarrow> hex_run s (Suc off) (acc * 16 + d))"

text \<open>The loop of netip.parseIPv6. The octets read so far are \<open>out\<close>; \<open>ell\<close> is the position of the
  double colon. The result is the octets, the position and the rest of the text; \<open>fuel\<close> counts the
  eight groups an address has at most.\<close>

fun v6_groups ::
  "nat \<Rightarrow> nat list \<Rightarrow> nat option \<Rightarrow> string \<Rightarrow> (nat list \<times> nat option \<times> string) option" where
  "v6_groups 0 out ell s = Some (out, ell, s)"
| "v6_groups (Suc fuel) out ell s =
     (case hex_run s 0 0 of
        (off, acc, rest) \<Rightarrow>
          if off = 0 \<or> 4 < off then None
          else if rest \<noteq> [] \<and> hd rest = CHR ''.'' then
            (if (ell = None \<and> length out \<noteq> 12) \<or> 16 < length out + 4 then None
             else case parse_v4_fields s of
                    None \<Rightarrow> None
                  | Some v4 \<Rightarrow> Some (out @ v4, ell, []))
          else
            let out = out @ [acc div 256, acc mod 256]
            in if rest = [] then Some (out, ell, [])
               else if hd rest \<noteq> CHR '':'' \<or> length rest = 1 then None
               else let s = tl rest
                    in if hd s = CHR '':'' then
                         (if ell \<noteq> None then None
                          else if tl s = [] then Some (out, Some (length out), [])
                          else v6_groups fuel out (Some (length out)) (tl s))
                       else v6_groups fuel out ell s)"

definition parse_v6 :: "string \<Rightarrow> ip option" where
  "parse_v6 s =
     (if CHR 0x25 \<in> set s then None
      else
        let lead = has_prefix s ''::'';
            body = (if lead then drop 2 s else s)
        in if lead \<and> body = [] then Some (replicate 16 0)
           else case v6_groups 8 [] (if lead then Some 0 else None) body of
               None \<Rightarrow> None
             | Some (out, ell, rest) \<Rightarrow>
                 if rest \<noteq> [] then None
                 else if length out < 16 then
                   (case ell of
                      None \<Rightarrow> None
                    | Some e \<Rightarrow> Some (take e out @ replicate (16 - length out) 0 @ drop e out))
                 else if ell \<noteq> None then None
                 else Some out)"

text \<open>netip.ParseAddr decides by the first dot, colon or percent sign.\<close>

definition ParseIP :: "string \<Rightarrow> ip option" where
  "ParseIP s =
     (case find (\<lambda>ch. ch = CHR ''.'' \<or> ch = CHR '':'' \<or> ch = CHR 0x25) s of
        None \<Rightarrow> None
      | Some ch \<Rightarrow>
          if ch = CHR ''.'' then map_option (\<lambda>v4. v4_prefix @ v4) (parse_v4_fields s)
          else if ch = CHR '':'' then parse_v6 s
          else None)"

text \<open>Package netip keeps the families apart and reads a zone after a percent sign of an IPv6
  address.\<close>

datatype netip_addr = Addr4 "nat list" | Addr6 ip string

definition ParseAddr :: "string \<Rightarrow> netip_addr option" where
  "ParseAddr s =
     (case find (\<lambda>ch. ch = CHR ''.'' \<or> ch = CHR '':'' \<or> ch = CHR 0x25) s of
        None \<Rightarrow> None
      | Some ch \<Rightarrow>
          if ch = CHR ''.'' then map_option Addr4 (parse_v4_fields s)
          else if ch = CHR '':'' then
            (let host = takeWhile (\<lambda>c. c \<noteq> CHR 0x25) s; tail = dropWhile (\<lambda>c. c \<noteq> CHR 0x25) s
             in if tail = [CHR 0x25] then None
                else map_option (\<lambda>ip. Addr6 ip (drop 1 tail)) (parse_v6 host))
          else None)"

lemma parse_v6_no_zone: "parse_v6 s = Some ip \<Longrightarrow> CHR 0x25 \<notin> set s"
  unfolding parse_v6_def by (rule ccontr) simp

lemma no_zone_split:
  "CHR 0x25 \<notin> set s \<Longrightarrow> takeWhile (\<lambda>c. c \<noteq> CHR 0x25) s = s"
  "CHR 0x25 \<notin> set s \<Longrightarrow> dropWhile (\<lambda>c. c \<noteq> CHR 0x25) s = []"
  by (induction s) auto

lemma ParseIP_ParseAddr:
  assumes "ParseIP s = Some ip"
  shows "\<exists>a. ParseAddr s = Some a"
proof -
  let ?first = "find (\<lambda>ch. ch = CHR ''.'' \<or> ch = CHR '':'' \<or> ch = CHR 0x25) s"
  have "?first \<noteq> None"
  proof
    assume "?first = None"
    then have "ParseIP s = None" unfolding ParseIP_def by (simp only: option.case)
    with assms show False by simp
  qed
  then obtain ch where ch: "?first = Some ch" by blast
  show ?thesis
  proof (cases "ch = CHR ''.''")
    case True
    have "ParseIP s = map_option (\<lambda>v4. v4_prefix @ v4) (parse_v4_fields s)"
      "ParseAddr s = map_option Addr4 (parse_v4_fields s)"
      unfolding ParseIP_def ParseAddr_def ch True by simp_all
    with assms show ?thesis by auto
  next
    case False
    have ip: "ParseIP s = (if ch = CHR '':'' then parse_v6 s else None)"
      unfolding ParseIP_def ch using False by simp
    with assms have v6: "ch = CHR '':''" "parse_v6 s = Some ip"
      by (simp_all split: if_splits)
    note parts = no_zone_split [OF parse_v6_no_zone [OF v6(2)]]
    have "ParseAddr s = map_option (\<lambda>ip. Addr6 ip '''') (parse_v6 s)"
      unfolding ParseAddr_def ch v6(1) Let_def parts by simp
    with v6(2) show ?thesis by simp
  qed
qed

section \<open>Classification\<close>

definition To4 :: "ip \<Rightarrow> nat list option" where
  "To4 ip = (if length ip = 16 \<and> take 12 ip = v4_prefix then Some (drop 12 ip) else None)"

definition IsUnspecified :: "ip \<Rightarrow> bool" where
  "IsUnspecified ip \<longleftrightarrow> ip = v4_prefix @ [0, 0, 0, 0] \<or> ip = replicate 16 0"

definition IsLoopback :: "ip \<Rightarrow> bool" where
  "IsLoopback ip =
     (case To4 ip of Some v4 \<Rightarrow> v4 ! 0 = 127 | None \<Rightarrow> ip = replicate 15 0 @ [1])"

definition IsPrivate :: "ip \<Rightarrow> bool" where
  "IsPrivate ip =
     (case To4 ip of
        Some v4 \<Rightarrow>
          v4 ! 0 = 10 \<or> (v4 ! 0 = 172 \<and> v4 ! 1 div 16 = 1) \<or> (v4 ! 0 = 192 \<and> v4 ! 1 = 168)
      | None \<Rightarrow> length ip = 16 \<and> ip ! 0 div 2 = 126)"

definition IsMulticast :: "ip \<Rightarrow> bool" where
  "IsMulticast ip =
     (case To4 ip of Some v4 \<Rightarrow> v4 ! 0 div 16 = 14 | None \<Rightarrow> length ip = 16 \<and> ip ! 0 = 255)"

definition IsLinkLocalUnicast :: "ip \<Rightarrow> bool" where
  "IsLinkLocalUnicast ip =
     (case To4 ip of
        Some v4 \<Rightarrow> v4 ! 0 = 169 \<and> v4 ! 1 = 254
      | None \<Rightarrow> length ip = 16 \<and> ip ! 0 = 254 \<and> ip ! 1 div 64 = 2)"

definition IsGlobalUnicast :: "ip \<Rightarrow> bool" where
  "IsGlobalUnicast ip \<longleftrightarrow>
     length ip = 16 \<and> ip \<noteq> v4_prefix @ [255, 255, 255, 255] \<and> \<not> IsUnspecified ip \<and>
     \<not> IsLoopback ip \<and> \<not> IsMulticast ip \<and> \<not> IsLinkLocalUnicast ip"

section \<open>Text of an address\<close>

fun nat_hex :: "nat \<Rightarrow> string" where
  "nat_hex n =
     (if n < 16 then [hex_digit n] else nat_hex (n div 16) @ [hex_digit (n mod 16)])"

declare nat_hex.simps [simp del]

definition v4_text :: "nat list \<Rightarrow> string" where
  "v4_text v4 = join ''.'' (map nat_digits v4)"

definition v6_group :: "ip \<Rightarrow> nat \<Rightarrow> nat" where
  "v6_group ip i = ip ! (2 * i) * 256 + ip ! (2 * i + 1)"

fun zero_run :: "ip \<Rightarrow> nat \<Rightarrow> nat \<Rightarrow> nat" where
  "zero_run ip 0 i = i"
| "zero_run ip (Suc n) i = (if i < 8 \<and> v6_group ip i = 0 then zero_run ip n (Suc i) else i)"

text \<open>The first of the longest runs of at least two zero groups, as (start, end).\<close>

definition longest_zero_run :: "ip \<Rightarrow> nat \<times> nat" where
  "longest_zero_run ip =
     foldl (\<lambda>(a, b) i. let j = zero_run ip 8 i
                      in if 2 \<le> j - i \<and> b - a < j - i then (i, j) else (a, b)) (255, 255) [0..<8]"

definition v6_text :: "ip \<Rightarrow> string" where
  "v6_text ip =
     (let (a, b) = longest_zero_run ip;
          text = (\<lambda>is. join '':'' (map (\<lambda>i. nat_hex (v6_group ip i)) is))
      in if a = 255 then text [0..<8]
         else text [0..<a] @ ''::'' @ text [b..<8])"

definition IP_String :: "ip \<Rightarrow> string" where
  "IP_String ip = (case To4 ip of Some v4 \<Rightarrow> v4_text v4 | None \<Rightarrow> v6_text ip)"

section \<open>Host and port\<close>

definition JoinHostPort :: "string \<Rightarrow> string \<Rightarrow> string" where
  "JoinHostPort host port =
     (if CHR '':'' \<in> set host then ''['' @ host @ '']:'' @ port else host @ '':'' @ port)"

definition addr_error :: "string \<Rightarrow> string \<Rightarrow> string" where
  "addr_error addr why = (if addr \<noteq> [] then ''address '' @ addr @ '': '' @ why else why)"

fun index_of :: "char \<Rightarrow> string \<Rightarrow> nat option" where
  "index_of ch [] = None"
| "index_of ch (x # s) = (if x = ch then Some 0 else map_option Suc (index_of ch s))"

definition last_index_of :: "char \<Rightarrow> string \<Rightarrow> nat option" where
  "last_index_of ch s = map_option (\<lambda>i. length s - 1 - i) (index_of ch (rev s))"

definition SplitHostPort :: "string \<Rightarrow> (string \<times> string) res" where
  "SplitHostPort hp =
     (case last_index_of CHR '':'' hp of
        None \<Rightarrow> Inl (addr_error hp ''missing port in address'')
      | Some i \<Rightarrow>
          let finish = (\<lambda>host j k.
                if CHR ''['' \<in> set (drop j hp) then
                  Inl (addr_error hp (''unexpected '' @ [CHR 0x27] @ ''['' @ [CHR 0x27] @ '' in address''))
                else if CHR '']'' \<in> set (drop k hp) then
                  Inl (addr_error hp (''unexpected '' @ [CHR 0x27] @ '']'' @ [CHR 0x27] @ '' in address''))
                else Inr (host, drop (Suc i) hp))
          in if hd hp = CHR ''['' then
               (case index_of CHR '']'' hp of
                  None \<Rightarrow> Inl (addr_error hp (''missing '' @ [CHR 0x27] @ '']'' @ [CHR 0x27] @ '' in address''))
                | Some e \<Rightarrow>
                    if Suc e = length hp then Inl (addr_error hp ''missing port in address'')
                    else if Suc e = i then finish (drop 1 (take e hp)) 1 (Suc e)
                    else if hp ! Suc e = CHR '':'' then
                      Inl (addr_error hp ''too many colons in address'')
                    else Inl (addr_error hp ''missing port in address''))
             else if CHR '':'' \<in> set (take i hp) then
               Inl (addr_error hp ''too many colons in address'')
             else finish (take i hp) 0 0)"

section \<open>Laws\<close>

lemma v4_prefix_simps [simp]: "length v4_prefix = 12" "v4_prefix ! 0 = 0"
  by (simp_all add: v4_prefix_def)

definition wf_ip :: "ip \<Rightarrow> bool" where
  "wf_ip ip \<longleftrightarrow> length ip = 16 \<and> list_all (\<lambda>b. b < 256) ip"

lemma parse_octet_bound: "parse_octet s = Some n \<Longrightarrow> n < 256"
  by (auto simp: parse_octet_def split: if_splits)

lemma parse_v4_fields_Some:
  assumes "parse_v4_fields s = Some v4"
  shows "length v4 = 4 \<and> list_all (\<lambda>b. b < 256) v4"
proof -
  obtain a b c d where v4: "v4 = [a, b, c, d]"
    and parts: "map parse_octet (split_on CHR ''.'' s) = [Some a, Some b, Some c, Some d]"
    using assms unfolding parse_v4_fields_def
    by (auto split: list.splits option.splits)
  have "n < 256" if "Some n \<in> set (map parse_octet (split_on CHR ''.'' s))" for n
    using that by (auto dest: parse_octet_bound [OF sym])
  then show ?thesis using parts v4 by auto
qed

lemma hex_val_bound: "hex_val ch = Some d \<Longrightarrow> d < 16"
  by (auto simp: hex_val_def Let_def split: if_splits)

lemma hex_run_bound:
  "hex_run s off acc = (off', acc', rest) \<Longrightarrow> acc < 16 ^ off \<Longrightarrow> acc' < 16 ^ off' \<and> off \<le> off'"
proof (induction s off acc rule: hex_run.induct)
  case (2 ch s off acc)
  show ?case
  proof (cases "hex_val ch")
    case (Some d)
    then have "acc * 16 + d < 16 ^ Suc off"
      using 2(3) hex_val_bound [OF Some] by simp
    with 2 Some show ?thesis by fastforce
  qed (use 2 in auto)
qed auto

lemma hex_run_16bit:
  assumes "hex_run s 0 0 = (off, acc, rest)" and "off \<le> 4"
  shows "acc < 65536"
proof -
  have "acc < 16 ^ off" using hex_run_bound [OF assms(1)] by simp
  also have "\<dots> \<le> 16 ^ 4" using assms(2) by (intro power_increasing) simp_all
  finally show ?thesis by simp
qed

lemma v6_groups_octets:
  "v6_groups fuel out ell s = Some (out', ell', rest) \<Longrightarrow> list_all (\<lambda>b. b < 256) out \<Longrightarrow>
   length out + 2 * fuel \<le> 16 \<Longrightarrow> list_all (\<lambda>b. b < 256) out' \<and> length out' \<le> 16"
proof (induction fuel out ell s rule: v6_groups.induct)
  case (2 fuel out ell s)
  obtain off acc rest0 where run: "hex_run s 0 0 = (off, acc, rest0)" by (metis prod_cases3)
  have acc: "off \<le> 4 \<Longrightarrow> acc div 256 < 256" using hex_run_16bit [OF run] by auto
  show ?case
  proof (cases "rest0 \<noteq> [] \<and> hd rest0 = CHR ''.''")
    case True
    with run have "v6_groups (Suc fuel) out ell s =
        (if off = 0 \<or> 4 < off \<or> (ell = None \<and> length out \<noteq> 12) \<or> 16 < length out + 4 then None
         else map_option (\<lambda>v4. (out @ v4, ell, [])) (parse_v4_fields s))"
      by (simp split: option.split)
    with 2(3) obtain v4 where "parse_v4_fields s = Some v4" "out' = out @ v4" "length out + 4 \<le> 16"
      by (cases "parse_v4_fields s") (auto simp del: v6_groups.simps split: if_splits)
    with parse_v4_fields_Some 2(4) show ?thesis by auto
  next
    case False
    with 2 run acc show ?thesis
      by (auto simp: Let_def split: if_splits)
  qed
qed auto

lemma ParseIP_wf: "ParseIP s = Some ip \<Longrightarrow> wf_ip ip"
proof -
  assume parsed: "ParseIP s = Some ip"
  have v4: "wf_ip (v4_prefix @ v4)" if "parse_v4_fields s = Some v4" for v4
    using parse_v4_fields_Some [OF that] by (auto simp: wf_ip_def v4_prefix_def)
  have v6: "wf_ip ip" if p6: "parse_v6 s = Some ip"
  proof -
    let ?lead = "has_prefix s ''::''"
    let ?body = "if ?lead then drop 2 s else s"
    consider "ip = replicate 16 0"
      | out ell where "v6_groups 8 [] (if ?lead then Some 0 else None) ?body = Some (out, ell, [])"
          "ip = out \<and> \<not> length out < 16 \<or>
           (\<exists>e. ip = take e out @ replicate (16 - length out) 0 @ drop e out)"
      using p6 unfolding parse_v6_def
      by (auto simp: Let_def split: if_splits option.splits) blast+
    then show ?thesis
    proof cases
      case 1
      then show ?thesis by (simp add: wf_ip_def list_all_iff)
    next
      case 2
      from v6_groups_octets [OF 2(1)] have "list_all (\<lambda>b. b < 256) out" "length out \<le> 16"
        by auto
      with 2(2) show ?thesis
        by (auto simp: wf_ip_def list_all_iff) (meson in_set_takeD in_set_dropD)+
    qed
  qed
  show ?thesis
    using parsed v4 v6 by (auto simp: ParseIP_def split: option.splits if_splits)
qed

text \<open>The text of an IPv4 address is read back as the address.\<close>

lemma parse_octet_digits: "n < 256 \<Longrightarrow> parse_octet (nat_digits n) = Some n"
proof -
  assume n: "n < 256"
  have "hd (nat_digits m) \<noteq> CHR ''0'' \<or> m = 0" for m
  proof (induction m rule: nat_digits.induct)
    case (1 m)
    have "digit_char d = CHR ''0'' \<Longrightarrow> d = 0" if "d < 10" for d
      using digit_char_props [OF that] by (auto simp: digit_val_def)
    with 1 show ?case
      by (cases "m < 10") (auto simp: nat_digits.simps [of m])
  qed
  then have "\<not> (1 < length (nat_digits n) \<and> hd (nat_digits n) = CHR ''0'')"
    by (cases "n = 0") (auto simp: nat_digits.simps [of 0])
  with n show ?thesis by (simp add: parse_octet_def nat_digits_digits)
qed

lemma nat_digits_digit: "ch \<in> set (nat_digits n) \<Longrightarrow> is_digit ch"
  using nat_digits_digits [of n] by (auto simp: list_all_iff)

lemma parse_v4_fields_text:
  assumes "length v4 = 4" and "list_all (\<lambda>b. b < 256) v4"
  shows "parse_v4_fields (v4_text v4) = Some v4"
proof -
  obtain a b c d where v4: "v4 = [a, b, c, d]"
    using assms(1) by (auto simp: length_Suc_conv eval_nat_numeral)
  have "CHR ''.'' \<notin> set (nat_digits n)" for n
    using nat_digits_digit [of "CHR ''.''" n] by (auto simp: is_digit_def)
  then have "split_on CHR ''.'' (v4_text v4) = map nat_digits v4"
    unfolding v4_text_def using v4 by (intro split_on_join) auto
  then show ?thesis
    using assms(2) v4 by (simp add: parse_v4_fields_def parse_octet_digits)
qed

lemma ParseIP_v4_text:
  assumes "length v4 = 4" and "list_all (\<lambda>b. b < 256) v4"
  shows "ParseIP (v4_text v4) = Some (v4_prefix @ v4)"
proof -
  obtain a r where v4: "v4 = a # r" "r \<noteq> []"
    using assms(1) by (auto simp: length_Suc_conv eval_nat_numeral)
  let ?P = "\<lambda>ch. ch = CHR ''.'' \<or> ch = CHR '':'' \<or> ch = CHR 0x25"
  have "find ?P (nat_digits a) = None"
    using nat_digits_digit by (fastforce simp: find_None_iff is_digit_def)
  then have "find ?P (v4_text v4) = Some CHR ''.''"
    using v4 by (simp add: v4_text_def join_Cons find_append)
  then show ?thesis
    by (simp add: ParseIP_def parse_v4_fields_text [OF assms])
qed

lemma ParseIP_String_v4:
  assumes "wf_ip ip" and "To4 ip \<noteq> None"
  shows "ParseIP (IP_String ip) = Some ip"
proof -
  obtain v4 where v4: "To4 ip = Some v4" using assms(2) by auto
  then have "ip = v4_prefix @ v4" "v4 = drop 12 ip"
    by (auto simp: To4_def split: if_splits) (metis append_take_drop_id)
  moreover then have "length v4 = 4" "list_all (\<lambda>b. b < 256) v4"
    using assms(1) by (auto simp: wf_ip_def list_all_iff dest: in_set_dropD)
  ultimately show ?thesis
    using v4 ParseIP_v4_text by (simp add: IP_String_def)
qed

text \<open>The text of an address has neither blanks nor line ends.\<close>

lemma hex_digit_plain: "n < 16 \<Longrightarrow> plain_char (hex_digit n)"
proof -
  have "\<forall>n\<in>set [0..<16]. plain_char (hex_digit n)" by code_simp
  then show "n < 16 \<Longrightarrow> plain_char (hex_digit n)" by simp
qed

lemma nat_hex_plain: "list_all plain_char (nat_hex n) \<and> nat_hex n \<noteq> []"
proof (induction n rule: nat_hex.induct)
  case (1 n)
  then show ?case
    by (cases "n < 16") (simp_all add: nat_hex.simps [of n] hex_digit_plain)
qed

lemma join_plain:
  "list_all plain_char sep \<Longrightarrow> \<forall>w\<in>set ws. list_all plain_char w \<Longrightarrow> list_all plain_char (join sep ws)"
  by (induction sep ws rule: join.induct) auto

lemma IP_String_plain: "list_all plain_char (IP_String ip)"
proof -
  have sep: "plain_char CHR ''.''" "plain_char CHR '':''" by code_simp+
  have "list_all plain_char (v4_text v4)" for v4
    unfolding v4_text_def by (rule join_plain) (auto simp: sep nat_digits_plain)
  moreover have "list_all plain_char (v6_text ip)"
    unfolding v6_text_def Let_def
    by (auto simp: sep nat_hex_plain intro!: join_plain split: prod.split)
  ultimately show ?thesis by (simp add: IP_String_def split: option.split)
qed

end
