(* ===== verification/Probe.thy ===== *)
theory Probe
  imports Domain Go_Net
begin

text \<open>
  The TCP probe (src/internal/probe/tcp.go). The network is the argument \<open>dial\<close>: what the n-th
  attempt to reach an address yields for a node of the list, an error text or the time it took.
  The goroutines write disjoint elements of the result, so one function of the node models each
  of them, and the batch check runs on the whole list after they have all finished.
\<close>

section \<open>Definitions\<close>

record tcp_probe =
  ProbeTimeout :: duration
  MaxConcurrency :: int
  Samples :: int

type_synonym dialer = "nat \<Rightarrow> string \<Rightarrow> duration \<Rightarrow> nat \<Rightarrow> duration res"

definition minimumTrustedPublicLatencyMS :: int where "minimumTrustedPublicLatencyMS = 5"
definition batchAnomalyLatencyMS :: int where "batchAnomalyLatencyMS = 15"

text \<open>Integer division of Go, which truncates.\<close>

definition go_div :: "int \<Rightarrow> int \<Rightarrow> int" where
  "go_div a b = (if a < 0 then - ((- a) div b) else a div b)"

definition ceilMilliseconds :: "duration \<Rightarrow> int" where
  "ceilMilliseconds d = (if d \<le> 0 then 1 else go_div (wrap64 (d + 1000000 - 1)) 1000000)"

definition isPublicIP :: "string \<Rightarrow> bool" where
  "isPublicIP host =
     (case ParseIP host of
        None \<Rightarrow> False
      | Some ip \<Rightarrow> IsGlobalUnicast ip \<and> \<not> IsPrivate ip \<and> \<not> IsLoopback ip)"

definition suspiciousPublicLatency :: "string \<Rightarrow> int \<Rightarrow> bool" where
  "suspiciousPublicLatency host latencyMS =
     (case ParseIP host of
        None \<Rightarrow> False
      | Some ip \<Rightarrow> IsGlobalUnicast ip \<and> \<not> IsPrivate ip \<and> \<not> IsLoopback ip \<and>
          latencyMS < minimumTrustedPublicLatencyMS)"

text \<open>The loop over the samples: the latencies in order and the last error.\<close>

fun sampleLatencies :: "duration res list \<Rightarrow> int list \<Rightarrow> string option \<Rightarrow> int list \<times> string option" where
  "sampleLatencies [] latencies lastErr = (latencies, lastErr)"
| "sampleLatencies (Inl err # rs) latencies lastErr = sampleLatencies rs latencies (Some err)"
| "sampleLatencies (Inr elapsed # rs) latencies lastErr =
     sampleLatencies rs (latencies @ [ceilMilliseconds elapsed]) lastErr"

definition resetNode :: "time \<Rightarrow> int \<Rightarrow> vpn_node \<Rightarrow> vpn_node" where
  "resetNode now samples n =
     n\<lparr>LastCheckedAt := Some now, ProbeAttempts := samples, ProbeSuccesses := 0, LatencyMS := None,
       LatencySuspicious := False\<rparr>"

definition skipNode :: "vpn_node \<Rightarrow> vpn_node" where
  "skipNode n = n\<lparr>Status := NodeUnknown, ProbeAttempts := 0, LastError := msg_udp_not_probed\<rparr>"

definition unreachableNode :: "string option \<Rightarrow> vpn_node \<Rightarrow> vpn_node" where
  "unreachableNode lastErr n =
     n\<lparr>Status := NodeUnavailable,
       LastError := (case lastErr of Some err \<Rightarrow> err | None \<Rightarrow> msg_tcp_probe_failed)\<rparr>"

definition reachedNode :: "int \<Rightarrow> vpn_node \<Rightarrow> vpn_node" where
  "reachedNode median n =
     (let n = n\<lparr>LatencyMS := Some median, Status := NodeAvailable, LastError := ''''\<rparr>
      in if suspiciousPublicLatency (RemoteHost n) median
         then n\<lparr>LatencySuspicious := True, LastError := msg_latency_too_low\<rparr> else n)"

text \<open>The goroutine for one node.\<close>

definition probeNode ::
  "duration \<Rightarrow> int \<Rightarrow> time \<Rightarrow> (string \<Rightarrow> duration \<Rightarrow> nat \<Rightarrow> duration res) \<Rightarrow> vpn_node \<Rightarrow> vpn_node" where
  "probeNode timeout samples now dial n =
     (let n = resetNode now samples n
      in if \<not> equal_fold (Protocol n) ''tcp'' then skipNode n
         else
           let address = JoinHostPort (RemoteHost n) (itoa (RemotePort n));
               (latencies, lastErr) =
                 sampleLatencies (map (dial address timeout) [0..<nat samples]) [] None;
               n = n\<lparr>ProbeSuccesses := int (length latencies)\<rparr>
           in if latencies = [] then unreachableNode lastErr n
              else reachedNode (sort latencies ! (length latencies div 2)) n)"

definition measuredPublic :: "vpn_node \<Rightarrow> bool" where
  "measuredPublic n \<longleftrightarrow> LatencyMS n \<noteq> None \<and> isPublicIP (RemoteHost n)"

definition batchAnomaly :: "vpn_node list \<Rightarrow> bool" where
  "batchAnomaly nodes =
     (let seen = filter measuredPublic nodes;
          measured = int (length seen);
          implausiblyFast =
            int (length (filter (\<lambda>n. the (LatencyMS n) < batchAnomalyLatencyMS) seen));
          countries = remdups (filter (\<lambda>c. c \<noteq> '''') (map CountryCode seen))
      in \<not> (measured < 10 \<or> length countries < 2 \<or> implausiblyFast * 100 < measured * 60))"

definition distrustNode :: "vpn_node \<Rightarrow> vpn_node" where
  "distrustNode n =
     (if measuredPublic n then n\<lparr>LatencySuspicious := True, LastError := msg_batch_anomaly\<rparr> else n)"

definition markBatchLatencyAnomaly :: "vpn_node list \<Rightarrow> vpn_node list" where
  "markBatchLatencyAnomaly nodes = (if batchAnomaly nodes then map distrustNode nodes else nodes)"

definition probeSettings :: "tcp_probe \<Rightarrow> duration \<times> int \<times> int" where
  "probeSettings p =
     (if ProbeTimeout p \<le> 0 then 3 * 1000000000 else ProbeTimeout p,
      if MaxConcurrency p \<le> 0 then 32 else MaxConcurrency p,
      if Samples p \<le> 0 then 3 else Samples p)"

definition probeAll :: "tcp_probe \<Rightarrow> (nat \<Rightarrow> time) \<Rightarrow> dialer \<Rightarrow> vpn_node list \<Rightarrow> vpn_node list" where
  "probeAll p clock dial nodes =
     (let (timeout, limit, samples) = probeSettings p
      in map (\<lambda>i. probeNode timeout samples (clock i) (dial i) (nodes ! i)) [0..<length nodes])"

definition Probe :: "tcp_probe \<Rightarrow> (nat \<Rightarrow> time) \<Rightarrow> dialer \<Rightarrow> vpn_node list \<Rightarrow> vpn_node list" where
  "Probe p clock dial nodes = markBatchLatencyAnomaly (probeAll p clock dial nodes)"

section \<open>Probing one node\<close>

lemmas probe_step_defs = resetNode_def skipNode_def unreachableNode_def reachedNode_def distrustNode_def

lemma resetNode_simps [simp]:
  "Protocol (resetNode t k n) = Protocol n" "RemoteHost (resetNode t k n) = RemoteHost n"
  "RemotePort (resetNode t k n) = RemotePort n" "LatencyMS (resetNode t k n) = None"
  "LatencySuspicious (resetNode t k n) = False" "ProbeAttempts (resetNode t k n) = k"
  "ProbeSuccesses (resetNode t k n) = 0"
  by (simp_all add: resetNode_def)

lemma distrustNode_simps [simp]:
  "LatencyMS (distrustNode n) = LatencyMS n" "Status (distrustNode n) = Status n"
  "ProbeSuccesses (distrustNode n) = ProbeSuccesses n" "RemoteHost (distrustNode n) = RemoteHost n"
  "ProbeAttempts (distrustNode n) = ProbeAttempts n" "Protocol (distrustNode n) = Protocol n"
  "LatencySuspicious (distrustNode n) \<longleftrightarrow> LatencySuspicious n \<or> measuredPublic n"
  by (simp_all add: distrustNode_def)

lemma step_identity [node_simps]:
  "node_identity (resetNode t k n) = node_identity n"
  "node_identity (skipNode n) = node_identity n"
  "node_identity (unreachableNode e n) = node_identity n"
  "node_identity (reachedNode m n) = node_identity n"
  "node_identity (distrustNode n) = node_identity n"
  "node_identity (n\<lparr>ProbeSuccesses := i\<rparr>) = node_identity n"
  by (simp_all add: probe_step_defs node_identity_def Let_def)

lemma probeNode_identity [node_simps]:
  "node_identity (probeNode timeout samples now dial n) = node_identity n"
  by (simp add: probeNode_def Let_def node_simps split: prod.split)

lemma sampleLatencies_fst:
  "fst (sampleLatencies rs ls e) = ls @ [ceilMilliseconds d. Inr d \<leftarrow> rs]"
  by (induction rs ls e rule: sampleLatencies.induct) auto

text \<open>What the probe makes of one node, before the batch check.\<close>

definition probed :: "tcp_probe \<Rightarrow> time \<Rightarrow> dialer \<Rightarrow> nat \<Rightarrow> vpn_node \<Rightarrow> vpn_node" where
  "probed p now dial i n =
     probeNode (fst (probeSettings p)) (snd (snd (probeSettings p))) now (dial i) n"

definition distrustIf :: "bool \<Rightarrow> vpn_node \<Rightarrow> vpn_node" where
  "distrustIf b n = (if b then distrustNode n else n)"

lemma distrustIf_simps [simp]:
  "LatencyMS (distrustIf b n) = LatencyMS n" "Status (distrustIf b n) = Status n"
  "ProbeSuccesses (distrustIf b n) = ProbeSuccesses n" "RemoteHost (distrustIf b n) = RemoteHost n"
  "node_identity (distrustIf b n) = node_identity n"
  "LatencySuspicious (distrustIf b n) \<longleftrightarrow> LatencySuspicious n \<or> b \<and> measuredPublic n"
  by (simp_all add: distrustIf_def node_simps)

lemma probeAll_map:
  "probeAll p clock dial nodes = map (\<lambda>i. probed p (clock i) dial i (nodes ! i)) [0..<length nodes]"
  by (simp add: probeAll_def probed_def split: prod.split)

lemma Probe_map:
  "Probe p clock dial nodes =
     map (distrustIf (batchAnomaly (probeAll p clock dial nodes))) (probeAll p clock dial nodes)"
  by (simp add: Probe_def markBatchLatencyAnomaly_def distrustIf_def fun_eq_iff map_idI)

lemma Probe_nth:
  "i < length nodes \<Longrightarrow> Probe p clock dial nodes ! i =
     distrustIf (batchAnomaly (probeAll p clock dial nodes)) (probed p (clock i) dial i (nodes ! i))"
  by (simp add: Probe_map probeAll_map)

interpretation probe: node_pass "Probe p clock dial" for p clock dial
  by unfold_locales
    (auto simp: Probe_map probeAll_map probed_def node_simps intro: nth_equalityI)

section \<open>Medians\<close>

text \<open>The element in the middle of the sorted list is not below half of the list and not above the
  other half.\<close>

lemma sorted_median:
  fixes xs :: "int list"
  assumes "sorted xs" and "xs \<noteq> []"
  defines "m \<equiv> xs ! (length xs div 2)"
  shows "m \<in> set xs" and "length xs \<le> 2 * length (filter (\<lambda>x. x \<le> m) xs)"
    and "length xs \<le> 2 * length (filter (\<lambda>x. m \<le> x) xs)"
proof -
  let ?k = "length xs div 2"
  have k: "?k < length xs" using assms(2) by (cases xs) auto
  then show "m \<in> set xs" by (simp add: m_def)
  have "filter (\<lambda>x. x \<le> m) (take (Suc ?k) xs) = take (Suc ?k) xs"
    using assms(1) k by (auto simp: m_def filter_id_conv in_set_conv_nth sorted_iff_nth_mono)
  then have "Suc ?k \<le> length (filter (\<lambda>x. x \<le> m) (take (Suc ?k) xs @ drop (Suc ?k) xs))"
    using k unfolding filter_append by simp
  then show "length xs \<le> 2 * length (filter (\<lambda>x. x \<le> m) xs)" by simp
  have "filter (\<lambda>x. m \<le> x) (drop ?k xs) = drop ?k xs"
    using assms(1) k by (auto simp: m_def filter_id_conv in_set_conv_nth sorted_iff_nth_mono)
  then have "length xs - ?k \<le> length (filter (\<lambda>x. m \<le> x) (take ?k xs @ drop ?k xs))"
    unfolding filter_append by simp
  then show "length xs \<le> 2 * length (filter (\<lambda>x. m \<le> x) xs)" by simp
qed

lemma length_filter_sort [simp]:
  "length (filter P (sort xs)) = length (filter P (xs :: int list))"
  by (metis filter_sort length_sort)

section \<open>Properties\<close>

text \<open>The latencies that the successful attempts of a node give.\<close>

definition successes :: "tcp_probe \<Rightarrow> dialer \<Rightarrow> nat \<Rightarrow> vpn_node \<Rightarrow> int list" where
  "successes p dial i n =
     [ceilMilliseconds d.
       Inr d \<leftarrow> map (dial i (JoinHostPort (RemoteHost n) (itoa (RemotePort n))) (fst (probeSettings p)))
                  [0..<nat (snd (snd (probeSettings p)))]]"

lemma probeNode_latencies:
  fixes p dial i n now
  defines "ok \<equiv> successes p dial i n"
    and "r \<equiv> probed p now dial i n"
  assumes "equal_fold (Protocol n) ''tcp''"
  shows "ProbeSuccesses r = int (length ok)"
    and "LatencyMS r = (if ok = [] then None else Some (sort ok ! (length ok div 2)))"
    and "Status r = (if ok = [] then NodeUnavailable else NodeAvailable)"
    and "LatencySuspicious r \<longleftrightarrow>
      ok \<noteq> [] \<and> suspiciousPublicLatency (RemoteHost n) (sort ok ! (length ok div 2))"
proof -
  let ?rs = "map (dial i (JoinHostPort (RemoteHost n) (itoa (RemotePort n))) (fst (probeSettings p)))
    [0..<nat (snd (snd (probeSettings p)))]"
  have ok: "fst (sampleLatencies ?rs [] None) = ok"
    by (simp add: ok_def successes_def sampleLatencies_fst)
  obtain e where e: "sampleLatencies ?rs [] None = (ok, e)"
    using ok by (metis prod.collapse)
  have r: "r = (let m = (resetNode now (snd (snd (probeSettings p))) n)\<lparr>ProbeSuccesses := int (length ok)\<rparr>
      in if ok = [] then unreachableNode e m else reachedNode (sort ok ! (length ok div 2)) m)"
    using assms(3) unfolding r_def probed_def probeNode_def by (simp add: e Let_def)
  show "ProbeSuccesses r = int (length ok)"
    and "LatencyMS r = (if ok = [] then None else Some (sort ok ! (length ok div 2)))"
    and "Status r = (if ok = [] then NodeUnavailable else NodeAvailable)"
    and "LatencySuspicious r \<longleftrightarrow>
      ok \<noteq> [] \<and> suspiciousPublicLatency (RemoteHost n) (sort ok ! (length ok div 2))"
    by (simp_all add: r Let_def unreachableNode_def reachedNode_def)
qed
lemma probeNode_skipped:
  "\<not> equal_fold (Protocol n) ''tcp'' \<Longrightarrow> LatencyMS (probed p now dial i n) = None"
  by (simp add: probed_def probeNode_def skipNode_def Let_def)

text \<open>For a TCP node the probe counts the successful attempts; without any the node becomes
  unavailable and has no latency; otherwise it is available and its latency is a median of the
  measured ones: one of them, with at least half of them on either side.\<close>

theorem Probe_outcome:
  assumes "i < length nodes" and "equal_fold (Protocol (nodes ! i)) ''tcp''"
  shows "let r = Probe p clock dial nodes ! i; ok = successes p dial i (nodes ! i)
    in ProbeSuccesses r = int (length ok) \<and>
       (if ok = [] then Status r = NodeUnavailable \<and> LatencyMS r = None
        else Status r = NodeAvailable \<and>
          (\<exists>m. LatencyMS r = Some m \<and> m \<in> set ok \<and>
               length ok \<le> 2 * length (filter (\<lambda>x. x \<le> m) ok) \<and>
               length ok \<le> 2 * length (filter (\<lambda>x. m \<le> x) ok)))"
proof -
  let ?ok = "successes p dial i (nodes ! i)"
  have "?ok = [] \<longleftrightarrow> sort ?ok = []" by (metis length_0_conv length_sort)
  then show ?thesis
    using sorted_median [of "sort ?ok"]
    by (auto simp: Probe_nth [OF assms(1)] probeNode_latencies [OF assms(2)] Let_def)
qed

text \<open>A latency that the probe reports as trustworthy for a public address is at least the
  minimum, and is reported only when the batch as a whole shows no anomaly.\<close>

theorem Probe_trusted_latency:
  assumes "r \<in> set (Probe p clock dial nodes)" and "LatencyMS r = Some ms"
    and "isPublicIP (RemoteHost r)" and "\<not> LatencySuspicious r"
  shows "minimumTrustedPublicLatencyMS \<le> ms \<and> \<not> batchAnomaly (Probe p clock dial nodes)"
proof -
  let ?anomaly = "batchAnomaly (probeAll p clock dial nodes)"
  obtain i where i: "i < length nodes" "r = Probe p clock dial nodes ! i"
    using assms(1) probe.pass_length by (metis in_set_conv_nth)
  let ?n = "probed p (clock i) dial i (nodes ! i)"
  have r: "r = distrustIf ?anomaly ?n" by (simp add: i(2) Probe_nth [OF i(1)])
  have tcp: "equal_fold (Protocol (nodes ! i)) ''tcp''"
    using assms(2) r probeNode_skipped [of "nodes ! i" p "clock i" dial i] by auto
  have host: "RemoteHost (nodes ! i) = RemoteHost r"
    using probe.pass_nth [OF i(1)] i(2) by (metis node_identity_eq_iff)
  have "\<not> suspiciousPublicLatency (RemoteHost r) ms"
    using assms(2,4) r host by (auto simp: probeNode_latencies [OF tcp] split: if_splits)
  then have "minimumTrustedPublicLatencyMS \<le> ms"
    using assms(3) by (auto simp: suspiciousPublicLatency_def isPublicIP_def split: option.splits)
  moreover have "\<not> ?anomaly"
    using assms(2,3,4) r by (auto simp: measuredPublic_def)
  then have "\<not> batchAnomaly (Probe p clock dial nodes)"
    by (simp add: Probe_def markBatchLatencyAnomaly_def)
  ultimately show ?thesis by simp
qed

section \<open>Witnesses\<close>

definition probe_defaults :: tcp_probe where
  "probe_defaults = \<lparr>ProbeTimeout = 0, MaxConcurrency = 0, Samples = 0\<rparr>"

definition public_node :: vpn_node where
  "public_node = zero_node\<lparr>ID := ''JP_1'', RemoteHost := ''203.0.114.9'', RemotePort := 443,
     Protocol := ''tcp'', CountryCode := ''JP''\<rparr>"

text \<open>The first attempt fails, the second takes 31 milliseconds and the third 20.\<close>

definition some_network :: dialer where
  "some_network i address timeout k =
     (if k = 0 then Inl ''refused'' else if k = 1 then Inr 30500000 else Inr 20000000)"

theorem Probe_outcome_witness:
  "successes probe_defaults some_network 0 public_node = [31, 20] \<and>
   Status (Probe probe_defaults (\<lambda>_. 7) some_network [public_node] ! 0) = NodeAvailable"
proof -
  have ok: "successes probe_defaults some_network 0 public_node = [31, 20]"
    by code_simp
  have "equal_fold (Protocol ([public_node] ! 0)) ''tcp''"
    by code_simp
  from Probe_outcome [OF _ this, of probe_defaults "\<lambda>_. 7" some_network] ok show ?thesis
    by (simp add: Let_def)
qed

theorem Probe_trusted_latency_witness:
  "\<not> batchAnomaly (Probe probe_defaults (\<lambda>_. 7) some_network [public_node])"
proof -
  let ?r = "Probe probe_defaults (\<lambda>_. 7) some_network [public_node]"
  have "LatencyMS (hd ?r) = Some 31" "isPublicIP (RemoteHost (hd ?r))"
    "\<not> LatencySuspicious (hd ?r)" "hd ?r \<in> set ?r"
    by code_simp+
  with Probe_trusted_latency show ?thesis by blast
qed

end
