(* ===== verification/Go_Encoding.thy ===== *)
theory Go_Encoding
  imports Go_Strings
begin

text \<open>
  Packages encoding/base64 (the standard alphabet with padding, which the program uses for
  profiles and links) and encoding/csv (a reader with the default settings and records of any
  length). Decoding inverts encoding.
\<close>

section \<open>Base64\<close>

definition b64_alphabet :: string where
  "b64_alphabet =
     ''ABCDEFGHIJKLMNOPQRSTUVWXYZabcdefghijklmnopqrstuvwxyz0123456789+/''"

definition b64_char :: "nat \<Rightarrow> char" where
  "b64_char k = b64_alphabet ! k"

definition b64_index :: "char \<Rightarrow> nat option" where
  "b64_index c =
     (let n = of_char c :: nat
      in if 65 \<le> n \<and> n \<le> 90 then Some (n - 65)
         else if 97 \<le> n \<and> n \<le> 122 then Some (n - 71)
         else if 48 \<le> n \<and> n \<le> 57 then Some (n + 4)
         else if n = 43 then Some 62
         else if n = 47 then Some 63
         else None)"

text \<open>A group of three bytes is a number of four digits to the base 64.\<close>

definition b64_digits :: "nat \<Rightarrow> string" where
  "b64_digits n =
     [b64_char (n div 262144), b64_char (n div 4096 mod 64), b64_char (n div 64 mod 64),
      b64_char (n mod 64)]"

fun b64_encode :: "string \<Rightarrow> string" where
  "b64_encode [] = []"
| "b64_encode [a] = take 2 (b64_digits (of_char a * 65536)) @ ''==''"
| "b64_encode [a, b] = take 3 (b64_digits (of_char a * 65536 + of_char b * 256)) @ ''=''"
| "b64_encode (a # b # c # s) =
     b64_digits (of_char a * 65536 + of_char b * 256 + of_char c) @ b64_encode s"

definition b64_chars :: "nat \<Rightarrow> string" where
  "b64_chars n = [char_of (n div 65536), char_of (n div 256 mod 256), char_of (n mod 256)]"

definition b64_value :: "nat option \<Rightarrow> nat option \<Rightarrow> nat option \<Rightarrow> nat option \<Rightarrow> nat option" where
  "b64_value a b c d =
     (case (a, b, c, d) of
        (Some w, Some x, Some y, Some z) \<Rightarrow> Some (w * 262144 + x * 4096 + y * 64 + z)
      | _ \<Rightarrow> None)"

fun b64_decode_quanta :: "string \<Rightarrow> string option" where
  "b64_decode_quanta [] = Some []"
| "b64_decode_quanta (a # b # c # d # s) =
     (if d = CHR ''='' \<and> s = [] then
        (if c = CHR ''=''
         then map_option (\<lambda>n. take 1 (b64_chars n)) (b64_value (b64_index a) (b64_index b) (Some 0) (Some 0))
         else map_option (\<lambda>n. take 2 (b64_chars n)) (b64_value (b64_index a) (b64_index b) (b64_index c) (Some 0)))
      else
        case (b64_value (b64_index a) (b64_index b) (b64_index c) (b64_index d), b64_decode_quanta s) of
          (Some n, Some r) \<Rightarrow> Some (b64_chars n @ r)
        | _ \<Rightarrow> None)"
| "b64_decode_quanta _ = None"

text \<open>The decoder skips line ends wherever they stand.\<close>

definition b64_decode :: "string \<Rightarrow> string option" where
  "b64_decode s = b64_decode_quanta (filter (\<lambda>c. c \<noteq> CHR 0x0A \<and> c \<noteq> CHR 0x0D) s)"

section \<open>CSV\<close>

datatype csv_error = ErrBareQuote | ErrQuote

datatype csv_mode = RecordStart | FieldStart | Unquoted | Quoted | QuoteSeen

text \<open>The reader as a machine over the characters: \<open>f\<close> is the field being read, reversed; \<open>fs\<close> the
  fields of the record and \<open>rs\<close> the records, both latest first. Empty lines are skipped; a quoted
  field may span lines.\<close>

fun csv_go ::
  "csv_mode \<Rightarrow> string \<Rightarrow> string list \<Rightarrow> string list list \<Rightarrow> string \<Rightarrow> csv_error + string list list" where
  "csv_go m f fs rs [] =
     (case m of
        RecordStart \<Rightarrow> Inr (rev rs)
      | Quoted \<Rightarrow> Inl ErrQuote
      | _ \<Rightarrow> Inr (rev (rev (rev f # fs) # rs)))"
| "csv_go m f fs rs (c # s) =
     (case m of
        Quoted \<Rightarrow>
          if c = CHR 0x22 then csv_go QuoteSeen f fs rs s else csv_go Quoted (c # f) fs rs s
      | QuoteSeen \<Rightarrow>
          if c = CHR 0x22 then csv_go Quoted (c # f) fs rs s
          else if c = CHR '','' then csv_go FieldStart [] (rev f # fs) rs s
          else if c = CHR 0x0A then csv_go RecordStart [] [] (rev (rev f # fs) # rs) s
          else Inl ErrQuote
      | _ \<Rightarrow>
          if c = CHR 0x0A then
            (if m = RecordStart then csv_go RecordStart [] [] rs s
             else csv_go RecordStart [] [] (rev (rev f # fs) # rs) s)
          else if c = CHR '','' then csv_go FieldStart [] (rev f # fs) rs s
          else if c = CHR 0x22 then
            (if m = Unquoted then Inl ErrBareQuote else csv_go Quoted [] fs rs s)
          else csv_go Unquoted (c # f) fs rs s)"

definition csv_read_all :: "string \<Rightarrow> csv_error + string list list" where
  "csv_read_all s = csv_go RecordStart [] [] [] s"

section \<open>Laws\<close>

lemma b64_alphabet_index: "map b64_index b64_alphabet = map Some [0..<64]"
  by code_simp

lemma b64_alphabet_plain:
  "list_all (\<lambda>c. c \<notin> {CHR ''='', CHR 0x0A, CHR 0x0D} \<and> plain_char c) b64_alphabet"
  by code_simp

lemma b64_alphabet_length: "length b64_alphabet = 64"
  using arg_cong [OF b64_alphabet_index, of length] by simp

lemma b64_index_char:
  assumes "k < 64"
  shows "b64_index (b64_char k) = Some k"
proof -
  have "map b64_index b64_alphabet ! k = map Some [0..<64] ! k" by (simp only: b64_alphabet_index)
  then show ?thesis using assms by (simp add: b64_char_def b64_alphabet_length)
qed

lemma b64_char_plain:
  "k < 64 \<Longrightarrow> b64_char k \<notin> {CHR ''='', CHR 0x0A, CHR 0x0D} \<and> plain_char (b64_char k)"
  using b64_alphabet_plain by (simp add: b64_char_def list_all_length b64_alphabet_length)

lemma b64_recombine:
  fixes n :: nat
  shows "n div 262144 * 262144 + n div 4096 mod 64 * 4096 + n div 64 mod 64 * 64 + n mod 64 = n"
proof -
  have q: "n div 4096 = n div 64 div 64" "n div 262144 = n div 64 div 64 div 64"
    by (simp_all add: div_mult2_eq [symmetric])
  show ?thesis
    unfolding q using div_mult_mod_eq [of n 64] div_mult_mod_eq [of "n div 64" 64]
      div_mult_mod_eq [of "n div 64 div 64" 64] by linarith
qed

lemma b64_value_digits:
  assumes "n < 16777216"
  shows "b64_value (b64_index (b64_char (n div 262144))) (b64_index (b64_char (n div 4096 mod 64)))
      (b64_index (b64_char (n div 64 mod 64))) (b64_index (b64_char (n mod 64))) = Some n"
proof -
  have "n div 262144 < 64" using assms by (simp add: div_less_iff_less_mult)
  then show ?thesis
    by (simp add: b64_index_char b64_value_def b64_recombine)
qed

lemma b64_chars_of:
  "b64_chars (of_char a * 65536 + of_char b * 256 + of_char c) = [a, b, c]"
proof -
  let ?a = "of_char a :: nat" and ?b = "of_char b :: nat" and ?c = "of_char c :: nat"
  have bounds: "?a < 256" "?b < 256" "?c < 256" by (rule of_char_less_256)+
  then have low: "?b * 256 + ?c < 65536" by linarith
  have "(?a * 65536 + ?b * 256 + ?c) div 65536 = ?a"
    by (rule div_nat_eqI) (use low in auto)
  moreover have "(?a * 65536 + ?b * 256 + ?c) div 256 = ?a * 256 + ?b"
    by (rule div_nat_eqI) (use bounds in auto)
  moreover have "(?a * 65536 + ?b * 256 + ?c) mod 256 = ?c"
  proof -
    have "?a * 65536 + ?b * 256 + ?c = ?c + 256 * (?a * 256 + ?b)" by simp
    then show ?thesis using bounds by (simp only: mod_mult_self2) simp
  qed
  ultimately show ?thesis using bounds by (simp add: b64_chars_def)
qed

lemma b64_group_bound:
  "(of_char a * 65536 + of_char b * 256 + of_char c :: nat) < 16777216"
  using of_char_less_256 [of a] of_char_less_256 [of b] of_char_less_256 [of c] by linarith

lemma b64_decode_quanta_digits:
  assumes "n < 16777216" and "n = of_char a * 65536 + of_char b * 256 + of_char c"
    and "b64_decode_quanta s = Some r"
  shows "b64_decode_quanta (b64_digits n @ s) = Some ([a, b, c] @ r)"
proof -
  have "b64_char (n mod 64) \<noteq> CHR ''=''" using b64_char_plain [of "n mod 64"] by simp
  then show ?thesis
    using assms b64_chars_of [of a b c] by (simp add: b64_digits_def b64_value_digits)
qed

lemma b64_decode_quanta_encode: "b64_decode_quanta (b64_encode s) = Some s"
proof (induction s rule: b64_encode.induct)
  case 1
  then show ?case by simp
next
  case (2 a)
  let ?n = "of_char a * 65536 :: nat"
  have "?n = 64 * (64 * (of_char a * 16))" by simp
  then have n: "?n < 16777216" "?n div 64 mod 64 = 0" "?n mod 64 = 0"
    using of_char_less_256 [of a]
    by (linarith, simp_all only: mod_mult_self1_is_0 nonzero_mult_div_cancel_left zero_neq_numeral
        not_False_eq_True)
  have "b64_chars ?n = [a, CHR 0x00, CHR 0x00]"
    using b64_chars_of [of a "CHR 0x00" "CHR 0x00"] by simp
  then show ?case
    using b64_value_digits [OF n(1)] n b64_index_char [of 0] by (simp add: b64_digits_def)
next
  case (3 a b)
  let ?n = "of_char a * 65536 + of_char b * 256 :: nat"
  have "?n = 64 * (of_char a * 1024 + of_char b * 4)" by simp
  then have n: "?n mod 64 = 0" "?n < 16777216"
    using b64_group_bound [of a b "CHR 0x00"] by (simp_all only: mod_mult_self1_is_0)
  have "b64_chars ?n = [a, b, CHR 0x00]"
    using b64_chars_of [of a b "CHR 0x00"] by simp
  moreover have "b64_char (?n div 64 mod 64) \<noteq> CHR ''=''"
    using b64_char_plain [of "?n div 64 mod 64"] by simp
  ultimately show ?case
    using b64_value_digits [OF n(2)] n b64_index_char [of 0] by (simp add: b64_digits_def)
next
  case (4 a b c s)
  then show ?case
    using b64_decode_quanta_digits [OF b64_group_bound refl] by simp
qed

lemma b64_digits_clean:
  "n < 16777216 \<Longrightarrow> list_all (\<lambda>c. c \<noteq> CHR 0x0A \<and> c \<noteq> CHR 0x0D \<and> plain_char c) (b64_digits n)"
  using b64_char_plain [of "n div 262144"] b64_char_plain [of "n div 4096 mod 64"]
    b64_char_plain [of "n div 64 mod 64"] b64_char_plain [of "n mod 64"]
  by (simp add: b64_digits_def div_less_iff_less_mult)

lemma b64_encode_clean:
  "list_all (\<lambda>c. c \<noteq> CHR 0x0A \<and> c \<noteq> CHR 0x0D \<and> plain_char c) (b64_encode s)"
proof (induction s rule: b64_encode.induct)
  case (4 a b c s)
  then show ?case using b64_digits_clean [OF b64_group_bound] by simp
next
  case (2 a)
  then show ?case
    using b64_digits_clean [OF b64_group_bound [of a "CHR 0x00" "CHR 0x00"]]
    by (simp add: plain_char_def ascii_space_def b64_digits_def)
next
  case (3 a b)
  then show ?case
    using b64_digits_clean [OF b64_group_bound [of a b "CHR 0x00"]]
    by (simp add: plain_char_def ascii_space_def b64_digits_def)
qed simp

lemma b64_decode_encode: "b64_decode (b64_encode s) = Some s"
proof -
  have "filter (\<lambda>c. c \<noteq> CHR 0x0A \<and> c \<noteq> CHR 0x0D) (b64_encode s) = b64_encode s"
    using b64_encode_clean [of s] by (auto simp: filter_id_conv list_all_iff)
  then show ?thesis by (simp add: b64_decode_def b64_decode_quanta_encode)
qed

lemma b64_encode_nonempty: "s \<noteq> [] \<Longrightarrow> b64_encode s \<noteq> []"
  by (cases s rule: b64_encode.cases) (auto simp: b64_digits_def)

lemma b64_encode_length: "length (b64_encode s) mod 4 = 0"
  by (induction s rule: b64_encode.induct) (simp_all add: b64_digits_def)

end
