(* ===== verification/Vpngate.thy ===== *)
theory Vpngate
  imports Domain Go_Net Go_Encoding
begin

text \<open>
  The VPN Gate source (src/internal/source/vpngate.go): from the text of the API to the list of
  nodes. The HTTP exchange is the argument \<open>response\<close> of Fetch. Every node the parser accepts has
  a public address that is the address of its profile's remote, a port and protocol the rest of
  the program understands, and an identifier of safe characters that no other node of the list
  has.
\<close>

section \<open>Definitions\<close>

datatype fetch_error =
    RequestFailed string
  | HTTPStatus int
  | HeaderNotFound
  | CSVError csv_error
  | NoRows
  | MissingColumn string
  | NoSafeNodes

definition bom :: string where
  "bom = [CHR 0xEF, CHR 0xBB, CHR 0xBF]"

text \<open>The cutset of the two calls of strings.TrimLeft is the byte order mark and the blank.\<close>

definition bom_len :: "string \<Rightarrow> nat" where
  "bom_len s = (if has_prefix s bom then 3 else if has_prefix s '' '' then 1 else 0)"

definition headerText :: "string \<Rightarrow> string" where
  "headerText line = trim_prefix (strip_runes bom_len line) ''#''"

definition isHeader :: "string \<Rightarrow> bool" where
  "isHeader line \<longleftrightarrow> has_prefix (headerText line) ''HostName,''"

definition isData :: "string \<Rightarrow> bool" where
  "isData line \<longleftrightarrow>
     (let trimmed = trim_space line
      in trimmed \<noteq> '''' \<and> \<not> has_prefix trimmed ''*'' \<and> \<not> has_prefix trimmed ''#'')"

definition csvPayload :: "string \<Rightarrow> string" where
  "csvPayload text =
     (case dropWhile (\<lambda>line. \<not> isHeader line) (split_on CHR 0x0A (normalize_newlines text)) of
        [] \<Rightarrow> ''''
      | header # rest \<Rightarrow> join [CHR 0x0A] (headerText header # filter isData rest))"

definition decodeConfig :: "string \<Rightarrow> string option" where
  "decodeConfig encoded =
     (let compact = concat (str_fields encoded)
      in if compact = '''' then None
         else
           let rem = length compact mod 4;
               padded = (if rem \<noteq> 0 then compact @ replicate (4 - rem) CHR ''='' else compact)
           in map_option (\<lambda>raw. trim_prefix raw bom) (b64_decode padded))"

definition normalizeProtocol :: "string \<Rightarrow> string" where
  "normalizeProtocol value =
     (let value = to_lower (trim_space value)
      in if str_contains value ''tcp'' then ''tcp''
         else if str_contains value ''udp'' then ''udp''
         else ''unknown'')"

definition quotes :: "char set" where
  "quotes = {CHR 0x22, CHR 0x27}"

fun parseRemoteLines :: "string \<Rightarrow> string list \<Rightarrow> string \<times> int \<times> string" where
  "parseRemoteLines protocol [] = ('''', 0, protocol)"
| "parseRemoteLines protocol (rawLine # rest) =
     (let line = trim_space rawLine
      in if line = '''' \<or> has_prefix line ''#'' \<or> has_prefix line '';'' then parseRemoteLines protocol rest
         else case str_fields line of
             [] \<Rightarrow> parseRemoteLines protocol rest
           | f # args \<Rightarrow>
               let name = trim_prefix (to_lower f) ''--'';
                   protocol = (if name = ''proto'' \<and> args \<noteq> [] then normalizeProtocol (args ! 0) else protocol)
               in if name = ''remote'' \<and> 2 \<le> length args then
                    (trim_set quotes (args ! 0), atoi_value (args ! 1),
                     if 3 \<le> length args then normalizeProtocol (args ! 2) else protocol)
                  else parseRemoteLines protocol rest)"

definition parseRemote :: "string \<Rightarrow> string \<times> int \<times> string" where
  "parseRemote configText = parseRemoteLines ''unknown'' (split_on CHR 0x0A configText)"

definition safeInt :: "string \<Rightarrow> int" where
  "safeInt value = (case atoi (trim_space value) of Some n \<Rightarrow> n | None \<Rightarrow> 0)"

definition isPrivateOrLoopback :: "ip \<Rightarrow> bool" where
  "isPrivateOrLoopback ip \<longleftrightarrow> IsLoopback ip \<or> IsPrivate ip \<or> IsUnspecified ip"

text \<open>The character class of the expression unsafeID, and the replacement of each maximal run of
  other characters by one underscore.\<close>

definition safeIDChar :: "char \<Rightarrow> bool" where
  "safeIDChar c \<longleftrightarrow>
     (let n = of_char c :: nat
      in (65 \<le> n \<and> n \<le> 90) \<or> (97 \<le> n \<and> n \<le> 122) \<or> (48 \<le> n \<and> n \<le> 57) \<or>
         c = CHR ''_'' \<or> c = CHR ''.'' \<or> c = CHR ''-'')"

fun replaceUnsafe :: "bool \<Rightarrow> string \<Rightarrow> string" where
  "replaceUnsafe inRun [] = []"
| "replaceUnsafe inRun (c # s) =
     (if safeIDChar c then c # replaceUnsafe False s
      else if inRun then replaceUnsafe True s
      else CHR ''_'' # replaceUnsafe True s)"

type_synonym column_index = "string \<rightharpoonup> nat"

definition rowValue :: "string list \<Rightarrow> column_index \<Rightarrow> string \<Rightarrow> string" where
  "rowValue row index name =
     (case index name of
        None \<Rightarrow> ''''
      | Some i \<Rightarrow> if length row \<le> i then '''' else trim_space (row ! i))"

definition newNode :: "(string \<Rightarrow> string) \<Rightarrow> ip \<Rightarrow> ip \<Rightarrow> int \<Rightarrow> string \<Rightarrow> string \<Rightarrow> vpn_node" where
  "newNode value publicIP remoteIP remotePort protocol decoded =
     (let cc = to_upper (value ''CountryShort'');
          countryCode = (if cc = '''' then ''XX'' else cc);
          nodeID = replaceUnsafe False (countryCode @ ''_'' @ IP_String publicIP @ ''_'' @
                     itoa remotePort @ ''_'' @ protocol)
      in zero_node\<lparr>ID := trim_set {CHR ''_''} nodeID, IP := IP_String publicIP,
           RemoteHost := IP_String remoteIP, RemotePort := remotePort, Protocol := protocol,
           CountryCode := countryCode, Country := value ''CountryLong'',
           Score := safeInt (value ''Score''), AdvertisedPingMS := safeInt (value ''Ping''),
           SpeedBPS := safeInt (value ''Speed''), Sessions := safeInt (value ''NumVpnSessions''),
           PurityGrade := PurityCandidate, Status := NodeUnknown, OpenVPNConfig := decoded\<rparr>)"

definition rowToNode :: "string list \<Rightarrow> column_index \<Rightarrow> vpn_node option" where
  "rowToNode row index =
     (let value = rowValue row index
      in case ParseIP (value ''IP'') of
          None \<Rightarrow> None
        | Some publicIP \<Rightarrow>
            if \<not> IsGlobalUnicast publicIP \<or> isPrivateOrLoopback publicIP then None
            else case decodeConfig (value ''OpenVPN_ConfigData_Base64'') of
                None \<Rightarrow> None
              | Some decoded \<Rightarrow>
                  (case parseRemote decoded of
                     (remoteHost, remotePort, protocol) \<Rightarrow>
                       (case ParseIP remoteHost of
                          None \<Rightarrow> None
                        | Some remoteIP \<Rightarrow>
                            if remoteIP \<noteq> publicIP \<or> remotePort < 1 \<or> 65535 < remotePort then None
                            else if protocol \<noteq> ''tcp'' \<and> protocol \<noteq> ''udp'' then None
                            else Some (newNode value publicIP remoteIP remotePort protocol decoded))))"

definition headerIndex :: "string list \<Rightarrow> column_index" where
  "headerIndex header =
     fold (\<lambda>(i, name) index. index(trim_prefix (trim_space name) ''#'' \<mapsto> i)) (enumerate 0 header)
       Map.empty"

fun collectNodes :: "string list \<Rightarrow> column_index \<Rightarrow> string list list \<Rightarrow> vpn_node list" where
  "collectNodes seen index [] = []"
| "collectNodes seen index (row # rows) =
     (case rowToNode row index of
        None \<Rightarrow> collectNodes seen index rows
      | Some node \<Rightarrow>
          if ID node \<in> set seen then collectNodes seen index rows
          else node # collectNodes (ID node # seen) index rows)"

definition ParseVPNGateCSV :: "string \<Rightarrow> fetch_error + vpn_node list" where
  "ParseVPNGateCSV text =
     (let payload = csvPayload text
      in if payload = '''' then Inl HeaderNotFound
         else case csv_read_all payload of
             Inl err \<Rightarrow> Inl (CSVError err)
           | Inr rows \<Rightarrow>
               (case rows of
                  header # row # rest \<Rightarrow>
                    let index = headerIndex header
                    in case find (\<lambda>name. index name = None) [''IP'', ''OpenVPN_ConfigData_Base64''] of
                        Some name \<Rightarrow> Inl (MissingColumn name)
                      | None \<Rightarrow>
                          let nodes = collectNodes [] index (row # rest)
                          in if nodes = [] then Inl NoSafeNodes else Inr nodes
                | _ \<Rightarrow> Inl NoRows))"

text \<open>The HTTP exchange: a transport error, or the status and the body.\<close>

record vpngate_source =
  APIURL :: string
  MaxNodes :: int

definition Fetch ::
  "vpngate_source \<Rightarrow> (string \<Rightarrow> (int \<times> string) res) \<Rightarrow> fetch_error + vpn_node list" where
  "Fetch s response =
     (case response (APIURL s) of
        Inl err \<Rightarrow> Inl (RequestFailed err)
      | Inr (statusCode, body) \<Rightarrow>
          if statusCode < 200 \<or> 300 \<le> statusCode then Inl (HTTPStatus statusCode)
          else case ParseVPNGateCSV body of
              Inl err \<Rightarrow> Inl err
            | Inr nodes \<Rightarrow>
                if 0 < MaxNodes s \<and> MaxNodes s < int (length nodes) then Inr (take (nat (MaxNodes s)) nodes)
                else Inr nodes)"

text \<open>The texts of the errors; that of a CSV error carries a position and is an argument.\<close>

fun fetchErrorText :: "(csv_error \<Rightarrow> string) \<Rightarrow> fetch_error \<Rightarrow> string" where
  "fetchErrorText csvText (RequestFailed err) = err"
| "fetchErrorText csvText (HTTPStatus code) = ''vpngate returned HTTP '' @ itoa code"
| "fetchErrorText csvText HeaderNotFound = ''vpngate CSV header not found''"
| "fetchErrorText csvText (CSVError err) = csvText err"
| "fetchErrorText csvText NoRows = ''vpngate CSV has no rows''"
| "fetchErrorText csvText (MissingColumn name) = ''vpngate CSV missing '' @ name"
| "fetchErrorText csvText NoSafeNodes = ''vpngate CSV contains no safe public OpenVPN nodes''"

section \<open>Identifiers\<close>

lemma safeIDChar_underscore: "safeIDChar CHR ''_''"
  by code_simp

lemma replaceUnsafe_safe: "list_all safeIDChar (replaceUnsafe b s)"
  by (induction b s rule: replaceUnsafe.induct) (auto simp: safeIDChar_underscore)

lemma replaceUnsafe_keeps: "c \<in> set s \<Longrightarrow> safeIDChar c \<Longrightarrow> c \<in> set (replaceUnsafe b s)"
  by (induction b s rule: replaceUnsafe.induct) auto

lemma trim_set_members:
  assumes "c \<in> set s" and "c \<notin> cs"
  shows "c \<in> set (trim_set cs s)"
proof -
  have keep: "c \<in> set (dropWhile (\<lambda>x. x \<in> cs) xs)" if "c \<in> set xs" for xs
    using that assms(2) by (induction xs) auto
  show ?thesis
    using keep [of s] keep [of "rev (dropWhile (\<lambda>x. x \<in> cs) s)"] assms(1)
    by (simp add: trim_set_def trim_left_set_def trim_right_set_def keep)
qed

lemma set_trim_set: "set (trim_set cs s) \<subseteq> set s"
  by (auto simp: trim_set_def trim_left_set_def trim_right_set_def dest!: set_dropWhileD)

lemma digit_safeIDChar: "is_digit c \<Longrightarrow> safeIDChar c \<and> c \<noteq> CHR ''_''"
  by (auto simp: is_digit_def safeIDChar_def Let_def)

section \<open>Accepted nodes\<close>

text \<open>What the rest of the program relies on for a node of the source.\<close>

definition safe_node :: "vpn_node \<Rightarrow> bool" where
  "safe_node n \<longleftrightarrow>
     (\<exists>ip. wf_ip ip \<and> IP n = IP_String ip \<and> RemoteHost n = IP n \<and>
        IsGlobalUnicast ip \<and> \<not> IsPrivate ip \<and> \<not> IsLoopback ip \<and>
        ParseIP (fst (parseRemote (OpenVPNConfig n))) = Some ip) \<and>
     snd (parseRemote (OpenVPNConfig n)) = (RemotePort n, Protocol n) \<and>
     1 \<le> RemotePort n \<and> RemotePort n \<le> 65535 \<and> (Protocol n = ''tcp'' \<or> Protocol n = ''udp'') \<and>
     ID n \<noteq> '''' \<and> list_all safeIDChar (ID n) \<and>
     PurityGrade n = PurityCandidate \<and> Status n = NodeUnknown \<and> CooldownUntil n = None"

lemma newNode_simps [simp]:
  "IP (newNode v p r port proto d) = IP_String p"
  "RemoteHost (newNode v p r port proto d) = IP_String r"
  "RemotePort (newNode v p r port proto d) = port"
  "Protocol (newNode v p r port proto d) = proto"
  "OpenVPNConfig (newNode v p r port proto d) = d"
  "PurityGrade (newNode v p r port proto d) = PurityCandidate"
  "Status (newNode v p r port proto d) = NodeUnknown"
  "CooldownUntil (newNode v p r port proto d) = None"
  by (simp_all add: newNode_def zero_node_def Let_def)

lemma newNode_ID:
  assumes "0 \<le> port"
  shows "ID (newNode v p r port proto d) \<noteq> '''' \<and> list_all safeIDChar (ID (newNode v p r port proto d))"
proof -
  define s where "s = (let cc = to_upper (v ''CountryShort'') in if cc = '''' then ''XX'' else cc) @ ''_'' @
    IP_String p @ ''_'' @ itoa port @ ''_'' @ proto"
  have nodeID: "ID (newNode v p r port proto d) = trim_set {CHR ''_''} (replaceUnsafe False s)"
    by (simp add: newNode_def s_def Let_def)
  obtain c where "c \<in> set (itoa port)" "is_digit c"
    using assms nat_digits_digits [of "nat port"]
    by (auto simp: itoa_def list_all_iff) (metis list.set_sel(1) nat_digits_nonempty)
  then have "c \<in> set (trim_set {CHR ''_''} (replaceUnsafe False s))"
    by (intro trim_set_members replaceUnsafe_keeps) (auto simp: s_def digit_safeIDChar)
  then show ?thesis
    using nodeID set_trim_set [of "{CHR ''_''}" "replaceUnsafe False s"]
      replaceUnsafe_safe [of False s] by (auto simp: list_all_iff)
qed

lemma rowToNode_safe: "rowToNode row index = Some n \<Longrightarrow> safe_node n"
proof -
  assume "rowToNode row index = Some n"
  then obtain ip d port proto host where
    ip: "ParseIP (rowValue row index ''IP'') = Some ip" "IsGlobalUnicast ip" "\<not> isPrivateOrLoopback ip"
    and remote: "parseRemote d = (host, port, proto)" "ParseIP host = Some ip"
    and range: "1 \<le> port" "port \<le> 65535" "proto = ''tcp'' \<or> proto = ''udp''"
    and n: "n = newNode (rowValue row index) ip ip port proto d"
    unfolding rowToNode_def Let_def by (auto split: option.splits if_splits prod.splits)
  moreover have "ID n \<noteq> '''' \<and> list_all safeIDChar (ID n)"
    unfolding n by (rule newNode_ID) (use range in simp)
  moreover have "wf_ip ip" by (rule ParseIP_wf [OF ip(1)])
  ultimately show "safe_node n"
    unfolding safe_node_def by (auto simp: isPrivateOrLoopback_def)
qed

lemma collectNodes_sound:
  "distinct (map ID (collectNodes seen index rows)) \<and>
   set (map ID (collectNodes seen index rows)) \<inter> set seen = {} \<and>
   (\<forall>n\<in>set (collectNodes seen index rows). safe_node n)"
proof (induction seen index rows rule: collectNodes.induct)
  case (2 seen index row rows)
  show ?case
  proof (cases "rowToNode row index")
    case None
    with 2(1) show ?thesis by simp
  next
    case (Some n)
    show ?thesis
    proof (cases "ID n \<in> set seen")
      case True
      with 2(2) Some show ?thesis by simp
    next
      case False
      with 2(3) Some rowToNode_safe [OF Some] show ?thesis by auto
    qed
  qed
qed simp

lemma ParseVPNGateCSV_sound:
  assumes "ParseVPNGateCSV text = Inr nodes"
  shows "nodes \<noteq> [] \<and> distinct (map ID nodes) \<and> (\<forall>n\<in>set nodes. safe_node n)"
proof -
  obtain index rows where "nodes = collectNodes [] index rows" "nodes \<noteq> []"
    using assms unfolding ParseVPNGateCSV_def Let_def
    by (auto simp del: collectNodes.simps split: if_splits sum.splits list.splits option.splits)
  then show ?thesis using collectNodes_sound by auto
qed

lemma safe_node_v4:
  assumes "safe_node n" and "ParseIP (fst (parseRemote (OpenVPNConfig n))) = Some ip" and "To4 ip \<noteq> None"
  shows "ParseIP (RemoteHost n) = Some ip"
  using assms ParseIP_String_v4 [of ip] by (auto simp: safe_node_def)

section \<open>Properties\<close>

text \<open>C28: whatever the server answers, a successful fetch yields a non-empty list of nodes with
  distinct, safe identifiers, each with a public address equal to that of its profile's remote,
  and at most as many nodes as configured.\<close>

theorem Fetch_sound:
  assumes "Fetch s response = Inr nodes"
  shows "nodes \<noteq> [] \<and> distinct (map ID nodes) \<and> (\<forall>n\<in>set nodes. safe_node n) \<and>
    (0 < MaxNodes s \<longrightarrow> int (length nodes) \<le> MaxNodes s)"
proof -
  obtain all where all: "nodes \<noteq> [] \<and> distinct (map ID all) \<and> (\<forall>n\<in>set all. safe_node n)"
    and nodes: "nodes = all \<and> \<not> (0 < MaxNodes s \<and> MaxNodes s < int (length all)) \<or>
      nodes = take (nat (MaxNodes s)) all \<and> 0 < MaxNodes s"
  proof -
    obtain code body where r: "response (APIURL s) = Inr (code, body)" "\<not> (code < 200 \<or> 300 \<le> code)"
      using assms by (auto simp: Fetch_def split: sum.splits prod.splits if_splits)
    then obtain all where all: "ParseVPNGateCSV body = Inr all"
      and n: "nodes = (if 0 < MaxNodes s \<and> MaxNodes s < int (length all) then take (nat (MaxNodes s)) all else all)"
      using assms by (auto simp: Fetch_def split: sum.splits if_splits)
    show ?thesis
      by (rule that [of all]) (use ParseVPNGateCSV_sound [OF all] n in \<open>auto split: if_splits\<close>)
  qed
  then have "set nodes \<subseteq> set all" "distinct (map ID nodes)"
    by (auto simp: take_map [symmetric] dest: in_set_takeD)
  then show ?thesis using all nodes by auto
qed

text \<open>A profile that is encoded in standard base 64 is decoded to itself, without a byte order
  mark it may start with.\<close>

theorem decodeConfig_encoded:
  assumes "t \<noteq> ''''"
  shows "decodeConfig (b64_encode t) = Some (trim_prefix t bom)"
proof -
  have "list_all plain_char (b64_encode t)"
    using b64_encode_clean [of t] by (simp add: list_all_iff)
  then have "str_fields (b64_encode t) = [b64_encode t]"
    using b64_encode_nonempty [OF assms] by (intro str_fields_single)
  then show ?thesis
    using b64_encode_nonempty [OF assms] b64_encode_length [of t]
    by (simp add: decodeConfig_def b64_decode_encode Let_def)
qed

section \<open>Witnesses\<close>

definition sample_csv :: string where
  "sample_csv = join [CHR 0x0D, CHR 0x0A]
     [''*vpn_servers'',
      ''#HostName,IP,Score,Ping,Speed,CountryLong,CountryShort,NumVpnSessions,OpenVPN_ConfigData_Base64'',
      ''vpn1,1.2.3.4,100,20,3000,Japan,jp,5,'' @ b64_encode (''proto tcp'' @ [CHR 0x0A] @ ''remote 1.2.3.4 443''),
      ''*'', '''']"

lemma sample_csv_nodes:
  "case Fetch \<lparr>APIURL = ''u'', MaxNodes = 5\<rparr> (\<lambda>_. Inr (200, sample_csv)) of
     Inl _ \<Rightarrow> False | Inr nodes \<Rightarrow> map ID nodes = [''JP_1.2.3.4_443_tcp'']"
  by code_simp

theorem Fetch_sound_witness:
  "\<exists>nodes. Fetch \<lparr>APIURL = ''u'', MaxNodes = 5\<rparr> (\<lambda>_. Inr (200, sample_csv)) = Inr nodes \<and>
     distinct (map ID nodes) \<and> map ID nodes = [''JP_1.2.3.4_443_tcp'']"
  using sample_csv_nodes Fetch_sound by (auto split: sum.splits)

theorem decodeConfig_encoded_witness:
  "decodeConfig (b64_encode ''client'') = Some (trim_prefix ''client'' bom)"
  by (rule decodeConfig_encoded) simp

end
