(* ===== verification/Residential.thy ===== *)
theory Residential
  imports Domain
begin

text \<open>
  The residential classifier (src/internal/classify/residential.go). The lookup service is the
  argument \<open>post\<close>: what the k-th batch request yields, an error of the exchange or a status with
  the decoded records or the decoding error. The grade of a node is decided by the record of its
  address: evidence against it outweighs evidence for it.
\<close>

section \<open>Definitions\<close>

definition ipAPIBatchSize :: nat where "ipAPIBatchSize = 100"

definition allowKeywords :: "string list" where
  "allowKeywords =
     [''ais fibre'', ''ais-fibre'', ''biglobe'', ''cable'', ''chubu telecommunications'', ''cnci'',
      ''comcast'', ''community network center'', ''fios'', ''frontier'', ''k-opticom'', ''kddi'',
      ''korea telecom'', ''kornet'', ''lg powercomm'', ''ntt'', ''open computer network'', ''optage'',
      ''qtnet'', ''residential'', ''rostelecom'', ''sk broadband'', ''softbank'', ''sony network'',
      ''telecom'', ''verizon'', ''xfinity'', ''xpeed'']"

definition denyKeywords :: "string list" where
  "denyKeywords =
     [''backbone'', ''cloud'', ''colo'', ''colocation'', ''data center'', ''datacenter'', ''digitalocean'',
      ''hosting'', ''internet initiative japan'', ''leaseweb'', ''linode'', ''proxy'', ''server'',
      ''servers'', ''transit'', ''vps'', ''vpn'', ''amazon'', ''aws'', ''azure'', ''google cloud'',
      ''microsoft'', ''oracle'', ''ovh'', ''hetzner'']"

record ip_api_record =
  RecStatus :: string
  RecMessage :: string
  Query :: string
  RecCountry :: string
  RecCountryCode :: string
  RecCity :: string
  RecISP :: string
  Org :: string
  AS :: string
  ASName :: string
  Proxy :: bool
  Hosting :: bool
  Mobile :: bool

definition containsAny :: "string \<Rightarrow> string list \<Rightarrow> bool" where
  "containsAny value keywords = list_ex (\<lambda>keyword. str_contains value keyword) keywords"

definition compact_text :: "string \<Rightarrow> string" where
  "compact_text value =
     (let value = join '' '' (str_fields value)
      in if 180 < length value then take 180 value @ ''...'' else value)"

definition valueOr :: "string \<Rightarrow> string \<Rightarrow> string" where
  "valueOr value fallback = (if trim_space value = '''' then fallback else value)"

definition addEvidence :: "bool \<Rightarrow> string \<Rightarrow> time \<Rightarrow> vpn_node \<Rightarrow> vpn_node" where
  "addEvidence passed summary now n =
     n\<lparr>Evidence := Evidence n @
       [\<lparr>Provider = ''ip-api'', Passed = passed, Summary = summary, CheckedAt = now\<rparr>]\<rparr>"

definition gradeNode :: "purity_grade \<Rightarrow> int \<Rightarrow> vpn_node \<Rightarrow> vpn_node" where
  "gradeNode grade score n = n\<lparr>PurityGrade := grade, PurityScore := score\<rparr>"

definition locateNode :: "ip_api_record \<Rightarrow> vpn_node \<Rightarrow> vpn_node" where
  "locateNode record n =
     n\<lparr>Country := valueOr (RecCountry record) (Country n),
       CountryCode := valueOr (RecCountryCode record) (CountryCode n),
       City := valueOr (RecCity record) (City n), ISP := valueOr (RecISP record) (ISP n),
       ASN := valueOr (AS record) (ASN n)\<rparr>"

definition recordIdentity :: "ip_api_record \<Rightarrow> string \<Rightarrow> string" where
  "recordIdentity record reverseDNS =
     to_lower (join '' '' [RecISP record, Org record, AS record, ASName record, reverseDNS])"

definition isDenied :: "ip_api_record \<Rightarrow> string \<Rightarrow> bool" where
  "isDenied record identity \<longleftrightarrow>
     Proxy record \<or> Hosting record \<or> Mobile record \<or> containsAny identity denyKeywords"

text \<open>The body of the loop of Classify for a node whose record was returned.\<close>

definition judgeNode :: "time \<Rightarrow> ip_api_record \<Rightarrow> vpn_node \<Rightarrow> vpn_node" where
  "judgeNode now record n =
     (let n = locateNode record n;
          identity = recordIdentity record (ReverseDNS n)
      in if isDenied record identity then
           addEvidence False
             (msg_denied_proxy @ show_bool (Proxy record) @ '' hosting='' @ show_bool (Hosting record) @
              '' mobile='' @ show_bool (Mobile record) @ '' identity='' @ compact_text identity) now
             (gradeNode PurityRejected 0 n)
         else if containsAny identity allowKeywords then
           addEvidence True (msg_home_evidence @ compact_text identity) now
             (gradeNode PurityStrictHome 90 n)
         else
           addEvidence False (msg_no_home_evidence @ compact_text identity) now
             (gradeNode PurityCandidate 40 n))"

definition unjudgedNode :: "time \<Rightarrow> vpn_node \<Rightarrow> vpn_node" where
  "unjudgedNode now n =
     addEvidence False msg_no_classification now (n\<lparr>PurityGrade := PurityCandidate\<rparr>)"

definition unavailableNode :: "string \<Rightarrow> time \<Rightarrow> vpn_node \<Rightarrow> vpn_node" where
  "unavailableNode err now n =
     (let n = addEvidence False (msg_classifier_down @ err) now n
      in if PurityGrade n = '''' then n\<lparr>PurityGrade := PurityCandidate\<rparr> else n)"

text \<open>The map byIP: a later record overwrites an earlier one.\<close>

definition recordsByIP :: "ip_api_record list \<Rightarrow> (string \<rightharpoonup> ip_api_record)" where
  "recordsByIP records = foldl (\<lambda>m r. m(Query r \<mapsto> r)) Map.empty records"

definition classifyNode :: "time \<Rightarrow> ip_api_record list \<Rightarrow> vpn_node \<Rightarrow> vpn_node" where
  "classifyNode now records n =
     (case recordsByIP records (IP n) of
        None \<Rightarrow> unjudgedNode now n
      | Some record \<Rightarrow>
          if RecStatus record \<noteq> ''success'' then unjudgedNode now n else judgeNode now record n)"

type_synonym batch_service = "nat \<Rightarrow> string list \<Rightarrow> (int \<times> ip_api_record list res) res"

definition fetchIPAPIBatch ::
  "batch_service \<Rightarrow> nat \<Rightarrow> string list \<Rightarrow> ip_api_record list res" where
  "fetchIPAPIBatch post k ips =
     (case post k ips of
        Inl err \<Rightarrow> Inl err
      | Inr (statusCode, decoded) \<Rightarrow>
          if statusCode < 200 \<or> 300 \<le> statusCode then Inl (''ip-api returned HTTP '' @ itoa statusCode)
          else decoded)"

fun uniqueIPs :: "string list \<Rightarrow> vpn_node list \<Rightarrow> string list" where
  "uniqueIPs seen [] = []"
| "uniqueIPs seen (n # ns) =
     (if IP n \<in> set seen then uniqueIPs seen ns else IP n # uniqueIPs (IP n # seen) ns)"

function fetchBatches ::
  "batch_service \<Rightarrow> nat \<Rightarrow> string list \<Rightarrow> ip_api_record list \<Rightarrow> ip_api_record list res" where
  "fetchBatches post k ips records =
     (if ips = [] then Inr records
      else case fetchIPAPIBatch post k (take ipAPIBatchSize ips) of
          Inl err \<Rightarrow> Inl err
        | Inr batch \<Rightarrow> fetchBatches post (Suc k) (drop ipAPIBatchSize ips) (records @ batch))"
  by pat_completeness auto
termination
  by (relation "measure (\<lambda>(post, k, ips, records). length ips)")
    (auto simp: ipAPIBatchSize_def)

declare fetchBatches.simps [simp del]

definition fetchIPAPI :: "batch_service \<Rightarrow> vpn_node list \<Rightarrow> ip_api_record list res" where
  "fetchIPAPI post nodes = fetchBatches post 0 (uniqueIPs [] nodes) []"

definition Classify :: "batch_service \<Rightarrow> time \<Rightarrow> vpn_node list \<Rightarrow> vpn_node list" where
  "Classify post now nodes =
     (if nodes = [] then nodes
      else case fetchIPAPI post nodes of
          Inl err \<Rightarrow> map (unavailableNode err now) nodes
        | Inr records \<Rightarrow> map (classifyNode now records) nodes)"

section \<open>Passes\<close>

lemma addEvidence_simps [simp]:
  "node_identity (addEvidence p s t n) = node_identity n"
  "PurityGrade (addEvidence p s t n) = PurityGrade n"
  "PurityScore (addEvidence p s t n) = PurityScore n"
  "length (Evidence (addEvidence p s t n)) = Suc (length (Evidence n))"
  by (simp_all add: addEvidence_def node_identity_def)

lemma gradeNode_simps [simp]:
  "node_identity (gradeNode g s n) = node_identity n"
  "PurityGrade (gradeNode g s n) = g" "PurityScore (gradeNode g s n) = s"
  "Evidence (gradeNode g s n) = Evidence n"
  by (simp_all add: gradeNode_def node_identity_def)

lemma locateNode_simps [simp]:
  "node_identity (locateNode r n) = node_identity n"
  "ReverseDNS (locateNode r n) = ReverseDNS n" "Evidence (locateNode r n) = Evidence n"
  by (simp_all add: locateNode_def node_identity_def)

lemma classify_step_identity [node_simps]:
  "node_identity (judgeNode t r n) = node_identity n"
  "node_identity (unjudgedNode t n) = node_identity n"
  "node_identity (unavailableNode e t n) = node_identity n"
  "node_identity (classifyNode t rs n) = node_identity n"
proof -
  have grade: "node_identity (n\<lparr>PurityGrade := g\<rparr>) = node_identity n" for n g
    by (simp add: node_identity_def)
  show judge: "node_identity (judgeNode t r n) = node_identity n" for r
    by (simp add: judgeNode_def Let_def)
  show unjudged: "node_identity (unjudgedNode t n) = node_identity n"
    by (simp add: unjudgedNode_def grade)
  show "node_identity (unavailableNode e t n) = node_identity n"
    by (simp add: unavailableNode_def Let_def grade)
  show "node_identity (classifyNode t rs n) = node_identity n"
    by (simp add: classifyNode_def judge unjudged split: option.split)
qed

interpretation classify: node_pass "Classify post now" for post now
  by unfold_locales (auto simp: Classify_def node_simps split: sum.split)

section \<open>Grades\<close>

lemma judgeNode_grade:
  "PurityGrade (judgeNode now r n) =
     (if isDenied r (recordIdentity r (ReverseDNS n)) then PurityRejected
      else if containsAny (recordIdentity r (ReverseDNS n)) allowKeywords then PurityStrictHome
      else PurityCandidate)"
  "PurityScore (judgeNode now r n) =
     (if isDenied r (recordIdentity r (ReverseDNS n)) then 0
      else if containsAny (recordIdentity r (ReverseDNS n)) allowKeywords then 90 else 40)"
  by (simp_all add: judgeNode_def Let_def)

lemma unjudgedNode_grade [simp]: "PurityGrade (unjudgedNode now n) = PurityCandidate"
  by (simp add: unjudgedNode_def)

section \<open>Batches\<close>

lemma uniqueIPs_set: "set (uniqueIPs seen ns) = IP ` set ns - set seen"
  by (induction seen ns rule: uniqueIPs.induct) auto

lemma uniqueIPs_distinct: "distinct (uniqueIPs seen ns)"
  by (induction seen ns rule: uniqueIPs.induct) (auto simp: uniqueIPs_set)

text \<open>The requests that a run of the loop makes, in order.\<close>

function requests :: "batch_service \<Rightarrow> nat \<Rightarrow> string list \<Rightarrow> string list list" where
  "requests post k ips =
     (if ips = [] then []
      else take ipAPIBatchSize ips #
        (if isl (fetchIPAPIBatch post k (take ipAPIBatchSize ips)) then []
         else requests post (Suc k) (drop ipAPIBatchSize ips)))"
  by pat_completeness auto
termination
  by (relation "measure (\<lambda>(post, k, ips). length ips)") (auto simp: ipAPIBatchSize_def)

declare requests.simps [simp del]

lemma requests_Nil [simp]: "requests post k [] = []"
  by (subst requests.simps) simp

lemma requests_step:
  "ips \<noteq> [] \<Longrightarrow> requests post k ips = take ipAPIBatchSize ips #
     (if isl (fetchIPAPIBatch post k (take ipAPIBatchSize ips)) then []
      else requests post (Suc k) (drop ipAPIBatchSize ips))"
  by (subst requests.simps) simp

lemma requests_batches: "b \<in> set (requests post k ips) \<Longrightarrow> b \<noteq> [] \<and> length b \<le> ipAPIBatchSize"
proof (induction post k ips rule: requests.induct)
  case (1 post k ips)
  show ?case
  proof (cases "ips = []")
    case True
    with 1(2) show ?thesis by simp
  next
    case False
    then have ne: "take ipAPIBatchSize ips \<noteq> []" by (simp add: ipAPIBatchSize_def)
    from 1(2) consider (now) "b = take ipAPIBatchSize ips"
      | (later) "\<not> isl (fetchIPAPIBatch post k (take ipAPIBatchSize ips))"
          "b \<in> set (requests post (Suc k) (drop ipAPIBatchSize ips))"
      unfolding requests_step [OF False] by (auto split: if_splits)
    then show ?thesis
    proof cases
      case now
      with ne show ?thesis by simp
    next
      case later
      show ?thesis by (rule 1(1) [OF False later])
    qed
  qed
qed

lemma fetchBatches_step:
  "ips \<noteq> [] \<Longrightarrow> fetchBatches post k ips acc =
     (case fetchIPAPIBatch post k (take ipAPIBatchSize ips) of
        Inl err \<Rightarrow> Inl err
      | Inr batch \<Rightarrow> fetchBatches post (Suc k) (drop ipAPIBatchSize ips) (acc @ batch))"
  by (subst fetchBatches.simps) simp

lemma requests_cover:
  "fetchBatches post k ips acc = Inr rs \<Longrightarrow> concat (requests post k ips) = ips"
proof (induction post k ips acc rule: fetchBatches.induct)
  case (1 post k ips acc)
  show ?case
  proof (cases "ips = []")
    case True
    then show ?thesis by simp
  next
    case False
    then obtain batch where b: "fetchIPAPIBatch post k (take ipAPIBatchSize ips) = Inr batch"
      and "fetchBatches post (Suc k) (drop ipAPIBatchSize ips) (acc @ batch) = Inr rs"
      using 1(2) unfolding fetchBatches_step [OF False] by (auto split: sum.splits)
    with 1(1) [OF False b] have
      "concat (requests post (Suc k) (drop ipAPIBatchSize ips)) = drop ipAPIBatchSize ips" by simp
    then show ?thesis unfolding requests_step [OF False] using b by simp
  qed
qed

section \<open>Properties\<close>

text \<open>C31: when the lookup succeeds, a node is rejected exactly when its address has a usable record
  with evidence against it, whatever speaks for it, and it is graded as residential exactly when
  the record carries evidence for it and none against it.\<close>

theorem Classify_grades:
  assumes "fetchIPAPI post nodes = Inr records" and "i < length nodes"
  shows "let n = nodes ! i; g = PurityGrade (Classify post now nodes ! i)
    in (g = PurityRejected \<longleftrightarrow>
         (\<exists>r. recordsByIP records (IP n) = Some r \<and> RecStatus r = ''success'' \<and>
              isDenied r (recordIdentity r (ReverseDNS n)))) \<and>
       (g = PurityStrictHome \<longleftrightarrow>
         (\<exists>r. recordsByIP records (IP n) = Some r \<and> RecStatus r = ''success'' \<and>
              \<not> isDenied r (recordIdentity r (ReverseDNS n)) \<and>
              containsAny (recordIdentity r (ReverseDNS n)) allowKeywords))"
proof -
  have "Classify post now nodes ! i = classifyNode now records (nodes ! i)"
    using assms by (auto simp: Classify_def)
  then show ?thesis
    by (auto simp: Let_def classifyNode_def judgeNode_grade purity_defs split: option.splits)
qed

text \<open>The lookup sends each address of the list once, in batches of at most one hundred, and
  a lookup that succeeds has sent them all.\<close>

theorem fetchIPAPI_batches:
  "(\<forall>b\<in>set (requests post 0 (uniqueIPs [] nodes)). b \<noteq> [] \<and> length b \<le> 100) \<and>
   distinct (uniqueIPs [] nodes) \<and> set (uniqueIPs [] nodes) = IP ` set nodes \<and>
   (\<not> isl (fetchIPAPI post nodes) \<longrightarrow>
      concat (requests post 0 (uniqueIPs [] nodes)) = uniqueIPs [] nodes)"
  using requests_batches [of _ post 0 "uniqueIPs [] nodes"] uniqueIPs_distinct uniqueIPs_set [of "[]" nodes]
    requests_cover [of post 0 "uniqueIPs [] nodes" "[]"]
  by (cases "fetchIPAPI post nodes") (auto simp: fetchIPAPI_def ipAPIBatchSize_def)

section \<open>Witnesses\<close>

definition home_record :: ip_api_record where
  "home_record = \<lparr>RecStatus = ''success'', RecMessage = '''', Query = ''1.2.3.4'', RecCountry = ''Japan'',
     RecCountryCode = ''JP'', RecCity = ''Tokyo'', RecISP = ''NTT Communications'', Org = ''OCN'',
     AS = ''AS4713'', ASName = ''OCN'', Proxy = False, Hosting = False, Mobile = False\<rparr>"

definition some_service :: batch_service where
  "some_service k ips = Inr (200, Inr [home_record])"

definition home_node :: vpn_node where
  "home_node = zero_node\<lparr>ID := ''h'', IP := ''1.2.3.4''\<rparr>"

theorem Classify_grades_witness:
  "PurityGrade (Classify some_service 5 [home_node] ! 0) = PurityStrictHome"
proof -
  have f: "fetchIPAPI some_service [home_node] = Inr [home_record]" by code_simp
  have r: "recordsByIP [home_record] (IP ([home_node] ! 0)) = Some home_record"
    "RecStatus home_record = ''success''"
    "\<not> isDenied home_record (recordIdentity home_record (ReverseDNS ([home_node] ! 0)))"
    "containsAny (recordIdentity home_record (ReverseDNS ([home_node] ! 0))) allowKeywords"
    by code_simp+
  show ?thesis
    using Classify_grades [OF f, of 0 5] r by (simp add: Let_def)
qed

theorem fetchIPAPI_batches_witness:
  "concat (requests some_service 0 (uniqueIPs [] [home_node, home_node])) = [''1.2.3.4'']"
proof -
  have "\<not> isl (fetchIPAPI some_service [home_node, home_node])"
    "uniqueIPs [] [home_node, home_node] = [''1.2.3.4'']" by code_simp+
  then show ?thesis using fetchIPAPI_batches [of some_service "[home_node, home_node]"] by simp
qed

end
