(* ===== verification/Exit_Verify.thy ===== *)
theory Exit_Verify
  imports Domain
begin

text \<open>
  Verification of the exit (src/internal/verify/exit.go). The lookup through the tunnel is an
  argument. An exit passes exactly when it carries none of the three flags and neither its country
  nor its AS number contradicts the node's; an absent value contradicts nothing.
\<close>

section \<open>Definitions\<close>

record verify_result =
  ResPassed :: bool
  ResExitIP :: string
  ResCountry :: string
  ResCountryCode :: string
  ResISP :: string
  ResASN :: string
  ResProxy :: bool
  ResHosting :: bool
  ResMobile :: bool
  ResMessage :: string

definition zero_result :: verify_result where
  "zero_result = \<lparr>ResPassed = False, ResExitIP = '''', ResCountry = '''', ResCountryCode = '''',
     ResISP = '''', ResASN = '''', ResProxy = False, ResHosting = False, ResMobile = False,
     ResMessage = ''''\<rparr>"

record ip_api_response =
  PayStatus :: string
  PayMessage :: string
  PayQuery :: string
  PayCountry :: string
  PayCountryCode :: string
  PayISP :: string
  PayAS :: string
  PayASName :: string
  PayProxy :: bool
  PayHosting :: bool
  PayMobile :: bool

text \<open>The expression asnPattern: the letters AS in either case (the long s folds to s) at a word
  boundary, white space, and a maximal run of digits that ends at a word boundary.\<close>

definition word_char :: "char \<Rightarrow> bool" where
  "word_char c \<longleftrightarrow>
     (let n = of_char c :: nat
      in (65 \<le> n \<and> n \<le> 90) \<or> (97 \<le> n \<and> n \<le> 122) \<or> (48 \<le> n \<and> n \<le> 57) \<or> n = 95)"

definition regex_space :: "char \<Rightarrow> bool" where
  "regex_space c \<longleftrightarrow> c \<in> {CHR 0x09, CHR 0x0A, CHR 0x0C, CHR 0x0D, CHR 0x20}"

fun after_as :: "string \<Rightarrow> string option" where
  "after_as (a # s # rest) =
     (if a \<notin> {CHR ''A'', CHR ''a''} then None
      else if s \<in> {CHR ''S'', CHR ''s''} then Some rest
      else if s = CHR 0xC5 \<and> rest \<noteq> [] \<and> hd rest = CHR 0xBF then Some (tl rest)
      else None)"
| "after_as _ = None"

definition asn_at :: "string \<Rightarrow> string option" where
  "asn_at s =
     (case after_as s of
        None \<Rightarrow> None
      | Some rest \<Rightarrow>
          let body = dropWhile regex_space rest;
              digits = takeWhile is_digit body;
              after = dropWhile is_digit body
          in if digits \<noteq> [] \<and> (after = [] \<or> \<not> word_char (hd after)) then Some digits else None)"

fun find_asn :: "bool \<Rightarrow> string \<Rightarrow> string option" where
  "find_asn boundary [] = None"
| "find_asn boundary (c # s) =
     (case (if boundary then asn_at (c # s) else None) of
        Some digits \<Rightarrow> Some digits
      | None \<Rightarrow> find_asn (\<not> word_char c) s)"

definition asnNumber :: "string \<Rightarrow> string" where
  "asnNumber value = (case find_asn True value of Some digits \<Rightarrow> digits | None \<Rightarrow> '''')"

definition flagReasons :: "verify_result \<Rightarrow> string list" where
  "flagReasons result =
     (if ResProxy result \<or> ResHosting result \<or> ResMobile result then
        [msg_exit_flags @ show_bool (ResProxy result) @ '' hosting='' @ show_bool (ResHosting result) @
         '' mobile='' @ show_bool (ResMobile result)]
      else [])"

definition countryReasons :: "vpn_node \<Rightarrow> verify_result \<Rightarrow> string list" where
  "countryReasons node result =
     (if CountryCode node \<noteq> '''' \<and> ResCountryCode result \<noteq> '''' \<and>
         \<not> equal_fold (CountryCode node) (ResCountryCode result) then
        [msg_country_prefix @ CountryCode node @ msg_exit_infix @ ResCountryCode result]
      else [])"

definition asnReasons :: "vpn_node \<Rightarrow> verify_result \<Rightarrow> string list" where
  "asnReasons node result =
     (let nodeASN = asnNumber (ASN node); exitASN = asnNumber (ResASN result)
      in if nodeASN \<noteq> '''' \<and> exitASN \<noteq> '''' \<and> nodeASN \<noteq> exitASN then
           [msg_asn_prefix @ nodeASN @ msg_exit_as_infix @ exitASN]
         else [])"

definition compare :: "vpn_node \<Rightarrow> verify_result \<Rightarrow> bool \<times> string" where
  "compare node result =
     (let reasons = flagReasons result @ countryReasons node result @ asnReasons node result
      in if reasons \<noteq> [] then (False, join msg_semicolon reasons) else (True, msg_exit_passed))"

text \<open>The lookup: an error of the exchange, or the status and the decoded answer.\<close>

definition Verify ::
  "(int \<times> ip_api_response res) res \<Rightarrow> vpn_node \<Rightarrow> verify_result res" where
  "Verify answer node =
     (case answer of
        Inl err \<Rightarrow> Inl err
      | Inr (statusCode, decoded) \<Rightarrow>
          if statusCode < 200 \<or> 300 \<le> statusCode then
            Inl (''exit verifier returned HTTP '' @ itoa statusCode)
          else case decoded of
              Inl err \<Rightarrow> Inl err
            | Inr payload \<Rightarrow>
                if PayStatus payload \<noteq> ''success'' then Inl (''exit verifier failed: '' @ PayMessage payload)
                else
                  let result = zero_result\<lparr>ResExitIP := PayQuery payload, ResCountry := PayCountry payload,
                        ResCountryCode := to_upper (PayCountryCode payload), ResISP := PayISP payload,
                        ResASN := PayAS payload, ResProxy := PayProxy payload,
                        ResHosting := PayHosting payload, ResMobile := PayMobile payload\<rparr>;
                      (passed, message) = compare node result
                  in Inr (result\<lparr>ResPassed := passed, ResMessage := message\<rparr>))"

section \<open>Laws\<close>

text \<open>A number the expression finds is a non-empty run of digits.\<close>

lemma asn_at_digits: "asn_at s = Some ds \<Longrightarrow> ds \<noteq> [] \<and> list_all is_digit ds"
proof -
  have "list_all is_digit (takeWhile is_digit xs)" for xs
    by (auto simp: list_all_iff dest: set_takeWhileD)
  then show "asn_at s = Some ds \<Longrightarrow> ds \<noteq> [] \<and> list_all is_digit ds"
    by (auto simp: asn_at_def Let_def split: option.splits if_splits)
qed

lemma find_asn_digits: "find_asn b s = Some ds \<Longrightarrow> ds \<noteq> [] \<and> list_all is_digit ds"
  by (induction b s rule: find_asn.induct) (auto split: option.splits if_splits dest: asn_at_digits)

lemma asnNumber_digits: "list_all is_digit (asnNumber value)"
  using find_asn_digits by (auto simp: asnNumber_def split: option.split)

lemma msg_exit_passed_nonempty: "msg_exit_passed \<noteq> []"
  by (simp add: msg_exit_passed_def)

section \<open>Properties\<close>

text \<open>C32: a lookup that yields a verdict passes exactly when the exit is not flagged as proxy,
  hosting or mobile, its country does not contradict the node's, and its AS number does not
  contradict the node's. The address of the exit plays no part.\<close>

theorem Verify_passed_iff:
  assumes "Verify (Inr (200, Inr payload)) node = Inr result"
  shows "ResPassed result \<longleftrightarrow>
    \<not> PayProxy payload \<and> \<not> PayHosting payload \<and> \<not> PayMobile payload \<and>
    (CountryCode node = '''' \<or> to_upper (PayCountryCode payload) = '''' \<or>
       equal_fold (CountryCode node) (to_upper (PayCountryCode payload))) \<and>
    (asnNumber (ASN node) = '''' \<or> asnNumber (PayAS payload) = '''' \<or>
       asnNumber (ASN node) = asnNumber (PayAS payload))"
proof -
  define base where "base = zero_result\<lparr>ResExitIP := PayQuery payload, ResCountry := PayCountry payload,
    ResCountryCode := to_upper (PayCountryCode payload), ResISP := PayISP payload,
    ResASN := PayAS payload, ResProxy := PayProxy payload,
    ResHosting := PayHosting payload, ResMobile := PayMobile payload\<rparr>"
  have base: "ResProxy base = PayProxy payload" "ResHosting base = PayHosting payload"
    "ResMobile base = PayMobile payload" "ResASN base = PayAS payload"
    "ResCountryCode base = to_upper (PayCountryCode payload)"
    by (simp_all add: base_def)
  have "ResPassed result = fst (compare node base)"
    using assms by (auto simp: Verify_def base_def Let_def split: if_splits prod.splits)
  then show ?thesis
    by (auto simp: compare_def Let_def flagReasons_def countryReasons_def asnReasons_def base)
qed

section \<open>Witnesses\<close>

definition home_payload :: ip_api_response where
  "home_payload = \<lparr>PayStatus = ''success'', PayMessage = '''', PayQuery = ''1.2.3.4'', PayCountry = ''Japan'',
     PayCountryCode = ''jp'', PayISP = ''NTT'', PayAS = ''AS4713 NTT Communications'', PayASName = ''OCN'',
     PayProxy = False, PayHosting = False, PayMobile = False\<rparr>"

definition exit_node :: vpn_node where
  "exit_node = zero_node\<lparr>IP := ''5.6.7.8'', CountryCode := ''JP'', ASN := ''as 4713 NTT''\<rparr>"

theorem Verify_passed_iff_witness:
  "\<exists>result. Verify (Inr (200, Inr home_payload)) exit_node = Inr result \<and> ResPassed result"
proof -
  have "\<not> isl (Verify (Inr (200, Inr home_payload)) exit_node)" by code_simp
  then obtain result where r: "Verify (Inr (200, Inr home_payload)) exit_node = Inr result"
    by (cases "Verify (Inr (200, Inr home_payload)) exit_node") auto
  have "equal_fold (CountryCode exit_node) (to_upper (PayCountryCode home_payload))"
    "asnNumber (ASN exit_node) = asnNumber (PayAS home_payload)"
    "\<not> PayProxy home_payload" "\<not> PayHosting home_payload" "\<not> PayMobile home_payload" by code_simp+
  with Verify_passed_iff [OF r] r show ?thesis by auto
qed

end
