(* ===== verification/Config.thy ===== *)
theory Config
  imports Go_Net
begin

text \<open>
  Configuration (src/internal/config/config.go): the sections as records, the defaults, validation
  with every error as a value, and initialisation. The random source, the file system and the JSON
  decoder are arguments. Paths are those of a Unix system. The lemmas show what a validated
  configuration guarantees the other components, that initialisation never writes an invalid
  configuration, and the form of the generated UUID.
\<close>

section \<open>Sections\<close>

record deployment_config =
  Mode :: string
  AutoStartVMESS :: bool
  AutoConnectExit :: bool

record server_config =
  Listen :: string
  SessionSecret :: string

record auth_config =
  AuthUsername :: string
  AuthPassword :: string

record data_config =
  Dir :: string

record vpngate_config =
  VPNGateAPIURL :: string
  VPNGateMaxNodes :: int

record classifier_config =
  ClassifierEnabled :: bool
  StrictHomeOnly :: bool
  ClassifierTimeoutMS :: int
  ClassifierMaxConcurrency :: int

record probe_config =
  ProbeTimeoutMS :: int
  ProbeMaxConcurrency :: int
  ProbeSamples :: int

record failover_config =
  FailoverEnabled :: bool
  MaxAttempts :: int
  CooldownSeconds :: int
  HealthCheckSeconds :: int
  FailureThreshold :: int

record verify_config =
  VerifyEnabled :: bool
  VerifyAPIURL :: string
  VerifyTimeoutMS :: int

record openvpn_config =
  OpenVPNUsername :: string
  OpenVPNPassword :: string
  ConnectTimeoutMS :: int
  MTU :: int
  DNSServers :: "string list"

record subscription_config =
  SubEnabled :: bool
  SubListen :: string
  Token :: string
  Host :: string
  Port :: int
  UUID :: string
  AlterID :: int
  Security :: string
  Network :: string

record proxy_core_config =
  CoreEnabled :: bool
  CoreType :: string
  CoreListen :: string
  LogLevel :: string
  LocalSOCKSEnabled :: bool
  LocalSOCKSListen :: string

record config =
  Deployment :: deployment_config
  Server :: server_config
  Auth :: auth_config
  Data :: data_config
  VPNGate :: vpngate_config
  Classifier :: classifier_config
  ProbeSection :: probe_config
  FailoverSection :: failover_config
  VerifySection :: verify_config
  OpenVPN :: openvpn_config
  Subscription :: subscription_config
  ProxyCore :: proxy_core_config

definition Default :: config where
  "Default =
     \<lparr>Deployment = \<lparr>Mode = ''gateway'', AutoStartVMESS = True, AutoConnectExit = True\<rparr>,
      Server = \<lparr>Listen = ''127.0.0.1:8899'', SessionSecret = ''''\<rparr>,
      Auth = \<lparr>AuthUsername = ''admin'', AuthPassword = ''''\<rparr>,
      Data = \<lparr>Dir = ''''\<rparr>,
      VPNGate = \<lparr>VPNGateAPIURL = ''https://www.vpngate.net/api/iphone/'', VPNGateMaxNodes = 300\<rparr>,
      Classifier = \<lparr>ClassifierEnabled = True, StrictHomeOnly = True, ClassifierTimeoutMS = 10000,
        ClassifierMaxConcurrency = 50\<rparr>,
      ProbeSection = \<lparr>ProbeTimeoutMS = 3000, ProbeMaxConcurrency = 64, ProbeSamples = 3\<rparr>,
      FailoverSection = \<lparr>FailoverEnabled = True, MaxAttempts = 5, CooldownSeconds = 300,
        HealthCheckSeconds = 20, FailureThreshold = 2\<rparr>,
      VerifySection = \<lparr>VerifyEnabled = True,
        VerifyAPIURL = ''http://ip-api.com/json/?fields=status,message,query,country,countryCode,isp,as,asname,proxy,hosting,mobile'',
        VerifyTimeoutMS = 10000\<rparr>,
      OpenVPN = \<lparr>OpenVPNUsername = ''vpn'', OpenVPNPassword = ''vpn'', ConnectTimeoutMS = 45000, MTU = 1420,
        DNSServers = [''1.1.1.1'', ''8.8.8.8'']\<rparr>,
      Subscription = \<lparr>SubEnabled = True, SubListen = ''0.0.0.0:8898'', Token = '''', Host = ''auto'',
        Port = 10086, UUID = '''', AlterID = 0, Security = ''auto'', Network = ''tcp''\<rparr>,
      ProxyCore = \<lparr>CoreEnabled = True, CoreType = ''embedded'', CoreListen = ''0.0.0.0'',
        LogLevel = ''warning'', LocalSOCKSEnabled = True, LocalSOCKSListen = ''127.0.0.1:1080''\<rparr>\<rparr>"

section \<open>Validation\<close>

datatype config_error =
    ModeNotGateway
  | ServerListenRequired
  | ServerListenInvalid string
  | SessionSecretRequired
  | CredentialsRequired
  | APIURLRequired
  | ClassifierNegative
  | ProbeNegative
  | FailoverNegative
  | VerifyURLRequired
  | VerifyTimeoutNegative
  | GatewayNeedsSubscription
  | GatewayNeedsProxyCore
  | ConnectTimeoutNegative
  | MTUOutOfRange
  | DNSServerInvalid string
  | SubscriptionListenInvalid string
  | TokenRequired
  | SubscriptionPortRequired
  | UUIDRequired
  | CoreTypeRequired
  | CoreTypeNotEmbedded
  | CoreListenRequired
  | CoreListenNotIP
  | SOCKSListenInvalid string
  | SOCKSListenNotLoopback

text \<open>The checks of Validate, in order, grouped by section; the first error is the result.\<close>

definition first_error :: "config_error option list \<Rightarrow> config_error option" where
  "first_error checks = (case filter (\<lambda>c. c \<noteq> None) checks of [] \<Rightarrow> None | c # _ \<Rightarrow> c)"

definition fails :: "bool \<Rightarrow> config_error \<Rightarrow> config_error option" where
  "fails b err = (if b then Some err else None)"

definition listenError :: "(string \<Rightarrow> config_error) \<Rightarrow> string \<Rightarrow> config_error option" where
  "listenError err listen = (case SplitHostPort listen of Inl why \<Rightarrow> Some (err why) | Inr _ \<Rightarrow> None)"

definition validateServer :: "config \<Rightarrow> config_error option" where
  "validateServer cfg = first_error
     [fails (Mode (Deployment cfg) \<noteq> '''' \<and> Mode (Deployment cfg) \<noteq> ''gateway'') ModeNotGateway,
      fails (Listen (Server cfg) = '''') ServerListenRequired,
      listenError ServerListenInvalid (Listen (Server cfg)),
      fails (SessionSecret (Server cfg) = '''') SessionSecretRequired,
      fails (AuthUsername (Auth cfg) = '''' \<or> AuthPassword (Auth cfg) = '''') CredentialsRequired,
      fails (VPNGateAPIURL (VPNGate cfg) = '''') APIURLRequired]"

definition validateLimits :: "config \<Rightarrow> config_error option" where
  "validateLimits cfg = first_error
     [fails (ClassifierTimeoutMS (Classifier cfg) < 0 \<or> ClassifierMaxConcurrency (Classifier cfg) < 0)
        ClassifierNegative,
      fails (ProbeTimeoutMS (ProbeSection cfg) < 0 \<or> ProbeMaxConcurrency (ProbeSection cfg) < 0 \<or>
        ProbeSamples (ProbeSection cfg) < 0) ProbeNegative,
      fails (MaxAttempts (FailoverSection cfg) < 0 \<or> CooldownSeconds (FailoverSection cfg) < 0 \<or>
        HealthCheckSeconds (FailoverSection cfg) < 0 \<or> FailureThreshold (FailoverSection cfg) < 0)
        FailoverNegative,
      fails (VerifyEnabled (VerifySection cfg) \<and> VerifyAPIURL (VerifySection cfg) = '''') VerifyURLRequired,
      fails (VerifyTimeoutMS (VerifySection cfg) < 0) VerifyTimeoutNegative]"

definition validateGateway :: "config \<Rightarrow> config_error option" where
  "validateGateway cfg =
     (if Mode (Deployment cfg) = ''gateway'' then first_error
        [fails (\<not> SubEnabled (Subscription cfg)) GatewayNeedsSubscription,
         fails (\<not> CoreEnabled (ProxyCore cfg)) GatewayNeedsProxyCore]
      else None)"

definition validateOpenVPN :: "openvpn_config \<Rightarrow> config_error option" where
  "validateOpenVPN ovpn = first_error
     [fails (ConnectTimeoutMS ovpn < 0) ConnectTimeoutNegative,
      fails (MTU ovpn \<noteq> 0 \<and> (MTU ovpn < 576 \<or> 9000 < MTU ovpn)) MTUOutOfRange,
      map_option DNSServerInvalid (find (\<lambda>server. ParseIP server = None) (DNSServers ovpn))]"

definition validateSubscription :: "subscription_config \<Rightarrow> config_error option" where
  "validateSubscription sub =
     (if SubEnabled sub then first_error
        [if SubListen sub \<noteq> '''' then listenError SubscriptionListenInvalid (SubListen sub) else None,
         fails (Token sub = '''') TokenRequired,
         fails (Port sub < 1 \<or> 65535 < Port sub) SubscriptionPortRequired,
         fails (UUID sub = '''') UUIDRequired]
      else None)"

definition validateSOCKS :: "proxy_core_config \<Rightarrow> config_error option" where
  "validateSOCKS core =
     (if LocalSOCKSEnabled core then
        (case SplitHostPort (LocalSOCKSListen core) of
           Inl why \<Rightarrow> Some (SOCKSListenInvalid why)
         | Inr (host, _) \<Rightarrow>
             (case ParseIP host of
                None \<Rightarrow> Some SOCKSListenNotLoopback
              | Some ip \<Rightarrow> fails (\<not> IsLoopback ip) SOCKSListenNotLoopback))
      else None)"

definition validateProxyCore :: "proxy_core_config \<Rightarrow> config_error option" where
  "validateProxyCore core =
     (if CoreEnabled core then first_error
        [fails (CoreType core = '''') CoreTypeRequired,
         fails (CoreType core \<noteq> ''embedded'') CoreTypeNotEmbedded,
         fails (CoreListen core = '''') CoreListenRequired,
         fails (ParseIP (CoreListen core) = None) CoreListenNotIP,
         validateSOCKS core]
      else None)"

definition Validate :: "config \<Rightarrow> config_error option" where
  "Validate cfg = first_error
     [validateServer cfg, validateLimits cfg, validateGateway cfg, validateOpenVPN (OpenVPN cfg),
      validateSubscription (Subscription cfg), validateProxyCore (ProxyCore cfg)]"

section \<open>Paths\<close>

text \<open>filepath.Clean and filepath.Join on slash-separated paths.\<close>

fun clean_parts :: "bool \<Rightarrow> string list \<Rightarrow> string list \<Rightarrow> string list" where
  "clean_parts rooted acc [] = rev acc"
| "clean_parts rooted acc (p # ps) =
     (if p = '''' \<or> p = ''.'' then clean_parts rooted acc ps
      else if p = ''..'' then
        (if acc \<noteq> [] \<and> hd acc \<noteq> ''..'' then clean_parts rooted (tl acc) ps
         else if rooted then clean_parts rooted acc ps
         else clean_parts rooted (p # acc) ps)
      else clean_parts rooted (p # acc) ps)"

definition path_clean :: "string \<Rightarrow> string" where
  "path_clean path =
     (let rooted = has_prefix path ''/'';
          body = join ''/'' (clean_parts rooted [] (split_on CHR ''/'' path))
      in if rooted then ''/'' @ body else if body = '''' then ''.'' else body)"

definition path_join :: "string \<Rightarrow> string \<Rightarrow> string" where
  "path_join a b =
     (if a = '''' \<and> b = '''' then ''''
      else if a = '''' then path_clean b
      else if b = '''' then path_clean a
      else path_clean (a @ ''/'' @ b))"

text \<open>filepath.Dir: everything before the last slash, cleaned.\<close>

definition path_dirname :: "string \<Rightarrow> string" where
  "path_dirname path = path_clean (rev (dropWhile (\<lambda>c. c \<noteq> CHR ''/'') (rev path)))"

section \<open>Loading and initialisation\<close>

datatype load_error = FileError string | DecodeError string | Invalid config_error

text \<open>The file system and the decoder: what reading a path yields and what decoding a text onto a
  configuration yields.\<close>

definition LoadConfig ::
  "(string \<Rightarrow> string res) \<Rightarrow> (string \<Rightarrow> config \<Rightarrow> config \<times> string option) \<Rightarrow> string \<Rightarrow>
   config \<times> load_error option" where
  "LoadConfig readFile unmarshal path =
     (if path = '''' then (Default, map_option Invalid (Validate Default))
      else case readFile path of
          Inl err \<Rightarrow> (Default, Some (FileError err))
        | Inr text \<Rightarrow>
            (case unmarshal text Default of
               (cfg, Some err) \<Rightarrow> (cfg, Some (DecodeError err))
             | (cfg, None) \<Rightarrow> (cfg, map_option Invalid (Validate cfg))))"

text \<open>The random source yields a byte string of the requested length, or an error, for each call in
  turn.\<close>

type_synonym random_source = "nat \<Rightarrow> nat \<Rightarrow> bytes res"

definition randomHex :: "random_source \<Rightarrow> nat \<Rightarrow> nat \<Rightarrow> string res" where
  "randomHex rand k n = (case rand k n of Inl err \<Rightarrow> Inl err | Inr buffer \<Rightarrow> Inr (hex_encode buffer))"

definition uuid_text :: "bytes \<Rightarrow> string" where
  "uuid_text buffer =
     join ''-'' [hex_encode (take 4 buffer), hex_encode (take 2 (drop 4 buffer)),
       hex_encode (take 2 (drop 6 buffer)), hex_encode (take 2 (drop 8 buffer)),
       hex_encode (take 6 (drop 10 buffer))]"

unbundle bit_operations_syntax

definition uuid_bits :: "bytes \<Rightarrow> bytes" where
  "uuid_bits buffer =
     (buffer[6 := ((buffer ! 6) AND 0x0f) OR 0x40])[8 := ((buffer ! 8) AND 0x3f) OR 0x80]"

definition randomUUID :: "random_source \<Rightarrow> nat \<Rightarrow> string res" where
  "randomUUID rand k =
     (case rand k 16 of Inl err \<Rightarrow> Inl err | Inr buffer \<Rightarrow> Inr (uuid_text (uuid_bits buffer)))"

datatype init_error =
    AlreadyExists string
  | StatError string
  | RandomError string string
  | InitInvalid config_error
  | WriteError string

definition generated :: "string \<Rightarrow> string \<Rightarrow> string \<Rightarrow> string \<Rightarrow> config" where
  "generated password secret token uuid =
     Default\<lparr>Auth := (Auth Default)\<lparr>AuthPassword := password\<rparr>,
       Server := (Server Default)\<lparr>SessionSecret := secret\<rparr>,
       Subscription := (Subscription Default)\<lparr>Token := token, UUID := uuid\<rparr>\<rparr>"

text \<open>The status of the path: it exists, it does not, or asking fails; \<open>mkdir\<close> and \<open>write\<close> are the
  outcomes of creating the directory and of writing the file. A failure to create the directory is
  ignored for a path without a directory.\<close>

datatype path_status = Exists | Absent | StatFails string

definition InitConfig ::
  "(string \<Rightarrow> path_status) \<Rightarrow> random_source \<Rightarrow> (string \<Rightarrow> string option) \<Rightarrow>
   (string \<Rightarrow> config \<Rightarrow> string option) \<Rightarrow> string \<Rightarrow> init_error + config" where
  "InitConfig stat rand mkdir write path0 =
     (let path = (if path0 = '''' then ''config.json'' else path0)
      in case stat path of
          Exists \<Rightarrow> Inl (AlreadyExists path)
        | StatFails err \<Rightarrow> Inl (StatError err)
        | Absent \<Rightarrow>
            (case randomHex rand 0 12 of
               Inl err \<Rightarrow> Inl (RandomError ''generate admin password'' err)
             | Inr password \<Rightarrow>
            (case randomHex rand 1 32 of
               Inl err \<Rightarrow> Inl (RandomError ''generate session secret'' err)
             | Inr secret \<Rightarrow>
            (case randomHex rand 2 24 of
               Inl err \<Rightarrow> Inl (RandomError ''generate subscription token'' err)
             | Inr token \<Rightarrow>
            (case randomUUID rand 3 of
               Inl err \<Rightarrow> Inl (RandomError ''generate VMESS UUID'' err)
             | Inr uuid \<Rightarrow>
                 let cfg = generated password secret token uuid
                 in case Validate cfg of
                     Some err \<Rightarrow> Inl (InitInvalid err)
                   | None \<Rightarrow>
                       if mkdir (path_dirname path) \<noteq> None \<and> path_dirname path \<noteq> ''.'' then
                         Inl (WriteError (the (mkdir (path_dirname path))))
                       else case write path cfg of
                           Some err \<Rightarrow> Inl (WriteError err)
                         | None \<Rightarrow> Inr cfg)))))"

section \<open>The data directory\<close>

definition DataDir :: "string res \<Rightarrow> string \<Rightarrow> string \<Rightarrow> config \<Rightarrow> string" where
  "DataDir userConfigDir tempDir goos cfg =
     (if Dir (Data cfg) \<noteq> '''' then Dir (Data cfg)
      else case userConfigDir of
          Inr dir \<Rightarrow>
            if dir \<noteq> '''' then path_join dir ''ResidentialIPManagerGo''
            else if goos = ''windows'' then path_join tempDir ''ResidentialIPManagerGo''
            else path_join tempDir ''residential-ip-manager-go''
        | Inl _ \<Rightarrow>
            if goos = ''windows'' then path_join tempDir ''ResidentialIPManagerGo''
            else path_join tempDir ''residential-ip-manager-go'')"

section \<open>Laws\<close>

lemma fails_simps [simp]: "fails b e = None \<longleftrightarrow> \<not> b"
  by (simp add: fails_def)

lemma first_error_None: "first_error cs = None \<longleftrightarrow> (\<forall>c\<in>set cs. c = None)"
  by (auto simp: first_error_def filter_empty_conv split: list.split dest: filter_eq_ConsD)

lemma listenError_None: "listenError e l = None \<longleftrightarrow> (\<exists>h p. SplitHostPort l = Inr (h, p))"
  by (auto simp: listenError_def split: sum.split)

lemmas validate_defs =
  validateServer_def validateLimits_def validateGateway_def validateOpenVPN_def
  validateSubscription_def validateSOCKS_def validateProxyCore_def

text \<open>What validation guarantees of each section.\<close>

definition sound_server :: "config \<Rightarrow> bool" where
  "sound_server cfg \<longleftrightarrow>
     Mode (Deployment cfg) \<in> {'''', ''gateway''} \<and> Listen (Server cfg) \<noteq> '''' \<and>
     (\<exists>h p. SplitHostPort (Listen (Server cfg)) = Inr (h, p)) \<and> SessionSecret (Server cfg) \<noteq> '''' \<and>
     AuthUsername (Auth cfg) \<noteq> '''' \<and> AuthPassword (Auth cfg) \<noteq> '''' \<and> VPNGateAPIURL (VPNGate cfg) \<noteq> ''''"

definition sound_limits :: "config \<Rightarrow> bool" where
  "sound_limits cfg \<longleftrightarrow>
     0 \<le> ClassifierTimeoutMS (Classifier cfg) \<and> 0 \<le> ClassifierMaxConcurrency (Classifier cfg) \<and>
     0 \<le> ProbeTimeoutMS (ProbeSection cfg) \<and> 0 \<le> ProbeMaxConcurrency (ProbeSection cfg) \<and>
     0 \<le> ProbeSamples (ProbeSection cfg) \<and>
     0 \<le> MaxAttempts (FailoverSection cfg) \<and> 0 \<le> CooldownSeconds (FailoverSection cfg) \<and>
     0 \<le> HealthCheckSeconds (FailoverSection cfg) \<and> 0 \<le> FailureThreshold (FailoverSection cfg) \<and>
     (VerifyEnabled (VerifySection cfg) \<longrightarrow> VerifyAPIURL (VerifySection cfg) \<noteq> '''') \<and>
     0 \<le> VerifyTimeoutMS (VerifySection cfg)"

definition sound_openvpn :: "openvpn_config \<Rightarrow> bool" where
  "sound_openvpn ovpn \<longleftrightarrow>
     0 \<le> ConnectTimeoutMS ovpn \<and> (MTU ovpn = 0 \<or> 576 \<le> MTU ovpn \<and> MTU ovpn \<le> 9000) \<and>
     (\<forall>server\<in>set (DNSServers ovpn). ParseIP server \<noteq> None)"

definition sound_subscription :: "subscription_config \<Rightarrow> bool" where
  "sound_subscription sub \<longleftrightarrow>
     (SubEnabled sub \<longrightarrow>
       (SubListen sub = '''' \<or> (\<exists>h p. SplitHostPort (SubListen sub) = Inr (h, p))) \<and>
       Token sub \<noteq> '''' \<and> 1 \<le> Port sub \<and> Port sub \<le> 65535 \<and> UUID sub \<noteq> '''')"

definition sound_core :: "proxy_core_config \<Rightarrow> bool" where
  "sound_core core \<longleftrightarrow>
     (CoreEnabled core \<longrightarrow>
       CoreType core = ''embedded'' \<and> ParseIP (CoreListen core) \<noteq> None \<and>
       (LocalSOCKSEnabled core \<longrightarrow>
         (\<exists>host port ip. SplitHostPort (LocalSOCKSListen core) = Inr (host, port) \<and>
            ParseIP host = Some ip \<and> IsLoopback ip)))"

lemma ParseIP_Nil [simp]: "ParseIP [] = None"
  by code_simp

lemma validateServer_sound: "validateServer cfg = None \<longleftrightarrow> sound_server cfg"
  unfolding validateServer_def sound_server_def first_error_None by (auto simp: listenError_None)

lemma validateLimits_sound: "validateLimits cfg = None \<longleftrightarrow> sound_limits cfg"
  unfolding validateLimits_def sound_limits_def first_error_None by auto

lemma validateOpenVPN_sound: "validateOpenVPN ovpn = None \<longleftrightarrow> sound_openvpn ovpn"
  unfolding validateOpenVPN_def sound_openvpn_def first_error_None by (auto simp: find_None_iff)

lemma validateSubscription_sound: "validateSubscription sub = None \<longleftrightarrow> sound_subscription sub"
  unfolding validateSubscription_def sound_subscription_def
  by (auto simp: first_error_None listenError_None split: if_splits)

lemma validateSOCKS_sound:
  "validateSOCKS core = None \<longleftrightarrow>
     (LocalSOCKSEnabled core \<longrightarrow>
       (\<exists>host port ip. SplitHostPort (LocalSOCKSListen core) = Inr (host, port) \<and>
          ParseIP host = Some ip \<and> IsLoopback ip))"
  by (auto simp: validateSOCKS_def split: sum.splits option.splits)

lemma validateProxyCore_sound: "validateProxyCore core = None \<longleftrightarrow> sound_core core"
  unfolding validateProxyCore_def sound_core_def
  using validateSOCKS_sound [of core] by (auto simp: first_error_None split: if_splits)

lemma Validate_sound:
  "Validate cfg = None \<longleftrightarrow>
     sound_server cfg \<and> sound_limits cfg \<and> sound_openvpn (OpenVPN cfg) \<and>
     sound_subscription (Subscription cfg) \<and> sound_core (ProxyCore cfg) \<and>
     (Mode (Deployment cfg) = ''gateway'' \<longrightarrow>
        SubEnabled (Subscription cfg) \<and> CoreEnabled (ProxyCore cfg))"
proof -
  have "validateGateway cfg = None \<longleftrightarrow> (Mode (Deployment cfg) = ''gateway'' \<longrightarrow>
      SubEnabled (Subscription cfg) \<and> CoreEnabled (ProxyCore cfg))"
    unfolding validateGateway_def by (auto simp: first_error_None split: if_splits)
  then show ?thesis
    unfolding Validate_def first_error_None
    by (simp add: validateServer_sound validateLimits_sound validateOpenVPN_sound
        validateSubscription_sound validateProxyCore_sound conj_ac)
qed

lemma generated_valid:
  assumes "password \<noteq> ''''" and "secret \<noteq> ''''" and "token \<noteq> ''''" and "uuid \<noteq> ''''"
  shows "Validate (generated password secret token uuid) = None"
proof -
  have "sound_server (Default\<lparr>Auth := (Auth Default)\<lparr>AuthPassword := ''p''\<rparr>,
      Server := (Server Default)\<lparr>SessionSecret := ''s''\<rparr>\<rparr>)"
    unfolding validateServer_sound [symmetric] by code_simp
  moreover have "sound_limits Default" unfolding validateLimits_sound [symmetric] by code_simp
  moreover have "sound_openvpn (OpenVPN Default)" unfolding validateOpenVPN_sound [symmetric] by code_simp
  moreover have "sound_subscription ((Subscription Default)\<lparr>Token := ''t'', UUID := ''u''\<rparr>)"
    unfolding validateSubscription_sound [symmetric] by code_simp
  moreover have "sound_core (ProxyCore Default)" unfolding validateProxyCore_sound [symmetric] by code_simp
  moreover have "SubEnabled (Subscription Default)" "CoreEnabled (ProxyCore Default)" by code_simp+
  ultimately show ?thesis
    using assms unfolding Validate_sound
    by (simp add: generated_def sound_server_def sound_limits_def sound_subscription_def)
qed

section \<open>Properties\<close>

text \<open>C33: validation accepts exactly the configurations whose sections are sound: the listen
  addresses parse, the secrets are set, no limit is negative, the subscription port is a port, the
  proxy core is the embedded one and its local SOCKS entry is on a loopback address; in gateway
  mode both the subscription and the proxy core are enabled.\<close>

theorem Validate_iff_sound:
  "Validate cfg = None \<longleftrightarrow>
     sound_server cfg \<and> sound_limits cfg \<and> sound_openvpn (OpenVPN cfg) \<and>
     sound_subscription (Subscription cfg) \<and> sound_core (ProxyCore cfg) \<and>
     (Mode (Deployment cfg) = ''gateway'' \<longrightarrow>
        SubEnabled (Subscription cfg) \<and> CoreEnabled (ProxyCore cfg))"
  by (rule Validate_sound)

lemma hex_encode_nonempty: "bs \<noteq> [] \<Longrightarrow> hex_encode bs \<noteq> []"
  using length_hex_encode [of bs] by (metis length_0_conv mult_eq_0_iff zero_neq_numeral)

lemma hex_encode_Cons: "hex_encode (b # bs) = hex_byte b @ hex_encode bs"
  by (simp add: hex_encode_def)

text \<open>With a random source that yields byte strings of the requested lengths, initialisation
  never reports an invalid configuration; the configuration it returns passes validation and
  carries fresh secrets of the intended sizes. It does return one when the path is absent, the
  random source works, the directory can be created and the file can be written.\<close>

theorem InitConfig_valid:
  assumes "\<forall>k n b. rand k n = Inr b \<longrightarrow> length b = n"
  shows "(case InitConfig stat rand mkdir write path of
      Inl err \<Rightarrow>
        \<not> (\<exists>e. err = InitInvalid e) \<and>
        \<not> (stat path = Absent \<and> path \<noteq> '''' \<and> (\<forall>k n. \<not> isl (rand k n)) \<and>
            mkdir (path_dirname path) = None \<and> (\<forall>cfg. write path cfg = None))
    | Inr cfg \<Rightarrow> Validate cfg = None \<and> length (AuthPassword (Auth cfg)) = 24 \<and>
        length (SessionSecret (Server cfg)) = 64 \<and> length (Token (Subscription cfg)) = 48)"
proof -
  have hex: "length h = 2 * n" if "randomHex rand k n = Inr h" for k n h
    using that assms by (auto simp: randomHex_def split: sum.splits)
  have uuid: "u \<noteq> ''''" if made: "randomUUID rand k = Inr u" for k u
  proof -
    obtain b where b: "u = uuid_text (uuid_bits b)"
      using made by (cases "rand k 16") (auto simp: randomUUID_def)
    then show ?thesis by (simp add: uuid_text_def)
  qed
  have valid: "Validate (generated p s t u) = None"
    if "randomHex rand 0 12 = Inr p" "randomHex rand 1 32 = Inr s" "randomHex rand 2 24 = Inr t"
      "randomUUID rand 3 = Inr u" for p s t u
    using that by (intro generated_valid) (auto dest: hex uuid)
  have fails_hex: "isl (rand k n)" if "randomHex rand k n = Inl e" for k n e
    using that by (auto simp: randomHex_def split: sum.splits)
  have fails_uuid: "isl (rand k 16)" if "randomUUID rand k = Inl e" for k e
    using that by (auto simp: randomUUID_def split: sum.splits)
  show ?thesis
    using hex valid fails_hex fails_uuid unfolding InitConfig_def Let_def
    by (fastforce simp: generated_def split: path_status.split sum.split option.split)
qed

lemma uuid_version: "unat ((b AND 0x0f) OR 0x40 :: byte) div 16 = 4"
proof -
  have "(0x0f :: byte) = mask 4" by (simp add: mask_eq_exp_minus_1)
  then have "drop_bit 4 ((b AND 0x0f) OR 0x40) = (4 :: byte)"
    by (simp add: drop_bit_or take_bit_eq_mask [symmetric] drop_bit_take_bit)
  then have "drop_bit 4 (unat ((b AND 0x0f) OR 0x40)) = unat (4 :: byte)"
    by (metis unat_drop_bit_eq)
  then show ?thesis by (simp add: drop_bit_eq_div)
qed

lemma uuid_variant: "unat ((b AND 0x3f) OR 0x80 :: byte) div 16 \<in> {8, 9, 10, 11}"
proof -
  have "(0x3f :: byte) = mask 6" by (simp add: mask_eq_exp_minus_1)
  then have "drop_bit 6 ((b AND 0x3f) OR 0x80) = (2 :: byte)"
    by (simp add: drop_bit_or take_bit_eq_mask [symmetric] drop_bit_take_bit)
  then have "drop_bit 6 (unat ((b AND 0x3f) OR 0x80)) = unat (2 :: byte)"
    by (metis unat_drop_bit_eq)
  then have "unat ((b AND 0x3f) OR 0x80) div 16 div 4 = 2"
    by (simp add: drop_bit_eq_div div_mult2_eq [symmetric])
  then show ?thesis by force
qed

lemma list_update_Cons_numeral: "(x # xs)[numeral n := y] = x # xs[pred_numeral n := y]"
  by (simp add: numeral_eq_Suc)

lemma uuid_text_chars:
  "uuid_text (uuid_bits [b0, b1, b2, b3, b4, b5, b6, b7, b8, b9, b10, b11, b12, b13, b14, b15]) =
     concat (map hex_byte [b0, b1, b2, b3]) @ ''-'' @ hex_byte b4 @ hex_byte b5 @ ''-'' @
     hex_byte ((b6 AND 0x0f) OR 0x40) @ hex_byte b7 @ ''-'' @
     hex_byte ((b8 AND 0x3f) OR 0x80) @ hex_byte b9 @ ''-'' @
     concat (map hex_byte [b10, b11, b12, b13, b14, b15])"
  by (simp add: uuid_bits_def uuid_text_def hex_encode_def list_update_Cons_numeral)

text \<open>A generated UUID has the textual form of a version 4 UUID of the standard variant, for
  any sixteen random bytes.\<close>

theorem randomUUID_version_4:
  assumes "rand k 16 = Inr buffer" and "length buffer = 16" and "randomUUID rand k = Inr uuid"
  shows "length uuid = 36 \<and> uuid ! 8 = CHR ''-'' \<and> uuid ! 13 = CHR ''-'' \<and> uuid ! 18 = CHR ''-'' \<and>
    uuid ! 23 = CHR ''-'' \<and> uuid ! 14 = CHR ''4'' \<and> uuid ! 19 \<in> set ''89ab''"
proof -
  obtain b0 b1 b2 b3 b4 b5 b6 b7 b8 b9 b10 b11 b12 b13 b14 b15 where
    b: "buffer = [b0, b1, b2, b3, b4, b5, b6, b7, b8, b9, b10, b11, b12, b13, b14, b15]"
    using assms(2) by (auto simp: length_Suc_conv eval_nat_numeral)
  have u: "uuid = uuid_text (uuid_bits buffer)"
    using assms(1,3) by (simp add: randomUUID_def)
  have "hex_digit 4 = CHR ''4''" "hex_digit 8 = CHR ''8''" "hex_digit 9 = CHR ''9''"
    "hex_digit 10 = CHR ''a''" "hex_digit 11 = CHR ''b''" by code_simp+
  then have "hex_digit (unat ((b6 AND 0x0f) OR 0x40) div 16) = CHR ''4''"
    "hex_digit (unat ((b8 AND 0x3f) OR 0x80) div 16) \<in> set ''89ab''"
    using uuid_version [of b6] uuid_variant [of b8] by auto
  then show ?thesis
    unfolding u b uuid_text_chars by (simp add: hex_byte_def)
qed

text \<open>Without a configuration file the defaults are used, and they never pass validation: the
  session secret is missing.\<close>

theorem LoadConfig_no_path:
  "LoadConfig readFile unmarshal '''' = (Default, Some (Invalid SessionSecretRequired))"
proof -
  have "Validate Default = Some SessionSecretRequired" by code_simp
  then show ?thesis by (simp add: LoadConfig_def)
qed

section \<open>Witnesses\<close>

theorem Validate_iff_sound_witness:
  "sound_core (ProxyCore (generated ''p'' ''s'' ''t'' ''u''))"
  using Validate_iff_sound [of "generated ''p'' ''s'' ''t'' ''u''"]
    generated_valid [of "''p''" "''s''" "''t''" "''u''"] by simp

definition some_random :: random_source where
  "some_random k n = Inr (replicate n 255)"

theorem InitConfig_valid_witness:
  "\<exists>cfg. InitConfig (\<lambda>_. Absent) some_random (\<lambda>_. None) (\<lambda>_ _. None) ''c.json'' = Inr cfg \<and>
     Validate cfg = None"
proof -
  have r: "\<forall>k n b. some_random k n = Inr b \<longrightarrow> length b = n" "\<forall>k n. \<not> isl (some_random k n)"
    by (auto simp: some_random_def)
  with InitConfig_valid [OF r(1), of "\<lambda>_. Absent" "''c.json''" "\<lambda>_. None" "\<lambda>_ _. None"]
  show ?thesis by (simp split: sum.splits)
qed

theorem randomUUID_version_4_witness:
  "\<exists>uuid. randomUUID some_random 3 = Inr uuid \<and> length uuid = 36 \<and> uuid ! 14 = CHR ''4''"
proof -
  have r: "some_random 3 16 = Inr (replicate 16 255)" by (simp add: some_random_def)
  then obtain uuid where u: "randomUUID some_random 3 = Inr uuid" by (simp add: randomUUID_def)
  from randomUUID_version_4 [OF r _ u] show ?thesis using u by auto
qed

end
