(* ===== verification/Json_Store.thy ===== *)
theory Json_Store
  imports Domain Config
begin

text \<open>
  The state file (src/internal/storage/json_store.go). The text is modelled by the values it
  stores: the profile of a node is tagged \<open>json:"-"\<close> and is not among them. A save is the sequence
  of its file system calls, any of which may fail or be the last one before a crash; the file that
  is loaded later is then either the old or the new one.
\<close>

section \<open>Definitions\<close>

record store_state =
  Version :: int
  Nodes :: "vpn_node list"
  SavedSnapshot :: connection_snapshot
  UpdatedAt :: time

text \<open>What encoding and decoding a node leaves of it.\<close>

definition stored_node :: "vpn_node \<Rightarrow> vpn_node" where
  "stored_node n = n\<lparr>OpenVPNConfig := ''''\<rparr>"

datatype disk_file = NoFile | Garbled string | Stored store_state

record store_files =
  StateFile :: disk_file
  TmpFile :: disk_file

definition store_path :: "string \<Rightarrow> string" where
  "store_path dataDir = path_join dataDir ''state.json''"

definition zero_snapshot :: connection_snapshot where
  "zero_snapshot = \<lparr>State = '''', Message = '''', ActiveNodeID = '''', ExitIP = '''', ConnectedSince = None,
     LastVerifiedAt = None, ConsecutiveFailures = 0, Metadata = []\<rparr>"

text \<open>Reading may fail for another reason than a missing file; decoding fails on a garbled file and
  never sets the profile of a node.\<close>

definition LoadState :: "string option \<Rightarrow> disk_file \<Rightarrow> store_state res" where
  "LoadState readError content =
     (case (readError, content) of
        (Some err, _) \<Rightarrow> Inl err
      | (None, NoFile) \<Rightarrow>
          Inr \<lparr>Version = 1, Nodes = [], SavedSnapshot = InitialSnapshot, UpdatedAt = 0\<rparr>
      | (None, Garbled err) \<Rightarrow> Inl err
      | (None, Stored st) \<Rightarrow>
          let st = st\<lparr>Nodes := map stored_node (Nodes st)\<rparr>
          in Inr (if State (SavedSnapshot st) \<noteq> StateIdle
                  then st\<lparr>SavedSnapshot := InitialSnapshot\<lparr>Message := msg_cache_restored\<rparr>\<rparr> else st))"

text \<open>The steps of a save, each with its outcome: the directory, the temporary file (a failed write
  may leave any garbled content), the rename.\<close>

datatype save_step =
    MkdirAll "string option"
  | WriteTmp "string option"
  | Rename "string option"

definition encoded :: "vpn_node list \<Rightarrow> connection_snapshot \<Rightarrow> time \<Rightarrow> store_state" where
  "encoded nodes snapshot now =
     \<lparr>Version = 1, Nodes = map stored_node nodes, SavedSnapshot = snapshot, UpdatedAt = now\<rparr>"

fun apply_step :: "store_state \<Rightarrow> save_step \<Rightarrow> store_files \<Rightarrow> store_files \<times> string option" where
  "apply_step st (MkdirAll err) fs = (fs, err)"
| "apply_step st (WriteTmp None) fs = (fs\<lparr>TmpFile := Stored st\<rparr>, None)"
| "apply_step st (WriteTmp (Some err)) fs = (fs\<lparr>TmpFile := Garbled err\<rparr>, Some err)"
| "apply_step st (Rename None) fs = (\<lparr>StateFile = TmpFile fs, TmpFile = NoFile\<rparr>, None)"
| "apply_step st (Rename (Some err)) fs = (fs, Some err)"

text \<open>A save runs the steps in order and stops at the first error.\<close>

fun run_steps :: "store_state \<Rightarrow> save_step list \<Rightarrow> store_files \<Rightarrow> store_files \<times> string option" where
  "run_steps st [] fs = (fs, None)"
| "run_steps st (s # ss) fs =
     (case apply_step st s fs of
        (fs', Some err) \<Rightarrow> (fs', Some err)
      | (fs', None) \<Rightarrow> run_steps st ss fs')"

record save_outcome =
  MkdirErr :: "string option"
  WriteErr :: "string option"
  RenameErr :: "string option"

definition save_steps :: "save_outcome \<Rightarrow> save_step list" where
  "save_steps io = [MkdirAll (MkdirErr io), WriteTmp (WriteErr io), Rename (RenameErr io)]"

definition SaveState ::
  "save_outcome \<Rightarrow> vpn_node list \<Rightarrow> connection_snapshot \<Rightarrow> time \<Rightarrow> store_files \<Rightarrow>
   store_files \<times> string option" where
  "SaveState io nodes snapshot now fs = run_steps (encoded nodes snapshot now) (save_steps io) fs"

section \<open>Properties\<close>

text \<open>C30: whatever step of a save is the last to run or fails, the state file afterwards is the one
  before or the complete new one; it is the new one exactly when the whole save succeeded.\<close>

theorem SaveState_atomic:
  "StateFile (fst (run_steps (encoded nodes snapshot now) (take k (save_steps io)) fs))
     \<in> {StateFile fs, Stored (encoded nodes snapshot now)} \<and>
   (snd (SaveState io nodes snapshot now fs) = None \<longleftrightarrow>
      MkdirErr io = None \<and> WriteErr io = None \<and> RenameErr io = None) \<and>
   (snd (SaveState io nodes snapshot now fs) = None \<longrightarrow>
      StateFile (fst (SaveState io nodes snapshot now fs)) = Stored (encoded nodes snapshot now))"
proof -
  have "take k (save_steps io) \<in> {[], take 1 (save_steps io), take 2 (save_steps io), save_steps io}"
  proof -
    consider "k = 0" | "k = 1" | "k = 2" | "3 \<le> k" by linarith
    then show ?thesis by cases (simp_all add: save_steps_def)
  qed
  then show ?thesis
    by (cases "MkdirErr io"; cases "WriteErr io"; cases "RenameErr io")
      (auto simp: SaveState_def save_steps_def)
qed

text \<open>A saved state is loaded with the same nodes except for their profiles, which are empty,
  and never claims a connection: the loaded snapshot is idle whatever was saved.\<close>

theorem LoadState_after_save:
  assumes "SaveState io nodes snapshot now fs = (fs', None)"
  shows "\<exists>st. LoadState None (StateFile fs') = Inr st \<and> Nodes st = map stored_node nodes \<and>
    State (SavedSnapshot st) = StateIdle \<and> (\<forall>n\<in>set (Nodes st). OpenVPNConfig n = '''') \<and>
    (State snapshot = StateIdle \<longrightarrow> SavedSnapshot st = snapshot)"
proof -
  have "StateFile fs' = Stored (encoded nodes snapshot now)"
    using assms by (cases "MkdirErr io"; cases "WriteErr io"; cases "RenameErr io")
      (auto simp: SaveState_def save_steps_def)
  then show ?thesis
    by (auto simp: LoadState_def encoded_def stored_node_def InitialSnapshot_def Let_def)
qed

section \<open>Witnesses\<close>

definition smooth :: save_outcome where
  "smooth = \<lparr>MkdirErr = None, WriteErr = None, RenameErr = None\<rparr>"

definition connected_snapshot :: connection_snapshot where
  "connected_snapshot = InitialSnapshot\<lparr>State := StateConnected, ActiveNodeID := ''n''\<rparr>"

theorem SaveState_atomic_witness:
  "StateFile (fst (SaveState smooth [zero_node] connected_snapshot 9 \<lparr>StateFile = NoFile, TmpFile = NoFile\<rparr>)) =
     Stored (encoded [zero_node] connected_snapshot 9)"
  using SaveState_atomic [of "[zero_node]" connected_snapshot 9 0 smooth "\<lparr>StateFile = NoFile, TmpFile = NoFile\<rparr>"]
  by (simp add: smooth_def)

theorem LoadState_after_save_witness:
  "\<exists>st. LoadState None (Stored (encoded [zero_node] connected_snapshot 9)) = Inr st \<and>
     State (SavedSnapshot st) = StateIdle"
proof -
  have "SaveState smooth [zero_node] connected_snapshot 9 \<lparr>StateFile = NoFile, TmpFile = NoFile\<rparr> =
      (\<lparr>StateFile = Stored (encoded [zero_node] connected_snapshot 9), TmpFile = NoFile\<rparr>, None)"
    by (simp add: SaveState_def save_steps_def smooth_def)
  from LoadState_after_save [OF this] show ?thesis by auto
qed

end
