(* ===== verification/Ovpn_Config.thy ===== *)
theory Ovpn_Config
  imports Domain Go_Net
begin

text \<open>
  Cleaning and completing OpenVPN profiles (src/internal/tunnel/ovpn_config.go): the directives
  that run programs are removed, those that the manager sets itself are replaced. The lemmas show
  that no such directive is left on any line, that cleaning is idempotent, and which lines a
  rendered profile adds.
\<close>

section \<open>Definitions\<close>

definition executionDirectives :: "string list" where
  "executionDirectives =
     [''auth-user-pass-verify'', ''client-connect'', ''client-disconnect'', ''down'', ''engine'',
      ''ipchange'', ''iproute'', ''learn-address'', ''plugin'', ''providers'', ''pkcs11-providers'',
      ''route-pre-down'', ''route-up'', ''script-security'', ''tls-crypt-v2-verify'', ''tls-verify'',
      ''up'']"

definition replacedDirectives :: "string list" where
  "replacedDirectives =
     [''auth-user-pass'', ''block-outside-dns'', ''http-proxy'', ''http-proxy-retry'',
      ''http-proxy-user-pass'', ''management'', ''management-client'', ''management-client-auth'',
      ''management-client-group'', ''management-client-pf'', ''management-client-user'',
      ''management-external-cert'', ''management-external-key'', ''management-hold'',
      ''management-log-cache'', ''management-query-passwords'', ''management-signal'',
      ''management-up-down'', ''socks-proxy'', ''socks-proxy-retry'', ''register-dns'']"

record render_options =
  AuthPath :: string
  UseProxy :: bool
  ProxyHost :: string
  ProxyPort :: int
  BypassIPs :: "string list"
  GOOS :: string

definition directiveName :: "string \<Rightarrow> string" where
  "directiveName line =
     (if line = '''' \<or> has_prefix line ''#'' \<or> has_prefix line '';'' \<or> has_prefix line ''<'' then ''''
      else case str_fields line of
             [] \<Rightarrow> ''''
           | f # _ \<Rightarrow> trim_prefix (to_lower f) ''--'')"

definition blanks :: "char set" where
  "blanks = {CHR '' '', CHR 0x09}"

definition continues :: "string \<Rightarrow> bool" where
  "continues rawLine \<longleftrightarrow> has_suffix (trim_right_set blanks rawLine) [CHR 0x5C]"

text \<open>The name of the credential block that a line opens, if it opens one.\<close>

definition credentialBlock :: "string \<Rightarrow> string option" where
  "credentialBlock lower =
     (if has_prefix lower ''<'' \<and> has_suffix lower ''>'' \<and> \<not> has_prefix lower ''</'' then
        (case str_fields (trim_set {CHR ''<'', CHR ''>''} lower) of
           [] \<Rightarrow> None
         | name # _ \<Rightarrow>
             if name = ''auth-user-pass'' \<or> name = ''http-proxy-user-pass'' then Some name else None)
      else None)"

definition dropped :: "string \<Rightarrow> bool" where
  "dropped name \<longleftrightarrow> name \<in> set executionDirectives \<or> name \<in> set replacedDirectives"

text \<open>The loop over the lines; \<open>skippedBlock\<close> is empty outside a skipped block.\<close>

fun keepLines :: "string \<Rightarrow> bool \<Rightarrow> string list \<Rightarrow> string list" where
  "keepLines skippedBlock skipContinuation [] = []"
| "keepLines skippedBlock skipContinuation (rawLine # rest) =
     (let stripped = trim_space rawLine;
          lower = to_lower stripped
      in if skippedBlock \<noteq> '''' then
           keepLines (if lower = ''</'' @ skippedBlock @ ''>'' then '''' else skippedBlock)
             skipContinuation rest
         else case credentialBlock lower of
             Some name \<Rightarrow> keepLines name skipContinuation rest
           | None \<Rightarrow>
               if skipContinuation then keepLines '''' (continues rawLine) rest
               else if dropped (directiveName stripped) then keepLines '''' (continues rawLine) rest
               else trim_right_set blanks rawLine # keepLines '''' False rest)"

definition dropBlankTail :: "string list \<Rightarrow> string list" where
  "dropBlankTail ls = rev (dropWhile (\<lambda>l. trim_space l = '''') (rev ls))"

definition significant :: "string \<Rightarrow> bool" where
  "significant line \<longleftrightarrow>
     (let trimmed = trim_space line
      in trimmed \<noteq> '''' \<and> \<not> has_prefix trimmed ''#'' \<and> \<not> has_prefix trimmed '';'')"

definition newline :: string where
  "newline = [CHR 0x0A]"

definition SanitizeOpenVPNConfig :: "string \<Rightarrow> string res" where
  "SanitizeOpenVPNConfig configText =
     (let ls = dropBlankTail
                 (keepLines '''' False (split_on CHR 0x0A (normalize_newlines configText)))
      in if list_ex significant ls then Inr (join newline ls @ newline)
         else Inl ''OpenVPN config is empty after sanitization'')"

text \<open>filepath.ToSlash, which changes the separator on Windows only.\<close>

definition to_slash :: "string \<Rightarrow> string \<Rightarrow> string" where
  "to_slash runtime_goos path =
     (if runtime_goos = ''windows'' then map (\<lambda>c. if c = CHR 0x5C then CHR ''/'' else c) path else path)"

definition openvpnPath :: "string \<Rightarrow> string \<Rightarrow> string" where
  "openvpnPath runtime_goos path =
     replace_all [CHR 0x22] [CHR 0x5C, CHR 0x22] (to_slash runtime_goos path)"

fun bypassLines :: "string list \<Rightarrow> string list res" where
  "bypassLines [] = Inr []"
| "bypassLines (raw # rest) =
     (case ParseIP (trim_space raw) of
        None \<Rightarrow> Inl (''bypass IP must be public: '' @ raw)
      | Some ip \<Rightarrow>
          if \<not> IsGlobalUnicast ip \<or> IsPrivate ip \<or> IsLoopback ip then
            Inl (''bypass IP must be public: '' @ raw)
          else
            case bypassLines rest of
              Inl err \<Rightarrow> Inl err
            | Inr ls \<Rightarrow>
                Inr ((if To4 ip \<noteq> None then ''route '' @ IP_String ip @ '' 255.255.255.255 net_gateway''
                      else ''route-ipv6 '' @ IP_String ip @ ''/128 net_gateway'') # ls))"

definition proxyLines :: "render_options \<Rightarrow> string list res" where
  "proxyLines options =
     (if \<not> UseProxy options then Inr []
      else case ParseIP (ProxyHost options) of
          None \<Rightarrow> Inl ''proxy host must be a loopback IP''
        | Some proxyIP \<Rightarrow>
            if \<not> IsLoopback proxyIP then Inl ''proxy host must be a loopback IP''
            else if ProxyPort options < 1 \<or> 65535 < ProxyPort options then
              Inl ''proxy port must be between 1 and 65535''
            else Inr ['''', ''# Optional local proxy relay'',
                 ''socks-proxy '' @ IP_String proxyIP @ '' '' @ itoa (ProxyPort options),
                 ''socks-proxy-retry''])"

definition managedLines :: "string \<Rightarrow> render_options \<Rightarrow> string list res" where
  "managedLines runtime_goos options =
     (if AuthPath options = '''' then Inl ''auth path is required''
      else
        let goos = (if GOOS options = '''' then runtime_goos else GOOS options);
            base = ['''', ''# Managed by Residential IP Manager'',
                    ''auth-user-pass '' @ [CHR 0x22] @ openvpnPath runtime_goos (AuthPath options) @ [CHR 0x22],
                    ''auth-nocache''];
            windows = (if goos = ''windows'' then
                         ['''', ''# Windows DNS leak protection'', ''block-outside-dns'', ''register-dns'']
                       else [])
        in case proxyLines options of
            Inl err \<Rightarrow> Inl err
          | Inr proxy \<Rightarrow>
              (case bypassLines (BypassIPs options) of
                 Inl err \<Rightarrow> Inl err
               | Inr bypass \<Rightarrow> Inr (base @ proxy @ windows @ bypass)))"

definition RenderOpenVPNConfig :: "string \<Rightarrow> string \<Rightarrow> render_options \<Rightarrow> string res" where
  "RenderOpenVPNConfig runtime_goos configText options =
     (case SanitizeOpenVPNConfig configText of
        Inl err \<Rightarrow> Inl err
      | Inr cleaned \<Rightarrow>
          (case managedLines runtime_goos options of
             Inl err \<Rightarrow> Inl err
           | Inr ls \<Rightarrow> Inr (cleaned @ join newline ls @ newline)))"

section \<open>Lines\<close>

text \<open>A line the loop keeps: it opens no credential block, names no dropped directive and carries
  no trailing blanks.\<close>

definition clean_line :: "string \<Rightarrow> bool" where
  "clean_line l \<longleftrightarrow>
     credentialBlock (to_lower (trim_space l)) = None \<and> \<not> dropped (directiveName (trim_space l)) \<and>
     trim_right_set blanks l = l"

lemma trim_space_blanks [simp]: "trim_space (trim_right_set blanks l) = trim_space l"
  by (rule trim_space_trim_right) (auto simp: blanks_def ascii_space_def)

lemma keepLines_clean: "l \<in> set (keepLines b s ls) \<Longrightarrow> clean_line l"
  by (induction b s ls rule: keepLines.induct)
    (auto simp: Let_def clean_line_def split: if_splits option.splits)

lemma keepLines_chars: "l \<in> set (keepLines b s ls) \<Longrightarrow> \<exists>r\<in>set ls. set l \<subseteq> set r"
proof (induction b s ls rule: keepLines.induct)
  case (2 b s r ls)
  then show ?case
    using trim_right_set_subset [of blanks r]
    by (auto simp: Let_def split: if_splits option.splits)
qed simp

lemma keepLines_id: "\<forall>l\<in>set ls. clean_line l \<Longrightarrow> keepLines '''' False ls = ls"
  by (induction ls) (auto simp: Let_def clean_line_def)

lemma set_dropBlankTail: "set (dropBlankTail ls) \<subseteq> set ls"
  by (auto simp: dropBlankTail_def dest: set_dropWhileD)

lemma dropBlankTail_snoc: "dropBlankTail (dropBlankTail ls @ [[]]) = dropBlankTail ls"
  by (simp add: dropBlankTail_def dropWhile_idem trim_space_def)

lemma clean_line_Nil: "clean_line []"
  by code_simp

lemma sanitized_lines:
  assumes "SanitizeOpenVPNConfig t = Inr out"
  obtains ls where "out = join newline ls @ newline" and "ls \<noteq> []" and "list_ex significant ls"
    and "\<forall>l\<in>set ls. clean_line l \<and> CHR 0x0A \<notin> set l \<and> CHR 0x0D \<notin> set l"
    and "dropBlankTail (ls @ [[]]) = ls"
    and "split_on CHR 0x0A out = ls @ [[]]"
proof -
  let ?raw = "split_on CHR 0x0A (normalize_newlines t)"
  let ?ls = "dropBlankTail (keepLines '''' False ?raw)"
  have out: "out = join newline ?ls @ newline" and sig: "list_ex significant ?ls"
    using assms by (auto simp: SanitizeOpenVPNConfig_def Let_def split: if_splits)
  then have ne: "?ls \<noteq> []" by auto
  have lines: "\<forall>l\<in>set ?ls. clean_line l \<and> CHR 0x0A \<notin> set l \<and> CHR 0x0D \<notin> set l"
  proof
    fix l assume "l \<in> set ?ls"
    then have l: "l \<in> set (keepLines '''' False ?raw)" using set_dropBlankTail by blast
    then obtain r where r: "r \<in> set ?raw" "set l \<subseteq> set r" using keepLines_chars by blast
    have "CHR 0x0A \<notin> set r" "set r \<subseteq> set (normalize_newlines t)"
      using split_on_piece [OF r(1)] by auto
    then show "clean_line l \<and> CHR 0x0A \<notin> set l \<and> CHR 0x0D \<notin> set l"
      using keepLines_clean [OF l] r(2) normalize_newlines_no_cr [of t] by blast
  qed
  have "split_on CHR 0x0A out = ?ls @ [[]]"
    using lines ne unfolding out newline_def
    by (simp add: join_snoc_Nil [of _ "[CHR 0x0A]"] split_on_join)
  with out sig ne lines dropBlankTail_snoc show ?thesis by (intro that)
qed

lemma newline_no_cr:
  assumes "\<forall>l\<in>set ls. CHR 0x0D \<notin> set l"
  shows "CHR 0x0D \<notin> set (join newline ls @ newline)"
  using set_join_subset [of newline ls] assms by (auto simp: newline_def)

section \<open>Properties\<close>

text \<open>C29: no line of a cleaned profile names a directive that runs a program or that the manager
  sets itself, and none opens a block of credentials, whatever the input.\<close>

theorem Sanitize_no_dropped_directive:
  assumes "SanitizeOpenVPNConfig t = Inr out" and "l \<in> set (split_on CHR 0x0A out)"
  shows "directiveName (trim_space l) \<notin> set executionDirectives \<union> set replacedDirectives \<and>
    credentialBlock (to_lower (trim_space l)) = None"
proof -
  obtain ls where "split_on CHR 0x0A out = ls @ [[]]" "\<forall>l\<in>set ls. clean_line l"
    using sanitized_lines [OF assms(1)] by metis
  then have "clean_line l" using assms(2) clean_line_Nil by auto
  then show ?thesis by (simp add: clean_line_def dropped_def)
qed

text \<open>Cleaning a cleaned profile changes nothing.\<close>

theorem Sanitize_idempotent:
  assumes "SanitizeOpenVPNConfig t = Inr out"
  shows "SanitizeOpenVPNConfig out = Inr out"
proof -
  obtain ls where ls: "out = join newline ls @ newline" "list_ex significant ls"
    "\<forall>l\<in>set ls. clean_line l \<and> CHR 0x0A \<notin> set l \<and> CHR 0x0D \<notin> set l"
    "dropBlankTail (ls @ [[]]) = ls" "split_on CHR 0x0A out = ls @ [[]]"
    using sanitized_lines [OF assms] by metis
  then have "normalize_newlines out = out"
    by (intro normalize_newlines_id) (simp only: ls(1), rule newline_no_cr, blast)
  moreover have "keepLines '''' False (ls @ [[]]) = ls @ [[]]"
    using ls(3) clean_line_Nil by (intro keepLines_id) auto
  ultimately show ?thesis
    using ls by (simp add: SanitizeOpenVPNConfig_def)
qed

section \<open>Rendered profiles\<close>

text \<open>The directive that a line of a profile carries.\<close>

definition lineDirective :: "string \<Rightarrow> string" where
  "lineDirective l = directiveName (trim_space l)"

lemma lineDirective_word:
  assumes "w \<noteq> []" and "list_all plain_char w" and "hd w \<notin> {CHR ''#'', CHR '';'', CHR ''<''}"
    and "r \<noteq> []" and "plain_char (last r)"
  shows "lineDirective (w @ CHR '' '' # r) = trim_prefix (to_lower w) ''--''"
proof -
  obtain a v where w: "w = a # v" using assms(1) by (cases w) auto
  have "trim_space (w @ CHR '' '' # r) = w @ CHR '' '' # r"
    using assms w by (intro trim_space_plain) auto
  moreover have "str_fields (w @ CHR '' '' # r) = w # str_fields r"
    using assms(1,2) by (rule str_fields_word)
  ultimately show ?thesis
    using assms(3) by (simp add: lineDirective_def directiveName_def w)
qed

lemma join_append:
  "xs \<noteq> [] \<Longrightarrow> ys \<noteq> [] \<Longrightarrow> join sep xs @ sep @ join sep ys = join sep (xs @ ys)"
  by (induction xs) (auto simp: join_Cons)

lemma plain_no_newline: "list_all plain_char w \<Longrightarrow> CHR 0x0A \<notin> set w"
  by (auto simp: list_all_iff plain_char_def ascii_space_def)

lemma openvpnPath_no_newline:
  "CHR 0x0A \<notin> set path \<Longrightarrow> CHR 0x0A \<notin> set (openvpnPath g path)"
  by (auto simp: openvpnPath_def to_slash_def dest!: set_replace_all [THEN subsetD] split: if_splits)

lemma bypassLines_lines:
  assumes "bypassLines raws = Inr ls" and "l \<in> set ls"
  shows "CHR 0x0A \<notin> set l \<and> \<not> dropped (lineDirective l)"
  using assms
proof (induction raws arbitrary: ls)
  case Nil
  then show ?case by simp
next
  case (Cons raw rest)
  have dirs: "\<not> dropped (trim_prefix (to_lower ''route'') ''--'')"
    "\<not> dropped (trim_prefix (to_lower ''route-ipv6'') ''--'')"
    by code_simp+
  have v4: "lineDirective (''route'' @ CHR '' '' # IP_String ip @ '' 255.255.255.255 net_gateway'') =
      trim_prefix (to_lower ''route'') ''--''" for ip
    by (rule lineDirective_word) (simp_all add: plain_char_def ascii_space_def)
  have v6: "lineDirective (''route-ipv6'' @ CHR '' '' # IP_String ip @ ''/128 net_gateway'') =
      trim_prefix (to_lower ''route-ipv6'') ''--''" for ip
    by (rule lineDirective_word) (simp_all add: plain_char_def ascii_space_def)
  show ?case
    using Cons plain_no_newline [OF IP_String_plain] v4 v6 dirs
    by (auto split: option.splits if_splits sum.splits)
qed

text \<open>The directives under the manager's control that the managed lines carry.\<close>

definition managedDirectives :: "string \<Rightarrow> render_options \<Rightarrow> string list" where
  "managedDirectives runtime_goos options =
     ''auth-user-pass'' # (if UseProxy options then [''socks-proxy'', ''socks-proxy-retry''] else []) @
     (if (if GOOS options = '''' then runtime_goos else GOOS options) = ''windows''
      then [''block-outside-dns'', ''register-dns''] else [])"

lemma proxyLines_lines:
  assumes "proxyLines options = Inr ls"
  shows "(\<forall>l\<in>set ls. CHR 0x0A \<notin> set l) \<and> filter dropped (map lineDirective ls) =
    (if UseProxy options then [''socks-proxy'', ''socks-proxy-retry''] else [])"
proof (cases "UseProxy options")
  case True
  obtain ip where ls: "ls = ['''', ''# Optional local proxy relay'',
      ''socks-proxy'' @ CHR '' '' # IP_String ip @ '' '' @ itoa (ProxyPort options), ''socks-proxy-retry'']"
    using assms True by (auto simp: proxyLines_def split: option.splits if_splits)
  have last: "plain_char (last (IP_String ip @ '' '' @ itoa (ProxyPort options)))"
    using itoa_plain [of "ProxyPort options"] by (simp add: list_all_iff last_in_set)
  have "lineDirective (''socks-proxy'' @ CHR '' '' # IP_String ip @ '' '' @ itoa (ProxyPort options)) =
      trim_prefix (to_lower ''socks-proxy'') ''--''"
    by (rule lineDirective_word) (use last in \<open>simp_all add: plain_char_def ascii_space_def\<close>)
  also have "\<dots> = ''socks-proxy''" by code_simp
  finally have "map lineDirective ls = [[], [], ''socks-proxy'', ''socks-proxy-retry'']"
    unfolding ls list.map by (simp only: list.inject simp_thms) code_simp
  moreover have "filter dropped [[], [], ''socks-proxy'', ''socks-proxy-retry''] =
      [''socks-proxy'', ''socks-proxy-retry'']" by code_simp
  ultimately show ?thesis
    using True plain_no_newline [OF IP_String_plain] plain_no_newline [OF itoa_plain]
    by (simp add: ls)
qed (use assms in \<open>simp add: proxyLines_def\<close>)

lemma managedLines_lines:
  assumes "managedLines g options = Inr ls" and "CHR 0x0A \<notin> set (AuthPath options)"
  shows "ls \<noteq> [] \<and> (\<forall>l\<in>set ls. CHR 0x0A \<notin> set l) \<and>
    filter dropped (map lineDirective ls) = managedDirectives g options"
proof -
  let ?windows = "if (if GOOS options = '''' then g else GOOS options) = ''windows''
    then ['''', ''# Windows DNS leak protection'', ''block-outside-dns'', ''register-dns''] else []"
  let ?path = "[CHR 0x22] @ openvpnPath g (AuthPath options) @ [CHR 0x22]"
  let ?base = "['''', ''# Managed by Residential IP Manager'', ''auth-user-pass'' @ CHR '' '' # ?path,
    ''auth-nocache'']"
  obtain proxy bypass where p: "proxyLines options = Inr proxy"
    and b: "bypassLines (BypassIPs options) = Inr bypass"
    and ls: "ls = ?base @ proxy @ ?windows @ bypass"
    using assms(1) by (auto simp: managedLines_def Let_def split: if_splits sum.splits)
  have "lineDirective (''auth-user-pass'' @ CHR '' '' # ?path) =
      trim_prefix (to_lower ''auth-user-pass'') ''--''"
    by (rule lineDirective_word) (simp_all add: plain_char_def ascii_space_def)
  also have "\<dots> = ''auth-user-pass''" by code_simp
  finally have "map lineDirective ?base = [[], [], ''auth-user-pass'', ''auth-nocache'']"
    unfolding list.map by (simp only: list.inject simp_thms) code_simp
  moreover have "filter dropped [[], [], ''auth-user-pass'', ''auth-nocache''] = [''auth-user-pass'']"
    by code_simp
  ultimately have base: "filter dropped (map lineDirective ?base) = [''auth-user-pass'']"
    by (simp only:)
  have windows: "filter dropped (map lineDirective ?windows) =
      (if (if GOOS options = '''' then g else GOOS options) = ''windows''
       then [''block-outside-dns'', ''register-dns''] else [])"
    by (simp only: if_distrib [of "\<lambda>ls. filter dropped (map lineDirective ls)"] list.map filter.simps(1),
        rule if_cong [OF refl _ refl], code_simp)
  have bypass: "filter dropped (map lineDirective bypass) = []"
    using bypassLines_lines [OF b] by (auto simp: filter_empty_conv)
  have "filter dropped (map lineDirective ls) = managedDirectives g options"
    unfolding ls map_append filter_append base windows bypass managedDirectives_def
    using proxyLines_lines [OF p] by simp
  moreover have "\<forall>l\<in>set ls. CHR 0x0A \<notin> set l"
    using proxyLines_lines [OF p] bypassLines_lines [OF b] openvpnPath_no_newline [OF assms(2)]
    unfolding ls by (auto split: if_splits)
  ultimately show ?thesis by (simp add: ls)
qed

text \<open>The only directives under the manager's control in a rendered profile are the manager's
  own, each once and in the documented order: the credentials file, the loopback proxy if one is
  used, and the DNS protection on Windows. The path of the credentials file is on one line.\<close>

theorem Render_managed_directives:
  assumes "RenderOpenVPNConfig g t options = Inr out" and "CHR 0x0A \<notin> set (AuthPath options)"
  shows "filter dropped (map lineDirective (split_on CHR 0x0A out)) = managedDirectives g options"
proof -
  obtain cleaned ls where c: "SanitizeOpenVPNConfig t = Inr cleaned"
    and m: "managedLines g options = Inr ls" and out: "out = cleaned @ join newline ls @ newline"
    using assms(1) by (auto simp: RenderOpenVPNConfig_def split: sum.splits)
  obtain cl where cl: "cleaned = join newline cl @ newline" "cl \<noteq> []"
    "\<forall>l\<in>set cl. clean_line l \<and> CHR 0x0A \<notin> set l \<and> CHR 0x0D \<notin> set l"
    using sanitized_lines [OF c] by metis
  note lines = managedLines_lines [OF m assms(2)]
  have "out = join newline ((cl @ ls) @ [[]])"
    using cl(2) lines by (simp add: out cl(1) join_snoc_Nil [symmetric] flip: join_append)
  moreover have "\<forall>l\<in>set ((cl @ ls) @ [[]]). CHR 0x0A \<notin> set l"
    using cl(3) lines by auto
  ultimately have "split_on CHR 0x0A out = (cl @ ls) @ [[]]"
    unfolding newline_def using split_on_join [of "(cl @ ls) @ [[]]" "CHR 0x0A"] by simp
  moreover have "filter dropped (map lineDirective cl) = []"
    using cl(3) by (auto simp: filter_empty_conv clean_line_def lineDirective_def)
  moreover have "\<not> dropped (lineDirective [])" by code_simp
  ultimately show ?thesis using lines by simp
qed

section \<open>Witnesses\<close>

definition sample_profile :: string where
  "sample_profile = join newline [''client'', ''  UP  /bin/sh '', ''remote 203.0.114.9 443'', ''verb 3  '', '''']"

lemma sample_profile_cleaned:
  "SanitizeOpenVPNConfig sample_profile =
     Inr (join newline [''client'', ''remote 203.0.114.9 443'', ''verb 3''] @ newline)"
  by code_simp

theorem Sanitize_no_dropped_directive_witness:
  "directiveName (trim_space ''verb 3'') \<notin> set executionDirectives \<union> set replacedDirectives \<and>
    credentialBlock (to_lower (trim_space ''verb 3'')) = None"
  by (rule Sanitize_no_dropped_directive [OF sample_profile_cleaned]) code_simp

theorem Sanitize_idempotent_witness:
  "SanitizeOpenVPNConfig (join newline [''client'', ''remote 203.0.114.9 443'', ''verb 3''] @ newline) =
     Inr (join newline [''client'', ''remote 203.0.114.9 443'', ''verb 3''] @ newline)"
  by (rule Sanitize_idempotent [OF sample_profile_cleaned])

definition sample_render :: render_options where
  "sample_render = \<lparr>AuthPath = ''/etc/rim/auth'', UseProxy = True, ProxyHost = ''127.0.0.1'',
     ProxyPort = 1080, BypassIPs = [''198.51.100.7''], GOOS = ''linux''\<rparr>"

theorem Render_managed_directives_witness:
  "\<exists>out. RenderOpenVPNConfig ''linux'' sample_profile sample_render = Inr out \<and>
     filter dropped (map lineDirective (split_on CHR 0x0A out)) =
       [''auth-user-pass'', ''socks-proxy'', ''socks-proxy-retry'']"
proof -
  have "isl (RenderOpenVPNConfig ''linux'' sample_profile sample_render) = False" by code_simp
  then obtain out where out: "RenderOpenVPNConfig ''linux'' sample_profile sample_render = Inr out"
    by (cases "RenderOpenVPNConfig ''linux'' sample_profile sample_render") auto
  have "CHR 0x0A \<notin> set (AuthPath sample_render)" by code_simp
  moreover have "managedDirectives ''linux'' sample_render =
      [''auth-user-pass'', ''socks-proxy'', ''socks-proxy-retry'']" by code_simp
  ultimately show ?thesis using Render_managed_directives [OF out] out by simp
qed

end
