(* ===== verification/Vpn_Options.thy ===== *)
theory Vpn_Options
  imports Config Ovpn_Config
begin

text \<open>
  The option parser of the OpenVPN engine (src/third_party/minivpn/pkg/config/vpnoptions.go and
  config.go). The file system is an argument. An index out of range and a nil dereference of the
  source are values of the error type, so that no input of the model hides a crash. The parser only
  yields supported ciphers and digests, and on a profile the manager has cleaned it never reads a
  credentials file.
\<close>

section \<open>Types\<close>

datatype opt_error = BadConfig string | SystemError string | GoPanic string

type_synonym 'a opt_res = "opt_error + 'a"

definition CompressionStub :: string where "CompressionStub = ''stub''"
definition CompressionEmpty :: string where "CompressionEmpty = ''empty''"
definition CompressionLZONo :: string where "CompressionLZONo = ''lzo-no''"

definition ProtoTCP :: string where "ProtoTCP = ''tcp''"
definition ProtoUDP :: string where "ProtoUDP = ''udp''"

definition SupportedCiphers :: "string list" where
  "SupportedCiphers =
     [''AES-128-CBC'', ''AES-192-CBC'', ''AES-256-CBC'', ''AES-128-GCM'', ''AES-192-GCM'', ''AES-256-GCM'']"

definition SupportedAuth :: "string list" where
  "SupportedAuth = [''SHA1'', ''SHA256'', ''SHA512'']"

record openvpn_options =
  OptRemote :: string
  OptPort :: string
  OptProto :: string
  OptUsername :: string
  OptPassword :: string
  CAPath :: string
  CertPath :: string
  KeyPath :: string
  CA :: string
  Cert :: string
  Key :: string
  Cipher :: string
  OptAuth :: string
  TLSMaxVer :: string
  Compress :: string
  ProxyOBFS4 :: string

text \<open>What the parser asks of the file system: the working directory, the kind of a path, and the
  content of a file.\<close>

datatype stat_result = NotExist | Regular | Irregular | StatError

record file_system =
  Cwd :: string
  Stat :: "string \<Rightarrow> stat_result"
  ReadFile :: "string \<Rightarrow> string res"

section \<open>Paths and files\<close>

definition is_abs :: "string \<Rightarrow> bool" where
  "is_abs path = has_prefix path ''/''"

definition toAbs :: "string \<Rightarrow> string \<Rightarrow> string" where
  "toAbs path basedir = (if is_abs path then path else path_join basedir path)"

definition path_abs :: "file_system \<Rightarrow> string \<Rightarrow> string" where
  "path_abs fs path = (if is_abs path then path_clean path else path_join (Cwd fs) path)"

definition isSubdir :: "file_system \<Rightarrow> string \<Rightarrow> string \<Rightarrow> bool" where
  "isSubdir fs parent sub = has_prefix (path_abs fs sub) (path_abs fs parent)"

definition existsFile :: "file_system \<Rightarrow> string \<Rightarrow> bool opt_res" where
  "existsFile fs path =
     (case Stat fs path of
        NotExist \<Rightarrow> Inr False
      | Regular \<Rightarrow> Inr True
      | Irregular \<Rightarrow> Inr False
      | StatError \<Rightarrow> Inl (GoPanic ''nil pointer dereference''))"

text \<open>The lines of bufio.Scanner: no line may fill its buffer, a final line end adds no line, and a
  carriage return before a line end is dropped.\<close>

definition drop_cr :: "string \<Rightarrow> string" where
  "drop_cr l = (if l \<noteq> [] \<and> last l = CHR 0x0D then butlast l else l)"

definition maxScanToken :: nat where "maxScanToken = 65536"

definition scan_lines :: "string \<Rightarrow> string list res" where
  "scan_lines text =
     (let pieces = split_on CHR 0x0A text;
          pieces = (if last pieces = '''' then butlast pieces else pieces)
      in if list_ex (\<lambda>l. maxScanToken \<le> length l) pieces then Inl ''bufio.Scanner: token too long''
         else Inr (map drop_cr pieces))"

definition getLinesFromFile :: "file_system \<Rightarrow> string \<Rightarrow> string list opt_res" where
  "getLinesFromFile fs path =
     (case ReadFile fs path of
        Inl err \<Rightarrow> Inl (SystemError err)
      | Inr text \<Rightarrow> (case scan_lines text of Inl err \<Rightarrow> Inl (SystemError err) | Inr ls \<Rightarrow> Inr ls))"

fun opt_error_text :: "opt_error \<Rightarrow> string" where
  "opt_error_text (BadConfig why) = ''openvpn: bad config: '' @ why"
| "opt_error_text (SystemError err) = err"
| "opt_error_text (GoPanic why) = ''panic: '' @ why"

definition getCredentialsFromFile :: "file_system \<Rightarrow> string \<Rightarrow> (string \<times> string) opt_res" where
  "getCredentialsFromFile fs path =
     (case getLinesFromFile fs path of
        Inl err \<Rightarrow> Inl (BadConfig (opt_error_text err))
      | Inr ls \<Rightarrow>
          (case ls of
             [user, pass] \<Rightarrow>
               if user = '''' then Inl (BadConfig ''empty username in creds file'')
               else if pass = '''' then Inl (BadConfig ''empty password in creds file'')
               else Inr (user, pass)
           | _ \<Rightarrow> Inl (BadConfig ''malformed credentials file'')))"

section \<open>Directives\<close>

definition hasElement :: "string \<Rightarrow> string list \<Rightarrow> bool" where
  "hasElement el arr = list_ex (\<lambda>v. v = el) arr"

definition parseProto :: "string list \<Rightarrow> openvpn_options \<Rightarrow> openvpn_options opt_res" where
  "parseProto p opt =
     (case p of
        [m] \<Rightarrow>
          if m = ProtoUDP then Inr (opt\<lparr>OptProto := ProtoUDP\<rparr>)
          else if m = ProtoTCP then Inr (opt\<lparr>OptProto := ProtoTCP\<rparr>)
          else Inl (BadConfig (''bad proto: '' @ m))
      | _ \<Rightarrow> Inl (BadConfig ''proto needs one arg''))"

definition parseRemoteOpt :: "string list \<Rightarrow> openvpn_options \<Rightarrow> openvpn_options opt_res" where
  "parseRemoteOpt p opt =
     (case p of
        [h, port] \<Rightarrow> Inr (opt\<lparr>OptRemote := h, OptPort := port\<rparr>)
      | _ \<Rightarrow> Inl (BadConfig ''remote needs two args''))"

definition parseCipher :: "string list \<Rightarrow> openvpn_options \<Rightarrow> openvpn_options opt_res" where
  "parseCipher p opt =
     (case p of
        [cipher] \<Rightarrow>
          if \<not> hasElement cipher SupportedCiphers then Inl (BadConfig (''unsupported cipher: '' @ cipher))
          else Inr (opt\<lparr>Cipher := cipher\<rparr>)
      | _ \<Rightarrow> Inl (BadConfig ''cipher expects one arg''))"

definition parseAuth :: "string list \<Rightarrow> openvpn_options \<Rightarrow> openvpn_options opt_res" where
  "parseAuth p opt =
     (case p of
        [auth] \<Rightarrow>
          if \<not> hasElement auth SupportedAuth then Inl (BadConfig (''unsupported auth: '' @ auth))
          else Inr (opt\<lparr>OptAuth := auth\<rparr>)
      | _ \<Rightarrow> Inl (BadConfig ''invalid auth entry''))"

text \<open>The common part of the directives that name a file below the directory of the profile.\<close>

definition parsePath ::
  "file_system \<Rightarrow> string \<Rightarrow> string \<Rightarrow> string list \<Rightarrow> string \<Rightarrow> string opt_res" where
  "parsePath fs expects below p basedir =
     (case p of
        [name] \<Rightarrow>
          (let path = toAbs name basedir
           in if \<not> isSubdir fs basedir path then Inl (BadConfig below)
              else case existsFile fs path of
                  Inl err \<Rightarrow> Inl err
                | Inr False \<Rightarrow> Inl (BadConfig expects)
                | Inr True \<Rightarrow> Inr path)
      | _ \<Rightarrow> Inl (BadConfig expects))"

definition parseCA :: "file_system \<Rightarrow> string list \<Rightarrow> openvpn_options \<Rightarrow> string \<Rightarrow> openvpn_options opt_res" where
  "parseCA fs p opt basedir =
     (case parsePath fs ''ca expects a valid file'' ''ca must be below config path'' p basedir of
        Inl err \<Rightarrow> Inl err | Inr ca \<Rightarrow> Inr (opt\<lparr>CAPath := ca\<rparr>))"

definition parseCert :: "file_system \<Rightarrow> string list \<Rightarrow> openvpn_options \<Rightarrow> string \<Rightarrow> openvpn_options opt_res" where
  "parseCert fs p opt basedir =
     (case parsePath fs ''cert expects a valid file'' ''cert must be below config path'' p basedir of
        Inl err \<Rightarrow> Inl err | Inr cert \<Rightarrow> Inr (opt\<lparr>CertPath := cert\<rparr>))"

definition parseKey :: "file_system \<Rightarrow> string list \<Rightarrow> openvpn_options \<Rightarrow> string \<Rightarrow> openvpn_options opt_res" where
  "parseKey fs p opt basedir =
     (case parsePath fs ''key expects a valid file'' ''key must be below config path'' p basedir of
        Inl err \<Rightarrow> Inl err | Inr key \<Rightarrow> Inr (opt\<lparr>KeyPath := key\<rparr>))"

definition parseAuthUser :: "file_system \<Rightarrow> string list \<Rightarrow> openvpn_options \<Rightarrow> string \<Rightarrow> openvpn_options opt_res" where
  "parseAuthUser fs p opt basedir =
     (case parsePath fs ''auth-user-pass expects a valid file'' ''auth must be below config path'' p basedir of
        Inl err \<Rightarrow> Inl err
      | Inr auth \<Rightarrow>
          (case getCredentialsFromFile fs auth of
             Inl err \<Rightarrow> Inl err
           | Inr (user, pass) \<Rightarrow> Inr (opt\<lparr>OptUsername := user, OptPassword := pass\<rparr>)))"

definition parseCompress :: "string list \<Rightarrow> openvpn_options \<Rightarrow> openvpn_options opt_res" where
  "parseCompress p opt =
     (if 1 < length p then Inl (BadConfig ''compress: only empty/stub options supported'')
      else if p = [] then Inr (opt\<lparr>Compress := CompressionEmpty\<rparr>)
      else if p ! 0 = ''stub'' then Inr (opt\<lparr>Compress := CompressionStub\<rparr>)
      else Inl (BadConfig ''compress: only empty/stub options supported''))"

definition parseCompLZO :: "string list \<Rightarrow> openvpn_options \<Rightarrow> openvpn_options opt_res" where
  "parseCompLZO p opt =
     (case p of
        [] \<Rightarrow> Inl (GoPanic ''index out of range [0] with length 0'')
      | a # _ \<Rightarrow>
          if a \<noteq> ''no'' then Inl (BadConfig ''comp-lzo: compression not supported'')
          else Inr (opt\<lparr>Compress := CompressionLZONo\<rparr>))"

definition parseTLSVerMax :: "string list \<Rightarrow> openvpn_options \<Rightarrow> openvpn_options opt_res" where
  "parseTLSVerMax p opt =
     (case p of
        [] \<Rightarrow> Inr (opt\<lparr>TLSMaxVer := ''1.3''\<rparr>)
      | a # _ \<Rightarrow> Inr (if a = ''1.2'' then opt\<lparr>TLSMaxVer := ''1.2''\<rparr> else opt))"

definition parseProxyOBFS4 :: "string list \<Rightarrow> openvpn_options \<Rightarrow> openvpn_options opt_res" where
  "parseProxyOBFS4 p opt =
     (case p of
        [proxy] \<Rightarrow> Inr (opt\<lparr>ProxyOBFS4 := proxy\<rparr>)
      | _ \<Rightarrow> Inl (BadConfig ''proto-obfs4: need a properly configured proxy''))"

definition parseOption ::
  "file_system \<Rightarrow> openvpn_options \<Rightarrow> string \<Rightarrow> string \<Rightarrow> string list \<Rightarrow> openvpn_options opt_res" where
  "parseOption fs opt dir key p =
     (if key = ''proto'' then parseProto p opt
      else if key = ''remote'' then parseRemoteOpt p opt
      else if key = ''cipher'' then parseCipher p opt
      else if key = ''auth'' then parseAuth p opt
      else if key = ''compress'' then parseCompress p opt
      else if key = ''comp-lzo'' then parseCompLZO p opt
      else if key = ''tls-version-max'' then parseTLSVerMax p opt
      else if key = ''proxy-obfs4'' then parseProxyOBFS4 p opt
      else if key = ''ca'' then parseCA fs p opt dir
      else if key = ''cert'' then parseCert fs p opt dir
      else if key = ''key'' then parseKey fs p opt dir
      else if key = ''auth-user-pass'' then parseAuthUser fs p opt dir
      else Inr opt)"

section \<open>The profile\<close>

definition isOpeningTag :: "string \<Rightarrow> bool" where
  "isOpeningTag l \<longleftrightarrow> l \<in> set [''<ca>'', ''<cert>'', ''<key>'']"

definition isClosingTag :: "string \<Rightarrow> bool" where
  "isClosingTag l \<longleftrightarrow> l \<in> set [''</ca>'', ''</cert>'', ''</key>'']"

definition parseTag :: "string \<Rightarrow> string" where
  "parseTag tag =
     (if tag = ''<ca>'' \<or> tag = ''</ca>'' then ''ca''
      else if tag = ''<cert>'' \<or> tag = ''</cert>'' then ''cert''
      else if tag = ''<key>'' \<or> tag = ''</key>'' then ''key''
      else '''')"

definition parseInlineTag :: "openvpn_options \<Rightarrow> string \<Rightarrow> string \<Rightarrow> openvpn_options opt_res" where
  "parseInlineTag opt tag buf =
     (if buf = '''' then Inl (BadConfig ''empty inline tag: 0'')
      else if tag = ''ca'' then Inr (opt\<lparr>CA := buf\<rparr>)
      else if tag = ''cert'' then Inr (opt\<lparr>Cert := buf\<rparr>)
      else if tag = ''key'' then Inr (opt\<lparr>Key := buf\<rparr>)
      else Inl (BadConfig (''unknown tag: '' @ tag)))"

definition defaultOptions :: openvpn_options where
  "defaultOptions =
     \<lparr>OptRemote = '''', OptPort = '''', OptProto = ProtoTCP, OptUsername = '''', OptPassword = '''',
      CAPath = '''', CertPath = '''', KeyPath = '''', CA = '''', Cert = '''', Key = '''', Cipher = '''',
      OptAuth = '''', TLSMaxVer = '''', Compress = CompressionEmpty, ProxyOBFS4 = ''''\<rparr>"

text \<open>The loop over the lines: the options so far, the open tag and the inline buffer.\<close>

fun parseLines ::
  "file_system \<Rightarrow> string \<Rightarrow> openvpn_options \<Rightarrow> string \<Rightarrow> string \<Rightarrow> string list \<Rightarrow> openvpn_options opt_res" where
  "parseLines fs dir opt tag buf [] = Inr opt"
| "parseLines fs dir opt tag buf (raw # ls) =
     (if has_prefix raw ''#'' then parseLines fs dir opt tag buf ls
      else
        let l = trim_space raw
        in if isClosingTag l then
             (case parseInlineTag opt tag buf of
                Inl err \<Rightarrow> Inl err
              | Inr opt' \<Rightarrow> parseLines fs dir opt' '''' '''' ls)
           else if tag \<noteq> '''' then parseLines fs dir opt tag (buf @ l @ [CHR 0x0A]) ls
           else if isOpeningTag l then
             (if buf \<noteq> '''' then Inl (BadConfig ''tag not closed'')
              else parseLines fs dir opt (parseTag l) buf ls)
           else
             let p = split_on CHR '' '' l
             in case parseOption fs opt dir (hd p) (tl p) of
                 Inl err \<Rightarrow> Inl err
               | Inr opt' \<Rightarrow> parseLines fs dir opt' tag buf ls)"

definition getOptionsFromLines :: "file_system \<Rightarrow> string list \<Rightarrow> string \<Rightarrow> openvpn_options opt_res" where
  "getOptionsFromLines fs ls dir = parseLines fs dir defaultOptions '''' '''' ls"

text \<open>filepath.Split: the directory of a path, with its slash.\<close>

definition path_dir :: "string \<Rightarrow> string" where
  "path_dir path = rev (dropWhile (\<lambda>c. c \<noteq> CHR ''/'') (rev path))"

definition ReadConfigFile :: "file_system \<Rightarrow> string \<Rightarrow> openvpn_options opt_res" where
  "ReadConfigFile fs filePath =
     (case getLinesFromFile fs filePath of
        Inl err \<Rightarrow> Inl err
      | Inr ls \<Rightarrow> getOptionsFromLines fs ls (path_dir filePath))"

section \<open>Options\<close>

definition ShouldLoadCertsFromPath :: "openvpn_options \<Rightarrow> bool" where
  "ShouldLoadCertsFromPath opt \<longleftrightarrow> CertPath opt \<noteq> '''' \<and> KeyPath opt \<noteq> '''' \<and> CAPath opt \<noteq> ''''"

definition HasAuthInfo :: "openvpn_options \<Rightarrow> bool" where
  "HasAuthInfo opt =
     (if CertPath opt \<noteq> '''' \<and> KeyPath opt \<noteq> '''' \<and> CAPath opt \<noteq> '''' then True
      else if Cert opt \<noteq> '''' \<and> Key opt \<noteq> '''' \<and> CA opt \<noteq> '''' then True
      else if OptUsername opt \<noteq> '''' \<and> OptPassword opt \<noteq> '''' then True
      else False)"

definition ServerOptionsString :: "openvpn_options \<Rightarrow> string opt_res" where
  "ServerOptionsString opt =
     (if Cipher opt = '''' then Inr ''''
      else
        let parts = split_on CHR ''-'' (Cipher opt)
        in if length parts < 2 then Inl (GoPanic ''index out of range [1] with length 1'')
           else
             let keysize = parts ! 1;
                 proto = (if OptProto opt = ProtoTCP then to_upper ProtoTCP else to_upper ProtoUDP);
                 s = ''V4,dev-type tun,link-mtu 1549,tun-mtu 1500,proto '' @ proto @ ''v4,cipher '' @
                   Cipher opt @ '',auth '' @ OptAuth opt @ '',keysize '' @ keysize @ '',key-method 2,tls-client''
             in Inr (if Compress opt = CompressionStub then s @ '',compress stub''
                     else if Compress opt = ''lzo-no'' then s @ '',lzo-comp no''
                     else if Compress opt = CompressionEmpty then s @ '',compress''
                     else s))"

record remote_info =
  IPAddr :: string
  Endpoint :: string
  RemoteProtocol :: string

definition RemoteOf :: "openvpn_options \<Rightarrow> remote_info" where
  "RemoteOf opt =
     \<lparr>IPAddr = OptRemote opt, Endpoint = JoinHostPort (OptRemote opt) (OptPort opt),
      RemoteProtocol = OptProto opt\<rparr>"

section \<open>Laws\<close>

text \<open>Options the rest of the engine supports.\<close>

definition supported :: "openvpn_options \<Rightarrow> bool" where
  "supported opt \<longleftrightarrow>
     (Cipher opt = '''' \<or> Cipher opt \<in> set SupportedCiphers) \<and>
     (OptAuth opt = '''' \<or> OptAuth opt \<in> set SupportedAuth) \<and>
     (OptProto opt = ProtoTCP \<or> OptProto opt = ProtoUDP)"

definition no_credentials :: "openvpn_options \<Rightarrow> bool" where
  "no_credentials opt \<longleftrightarrow> OptUsername opt = '''' \<and> OptPassword opt = ''''"

lemmas directive_defs =
  parseProto_def parseRemoteOpt_def parseCipher_def parseAuth_def parseCompress_def parseCompLZO_def
  parseTLSVerMax_def parseProxyOBFS4_def parseCA_def parseCert_def parseKey_def parseAuthUser_def

lemma hasElement_set: "hasElement el arr \<longleftrightarrow> el \<in> set arr"
  by (auto simp: hasElement_def list_ex_iff)

lemma directive_supported:
  assumes "supported opt"
  shows "parseProto p opt = Inr opt' \<Longrightarrow> supported opt'"
    and "parseRemoteOpt p opt = Inr opt' \<Longrightarrow> supported opt'"
    and "parseCipher p opt = Inr opt' \<Longrightarrow> supported opt'"
    and "parseAuth p opt = Inr opt' \<Longrightarrow> supported opt'"
    and "parseCompress p opt = Inr opt' \<Longrightarrow> supported opt'"
    and "parseCompLZO p opt = Inr opt' \<Longrightarrow> supported opt'"
    and "parseTLSVerMax p opt = Inr opt' \<Longrightarrow> supported opt'"
    and "parseProxyOBFS4 p opt = Inr opt' \<Longrightarrow> supported opt'"
    and "parseCA fs p opt dir = Inr opt' \<Longrightarrow> supported opt'"
    and "parseCert fs p opt dir = Inr opt' \<Longrightarrow> supported opt'"
    and "parseKey fs p opt dir = Inr opt' \<Longrightarrow> supported opt'"
    and "parseAuthUser fs p opt dir = Inr opt' \<Longrightarrow> supported opt'"
  using assms
  by (auto simp: directive_defs supported_def hasElement_set
      split: list.splits if_splits sum.splits)

lemma parseOption_supported: "supported opt \<Longrightarrow> parseOption fs opt dir key p = Inr opt' \<Longrightarrow> supported opt'"
  unfolding parseOption_def by (auto split: if_splits intro: directive_supported)

lemma directive_no_credentials:
  assumes "no_credentials opt"
  shows "parseProto p opt = Inr opt' \<Longrightarrow> no_credentials opt'"
    and "parseRemoteOpt p opt = Inr opt' \<Longrightarrow> no_credentials opt'"
    and "parseCipher p opt = Inr opt' \<Longrightarrow> no_credentials opt'"
    and "parseAuth p opt = Inr opt' \<Longrightarrow> no_credentials opt'"
    and "parseCompress p opt = Inr opt' \<Longrightarrow> no_credentials opt'"
    and "parseCompLZO p opt = Inr opt' \<Longrightarrow> no_credentials opt'"
    and "parseTLSVerMax p opt = Inr opt' \<Longrightarrow> no_credentials opt'"
    and "parseProxyOBFS4 p opt = Inr opt' \<Longrightarrow> no_credentials opt'"
    and "parseCA fs p opt dir = Inr opt' \<Longrightarrow> no_credentials opt'"
    and "parseCert fs p opt dir = Inr opt' \<Longrightarrow> no_credentials opt'"
    and "parseKey fs p opt dir = Inr opt' \<Longrightarrow> no_credentials opt'"
  using assms
  by (auto simp: directive_defs no_credentials_def split: list.splits if_splits sum.splits)

lemma parseOption_no_credentials:
  "no_credentials opt \<Longrightarrow> key \<noteq> ''auth-user-pass'' \<Longrightarrow> parseOption fs opt dir key p = Inr opt' \<Longrightarrow>
   no_credentials opt'"
  unfolding parseOption_def by (auto split: if_splits intro: directive_no_credentials)

lemma parseInlineTag_keeps:
  assumes "parseInlineTag opt tag buf = Inr opt'"
  shows "supported opt \<Longrightarrow> supported opt'" and "no_credentials opt \<Longrightarrow> no_credentials opt'"
  using assms by (auto simp: parseInlineTag_def supported_def no_credentials_def split: if_splits)

text \<open>The two invariants are carried through the loop by the same argument.\<close>

lemma parseLines_invariant:
  assumes inline: "\<And>opt opt' tag buf. I opt \<Longrightarrow> parseInlineTag opt tag buf = Inr opt' \<Longrightarrow> I opt'"
    and option: "\<And>opt opt' key p. I opt \<Longrightarrow> K key \<Longrightarrow> parseOption fs opt dir key p = Inr opt' \<Longrightarrow> I opt'"
  shows "parseLines fs dir opt tag buf ls = Inr opt' \<Longrightarrow> I opt \<Longrightarrow>
    \<forall>l\<in>set ls. K (hd (split_on CHR '' '' (trim_space l))) \<Longrightarrow> I opt'"
proof (induction ls arbitrary: opt tag buf)
  case Nil
  then show ?case by simp
next
  case (Cons raw ls)
  let ?l = "trim_space raw"
  let ?p = "split_on CHR '' '' ?l"
  have keys: "\<forall>l\<in>set ls. K (hd (split_on CHR '' '' (trim_space l)))" "K (hd ?p)"
    using Cons.prems(3) by auto
  note run = Cons.prems(1) [unfolded parseLines.simps Let_def]
  consider (comment) "has_prefix raw ''#''"
    | (close) "\<not> has_prefix raw ''#''" "isClosingTag ?l"
    | (inside) "\<not> has_prefix raw ''#''" "\<not> isClosingTag ?l" "tag \<noteq> ''''"
    | (opens) "\<not> has_prefix raw ''#''" "\<not> isClosingTag ?l" "tag = ''''" "isOpeningTag ?l"
    | (option) "\<not> has_prefix raw ''#''" "\<not> isClosingTag ?l" "tag = ''''" "\<not> isOpeningTag ?l"
    by blast
  then show ?case
  proof cases
    case comment
    then show ?thesis using run Cons.IH [OF _ Cons.prems(2) keys(1)] by simp
  next
    case close
    then obtain opt1 where "parseInlineTag opt tag buf = Inr opt1" "parseLines fs dir opt1 '''' '''' ls = Inr opt'"
      using run by (cases "parseInlineTag opt tag buf") simp_all
    then show ?thesis using Cons.IH [OF _ inline [OF Cons.prems(2)] keys(1)] by blast
  next
    case inside
    then show ?thesis using run Cons.IH [OF _ Cons.prems(2) keys(1)] by simp
  next
    case opens
    then show ?thesis using run Cons.IH [OF _ Cons.prems(2) keys(1)] by (simp split: if_splits)
  next
    case option
    then obtain opt1 where "parseOption fs opt dir (hd ?p) (tl ?p) = Inr opt1"
      "parseLines fs dir opt1 tag buf ls = Inr opt'"
      using run by (cases "parseOption fs opt dir (hd ?p) (tl ?p)") simp_all
    then show ?thesis using Cons.IH [OF _ assms(2) [OF Cons.prems(2) keys(2)] keys(1)] by blast
  qed
qed

lemma defaultOptions_ok: "supported defaultOptions" "no_credentials defaultOptions"
  by (simp_all add: defaultOptions_def supported_def no_credentials_def)

lemma getOptionsFromLines_supported:
  assumes "getOptionsFromLines fs ls dir = Inr opt"
  shows "supported opt"
proof (rule parseLines_invariant [where K = "\<lambda>_. True" and I = supported])
  show "parseLines fs dir defaultOptions '''' '''' ls = Inr opt"
    using assms by (simp only: getOptionsFromLines_def)
  show "supported o1 \<Longrightarrow> parseInlineTag o1 tag buf = Inr o2 \<Longrightarrow> supported o2" for o1 o2 tag buf
    by (rule parseInlineTag_keeps(1))
  show "supported o1 \<Longrightarrow> True \<Longrightarrow> parseOption fs o1 dir key p = Inr o2 \<Longrightarrow> supported o2" for o1 o2 key p
    by (rule parseOption_supported)
  show "supported defaultOptions" by (rule defaultOptions_ok)
  show "\<forall>l\<in>set ls. True" by blast
qed

lemma getOptionsFromLines_no_credentials:
  assumes "getOptionsFromLines fs ls dir = Inr opt"
    and "\<forall>l\<in>set ls. hd (split_on CHR '' '' (trim_space l)) \<noteq> ''auth-user-pass''"
  shows "no_credentials opt"
proof (rule parseLines_invariant [where K = "\<lambda>key. key \<noteq> ''auth-user-pass''" and I = no_credentials])
  show "parseLines fs dir defaultOptions '''' '''' ls = Inr opt"
    using assms(1) by (simp only: getOptionsFromLines_def)
  show "\<forall>l\<in>set ls. hd (split_on CHR '' '' (trim_space l)) \<noteq> ''auth-user-pass''" by (rule assms(2))
  show "no_credentials o1 \<Longrightarrow> key \<noteq> ''auth-user-pass'' \<Longrightarrow> parseOption fs o1 dir key p = Inr o2 \<Longrightarrow>
    no_credentials o2" for o1 o2 key p
    by (rule parseOption_no_credentials)
  show "no_credentials o1 \<Longrightarrow> parseInlineTag o1 tag buf = Inr o2 \<Longrightarrow> no_credentials o2" for o1 o2 tag buf
    by (rule parseInlineTag_keeps(2))
  show "no_credentials defaultOptions" by (rule defaultOptions_ok)
qed

text \<open>The key the parser sees on a line and the directive the cleaner sees on it.\<close>

lemma clean_line_key:
  assumes "clean_line l"
  shows "hd (split_on CHR '' '' (trim_space l)) \<noteq> ''auth-user-pass''"
proof
  let ?s = "trim_space l" and ?w = "''auth-user-pass''"
  assume key: "hd (split_on CHR '' '' ?s) = ?w"
  obtain ps where ps: "split_on CHR '' '' ?s = ?w # ps"
    using key split_on_nonempty [of "CHR '' ''" ?s] by (metis list.collapse)
  then have s: "?s = join '' '' (?w # ps)" by (metis join_split_on)
  have plain: "list_all plain_char ?w" by code_simp
  have "hd (str_fields ?s) = ?w \<and> str_fields ?s \<noteq> []"
  proof (cases "ps = []")
    case True
    then have "str_fields ?s = [?w]" using s plain by (simp only: join.simps) (rule str_fields_single, simp)
    then show ?thesis by simp
  next
    case False
    then have "?s = ?w @ CHR '' '' # join '' '' ps" using s by (simp add: join_Cons)
    then have "str_fields ?s = ?w # str_fields (join '' '' ps)"
      using str_fields_word [OF _ plain] by (metis list.distinct(1))
    then show ?thesis by simp
  qed
  moreover have "has_prefix ?s ''a''" using s by (simp add: join_Cons)
  then have "\<not> (?s = '''' \<or> has_prefix ?s ''#'' \<or> has_prefix ?s '';'' \<or> has_prefix ?s ''<'')"
    by (cases ?s) auto
  ultimately have "directiveName ?s = trim_prefix (to_lower ?w) ''--''"
    by (auto simp: directiveName_def split: list.split)
  also have "\<dots> = ?w" by code_simp
  finally have "dropped (directiveName ?s)" by (simp add: dropped_def replacedDirectives_def)
  with assms show False by (simp add: clean_line_def)
qed

lemma drop_cr_id: "CHR 0x0D \<notin> set l \<Longrightarrow> drop_cr l = l"
  by (auto simp: drop_cr_def dest: last_in_set)

lemma scan_sanitized:
  assumes "SanitizeOpenVPNConfig t = Inr out" and "scan_lines out = Inr ls"
  shows "\<forall>l\<in>set ls. clean_line l"
proof -
  obtain cl where cl: "split_on CHR 0x0A out = cl @ [[]]"
    "\<forall>l\<in>set cl. clean_line l \<and> CHR 0x0A \<notin> set l \<and> CHR 0x0D \<notin> set l"
    using sanitized_lines [OF assms(1)] by metis
  then have "ls = map drop_cr cl"
    using assms(2) by (auto simp: scan_lines_def Let_def split: if_splits)
  then show ?thesis using cl(2) drop_cr_id by auto
qed

section \<open>Properties\<close>

text \<open>On a profile that the manager has cleaned, the engine's parser never takes credentials
  from a file, whatever the profile and the file system contain.\<close>

theorem sanitized_profile_no_credentials:
  assumes "SanitizeOpenVPNConfig t = Inr cleaned" and "ReadFile fs path = Inr cleaned"
    and "ReadConfigFile fs path = Inr opt"
  shows "OptUsername opt = '''' \<and> OptPassword opt = ''''"
proof -
  obtain ls where ls: "scan_lines cleaned = Inr ls" "getOptionsFromLines fs ls (path_dir path) = Inr opt"
    using assms(2,3) by (auto simp: ReadConfigFile_def getLinesFromFile_def split: sum.splits)
  have "\<forall>l\<in>set ls. clean_line l" by (rule scan_sanitized [OF assms(1) ls(1)])
  then have "no_credentials opt"
    by (intro getOptionsFromLines_no_credentials [OF ls(2)]) (auto dest: clean_line_key)
  then show ?thesis by (simp add: no_credentials_def)
qed

text \<open>Options the parser accepts name a supported cipher and digest or none, and the options
  string for the server is produced without a crash.\<close>

theorem parsed_options_supported:
  assumes "ReadConfigFile fs path = Inr opt"
  shows "supported opt \<and> (\<exists>s. ServerOptionsString opt = Inr s)"
proof -
  have s: "supported opt"
    using assms getOptionsFromLines_supported
    by (auto simp: ReadConfigFile_def getLinesFromFile_def split: sum.splits)
  have "\<forall>c\<in>set SupportedCiphers. 2 \<le> length (split_on CHR ''-'' c)" by code_simp
  with s have "Cipher opt = '''' \<or> 2 \<le> length (split_on CHR ''-'' (Cipher opt))"
    by (auto simp: supported_def)
  then have "\<exists>s. ServerOptionsString opt = Inr s" by (auto simp: ServerOptionsString_def Let_def)
  with s show ?thesis by simp
qed

section \<open>Witnesses\<close>

definition plain_profile :: string where
  "plain_profile = join newline [''auth-user-pass secrets.txt'', ''cipher AES-128-CBC'', ''auth SHA1'', ''remote 1.2.3.4 443'']"

definition cleaned_profile :: string where
  "cleaned_profile = join newline [''cipher AES-128-CBC'', ''auth SHA1'', ''remote 1.2.3.4 443''] @ newline"

definition some_fs :: file_system where
  "some_fs = \<lparr>Cwd = ''/'', Stat = (\<lambda>_. Regular), ReadFile = (\<lambda>_. Inr cleaned_profile)\<rparr>"

definition parsed_profile :: openvpn_options where
  "parsed_profile = defaultOptions\<lparr>OptRemote := ''1.2.3.4'', OptPort := ''443'', Cipher := ''AES-128-CBC'',
     OptAuth := ''SHA1''\<rparr>"

lemma plain_profile_read:
  "SanitizeOpenVPNConfig plain_profile = Inr cleaned_profile"
  "ReadConfigFile some_fs ''/run/n.ovpn'' = Inr parsed_profile"
  by code_simp+

theorem sanitized_profile_no_credentials_witness:
  "OptUsername parsed_profile = '''' \<and> OptPassword parsed_profile = ''''"
  by (rule sanitized_profile_no_credentials [OF plain_profile_read(1) _ plain_profile_read(2)])
    (simp add: some_fs_def)

theorem parsed_options_supported_witness:
  "supported parsed_profile \<and> (\<exists>s. ServerOptionsString parsed_profile = Inr s)"
  by (rule parsed_options_supported [OF plain_profile_read(2)])

end
