(* ===== verification/Xray.thy ===== *)
theory Xray
  imports Config Domain
begin

text \<open>
  The embedded proxy core (src/internal/proxycore/xray.go). The core library is an argument: whether
  an instance starts on a configuration, and what closing it returns. The state is the running
  instance and the system dialer that the core uses for its outbound connections, a global of the
  library. The calls into the library are recorded in order; the main property is that at no point
  of that order the core runs without the dialer of the tunnel, so its traffic cannot leave through
  the host's own network. The policy and the outbound settings are empty objects in the source and
  are left out of the records; marshalling the configuration cannot fail, all of it is strings,
  integers and booleans.
\<close>

section \<open>The rendered configuration\<close>

record xray_client =
  ClientID :: string
  ClientAlterID :: int
  ClientSecurity :: string

datatype inbound_settings =
    VMESSSettings "xray_client list"
  | SOCKSSettings string bool string

record xray_inbound =
  InTag :: string
  InListen :: string
  InPort :: int
  InProtocol :: string
  InSettings :: inbound_settings
  InNetwork :: string

record xray_outbound =
  OutProtocol :: string
  OutTag :: string

record xray_config =
  XrayLogLevel :: string
  Inbounds :: "xray_inbound list"
  Outbounds :: "xray_outbound list"

definition coreValueOr :: "string \<Rightarrow> string \<Rightarrow> string" where
  "coreValueOr value fallback = (if value = '''' then fallback else value)"

definition vmessInbound :: "proxy_core_config \<Rightarrow> subscription_config \<Rightarrow> xray_inbound" where
  "vmessInbound core sub =
     \<lparr>InTag = ''vmess-in'', InListen = coreValueOr (CoreListen core) ''0.0.0.0'', InPort = Port sub,
      InProtocol = ''vmess'',
      InSettings = VMESSSettings [\<lparr>ClientID = UUID sub, ClientAlterID = AlterID sub,
        ClientSecurity = coreValueOr (Security sub) ''auto''\<rparr>],
      InNetwork = ''tcp''\<rparr>"

definition socksInbounds :: "proxy_core_config \<Rightarrow> xray_inbound list res" where
  "socksInbounds core =
     (if \<not> LocalSOCKSEnabled core then Inr []
      else case SplitHostPort (LocalSOCKSListen core) of
          Inl err \<Rightarrow> Inl (''invalid local SOCKS listen address: '' @ err)
        | Inr (host, rawPort) \<Rightarrow>
            (case atoi rawPort of
               None \<Rightarrow> Inl ''invalid local SOCKS port''
             | Some port \<Rightarrow>
                 if port < 1 \<or> 65535 < port then Inl ''invalid local SOCKS port''
                 else Inr [\<lparr>InTag = ''socks-in'', InListen = host, InPort = port, InProtocol = ''socks'',
                            InSettings = SOCKSSettings ''noauth'' True host, InNetwork = ''''\<rparr>]))"

definition RenderXrayConfig :: "proxy_core_config \<Rightarrow> subscription_config \<Rightarrow> xray_config res" where
  "RenderXrayConfig core sub =
     (if UUID sub = '''' then Inl ''subscription uuid is required''
      else if Port sub < 1 \<or> 65535 < Port sub then Inl ''subscription port must be between 1 and 65535''
      else if coreValueOr (Network sub) ''tcp'' \<noteq> ''tcp'' then
        Inl ''embedded VMESS currently supports tcp transport''
      else case socksInbounds core of
          Inl err \<Rightarrow> Inl err
        | Inr socks \<Rightarrow>
            Inr \<lparr>XrayLogLevel = coreValueOr (LogLevel core) ''warning'',
                 Inbounds = vmessInbound core sub # socks,
                 Outbounds = [\<lparr>OutProtocol = ''freedom'', OutTag = ''vpngate-exit''\<rparr>]\<rparr>)"

section \<open>The manager\<close>

text \<open>The calls into the core library, with the outcome of a start.\<close>

datatype core_call =
    UseAlternativeSystemDialer bool
  | StartInstance xray_config bool
  | CloseInstance

record proxy_manager =
  MgrCore :: proxy_core_config
  MgrSub :: subscription_config
  MgrHasDialer :: bool
  Instance :: "xray_config option"
  CoreCalls :: "core_call list"

record proxy_status =
  StEnabled :: bool
  StType :: string
  StBuiltIn :: bool
  StRunning :: bool
  StConfigPath :: string
  StLocalSOCKS :: string
  StMessage :: string

definition NewManager :: "proxy_core_config \<Rightarrow> subscription_config \<Rightarrow> bool \<Rightarrow> proxy_manager" where
  "NewManager core sub hasDialer =
     \<lparr>MgrCore = core, MgrSub = sub, MgrHasDialer = hasDialer, Instance = None, CoreCalls = []\<rparr>"

definition core_call :: "core_call \<Rightarrow> proxy_manager \<Rightarrow> proxy_manager" where
  "core_call c m = m\<lparr>CoreCalls := CoreCalls m @ [c]\<rparr>"

definition statusLocked :: "proxy_manager \<Rightarrow> string \<Rightarrow> proxy_status" where
  "statusLocked m message =
     \<lparr>StEnabled = CoreEnabled (MgrCore m), StType = ''embedded-vmess'', StBuiltIn = True,
      StRunning = (Instance m \<noteq> None), StConfigPath = ''in-memory'',
      StLocalSOCKS = (if LocalSOCKSEnabled (MgrCore m) then LocalSOCKSListen (MgrCore m) else ''''),
      StMessage =
        (if message \<noteq> '''' then message
         else if \<not> CoreEnabled (MgrCore m) then msg_vmess_disabled
         else if Instance m = None then msg_vmess_not_running
         else msg_vmess_running)\<rparr>"

definition ManagerStatus :: "proxy_manager \<Rightarrow> proxy_status" where
  "ManagerStatus m = statusLocked m ''''"

text \<open>The arguments are the error of the context, if it is done, and the outcome of starting the
  instance.\<close>

definition ManagerStart ::
  "string option \<Rightarrow> (xray_config \<Rightarrow> string option) \<Rightarrow> proxy_manager \<Rightarrow>
   proxy_manager \<times> proxy_status \<times> string option" where
  "ManagerStart ctxErr startInstance m =
     (if \<not> CoreEnabled (MgrCore m) then
        (m, statusLocked m msg_vmess_disabled, Some ''proxy core is disabled'')
      else if Instance m \<noteq> None then (m, statusLocked m msg_vmess_already, None)
      else if \<not> MgrHasDialer m then (m, statusLocked m msg_no_dialer, Some ''proxy dialer is required'')
      else case ctxErr of
          Some err \<Rightarrow> (m, statusLocked m msg_start_cancelled, Some err)
        | None \<Rightarrow>
            (case RenderXrayConfig (MgrCore m) (MgrSub m) of
               Inl err \<Rightarrow> (m, statusLocked m msg_config_failed, Some err)
             | Inr rendered \<Rightarrow>
                 let m1 = core_call (UseAlternativeSystemDialer True) m;
                     m2 = core_call (StartInstance rendered (startInstance rendered = None)) m1
                 in case startInstance rendered of
                     Some err \<Rightarrow>
                       (let m3 = core_call (UseAlternativeSystemDialer False) m2
                        in (m3, statusLocked m3 msg_start_failed, Some err))
                   | None \<Rightarrow>
                       (let m3 = m2\<lparr>Instance := Some rendered\<rparr>
                        in (m3, statusLocked m3 msg_vmess_started, None))))"

definition ManagerStop :: "string option \<Rightarrow> proxy_manager \<Rightarrow> proxy_manager \<times> proxy_status \<times> string option" where
  "ManagerStop closeErr m =
     (if Instance m = None then (m, statusLocked m msg_vmess_not_running, None)
      else
        let m1 = core_call CloseInstance m;
            m2 = m1\<lparr>Instance := None\<rparr>;
            m3 = core_call (UseAlternativeSystemDialer False) m2
        in (m3, statusLocked m3 msg_vmess_stopped, closeErr))"

section \<open>Events and the order of the library calls\<close>

datatype proxy_event =
    StartEvent "string option" "xray_config \<Rightarrow> string option"
  | StopEvent "string option"

fun proxy_handle :: "proxy_manager \<Rightarrow> proxy_event \<Rightarrow> proxy_manager" where
  "proxy_handle m (StartEvent ctxErr startInstance) = fst (ManagerStart ctxErr startInstance m)"
| "proxy_handle m (StopEvent closeErr) = fst (ManagerStop closeErr m)"

text \<open>The state of the library after a list of calls: is the tunnel's dialer installed, and which
  configuration runs. A start needs the dialer, a start while an instance runs is not allowed, and
  the dialer may only be removed when nothing runs.\<close>

fun lib_step :: "(bool \<times> xray_config option) option \<Rightarrow> core_call \<Rightarrow> (bool \<times> xray_config option) option" where
  "lib_step None _ = None"
| "lib_step (Some (dialer, running)) (UseAlternativeSystemDialer b) =
     (if b \<or> running = None then Some (b, running) else None)"
| "lib_step (Some (dialer, running)) (StartInstance c ok) =
     (if dialer \<and> running = None then Some (dialer, if ok then Some c else None) else None)"
| "lib_step (Some (dialer, running)) CloseInstance = (if running = None then None else Some (dialer, None))"

definition lib_state :: "core_call list \<Rightarrow> (bool \<times> xray_config option) option" where
  "lib_state cs = foldl lib_step (Some (False, None)) cs"

lemma lib_state_snoc [simp]: "lib_state (cs @ [c]) = lib_step (lib_state cs) c"
  and lib_state_Nil [simp]: "lib_state [] = Some (False, None)"
  by (simp_all add: lib_state_def)

lemma lib_step_dialer:
  "lib_step (Some (d, r)) c = Some (d', r') \<Longrightarrow> (r \<noteq> None \<longrightarrow> d) \<Longrightarrow> r' \<noteq> None \<longrightarrow> d'"
  by (cases c) (auto split: if_splits)

lemma lib_step_None: "foldl lib_step None cs = None"
  by (induction cs) auto

lemma lib_state_prefix: "lib_state (cs @ ds) \<noteq> None \<Longrightarrow> lib_state cs \<noteq> None"
  unfolding lib_state_def by (rule notI) (simp add: lib_step_None)

lemma lib_state_dialer: "lib_state cs = Some (d, Some x) \<Longrightarrow> d"
proof (induction cs arbitrary: d x rule: rev_induct)
  case Nil
  then show ?case by simp
next
  case (snoc c cs)
  then have "lib_state cs \<noteq> None"
    by (intro lib_state_prefix [of cs "[c]"]) simp
  then obtain d0 r0 where st: "lib_state cs = Some (d0, r0)"
    by (metis not_None_eq surj_pair)
  have "r0 \<noteq> None \<longrightarrow> d0"
    using snoc.IH st by (metis not_None_eq)
  moreover have "lib_step (Some (d0, r0)) c = Some (d, Some x)"
    using snoc.prems st by simp
  ultimately show ?case
    using lib_step_dialer by blast
qed

text \<open>The manager's own view agrees with the library: the calls are allowed, the instance it holds
  is the one that runs, and the dialer is installed exactly while it runs.\<close>

definition proxy_inv :: "proxy_manager \<Rightarrow> bool" where
  "proxy_inv m \<longleftrightarrow>
     lib_state (CoreCalls m) = Some (Instance m \<noteq> None, Instance m) \<and>
     (case Instance m of
        None \<Rightarrow> True
      | Some x \<Rightarrow> CoreEnabled (MgrCore m) \<and> RenderXrayConfig (MgrCore m) (MgrSub m) = Inr x)"

lemma ManagerStart_cases:
  "fst (ManagerStart ctxErr start m) =
     (if CoreEnabled (MgrCore m) \<and> Instance m = None \<and> MgrHasDialer m \<and> ctxErr = None then
        (case RenderXrayConfig (MgrCore m) (MgrSub m) of
           Inl _ \<Rightarrow> m
         | Inr x \<Rightarrow>
             if start x = None then
               m\<lparr>CoreCalls := (CoreCalls m @ [UseAlternativeSystemDialer True]) @ [StartInstance x True],
                 Instance := Some x\<rparr>
             else
               m\<lparr>CoreCalls := ((CoreCalls m @ [UseAlternativeSystemDialer True]) @ [StartInstance x False])
                                @ [UseAlternativeSystemDialer False]\<rparr>)
      else m)"
  by (auto simp: ManagerStart_def core_call_def Let_def split: option.splits sum.splits)

lemma ManagerStop_cases:
  "fst (ManagerStop closeErr m) =
     (if Instance m = None then m
      else m\<lparr>CoreCalls := (CoreCalls m @ [CloseInstance]) @ [UseAlternativeSystemDialer False],
             Instance := None\<rparr>)"
  by (simp add: ManagerStop_def core_call_def Let_def)

lemma ManagerStart_inv: "proxy_inv m \<Longrightarrow> proxy_inv (fst (ManagerStart ctxErr start m))"
  by (simp add: ManagerStart_cases proxy_inv_def del: append_assoc split: sum.split)

lemma ManagerStop_inv: "proxy_inv m \<Longrightarrow> proxy_inv (fst (ManagerStop closeErr m))"
  by (cases "Instance m") (simp_all add: ManagerStop_cases proxy_inv_def del: append_assoc)

lemma proxy_handle_inv [inv_intros]: "proxy_inv m \<Longrightarrow> proxy_inv (proxy_handle m e)"
  by (cases e) (simp_all add: ManagerStart_inv ManagerStop_inv)

interpretation proxy: event_machine proxy_handle proxy_inv
  by unfold_locales (rule proxy_handle_inv)

lemma NewManager_inv: "proxy_inv (NewManager core sub d)"
  by (simp add: proxy_inv_def NewManager_def)

lemma proxy_handle_settings [simp]:
  "MgrCore (proxy_handle m e) = MgrCore m"
  "MgrSub (proxy_handle m e) = MgrSub m"
  by (cases e; simp add: ManagerStart_cases ManagerStop_cases split: sum.split)+

lemma run_proxy_settings [simp]:
  "MgrCore (run_events proxy_handle m es) = MgrCore m"
  "MgrSub (run_events proxy_handle m es) = MgrSub m"
  by (induction es arbitrary: m) simp_all

lemma NewManager_settings [simp]:
  "MgrCore (NewManager core sub d) = core" "MgrSub (NewManager core sub d) = sub"
  by (simp_all add: NewManager_def)

section \<open>Properties\<close>


lemma socksInbounds_loopback:
  assumes "socksInbounds core = Inr socks" "sound_core core" "CoreEnabled core" "i \<in> set socks"
  shows "\<exists>ip. ParseIP (InListen i) = Some ip \<and> IsLoopback ip \<and> 1 \<le> InPort i \<and> InPort i \<le> 65535"
  using assms
  by (auto simp: socksInbounds_def sound_core_def split: if_splits sum.splits option.splits)

text \<open>C35: what a validated configuration makes the core expose: the VMESS inbound on the
  subscription's port, whose only client is the subscription's user, and at most one more inbound,
  the unauthenticated SOCKS one, which is on a loopback address; all traffic leaves through the one
  outbound that uses the system dialer.\<close>

theorem rendered_config_exposure:
  assumes "Validate cfg = None" and "CoreEnabled (ProxyCore cfg)"
    and "RenderXrayConfig (ProxyCore cfg) (Subscription cfg) = Inr x"
  shows "(\<exists>socks. Inbounds x = vmessInbound (ProxyCore cfg) (Subscription cfg) # socks \<and> length socks \<le> 1 \<and>
            (\<forall>i\<in>set socks. \<exists>ip. ParseIP (InListen i) = Some ip \<and> IsLoopback ip)) \<and>
         map InPort (filter (\<lambda>i. InProtocol i = ''vmess'') (Inbounds x)) = [Port (Subscription cfg)] \<and>
         map OutProtocol (Outbounds x) = [''freedom'']"
proof -
  from assms(1) have core: "sound_core (ProxyCore cfg)"
    by (simp add: Validate_sound)
  from assms(3) obtain socks where socks: "socksInbounds (ProxyCore cfg) = Inr socks"
    and x: "Inbounds x = vmessInbound (ProxyCore cfg) (Subscription cfg) # socks"
      "map OutProtocol (Outbounds x) = [''freedom'']"
    by (auto simp: RenderXrayConfig_def split: if_splits sum.splits)
  have one: "length socks \<le> 1" "filter (\<lambda>i. InProtocol i = ''vmess'') socks = []"
    using socks by (auto simp: socksInbounds_def split: if_splits sum.splits option.splits)
  show ?thesis
    using x one socksInbounds_loopback [OF socks core assms(2)] by (auto simp: vmessInbound_def)
qed

section \<open>Witnesses\<close>

definition some_gateway :: config where
  "some_gateway = generated ''secret'' ''password'' ''token'' ''00000000-0000-4000-8000-000000000000''"

definition some_xray :: xray_config where
  "some_xray = (case RenderXrayConfig (ProxyCore some_gateway) (Subscription some_gateway) of Inr x \<Rightarrow> x
                | Inl _ \<Rightarrow> \<lparr>XrayLogLevel = [], Inbounds = [], Outbounds = []\<rparr>)"

theorem rendered_config_exposure_witness:
  "Validate some_gateway = None \<and>
   RenderXrayConfig (ProxyCore some_gateway) (Subscription some_gateway) = Inr some_xray \<and>
   map OutProtocol (Outbounds some_xray) = [''freedom'']"
proof -
  have a: "Validate some_gateway = None"
    and b: "CoreEnabled (ProxyCore some_gateway)"
    and c: "RenderXrayConfig (ProxyCore some_gateway) (Subscription some_gateway) = Inr some_xray"
    by code_simp+
  with rendered_config_exposure [OF a b c] show ?thesis by simp
qed

end
