(* ===== verification/Openvpn.thy ===== *)
theory Openvpn
  imports Vpn_Options
begin

text \<open>
  The tunnel (src/internal/tunnel/openvpn.go): how a node's profile becomes a started engine and a
  session, what the bridge between the engine and the user-space network stack counts and reports,
  and the operations of the controller. The engine's handshake, the network stack and the file
  system are arguments. The calls into the engine are recorded in order, so that a failed attempt
  can be shown to leave no engine running. The interleaving of the controller's operations is in
  the theory of the controller, that of a session's connections in the theory of the tracker.
\<close>

section \<open>Types\<close>

definition defaultHandshakeTimeout :: duration where "defaultHandshakeTimeout = 45000000000"
definition defaultTunnelMTU :: int where "defaultTunnelMTU = 1420"

text \<open>A session. Sessions are compared by reference, \<open>SessRef\<close> is the address of the object.\<close>

record vpn_session =
  SessRef :: nat
  SessNodeID :: string
  SessLocalIP :: string
  SessGateway :: string
  SessDNS :: "netip_addr list"
  SessMTU :: int
  PacketsOut :: "64 word"
  PacketsIn :: "64 word"
  BytesOut :: "64 word"
  BytesIn :: "64 word"

record controller =
  CtlCfg :: openvpn_config
  RuntimeDir :: string
  Connecting :: bool
  CtlSession :: "vpn_session option"
  CtlLastError :: string

definition NewOpenVPNController :: "openvpn_config \<Rightarrow> string \<Rightarrow> controller" where
  "NewOpenVPNController cfg dataDir =
     \<lparr>CtlCfg = cfg, RuntimeDir = path_join dataDir ''runtime'', Connecting = False, CtlSession = None,
      CtlLastError = ''''\<rparr>"

record environment_report =
  RepOS :: string
  RepEngine :: string
  RepBuiltIn :: bool
  RepRuntimeDir :: string
  RepPrivilegeHint :: string
  RepReady :: bool
  RepRunning :: bool
  RepConnecting :: bool
  RepLocalIP :: string
  RepGateway :: string
  RepNodeID :: string
  RepPacketsOut :: "64 word"
  RepPacketsIn :: "64 word"
  RepBytesOut :: "64 word"
  RepBytesIn :: "64 word"
  RepMessage :: string

definition CheckEnvironment :: "string \<Rightarrow> controller \<Rightarrow> environment_report" where
  "CheckEnvironment goos c =
     (let report = \<lparr>RepOS = goos, RepEngine = ''minivpn-go+gvisor-netstack'', RepBuiltIn = True,
            RepRuntimeDir = RuntimeDir c, RepPrivilegeHint = msg_userspace, RepReady = True,
            RepRunning = False, RepConnecting = Connecting c, RepLocalIP = '''', RepGateway = '''',
            RepNodeID = '''', RepPacketsOut = 0, RepPacketsIn = 0, RepBytesOut = 0, RepBytesIn = 0,
            RepMessage = (if Connecting c then msg_tunnel_connecting else msg_engine_ready)\<rparr>
      in case CtlSession c of
          Some s \<Rightarrow>
            report\<lparr>RepRunning := True, RepLocalIP := SessLocalIP s, RepGateway := SessGateway s,
              RepNodeID := SessNodeID s, RepPacketsOut := PacketsOut s, RepPacketsIn := PacketsIn s,
              RepBytesOut := BytesOut s, RepBytesIn := BytesIn s, RepMessage := msg_tunnel_connected\<rparr>
        | None \<Rightarrow>
            if CtlLastError c \<noteq> '''' then report\<lparr>RepMessage := msg_last_failure @ CtlLastError c\<rparr>
            else report)"

section \<open>Preparing a connection\<close>

definition tunnelValueOr :: "string \<Rightarrow> string \<Rightarrow> string" where
  "tunnelValueOr value fallback = (if value = '''' then fallback else value)"

text \<open>safeFilename keeps letters, digits, minus, underscore and dot; every other rune becomes an
  underscore.\<close>

definition safe_char :: "char \<Rightarrow> bool" where
  "safe_char c \<longleftrightarrow>
     byte_in 97 122 c \<or> byte_in 65 90 c \<or> byte_in 48 57 c \<or> c = CHR ''-'' \<or> c = CHR ''_'' \<or> c = CHR ''.''"

definition safe_rune :: "string \<Rightarrow> char" where
  "safe_rune r = (case r of [c] \<Rightarrow> if safe_char c then c else CHR ''_'' | _ \<Rightarrow> CHR ''_'')"

definition safeFilename :: "string \<Rightarrow> string" where
  "safeFilename value = (if value = '''' then ''node'' else map safe_rune (runes value))"

datatype connect_error =
    Fails string
  | BadTunnelAddress string
  | BadDNSServer string
  | Crashes string

fun connect_error_text :: "connect_error \<Rightarrow> string" where
  "connect_error_text (Fails text) = text"
| "connect_error_text (BadTunnelAddress a) = ''VPNGate supplied invalid tunnel address '' @ go_quote a"
| "connect_error_text (BadDNSServer a) = ''invalid openvpn.dns_servers address '' @ go_quote a"
| "connect_error_text (Crashes why) = why"

fun parseServers :: "string list \<Rightarrow> netip_addr list \<Rightarrow> connect_error + netip_addr list" where
  "parseServers [] servers = Inr servers"
| "parseServers (value # values) servers =
     (case ParseAddr value of
        None \<Rightarrow> Inl (BadDNSServer value)
      | Some ip \<Rightarrow> parseServers values (servers @ [ip]))"

definition configuredDNS :: "string list \<Rightarrow> connect_error + netip_addr list" where
  "configuredDNS values =
     (if values = [] then Inr [Addr4 [1, 1, 1, 1], Addr4 [8, 8, 8, 8]] else parseServers values [])"

text \<open>What the attempt asks of its surroundings: the directory, the profile file, the files the
  profile may name, the handshake of the engine within a timeout (its answer: the address of the
  tunnel and of the gateway), and the network stack.\<close>

record connect_io =
  IoMkdir :: "string option"
  IoWrite :: "string option"
  IoFiles :: file_system
  IoStart :: "duration \<Rightarrow> openvpn_options \<Rightarrow> (string \<times> string) res"
  IoNetTUN :: "nat list \<Rightarrow> netip_addr list \<Rightarrow> int \<Rightarrow> string option"

datatype engine_call = EngineStart duration openvpn_options | EngineClose | BridgeStart int

definition profilePath :: "string \<Rightarrow> vpn_node \<Rightarrow> string" where
  "profilePath runtimeDir node = path_join runtimeDir (safeFilename (ID node) @ ''.ovpn'')"

definition written :: "string \<Rightarrow> string \<Rightarrow> file_system \<Rightarrow> file_system" where
  "written path text fs = fs\<lparr>ReadFile := (ReadFile fs)(path := Inr text)\<rparr>"

definition handshakeTimeout :: "openvpn_config \<Rightarrow> duration" where
  "handshakeTimeout cfg =
     (let timeout = wrap64 (ConnectTimeoutMS cfg * 1000000)
      in if timeout \<le> 0 then defaultHandshakeTimeout else timeout)"

definition tunnelMTU :: "openvpn_config \<Rightarrow> int" where
  "tunnelMTU cfg = (if MTU cfg \<le> 0 then defaultTunnelMTU else MTU cfg)"

definition packetSize :: "int \<Rightarrow> int" where
  "packetSize mtu = max (wrap64 (mtu + 256)) 2048"

text \<open>The options of a node: the cleaned profile is written and read back by the engine's parser,
  the credentials come from the configuration.\<close>

definition profileOptions ::
  "connect_io \<Rightarrow> openvpn_config \<Rightarrow> string \<Rightarrow> vpn_node \<Rightarrow> connect_error + openvpn_options" where
  "profileOptions io cfg runtimeDir node =
     (if OpenVPNConfig node = '''' then Inl (Fails ''node does not contain OpenVPN config'')
      else case IoMkdir io of
          Some err \<Rightarrow> Inl (Fails err)
        | None \<Rightarrow>
      (case SanitizeOpenVPNConfig (OpenVPNConfig node) of
          Inl err \<Rightarrow> Inl (Fails err)
        | Inr cleaned \<Rightarrow>
      (case IoWrite io of
          Some err \<Rightarrow> Inl (Fails err)
        | None \<Rightarrow>
            let path = profilePath runtimeDir node
            in case ReadConfigFile (written path cleaned (IoFiles io)) path of
                Inl (GoPanic why) \<Rightarrow> Inl (Crashes why)
              | Inl err \<Rightarrow> Inl (Fails (''parse VPNGate profile: '' @ opt_error_text err))
              | Inr opt \<Rightarrow>
                  Inr (opt\<lparr>OptUsername := tunnelValueOr (OpenVPNUsername cfg) ''vpn'',
                           OptPassword := tunnelValueOr (OpenVPNPassword cfg) ''vpn''\<rparr>))))"

definition checkOptions :: "openvpn_options \<Rightarrow> string option" where
  "checkOptions opt =
     (if OptRemote opt = '''' \<or> OptPort opt = '''' then Some ''VPNGate profile does not contain a valid remote''
      else if Cipher opt = '''' then Some ''VPNGate profile does not declare a supported cipher''
      else if OptAuth opt = '''' then Some ''VPNGate profile does not declare a supported auth digest''
      else if \<not> HasAuthInfo opt then
        Some ''VPNGate profile does not contain usable credentials or certificates''
      else None)"

text \<open>The second half: the engine has been started.\<close>

definition openSession ::
  "connect_io \<Rightarrow> openvpn_config \<Rightarrow> nat \<Rightarrow> vpn_node \<Rightarrow> string \<times> string \<Rightarrow>
   (connect_error + vpn_session) \<times> engine_call list" where
  "openSession io cfg ref node addrs =
     (case ParseAddr (fst addrs) of
        Some (Addr4 localIP) \<Rightarrow>
          (case configuredDNS (DNSServers cfg) of
             Inl err \<Rightarrow> (Inl err, [EngineClose])
           | Inr dnsServers \<Rightarrow>
               let mtu = tunnelMTU cfg
               in case IoNetTUN io localIP dnsServers mtu of
                   Some err \<Rightarrow> (Inl (Fails (''create userspace network stack: '' @ err)), [EngineClose])
                 | None \<Rightarrow>
                     (Inr \<lparr>SessRef = ref, SessNodeID = ID node, SessLocalIP = v4_text localIP,
                           SessGateway = snd addrs, SessDNS = dnsServers, SessMTU = mtu, PacketsOut = 0,
                           PacketsIn = 0, BytesOut = 0, BytesIn = 0\<rparr>,
                      [BridgeStart (packetSize mtu)]))
      | _ \<Rightarrow> (Inl (BadTunnelAddress (fst addrs)), [EngineClose]))"

definition connect ::
  "connect_io \<Rightarrow> openvpn_config \<Rightarrow> string \<Rightarrow> nat \<Rightarrow> vpn_node \<Rightarrow>
   (connect_error + vpn_session) \<times> engine_call list" where
  "connect io cfg runtimeDir ref node =
     (case profileOptions io cfg runtimeDir node of
        Inl err \<Rightarrow> (Inl err, [])
      | Inr options \<Rightarrow>
          (case checkOptions options of
             Some err \<Rightarrow> (Inl (Fails err), [])
           | None \<Rightarrow>
               (case IoStart io (handshakeTimeout cfg) options of
                  Inl err \<Rightarrow> (Inl (Fails (''built-in OpenVPN handshake: '' @ err)), [])
                | Inr addrs \<Rightarrow>
                    let (result, calls) = openSession io cfg ref node addrs
                    in (result, EngineStart (handshakeTimeout cfg) options # calls))))"

section \<open>Operations of the controller\<close>

text \<open>Connect holds the lock twice: before and after the attempt.\<close>

definition connectBegin :: "controller \<Rightarrow> controller res" where
  "connectBegin c =
     (if CtlSession c \<noteq> None then Inl ''VPNGate tunnel is already connected''
      else if Connecting c then Inl ''VPNGate tunnel connection is already in progress''
      else Inr (c\<lparr>Connecting := True, CtlLastError := ''''\<rparr>))"

definition connectEnd :: "connect_error + vpn_session \<Rightarrow> controller \<Rightarrow> controller" where
  "connectEnd result c =
     (case result of
        Inl err \<Rightarrow> c\<lparr>Connecting := False, CtlLastError := connect_error_text err\<rparr>
      | Inr session \<Rightarrow> c\<lparr>Connecting := False, CtlSession := Some session\<rparr>)"

definition Connect ::
  "connect_io \<Rightarrow> nat \<Rightarrow> vpn_node \<Rightarrow> controller \<Rightarrow> controller \<times> connect_error option \<times> engine_call list" where
  "Connect io ref node c =
     (case connectBegin c of
        Inl err \<Rightarrow> (c, Some (Fails err), [])
      | Inr c1 \<Rightarrow>
          (case connect io (CtlCfg c1) (RuntimeDir c1) ref node of
             (Inl (Crashes why), calls) \<Rightarrow> (c1, Some (Crashes why), calls)
           | (Inl err, calls) \<Rightarrow> (connectEnd (Inl err) c1, Some err, calls)
           | (Inr session, calls) \<Rightarrow> (connectEnd (Inr session) c1, None, calls)))"

definition watchFailed :: "nat \<Rightarrow> string \<Rightarrow> controller \<Rightarrow> controller" where
  "watchFailed ref err c =
     (case CtlSession c of
        Some s \<Rightarrow>
          if SessRef s = ref then
            c\<lparr>CtlSession := None, CtlLastError := ''tunnel data path stopped: '' @ err\<rparr>
          else c
      | None \<Rightarrow> c)"

definition disconnectBegin :: "controller \<Rightarrow> controller \<times> vpn_session option" where
  "disconnectBegin c = (c\<lparr>CtlSession := None, CtlLastError := ''''\<rparr>, CtlSession c)"

text \<open>What closing a session returns, from the errors of the engine and of the device.\<close>

datatype close_error = NetErrClosed | OsErrClosed | OtherError string

definition closeResult :: "close_error option \<Rightarrow> close_error option \<Rightarrow> close_error option" where
  "closeResult vpnErr deviceErr =
     (let closeErr = (if vpnErr \<noteq> None \<and> vpnErr \<noteq> Some NetErrClosed then vpnErr else None)
      in if deviceErr \<noteq> None \<and> closeErr = None \<and> deviceErr \<noteq> Some OsErrClosed then deviceErr
         else closeErr)"

definition Disconnect ::
  "close_error option \<Rightarrow> close_error option \<Rightarrow> controller \<Rightarrow> controller \<times> close_error option" where
  "Disconnect vpnErr deviceErr c =
     (case disconnectBegin c of
        (c', None) \<Rightarrow> (c', None)
      | (c', Some session) \<Rightarrow> (c', closeResult vpnErr deviceErr))"

definition DialContext :: "(vpn_session \<Rightarrow> string \<Rightarrow> string \<Rightarrow> 'conn res) \<Rightarrow> controller \<Rightarrow> string \<Rightarrow> string \<Rightarrow> 'conn res" where
  "DialContext dial c network address =
     (case CtlSession c of
        None \<Rightarrow> Inl ''VPNGate exit is not connected''
      | Some stack \<Rightarrow> dial stack network address)"

section \<open>The bridge\<close>

text \<open>The channel \<open>done\<close> holds at most one error. When the context is done and the channel has room,
  the select may take either case, \<open>pick\<close> tells which; errors of a closed endpoint are not
  reported.\<close>

definition reportBridgeError :: "bool \<Rightarrow> bool \<Rightarrow> close_error \<Rightarrow> string list \<Rightarrow> string list" where
  "reportBridgeError ctxDone pick err done =
     (case err of
        OtherError text \<Rightarrow>
          if ctxDone \<and> (pick \<or> 1 \<le> length done) then done
          else if length done < 1 then done @ [text] else done
      | _ \<Rightarrow> done)"

definition countOut :: "nat \<Rightarrow> vpn_session \<Rightarrow> vpn_session" where
  "countOut n s = s\<lparr>PacketsOut := PacketsOut s + 1, BytesOut := BytesOut s + of_nat n\<rparr>"

definition countIn :: "nat \<Rightarrow> vpn_session \<Rightarrow> vpn_session" where
  "countIn n s = s\<lparr>PacketsIn := PacketsIn s + 1, BytesIn := BytesIn s + of_nat n\<rparr>"

text \<open>One packet of the device: its size, whether the context is done before and after the write to
  the engine, and what the write returns.\<close>

record packet_try =
  TrySize :: nat
  TryCtxBefore :: bool
  TryErr :: "close_error option"
  TryCtxAfter :: bool

fun sendPackets :: "packet_try list \<Rightarrow> vpn_session \<Rightarrow> vpn_session \<times> close_error option" where
  "sendPackets [] s = (s, None)"
| "sendPackets (t # ts) s =
     (if TryCtxBefore t then sendPackets ts s
      else case TryErr t of
          Some err \<Rightarrow> if TryCtxAfter t then sendPackets ts s else (s, Some err)
        | None \<Rightarrow> sendPackets ts (countOut (TrySize t) s))"

text \<open>The three loops, over what their reads return; the result is the error the loop ends with, or
  None while it runs or when the context ends it.\<close>

fun deviceLoop :: "(close_error + packet_try list) list \<Rightarrow> vpn_session \<Rightarrow> vpn_session \<times> close_error option" where
  "deviceLoop [] s = (s, None)"
| "deviceLoop (Inl err # _) s = (s, Some err)"
| "deviceLoop (Inr ts # reads) s =
     (case sendPackets ts s of
        (s', Some err) \<Rightarrow> (s', Some err)
      | (s', None) \<Rightarrow> deviceLoop reads s')"

fun engineLoop :: "(close_error + nat \<times> close_error option) list \<Rightarrow> vpn_session \<Rightarrow> vpn_session \<times> close_error option" where
  "engineLoop [] s = (s, None)"
| "engineLoop (Inl err # _) s = (s, Some err)"
| "engineLoop (Inr (n, writeErr) # reads) s =
     (case writeErr of
        Some err \<Rightarrow> (countIn n s, Some err)
      | None \<Rightarrow> engineLoop reads (countIn n s))"

datatype ping_event = PingStop | PingTick "close_error option"

fun pingLoop :: "ping_event list \<Rightarrow> close_error option" where
  "pingLoop [] = None"
| "pingLoop (PingStop # _) = None"
| "pingLoop (PingTick (Some err) # _) = Some err"
| "pingLoop (PingTick None # events) = pingLoop events"

section \<open>Laws\<close>

text \<open>The channel keeps the first error and drops the rest.\<close>

interpretation bridge_done: dropping_buffer length 1 "\<lambda>text. reportBridgeError False pick (OtherError text)"
  for pick
  by unfold_locales (auto simp: reportBridgeError_def)

text \<open>The counters count what was written.\<close>

definition delivered :: "packet_try list \<Rightarrow> nat list" where
  "delivered ts = map TrySize (filter (\<lambda>t. \<not> TryCtxBefore t \<and> TryErr t = None) ts)"

lemma countOut_simps [simp]:
  "PacketsOut (countOut n s) = PacketsOut s + 1" "BytesOut (countOut n s) = BytesOut s + of_nat n"
  by (simp_all add: countOut_def)

lemma sendPackets_counts:
  "sendPackets ts s = (s', None) \<Longrightarrow>
   PacketsOut s' = PacketsOut s + of_nat (length (delivered ts)) \<and>
   BytesOut s' = BytesOut s + of_nat (sum_list (delivered ts))"
  by (induction ts arbitrary: s) (auto simp: delivered_def add_ac split: if_splits option.splits)

lemma connectBegin_simps [simp]:
  "connectBegin c = Inr c1 \<longleftrightarrow> CtlSession c = None \<and> \<not> Connecting c \<and> c1 = c\<lparr>Connecting := True, CtlLastError := ''''\<rparr>"
  by (auto simp: connectBegin_def)

lemma connectEnd_simps [simp]:
  "Connecting (connectEnd r c) = False"
  "CtlSession (connectEnd r c) = (case r of Inl _ \<Rightarrow> CtlSession c | Inr s \<Rightarrow> Some s)"
  "CtlCfg (connectEnd r c) = CtlCfg c"
  "RuntimeDir (connectEnd r c) = RuntimeDir c"
  by (simp_all add: connectEnd_def split: sum.split)

lemma parseServers_valid:
  "\<forall>v\<in>set vs. ParseIP v \<noteq> None \<Longrightarrow> \<exists>servers. parseServers vs acc = Inr servers"
proof (induction vs arbitrary: acc)
  case Nil
  then show ?case by simp
next
  case (Cons v vs)
  then obtain ip where "ParseIP v = Some ip" by auto
  with ParseIP_ParseAddr obtain a where "ParseAddr v = Some a" by blast
  with Cons show ?case by simp
qed

lemma configuredDNS_valid: "sound_openvpn cfg \<Longrightarrow> \<exists>servers. configuredDNS (DNSServers cfg) = Inr servers"
  by (cases "DNSServers cfg = []") (auto simp: configuredDNS_def sound_openvpn_def intro: parseServers_valid)

lemma handshakeTimeout_positive: "0 < handshakeTimeout cfg"
  by (simp add: handshakeTimeout_def defaultHandshakeTimeout_def Let_def)

text \<open>The name of the profile file is one path element.\<close>

lemma safe_rune_safe: "safe_char (safe_rune r)"
proof -
  have "safe_char CHR ''_''" by (simp add: safe_char_def)
  then show ?thesis by (auto simp: safe_rune_def split: list.split)
qed

lemma safeFilename_safe: "list_all safe_char (safeFilename value)"
proof -
  have "list_all safe_char ''node''" by code_simp
  then show ?thesis by (simp add: safeFilename_def list_all_iff safe_rune_safe)
qed

lemma safe_char_no_slash: "\<not> safe_char CHR ''/''"
  by code_simp

lemma clean_parts_snoc:
  "f \<notin> {'''', ''.'', ''..''} \<Longrightarrow> clean_parts r a (ps @ [f]) = clean_parts r a ps @ [f]"
  by (induction r a ps rule: clean_parts.induct) auto

lemma split_on_append: "split_on sep (a @ sep # b) = split_on sep a @ split_on sep b"
proof (induction a)
  case Nil
  then show ?case by simp
next
  case (Cons c a)
  then show ?case
    by (cases "split_on sep a") simp_all
qed

lemma path_clean_nonempty: "path_clean d \<noteq> ''''"
  by (simp add: path_clean_def Let_def)

lemma path_join_nonempty: "f \<noteq> '''' \<Longrightarrow> path_join d f \<noteq> ''''"
  by (simp add: path_join_def path_clean_nonempty)

lemma join_snoc: "ws \<noteq> [] \<Longrightarrow> join sep (ws @ [w]) = join sep ws @ sep @ w"
  by (induction sep ws rule: join.induct) auto

lemma join_nonempty: "ws \<noteq> [] \<Longrightarrow> '''' \<notin> set ws \<Longrightarrow> join sep ws \<noteq> ''''"
  by (cases ws) (auto simp: join_Cons)

lemma clean_parts_nonempty: "'''' \<notin> set acc \<Longrightarrow> '''' \<notin> set (clean_parts r acc ps)"
proof (induction r acc ps rule: clean_parts.induct)
  case (2 r acc p ps)
  have "'''' \<notin> set (tl acc)" using "2.prems" by (cases acc) auto
  with 2 show ?case by (cases "p = ''..''") auto
qed simp

text \<open>Joining a plain name to a directory appends it to the cleaned directory.\<close>

lemma path_join_plain:
  assumes "CHR ''/'' \<notin> set f" and "f \<notin> {'''', ''.'', ''..''}" and "d \<noteq> ''''"
  shows "path_join d f = path_clean d @ ''/'' @ f \<or>
    path_clean d = ''/'' \<and> path_join d f = ''/'' @ f \<or> path_clean d = ''.'' \<and> path_join d f = f"
proof -
  let ?rooted = "has_prefix d ''/''"
  let ?parts = "clean_parts ?rooted [] (split_on CHR ''/'' d)"
  have rooted: "has_prefix (d @ CHR ''/'' # f) ''/'' = ?rooted"
    using assms(3) by (cases d) auto
  have "clean_parts ?rooted [] (split_on CHR ''/'' (d @ CHR ''/'' # f)) = ?parts @ [f]"
    using assms(1) clean_parts_snoc [OF assms(2)] by (simp add: split_on_append split_on_absent)
  then have join: "path_join d f =
      (if ?rooted then ''/'' @ join ''/'' (?parts @ [f]) else join ''/'' (?parts @ [f]))"
    using assms(2,3) rooted by (auto simp: path_join_def path_clean_def Let_def join_nonempty clean_parts_nonempty)
  show ?thesis
  proof (cases "?parts = []")
    case True
    then show ?thesis using join by (cases ?rooted) (simp_all add: path_clean_def Let_def)
  next
    case False
    then have "join ''/'' (?parts @ [f]) = join ''/'' ?parts @ ''/'' @ f"
      by (rule join_snoc)
    moreover have "join ''/'' ?parts \<noteq> ''''"
      using False by (intro join_nonempty clean_parts_nonempty) simp_all
    ultimately show ?thesis using join by (auto simp: path_clean_def Let_def)
  qed
qed

lemma ReadConfigFile_supported: "ReadConfigFile fs path = Inr opt \<Longrightarrow> supported opt"
  using getOptionsFromLines_supported
  by (auto simp: ReadConfigFile_def getLinesFromFile_def split: sum.splits)

lemma profileOptions_sound:
  assumes "profileOptions io cfg dir node = Inr opt"
  shows "supported opt \<and> OptUsername opt = tunnelValueOr (OpenVPNUsername cfg) ''vpn'' \<and>
    OptPassword opt = tunnelValueOr (OpenVPNPassword cfg) ''vpn''"
proof -
  obtain fs path o0 where "ReadConfigFile fs path = Inr o0"
    and opt: "opt = o0\<lparr>OptUsername := tunnelValueOr (OpenVPNUsername cfg) ''vpn'',
      OptPassword := tunnelValueOr (OpenVPNPassword cfg) ''vpn''\<rparr>"
    using assms
    by (auto simp: profileOptions_def Let_def split: if_splits option.splits sum.splits opt_error.splits)
  then have "supported o0" by (intro ReadConfigFile_supported)
  then show ?thesis by (simp add: opt supported_def)
qed

lemma checkOptions_None:
  "checkOptions opt = None \<longleftrightarrow>
     OptRemote opt \<noteq> '''' \<and> OptPort opt \<noteq> '''' \<and> Cipher opt \<noteq> '''' \<and> OptAuth opt \<noteq> '''' \<and> HasAuthInfo opt"
  by (simp add: checkOptions_def)

text \<open>An attempt that starts the engine either ends in a session or closes the engine again.\<close>

lemma openSession_calls:
  "openSession io cfg ref node addrs = (r, calls) \<Longrightarrow>
   (case r of Inl _ \<Rightarrow> calls = [EngineClose]
    | Inr s \<Rightarrow> calls = [BridgeStart (packetSize (tunnelMTU cfg))] \<and> SessRef s = ref \<and> SessNodeID s = ID node)"
  by (auto simp: openSession_def Let_def split: option.splits netip_addr.splits sum.splits)

lemma connect_cases:
  assumes "connect io cfg dir ref node = (r, calls)"
  obtains (before) err where "r = Inl err" "calls = []"
  | (engine) opt rest where "calls = EngineStart (handshakeTimeout cfg) opt # rest"
      "profileOptions io cfg dir node = Inr opt" "checkOptions opt = None"
      "case r of Inl _ \<Rightarrow> rest = [EngineClose]
       | Inr s \<Rightarrow> rest = [BridgeStart (packetSize (tunnelMTU cfg))] \<and> SessRef s = ref \<and> SessNodeID s = ID node"
proof (cases "profileOptions io cfg dir node")
  case (Inl err)
  with assms have "r = Inl err" "calls = []" by (auto simp: connect_def)
  then show ?thesis by (rule before)
next
  case (Inr opt)
  show ?thesis
  proof (cases "checkOptions opt = None \<and> \<not> isl (IoStart io (handshakeTimeout cfg) opt)")
    case True
    then obtain addrs where start: "IoStart io (handshakeTimeout cfg) opt = Inr addrs"
      by (cases "IoStart io (handshakeTimeout cfg) opt") auto
    obtain rest where o: "openSession io cfg ref node addrs = (r, rest)"
      and calls: "calls = EngineStart (handshakeTimeout cfg) opt # rest"
      using assms True by (auto simp: connect_def Inr start Let_def split: prod.splits)
    show ?thesis
      by (rule engine [OF calls Inr]) (use True openSession_calls [OF o] in auto)
  next
    case False
    with assms have "calls = [] \<and> isl r"
      by (auto simp: connect_def Inr split: option.splits sum.splits)
    then show ?thesis using before by (cases r) auto
  qed
qed

section \<open>Properties\<close>

text \<open>C19: a connection attempt leaves no engine behind: it either fails before the engine is started,
  or starts it once and closes it once and fails, or starts it once, starts the bridge with packet
  buffers that hold at least 2048 bytes, and returns a session for the node.\<close>

theorem connect_leaves_no_engine:
  "case connect io cfg dir ref node of
     (Inl err, calls) \<Rightarrow> calls = [] \<or> (\<exists>t opt. calls = [EngineStart t opt, EngineClose])
   | (Inr s, calls) \<Rightarrow>
       (\<exists>t opt size. calls = [EngineStart t opt, BridgeStart size] \<and> 2048 \<le> size) \<and> SessNodeID s = ID node"
proof -
  obtain r calls where c: "connect io cfg dir ref node = (r, calls)" by fastforce
  then show ?thesis
  proof (cases rule: connect_cases)
    case before
    with c show ?thesis by simp
  next
    case engine
    with c show ?thesis by (cases r) (auto simp: packetSize_def)
  qed
qed

text \<open>C20: the engine is only ever started with a positive timeout, with a remote, with a cipher and a
  digest it supports, and with the credentials of the configuration, never those of the profile.\<close>

theorem engine_start_options:
  assumes "EngineStart t opt \<in> set (snd (connect io cfg dir ref node))"
  shows "0 < t \<and> OptRemote opt \<noteq> '''' \<and> OptPort opt \<noteq> '''' \<and> Cipher opt \<in> set SupportedCiphers \<and>
    OptAuth opt \<in> set SupportedAuth \<and> OptProto opt \<in> {ProtoTCP, ProtoUDP} \<and>
    OptUsername opt = tunnelValueOr (OpenVPNUsername cfg) ''vpn'' \<and>
    OptPassword opt = tunnelValueOr (OpenVPNPassword cfg) ''vpn''"
proof -
  obtain r calls where c: "connect io cfg dir ref node = (r, calls)" by fastforce
  then show ?thesis
  proof (cases rule: connect_cases)
    case before
    with assms c show ?thesis by simp
  next
    case (engine opt' rest)
    have "EngineStart t opt \<notin> set rest"
      using engine(4) by (cases r) auto
    with assms c engine(1) have "t = handshakeTimeout cfg" "opt = opt'" by auto
    with engine profileOptions_sound [OF engine(2)] handshakeTimeout_positive show ?thesis
      by (auto simp: checkOptions_None supported_def)
  qed
qed

text \<open>The file a profile is written to is a direct child of the runtime directory, whatever the
  identifier of the node contains.\<close>

theorem profile_file_in_runtime_dir:
  "let dir = path_clean (RuntimeDir (NewOpenVPNController cfg dataDir));
       path = profilePath (RuntimeDir (NewOpenVPNController cfg dataDir)) node
   in \<exists>name. list_all safe_char name \<and> CHR ''/'' \<notin> set name \<and>
        (path = dir @ ''/'' @ name \<or> dir = ''/'' \<and> path = ''/'' @ name \<or> dir = ''.'' \<and> path = name)"
proof -
  let ?name = "safeFilename (ID node) @ ''.ovpn''"
  have safe: "list_all safe_char ?name"
    using safeFilename_safe [of "ID node"] by (simp add: safe_char_def byte_in_def)
  then have slash: "CHR ''/'' \<notin> set ?name"
    using safe_char_no_slash by (auto simp: list_all_iff)
  have "?name \<notin> {'''', ''.'', ''..''}"
    by (auto simp: append_eq_Cons_conv)
  moreover have "path_join dataDir ''runtime'' \<noteq> ''''"
    by (rule path_join_nonempty) simp
  ultimately have path_cases: "let dir = path_join dataDir ''runtime''
      in path_join dir ?name = path_clean dir @ ''/'' @ ?name \<or>
         path_clean dir = ''/'' \<and> path_join dir ?name = ''/'' @ ?name \<or>
         path_clean dir = ''.'' \<and> path_join dir ?name = ?name"
    using path_join_plain [OF slash] unfolding Let_def by blast
  have dir: "RuntimeDir (NewOpenVPNController cfg dataDir) = path_join dataDir ''runtime''"
    by (simp add: NewOpenVPNController_def)
  show ?thesis
    unfolding Let_def dir profilePath_def
    by (rule exI [of _ ?name]) (use path_cases safe slash in \<open>auto simp only: Let_def\<close>)
qed

text \<open>With a validated configuration no attempt fails because of a name server address.\<close>

theorem validated_dns_never_fails:
  assumes "Validate cfg = None"
  shows "fst (connect io (OpenVPN cfg) dir ref node) \<noteq> Inl (BadDNSServer a)"
proof -
  obtain servers where dns: "configuredDNS (DNSServers (OpenVPN cfg)) = Inr servers"
    using assms configuredDNS_valid by (auto simp: Validate_sound)
  have profile: "profileOptions io (OpenVPN cfg) dir node \<noteq> Inl (BadDNSServer a)"
    by (auto simp: profileOptions_def Let_def split: option.splits sum.splits opt_error.splits)
  have "openSession io (OpenVPN cfg) ref node addrs \<noteq> (Inl (BadDNSServer a), calls)" for addrs calls
    by (auto simp: openSession_def dns Let_def split: option.splits netip_addr.splits)
  with profile show ?thesis
    by (auto simp: connect_def Let_def split: sum.splits option.splits prod.splits)
qed

text \<open>A profile whose comp-lzo directive has no argument.\<close>

definition bare_comp_lzo :: string where
  "bare_comp_lzo = join newline [''remote 1.2.3.4 443'', ''cipher AES-128-CBC'', ''auth SHA1'', ''comp-lzo'']"

definition some_io :: connect_io where
  "some_io = \<lparr>IoMkdir = None, IoWrite = None, IoFiles = some_fs,
     IoStart = (\<lambda>_ _. Inr (''10.8.0.2'', ''10.8.0.1'')), IoNetTUN = (\<lambda>_ _ _. None)\<rparr>"

text \<open>A profile with a comp-lzo directive without argument passes the cleaning and crashes the
  engine's parser; the crash leaves the controller in the connecting state, so every later attempt
  is refused.\<close>

theorem bare_comp_lzo_blocks_controller:
  "let node = zero_node\<lparr>ID := ''n'', OpenVPNConfig := bare_comp_lzo\<rparr>;
       (c, err, calls) = Connect some_io 1 node (NewOpenVPNController (OpenVPN Default) ''/data'')
   in (\<exists>why. err = Some (Crashes why)) \<and> calls = [] \<and> Connecting c \<and>
      Connect io ref node' c =
        (c, Some (Fails ''VPNGate tunnel connection is already in progress''), [])"
proof -
  let ?node = "zero_node\<lparr>ID := ''n'', OpenVPNConfig := bare_comp_lzo\<rparr>"
  let ?c0 = "NewOpenVPNController (OpenVPN Default) ''/data''"
  have crash: "case connect some_io (OpenVPN Default) (RuntimeDir ?c0) 1 ?node of
      (Inl (Crashes why), calls) \<Rightarrow> calls = [] | _ \<Rightarrow> False"
    by code_simp
  then obtain why where c: "connect some_io (OpenVPN Default) (RuntimeDir ?c0) 1 ?node = (Inl (Crashes why), [])"
    by (auto split: prod.splits sum.splits connect_error.splits)
  have start: "connectBegin ?c0 = Inr (?c0\<lparr>Connecting := True, CtlLastError := ''''\<rparr>)"
    by (simp add: NewOpenVPNController_def)
  have "CtlCfg ?c0 = OpenVPN Default"
    by (simp add: NewOpenVPNController_def)
  with c have first: "Connect some_io 1 ?node ?c0 =
      (?c0\<lparr>Connecting := True, CtlLastError := ''''\<rparr>, Some (Crashes why), [])"
    unfolding Connect_def start by simp
  show ?thesis
    unfolding Let_def first by (simp add: Connect_def connectBegin_def NewOpenVPNController_def)
qed

section \<open>Witnesses\<close>

definition some_vpn_node :: vpn_node where
  "some_vpn_node = zero_node\<lparr>ID := ''n/1'', OpenVPNConfig := plain_profile\<rparr>"

definition started_options :: openvpn_options where
  "started_options = parsed_profile\<lparr>OptUsername := ''vpn'', OptPassword := ''vpn''\<rparr>"

lemma some_connect:
  "snd (connect some_io (OpenVPN Default) ''/data/runtime'' 1 some_vpn_node) =
     [EngineStart 45000000000 started_options, BridgeStart 2048]"
  by code_simp

theorem engine_start_options_witness:
  "0 < (45000000000 :: int) \<and> OptRemote started_options \<noteq> '''' \<and> OptUsername started_options = ''vpn''"
  using engine_start_options [of 45000000000 started_options some_io "OpenVPN Default" "''/data/runtime''" 1 some_vpn_node]
    some_connect by (simp add: tunnelValueOr_def started_options_def)

theorem validated_dns_never_fails_witness:
  "fst (connect some_io (OpenVPN (generated ''p'' ''s'' ''t'' ''u'')) ''/data'' 1 some_vpn_node) \<noteq> Inl (BadDNSServer ''x'')"
  by (rule validated_dns_never_fails) (simp add: generated_valid)

end
