(* ===== verification/Tunnel_Controller.thy ===== *)
theory Tunnel_Controller
  imports Openvpn
begin

text \<open>
  The interleaving of the controller's operations (src/internal/tunnel/openvpn.go). Connect holds
  the lock before and after its attempt and not during it; watch and Disconnect take the lock once
  and close the session after releasing it. A state of the system is the controller together with
  the attempts in progress, the sessions that are open, those that a watcher waits for and those
  being closed; a step is one critical section or one step between them. The invariant gives that
  at most one session is open and not being closed, and that the controller refines a machine with
  three phases.
\<close>

section \<open>Steps\<close>

datatype attempt = Dialing | Opened vpn_session

record tunnel_system =
  Ctl :: controller
  Attempts :: "nat \<rightharpoonup> attempt"
  Live :: "nat set"
  Watched :: "nat set"
  Shutting :: "nat set"
  NextRef :: nat

definition tunnel_initial :: "openvpn_config \<Rightarrow> string \<Rightarrow> tunnel_system \<Rightarrow> bool" where
  "tunnel_initial cfg dataDir s \<longleftrightarrow>
     s = \<lparr>Ctl = NewOpenVPNController cfg dataDir, Attempts = Map.empty, Live = {}, Watched = {},
          Shutting = {}, NextRef = 0\<rparr>"

definition session_refs :: "vpn_session option \<Rightarrow> nat set" where
  "session_refs x = SessRef ` set_option x"

text \<open>The updates of the steps, each a function of the state.\<close>

definition sys_enter :: "nat \<Rightarrow> controller \<Rightarrow> tunnel_system \<Rightarrow> tunnel_system" where
  "sys_enter t c s = s\<lparr>Ctl := c, Attempts := (Attempts s)(t \<mapsto> Dialing)\<rparr>"

definition sys_opened :: "nat \<Rightarrow> vpn_session \<Rightarrow> tunnel_system \<Rightarrow> tunnel_system" where
  "sys_opened t x s =
     s\<lparr>Attempts := (Attempts s)(t \<mapsto> Opened x), Live := insert (SessRef x) (Live s), NextRef := Suc (NextRef s)\<rparr>"

definition sys_failed :: "nat \<Rightarrow> connect_error \<Rightarrow> tunnel_system \<Rightarrow> tunnel_system" where
  "sys_failed t err s = s\<lparr>Ctl := connectEnd (Inl err) (Ctl s), Attempts := (Attempts s)(t := None)\<rparr>"

definition sys_crashed :: "nat \<Rightarrow> tunnel_system \<Rightarrow> tunnel_system" where
  "sys_crashed t s = s\<lparr>Attempts := (Attempts s)(t := None)\<rparr>"

definition sys_done :: "nat \<Rightarrow> vpn_session \<Rightarrow> tunnel_system \<Rightarrow> tunnel_system" where
  "sys_done t x s =
     s\<lparr>Ctl := connectEnd (Inr x) (Ctl s), Attempts := (Attempts s)(t := None), Watched := insert (SessRef x) (Watched s)\<rparr>"

definition sys_watch :: "nat \<Rightarrow> string \<Rightarrow> tunnel_system \<Rightarrow> tunnel_system" where
  "sys_watch r err s = s\<lparr>Ctl := watchFailed r err (Ctl s), Watched := Watched s - {r}, Shutting := insert r (Shutting s)\<rparr>"

definition sys_disconnect :: "tunnel_system \<Rightarrow> tunnel_system" where
  "sys_disconnect s =
     (case disconnectBegin (Ctl s) of (c, x) \<Rightarrow> s\<lparr>Ctl := c, Shutting := Shutting s \<union> session_refs x\<rparr>)"

definition sys_closed :: "nat \<Rightarrow> tunnel_system \<Rightarrow> tunnel_system" where
  "sys_closed r s = s\<lparr>Live := Live s - {r}, Watched := Watched s - {r}, Shutting := Shutting s - {r}\<rparr>"

inductive tunnel_step :: "tunnel_system \<Rightarrow> tunnel_system \<Rightarrow> bool" where
  connect_refused: "connectBegin (Ctl s) = Inl err \<Longrightarrow> tunnel_step s s"
| connect_enter: "connectBegin (Ctl s) = Inr c \<Longrightarrow> Attempts s t = None \<Longrightarrow> tunnel_step s (sys_enter t c s)"
| connect_opened: "Attempts s t = Some Dialing \<Longrightarrow> SessRef x = NextRef s \<Longrightarrow> tunnel_step s (sys_opened t x s)"
| connect_failed: "Attempts s t = Some Dialing \<Longrightarrow> tunnel_step s (sys_failed t err s)"
| connect_crashed: "Attempts s t = Some Dialing \<Longrightarrow> tunnel_step s (sys_crashed t s)"
| connect_done: "Attempts s t = Some (Opened x) \<Longrightarrow> tunnel_step s (sys_done t x s)"
| watch_failed: "r \<in> Watched s \<Longrightarrow> tunnel_step s (sys_watch r err s)"
| disconnect: "tunnel_step s (sys_disconnect s)"
| session_closed: "r \<in> Shutting s \<Longrightarrow> tunnel_step s (sys_closed r s)"

inductive_cases tunnel_stepE: "tunnel_step s t"

section \<open>The invariant\<close>

definition opened_refs :: "(nat \<rightharpoonup> attempt) \<Rightarrow> nat set" where
  "opened_refs m = {r. \<exists>t x. m t = Some (Opened x) \<and> SessRef x = r}"

definition tunnel_inv :: "tunnel_system \<Rightarrow> bool" where
  "tunnel_inv s \<longleftrightarrow>
     (Attempts s = Map.empty \<or> Connecting (Ctl s) \<and> (\<exists>t a. Attempts s = [t \<mapsto> a])) \<and>
     (Connecting (Ctl s) \<longrightarrow> CtlSession (Ctl s) = None) \<and>
     Live s - Shutting s = session_refs (CtlSession (Ctl s)) \<union> opened_refs (Attempts s) \<and>
     opened_refs (Attempts s) \<inter> Watched s = {} \<and>
     Watched s \<union> Shutting s \<subseteq> Live s \<and> (\<forall>r\<in>Live s. r < NextRef s)"

lemma session_refs_simps [simp]:
  "session_refs None = {}" "session_refs (Some x) = {SessRef x}"
  by (simp_all add: session_refs_def)

lemma opened_refs_simps [simp]:
  "opened_refs Map.empty = {}"
  "opened_refs [t \<mapsto> Dialing] = {}"
  "opened_refs [t \<mapsto> Opened x] = {SessRef x}"
  by (auto simp: opened_refs_def split: if_splits)

lemma drop_attempt [simp]: "[t \<mapsto> a](t := None) = Map.empty"
  by auto

lemma watchFailed_simps [simp]:
  "Connecting (watchFailed r err c) = Connecting c"
  "CtlSession (watchFailed r err c) =
     (case CtlSession c of Some x \<Rightarrow> if SessRef x = r then None else Some x | None \<Rightarrow> None)"
  by (simp_all add: watchFailed_def split: option.split)

text \<open>While an attempt runs there is no other one and no current session.\<close>

lemma inv_attemptD:
  assumes "tunnel_inv s" and "Attempts s t = Some a"
  shows "Attempts s = [t \<mapsto> a]" "Connecting (Ctl s)" "CtlSession (Ctl s) = None"
    "Live s - Shutting s = opened_refs [t \<mapsto> a]" "opened_refs [t \<mapsto> a] \<inter> Watched s = {}"
    "Watched s \<union> Shutting s \<subseteq> Live s" "\<forall>r\<in>Live s. r < NextRef s"
proof -
  from assms obtain u b where ub: "Attempts s = [u \<mapsto> b]" "Connecting (Ctl s)"
    by (auto simp: tunnel_inv_def)
  with assms(2) have "u = t \<and> b = a" by (simp split: if_splits)
  with ub assms(1) show "Attempts s = [t \<mapsto> a]" "Connecting (Ctl s)" "CtlSession (Ctl s) = None"
    "Live s - Shutting s = opened_refs [t \<mapsto> a]" "opened_refs [t \<mapsto> a] \<inter> Watched s = {}"
    "Watched s \<union> Shutting s \<subseteq> Live s" "\<forall>r\<in>Live s. r < NextRef s"
    by (simp_all add: tunnel_inv_def)
qed

lemma inv_enter:
  assumes "tunnel_inv s" "connectBegin (Ctl s) = Inr c"
  shows "tunnel_inv (sys_enter t c s)"
  using assms by (auto simp: tunnel_inv_def sys_enter_def)

lemma inv_opened:
  assumes "tunnel_inv s" "Attempts s t = Some Dialing" "SessRef x = NextRef s"
  shows "tunnel_inv (sys_opened t x s)"
  using inv_attemptD [OF assms(1,2)] assms(3) by (auto simp: tunnel_inv_def sys_opened_def)

lemma inv_failed:
  assumes "tunnel_inv s" "Attempts s t = Some Dialing"
  shows "tunnel_inv (sys_failed t err s)" and "tunnel_inv (sys_crashed t s)"
  using inv_attemptD [OF assms] by (simp_all add: tunnel_inv_def sys_failed_def sys_crashed_def)

lemma inv_done:
  assumes "tunnel_inv s" "Attempts s t = Some (Opened x)"
  shows "tunnel_inv (sys_done t x s)"
  using inv_attemptD [OF assms] by (auto simp: tunnel_inv_def sys_done_def)

lemma inv_watch:
  assumes "tunnel_inv s" "r \<in> Watched s"
  shows "tunnel_inv (sys_watch r err s)"
  using assms by (cases "CtlSession (Ctl s)") (auto simp: tunnel_inv_def sys_watch_def)

lemma inv_disconnect: "tunnel_inv s \<Longrightarrow> tunnel_inv (sys_disconnect s)"
  by (cases "CtlSession (Ctl s)") (auto simp: tunnel_inv_def sys_disconnect_def disconnectBegin_def)

lemma inv_closed: "tunnel_inv s \<Longrightarrow> r \<in> Shutting s \<Longrightarrow> tunnel_inv (sys_closed r s)"
  by (auto simp: tunnel_inv_def sys_closed_def)

lemma tunnel_inv_step: "tunnel_inv s \<Longrightarrow> tunnel_step s t \<Longrightarrow> tunnel_inv t"
  by (erule tunnel_stepE)
    (auto intro: inv_enter inv_opened inv_failed inv_done inv_watch inv_disconnect inv_closed)

lemma tunnel_inv_initial: "tunnel_initial cfg dir s \<Longrightarrow> tunnel_inv s"
  by (simp add: tunnel_initial_def tunnel_inv_def NewOpenVPNController_def)

interpretation tunnel: invariant_system "tunnel_initial cfg dir" tunnel_step tunnel_inv
  for cfg dir
  by unfold_locales (fact tunnel_inv_initial tunnel_inv_step)+

section \<open>The abstract machine\<close>

text \<open>What the server relies on: the tunnel is down, being set up, or up with one session; a session
  never replaces another one and is never set up without an attempt.\<close>

datatype tunnel_phase = Down | SettingUp | Up nat

inductive phase_step :: "tunnel_phase \<Rightarrow> tunnel_phase \<Rightarrow> bool" where
  "phase_step Down SettingUp"
| "phase_step SettingUp Down"
| "phase_step SettingUp (Up r)"
| "phase_step (Up r) Down"

definition phase_of :: "tunnel_system \<Rightarrow> tunnel_phase" where
  "phase_of s =
     (case CtlSession (Ctl s) of
        Some x \<Rightarrow> Up (SessRef x)
      | None \<Rightarrow> if Connecting (Ctl s) then SettingUp else Down)"

lemma phase_of_step:
  assumes "tunnel_inv s" and "tunnel_step s t"
  shows "phase_of t = phase_of s \<or> phase_step (phase_of s) (phase_of t)"
  using assms(2)
proof cases
  case connect_enter
  then show ?thesis by (auto simp: phase_of_def sys_enter_def intro: phase_step.intros)
next
  case connect_opened
  then show ?thesis by (simp add: phase_of_def sys_opened_def)
next
  case connect_failed
  with inv_attemptD [OF assms(1)] show ?thesis
    by (auto simp: phase_of_def sys_failed_def intro: phase_step.intros)
next
  case connect_crashed
  then show ?thesis by (simp add: phase_of_def sys_crashed_def)
next
  case connect_done
  with inv_attemptD [OF assms(1)] show ?thesis
    by (auto simp: phase_of_def sys_done_def intro: phase_step.intros)
next
  case watch_failed
  with assms(1) show ?thesis
    by (auto simp: phase_of_def sys_watch_def tunnel_inv_def split: option.split intro: phase_step.intros)
next
  case disconnect
  with assms(1) show ?thesis
    by (auto simp: phase_of_def sys_disconnect_def disconnectBegin_def tunnel_inv_def split: option.split
        intro: phase_step.intros)
next
  case session_closed
  then show ?thesis by (simp add: phase_of_def sys_closed_def)
qed simp

interpretation phases: simulation "tunnel_initial cfg dir" tunnel_step phase_of "\<lambda>p. p = Down" phase_step
  for cfg dir
proof
  show "phase_of s = Down" if "tunnel_initial cfg dir s" for s
    using that by (simp add: tunnel_initial_def phase_of_def NewOpenVPNController_def)
  show "phase_of t = phase_of s \<or> phase_step (phase_of s) (phase_of t)"
    if "reach (tunnel_initial cfg dir) tunnel_step s" "tunnel_step s t" for s t
    using phase_of_step [OF tunnel.reach_invar] that by blast
qed

section \<open>Properties\<close>

text \<open>C3: however the operations of the controller interleave, at most one session is open and not
  being closed, and it is the controller's current session or belongs to an attempt that has just
  opened it; while an attempt runs there is no current session.\<close>

theorem at_most_one_tunnel:
  assumes "reach (tunnel_initial cfg dir) tunnel_step s"
  shows "card (Live s - Shutting s) \<le> 1 \<and>
    Live s - Shutting s = session_refs (CtlSession (Ctl s)) \<union> opened_refs (Attempts s) \<and>
    (dom (Attempts s) \<noteq> {} \<longrightarrow> Connecting (Ctl s) \<and> CtlSession (Ctl s) = None)"
proof -
  have inv: "tunnel_inv s" by (rule tunnel.reach_invar [OF assms])
  then have live: "Live s - Shutting s = session_refs (CtlSession (Ctl s)) \<union> opened_refs (Attempts s)"
    by (simp add: tunnel_inv_def)
  have attempt: "Connecting (Ctl s) \<and> CtlSession (Ctl s) = None" if "dom (Attempts s) \<noteq> {}"
    using that inv_attemptD(2,3) [OF inv] by blast
  consider "Attempts s = Map.empty" | t a where "Attempts s t = Some a" by fastforce
  then have "card (Live s - Shutting s) \<le> 1"
  proof cases
    case 1
    then show ?thesis by (cases "CtlSession (Ctl s)") (simp_all add: live)
  next
    case 2
    then show ?thesis by (cases a) (simp_all add: inv_attemptD(4) [OF inv 2])
  qed
  with live attempt show ?thesis by blast
qed

text \<open>C9: the controller refines the machine with the phases down, setting up and up: every step from
  a reachable state leaves the phase or is a step of that machine. In particular a session is never
  replaced by another one without being taken down first.\<close>

theorem controller_refines_phases:
  assumes "reach (tunnel_initial cfg dir) tunnel_step s" and "tunnel_step s t"
  shows "phase_of t = phase_of s \<or> phase_step (phase_of s) (phase_of t)"
  by (rule phases.sim_step [OF assms])

section \<open>Witnesses\<close>

definition some_session :: vpn_session where
  "some_session = \<lparr>SessRef = 0, SessNodeID = ''n'', SessLocalIP = ''10.8.0.2'', SessGateway = ''10.8.0.1'',
     SessDNS = [], SessMTU = 1420, PacketsOut = 0, PacketsIn = 0, BytesOut = 0, BytesIn = 0\<rparr>"

definition some_system :: "openvpn_config \<Rightarrow> tunnel_system" where
  "some_system cfg = \<lparr>Ctl = NewOpenVPNController cfg ''/data'', Attempts = Map.empty, Live = {}, Watched = {},
     Shutting = {}, NextRef = 0\<rparr>"

definition entered_system :: "openvpn_config \<Rightarrow> tunnel_system" where
  "entered_system cfg = sys_enter 7 ((NewOpenVPNController cfg ''/data'')\<lparr>Connecting := True, CtlLastError := ''''\<rparr>)
     (some_system cfg)"

definition opened_system :: "openvpn_config \<Rightarrow> tunnel_system" where
  "opened_system cfg = sys_opened 7 some_session (entered_system cfg)"

lemmas some_system_defs = some_system_def entered_system_def opened_system_def sys_enter_def sys_opened_def
  sys_done_def NewOpenVPNController_def some_session_def

lemma opened_reachable: "reach (tunnel_initial cfg ''/data'') tunnel_step (opened_system cfg)"
proof -
  have "reach (tunnel_initial cfg ''/data'') tunnel_step (some_system cfg)"
    by (rule reach_initial) (simp add: tunnel_initial_def some_system_def)
  moreover have "tunnel_step (some_system cfg) (entered_system cfg)"
    unfolding entered_system_def by (rule connect_enter) (simp_all add: some_system_def NewOpenVPNController_def)
  moreover have "tunnel_step (entered_system cfg) (opened_system cfg)"
    unfolding opened_system_def by (rule connect_opened) (simp_all add: some_system_defs)
  ultimately show ?thesis by (blast intro: reach_step)
qed

lemma opened_done_step: "tunnel_step (opened_system cfg) (sys_done 7 some_session (opened_system cfg))"
  by (rule connect_done) (simp add: some_system_defs)

theorem at_most_one_tunnel_witness:
  "Live (opened_system (OpenVPN Default)) - Shutting (opened_system (OpenVPN Default)) = {0} \<and>
   card (Live (opened_system (OpenVPN Default)) - Shutting (opened_system (OpenVPN Default))) \<le> 1"
  using at_most_one_tunnel [OF opened_reachable [of "OpenVPN Default"]]
  by (simp add: some_system_defs)

theorem controller_refines_phases_witness:
  "phase_step (phase_of (opened_system (OpenVPN Default)))
     (phase_of (sys_done 7 some_session (opened_system (OpenVPN Default))))"
  using controller_refines_phases [OF opened_reachable opened_done_step, of "OpenVPN Default"]
  by (simp add: some_system_defs phase_of_def connectEnd_def)

end
