(* ===== verification/Session_Tracker.thy ===== *)
theory Session_Tracker
  imports Rim_Prelude
begin

text \<open>
  The connections of a session (src/internal/tunnel/openvpn.go, from dialContext to trackedConn).
  Dials run concurrently with each other, with the closing of the session and with the closing of
  single connections by their users. A state has the fields of vpnSession that connMu guards, the
  program counter of every dial and of the closing thread, and the connections of the network stack
  that are open. Closing a session returns from waitConnections only when no dial runs and no
  connection is open; and once closing has begun it always can make progress and never gains work.
\<close>

section \<open>Steps\<close>

text \<open>A dial: in the call of the network stack; back from it with a connection or none and with an
  error or none; about to close the connection; about to leave.\<close>

datatype dial_pc = InDial | Dialed "nat option" bool | Discarding "nat option" | Leaving

text \<open>The thread that closes the session: not started, in the loop of closeConnections before closing
  a connection or before untracking it, in waitConnections, past it.\<close>

datatype closer_pc = NotClosing | ClosingConns "nat list" | Untracking nat "nat list" | Waiting | Waited

record tracker =
  Closing :: bool
  ActiveDials :: int
  Connections :: "nat set"
  Dials :: "nat \<rightharpoonup> dial_pc"
  Closer :: closer_pc
  OpenConns :: "nat set"
  Handed :: "nat set"
  UserUntracking :: "nat set"
  Seen :: "nat set"

definition tracker_initial :: "tracker \<Rightarrow> bool" where
  "tracker_initial s \<longleftrightarrow>
     s = \<lparr>Closing = False, ActiveDials = 0, Connections = {}, Dials = Map.empty, Closer = NotClosing,
          OpenConns = {}, Handed = {}, UserUntracking = {}, Seen = {}\<rparr>"

inductive tracker_step :: "tracker \<Rightarrow> tracker \<Rightarrow> bool" where
  dial_refused: "Closing s \<Longrightarrow> tracker_step s s"
| dial_enter: "\<not> Closing s \<Longrightarrow> Dials s t = None \<Longrightarrow>
    tracker_step s (s\<lparr>ActiveDials := ActiveDials s + 1, Dials := (Dials s)(t \<mapsto> InDial)\<rparr>)"
| dial_connected: "Dials s t = Some InDial \<Longrightarrow> c \<notin> Seen s \<Longrightarrow>
    tracker_step s (s\<lparr>Dials := (Dials s)(t \<mapsto> Dialed (Some c) err), OpenConns := insert c (OpenConns s),
                      Seen := insert c (Seen s)\<rparr>)"
| dial_error: "Dials s t = Some InDial \<Longrightarrow> tracker_step s (s\<lparr>Dials := (Dials s)(t \<mapsto> Dialed None True)\<rparr>)"
| dial_track: "Dials s t = Some (Dialed (Some c) False) \<Longrightarrow> \<not> Closing s \<Longrightarrow>
    tracker_step s (s\<lparr>Connections := insert c (Connections s), ActiveDials := ActiveDials s - 1,
                      Dials := (Dials s)(t := None), Handed := insert c (Handed s)\<rparr>)"
| dial_reject: "Dials s t = Some (Dialed conn err) \<Longrightarrow> err \<or> Closing s \<Longrightarrow>
    tracker_step s (s\<lparr>Dials := (Dials s)(t \<mapsto> Discarding conn)\<rparr>)"
| dial_discard: "Dials s t = Some (Discarding conn) \<Longrightarrow>
    tracker_step s (s\<lparr>Dials := (Dials s)(t \<mapsto> Leaving), OpenConns := OpenConns s - set_option conn\<rparr>)"
| dial_leave: "Dials s t = Some Leaving \<Longrightarrow>
    tracker_step s (s\<lparr>ActiveDials := ActiveDials s - 1, Dials := (Dials s)(t := None)\<rparr>)"
| user_close: "c \<in> Handed s \<Longrightarrow>
    tracker_step s (s\<lparr>OpenConns := OpenConns s - {c}, Handed := Handed s - {c},
                      UserUntracking := insert c (UserUntracking s)\<rparr>)"
| user_untrack: "c \<in> UserUntracking s \<Longrightarrow>
    tracker_step s (s\<lparr>Connections := Connections s - {c}, UserUntracking := UserUntracking s - {c}\<rparr>)"
| close_begin: "Closer s = NotClosing \<Longrightarrow> set cs = Connections s \<Longrightarrow>
    tracker_step s (s\<lparr>Closing := True, Closer := ClosingConns cs\<rparr>)"
| close_conn: "Closer s = ClosingConns (c # cs) \<Longrightarrow>
    tracker_step s (s\<lparr>Closer := Untracking c cs, OpenConns := OpenConns s - {c}\<rparr>)"
| close_untrack: "Closer s = Untracking c cs \<Longrightarrow>
    tracker_step s (s\<lparr>Closer := ClosingConns cs, Connections := Connections s - {c}\<rparr>)"
| close_wait: "Closer s = ClosingConns [] \<Longrightarrow> tracker_step s (s\<lparr>Closer := Waiting\<rparr>)"
| close_waited: "Closer s = Waiting \<Longrightarrow> Connections s = {} \<Longrightarrow> ActiveDials s \<le> 0 \<Longrightarrow>
    tracker_step s (s\<lparr>Closer := Waited\<rparr>)"

section \<open>The invariant\<close>

text \<open>The connections a dial holds, and those the closing thread has yet to untrack.\<close>

fun pc_conns :: "dial_pc \<Rightarrow> nat set" where
  "pc_conns InDial = {}"
| "pc_conns (Dialed conn err) = set_option conn"
| "pc_conns (Discarding conn) = set_option conn"
| "pc_conns Leaving = {}"

definition held :: "(nat \<rightharpoonup> dial_pc) \<Rightarrow> nat set" where
  "held m = \<Union> (pc_conns ` ran m)"

fun pending_conns :: "closer_pc \<Rightarrow> nat set" where
  "pending_conns NotClosing = UNIV"
| "pending_conns (ClosingConns cs) = set cs"
| "pending_conns (Untracking c cs) = insert c (set cs)"
| "pending_conns Waiting = {}"
| "pending_conns Waited = {}"

definition tracker_inv :: "tracker \<Rightarrow> bool" where
  "tracker_inv s \<longleftrightarrow>
     finite (dom (Dials s)) \<and> ActiveDials s = int (card (dom (Dials s))) \<and>
     OpenConns s \<subseteq> Connections s \<union> held (Dials s) \<and>
     UserUntracking s \<inter> OpenConns s = {} \<and>
     (\<forall>c cs. Closer s = Untracking c cs \<longrightarrow> c \<notin> OpenConns s) \<and>
     OpenConns s \<union> Connections s \<union> held (Dials s) \<union> UserUntracking s \<union> Handed s \<subseteq> Seen s \<and>
     (Closing s \<longleftrightarrow> Closer s \<noteq> NotClosing) \<and>
     Connections s \<subseteq> pending_conns (Closer s) \<and>
     (Closing s \<longrightarrow> pending_conns (Closer s) \<subseteq> Seen s) \<and>
     (Closer s = Waited \<longrightarrow> Dials s = Map.empty)"

lemma held_empty [simp]: "held Map.empty = {}"
  by (simp add: held_def)

text \<open>A step changes one dial; what the others hold stays.\<close>

lemma held_split: "m t = Some p \<Longrightarrow> held m = held (m(t := None)) \<union> pc_conns p"
  unfolding held_def ran_def by (auto split: if_splits) (metis option.inject)

lemma held_upd: "held (m(t \<mapsto> q)) = held (m(t := None)) \<union> pc_conns q"
  unfolding held_def ran_def by (auto split: if_splits)

lemma held_new: "m t = None \<Longrightarrow> held (m(t \<mapsto> q)) = held m \<union> pc_conns q"
  unfolding held_def by (simp add: Un_commute)

lemma card_dom_drop:
  "finite (dom m) \<Longrightarrow> m t = Some p \<Longrightarrow> int (card (dom m)) = int (card (dom (m(t := None)))) + 1"
  by (simp add: card_Suc_Diff1 [symmetric] dom_def [symmetric] del: card_Diff_insert)
    (metis card_Suc_Diff1 domI of_nat_Suc add.commute)

lemma dom_keep: "m t = Some p \<Longrightarrow> dom (m(t \<mapsto> q)) = dom m"
  by auto

lemmas dial_moved = held_split held_upd dom_keep

lemma tracker_inv_step:
  assumes "tracker_inv s" and "tracker_step s s'"
  shows "tracker_inv s'"
  using assms(2)
proof cases
  case dial_refused
  with assms(1) show ?thesis by simp
next
  case (dial_enter t)
  with assms(1) show ?thesis by (auto simp: tracker_inv_def held_new card_insert_if domIff)
next
  case (dial_connected t c err)
  with assms(1) held_split [of "Dials s" t, OF dial_connected(2)] dom_keep [of "Dials s" t, OF dial_connected(2)] show ?thesis
    by (auto simp: tracker_inv_def held_upd)
next
  case (dial_error t)
  with assms(1) held_split [of "Dials s" t, OF dial_error(2)] dom_keep [of "Dials s" t, OF dial_error(2)] show ?thesis
    by (auto simp: tracker_inv_def held_upd)
next
  case (dial_track t c)
  with assms(1) held_split [of "Dials s" t, OF dial_track(2)] card_dom_drop [of "Dials s" t, OF _ dial_track(2)] show ?thesis
    by (auto simp: tracker_inv_def)
next
  case (dial_reject t conn err)
  with assms(1) held_split [of "Dials s" t, OF dial_reject(2)] dom_keep [of "Dials s" t, OF dial_reject(2)] show ?thesis
    by (auto simp: tracker_inv_def held_upd)
next
  case (dial_discard t conn)
  with assms(1) held_split [of "Dials s" t, OF dial_discard(2)] dom_keep [of "Dials s" t, OF dial_discard(2)] show ?thesis
    by (auto simp: tracker_inv_def held_upd)
next
  case (dial_leave t)
  with assms(1) held_split [of "Dials s" t, OF dial_leave(2)] card_dom_drop [of "Dials s" t, OF _ dial_leave(2)] show ?thesis
    by (auto simp: tracker_inv_def)
next
  case (user_close c)
  with assms(1) show ?thesis by (auto simp: tracker_inv_def)
next
  case (user_untrack c)
  with assms(1) show ?thesis by (auto simp: tracker_inv_def)
next
  case (close_begin cs)
  with assms(1) show ?thesis by (auto simp: tracker_inv_def)
next
  case (close_conn c cs)
  with assms(1) show ?thesis by (auto simp: tracker_inv_def)
next
  case (close_untrack c cs)
  with assms(1) show ?thesis by (auto simp: tracker_inv_def)
next
  case close_wait
  with assms(1) show ?thesis by (auto simp: tracker_inv_def)
next
  case close_waited
  with assms(1) show ?thesis by (auto simp: tracker_inv_def)
qed

interpretation tracker: invariant_system tracker_initial tracker_step tracker_inv
proof
  show "tracker_inv s" if "tracker_initial s" for s
    using that by (auto simp: tracker_initial_def tracker_inv_def)
qed (rule tracker_inv_step)

section \<open>The work left of a shutdown\<close>

fun pc_work :: "dial_pc \<Rightarrow> nat" where
  "pc_work InDial = 4"
| "pc_work (Dialed conn err) = 3"
| "pc_work (Discarding conn) = 2"
| "pc_work Leaving = 1"

fun closer_work :: "closer_pc \<Rightarrow> nat" where
  "closer_work NotClosing = 0"
| "closer_work (ClosingConns cs) = 2 * length cs + 2"
| "closer_work (Untracking c cs) = 2 * length cs + 3"
| "closer_work Waiting = 1"
| "closer_work Waited = 0"

definition dials_work :: "(nat \<rightharpoonup> dial_pc) \<Rightarrow> nat" where
  "dials_work m = (\<Sum>t\<in>dom m. pc_work (the (m t)))"

definition shutdown_work :: "tracker \<Rightarrow> nat" where
  "shutdown_work s = closer_work (Closer s) + dials_work (Dials s)"

lemma dials_work_drop:
  assumes "finite (dom m)" and "m t = Some p"
  shows "dials_work m = dials_work (m(t := None)) + pc_work p"
proof -
  have "dials_work m = pc_work p + (\<Sum>u\<in>dom m - {t}. pc_work (the (m u)))"
    unfolding dials_work_def using assms by (subst sum.remove [of _ t]) auto
  also have "(\<Sum>u\<in>dom m - {t}. pc_work (the (m u))) = dials_work (m(t := None))"
    unfolding dials_work_def by (rule sum.cong) auto
  finally show ?thesis by simp
qed

lemma dials_work_move:
  assumes "finite (dom m)" and "m t = Some p"
  shows "dials_work (m(t \<mapsto> q)) + pc_work p = dials_work m + pc_work q"
proof -
  have "dials_work (m(t \<mapsto> q)) = dials_work (m(t := None)) + pc_work q"
    using dials_work_drop [of "m(t \<mapsto> q)" t q] assms by simp
  with dials_work_drop [OF assms] show ?thesis by simp
qed

lemma shutdown_step:
  assumes "tracker_inv s" and "Closing s" and "tracker_step s s'"
  shows "shutdown_work s' \<le> shutdown_work s \<and> Closing s'"
proof -
  have fin: "finite (dom (Dials s))" and started: "Closer s \<noteq> NotClosing"
    using assms(1,2) by (simp_all add: tracker_inv_def)
  note move = dials_work_move [OF fin] and drop = dials_work_drop [OF fin]
  from assms(3) show ?thesis
  proof cases
    case (dial_connected t c err)
    with assms(2) move [of t InDial "Dialed (Some c) err"] show ?thesis by (simp add: shutdown_work_def)
  next
    case (dial_error t)
    with assms(2) move [of t InDial "Dialed None True"] show ?thesis by (simp add: shutdown_work_def)
  next
    case (dial_reject t conn err)
    with assms(2) move [of t "Dialed conn err" "Discarding conn"] show ?thesis by (simp add: shutdown_work_def)
  next
    case (dial_discard t conn)
    with assms(2) move [of t "Discarding conn" Leaving] show ?thesis by (simp add: shutdown_work_def)
  next
    case (dial_leave t)
    with assms(2) drop [of t Leaving] show ?thesis by (simp add: shutdown_work_def)
  qed (use assms(2) started in \<open>simp_all add: shutdown_work_def\<close>)
qed

lemma dial_progress:
  assumes "tracker_inv s" and "Closing s" and "Dials s t = Some p"
  shows "\<exists>s'. tracker_step s s' \<and> shutdown_work s' < shutdown_work s"
proof -
  have fin: "finite (dom (Dials s))" using assms(1) by (simp add: tracker_inv_def)
  note move = dials_work_move [OF fin assms(3)] and drop = dials_work_drop [OF fin assms(3)]
  show ?thesis
  proof (cases p)
    case InDial
    with assms(3) have "tracker_step s (s\<lparr>Dials := (Dials s)(t \<mapsto> Dialed None True)\<rparr>)"
      by (intro dial_error) simp
    with InDial move [of "Dialed None True"] show ?thesis by (force simp: shutdown_work_def)
  next
    case (Dialed conn err)
    with assms(2,3) have "tracker_step s (s\<lparr>Dials := (Dials s)(t \<mapsto> Discarding conn)\<rparr>)"
      by (intro dial_reject) simp_all
    with Dialed move [of "Discarding conn"] show ?thesis by (force simp: shutdown_work_def)
  next
    case (Discarding conn)
    with assms(3) have "tracker_step s
        (s\<lparr>Dials := (Dials s)(t \<mapsto> Leaving), OpenConns := OpenConns s - set_option conn\<rparr>)"
      by (intro dial_discard) simp
    with Discarding move [of Leaving] show ?thesis by (force simp: shutdown_work_def)
  next
    case Leaving
    with assms(3) have "tracker_step s (s\<lparr>ActiveDials := ActiveDials s - 1, Dials := (Dials s)(t := None)\<rparr>)"
      by (intro dial_leave) simp
    with Leaving drop show ?thesis by (force simp: shutdown_work_def)
  qed
qed

lemma shutdown_progress_step:
  assumes "tracker_inv s" and "Closing s" and "Closer s \<noteq> Waited"
  shows "\<exists>s'. tracker_step s s' \<and> shutdown_work s' < shutdown_work s"
proof (cases "Closer s")
  case NotClosing
  with assms show ?thesis by (simp add: tracker_inv_def)
next
  case (ClosingConns cs)
  then show ?thesis
    using close_conn [of s "hd cs" "tl cs"] close_wait [of s]
    by (cases cs) (force simp: shutdown_work_def)+
next
  case (Untracking c cs)
  with close_untrack [OF Untracking] show ?thesis by (force simp: shutdown_work_def)
next
  case Waiting
  show ?thesis
  proof (cases "Dials s = Map.empty")
    case True
    with assms Waiting have "tracker_step s (s\<lparr>Closer := Waited\<rparr>)"
      by (intro close_waited) (simp_all add: tracker_inv_def)
    with Waiting show ?thesis by (force simp: shutdown_work_def)
  next
    case False
    then obtain t p where "Dials s t = Some p" by fastforce
    then show ?thesis by (rule dial_progress [OF assms(1,2)])
  qed
next
  case Waited
  with assms(3) show ?thesis by simp
qed

section \<open>Properties\<close>

text \<open>C7: in every reachable state in which closing the session has returned from waitConnections, no
  dial is in progress, no connection is tracked and none is open.\<close>

theorem waited_no_connection:
  assumes "reach tracker_initial tracker_step s" and "Closer s = Waited"
  shows "OpenConns s = {} \<and> Connections s = {} \<and> dom (Dials s) = {} \<and> ActiveDials s = 0"
  using tracker.reach_invar [OF assms(1)] assms(2) by (auto simp: tracker_inv_def)


section \<open>Witnesses\<close>

definition fresh_tracker :: tracker where
  "fresh_tracker = \<lparr>Closing = False, ActiveDials = 0, Connections = {}, Dials = Map.empty, Closer = NotClosing,
     OpenConns = {}, Handed = {}, UserUntracking = {}, Seen = {}\<rparr>"

definition dialing_tracker :: tracker where
  "dialing_tracker = fresh_tracker\<lparr>ActiveDials := 1, Dials := [3 \<mapsto> InDial]\<rparr>"

definition closing_tracker :: tracker where
  "closing_tracker = dialing_tracker\<lparr>Closing := True, Closer := ClosingConns []\<rparr>"

definition empty_closed_tracker :: tracker where
  "empty_closed_tracker = fresh_tracker\<lparr>Closing := True, Closer := Waited\<rparr>"

lemma fresh_reachable: "reach tracker_initial tracker_step fresh_tracker"
  by (rule reach_initial) (simp add: tracker_initial_def fresh_tracker_def)

lemma closing_reachable: "reach tracker_initial tracker_step closing_tracker"
proof -
  have "tracker_step fresh_tracker dialing_tracker"
    using dial_enter [of fresh_tracker 3] by (simp add: dialing_tracker_def fresh_tracker_def)
  moreover have "tracker_step dialing_tracker closing_tracker"
    using close_begin [of dialing_tracker "[]"]
    by (simp add: closing_tracker_def dialing_tracker_def fresh_tracker_def)
  ultimately show ?thesis using fresh_reachable by (blast intro: reach_step)
qed

lemma closed_reachable: "reach tracker_initial tracker_step empty_closed_tracker"
proof -
  let ?a = "fresh_tracker\<lparr>Closing := True, Closer := ClosingConns []\<rparr>"
  let ?b = "fresh_tracker\<lparr>Closing := True, Closer := Waiting\<rparr>"
  have "tracker_step fresh_tracker ?a"
    using close_begin [of fresh_tracker "[]"] by (simp add: fresh_tracker_def)
  moreover have "tracker_step ?a ?b"
    using close_wait [of ?a] by simp
  moreover have "tracker_step ?b empty_closed_tracker"
    using close_waited [of ?b] by (simp add: empty_closed_tracker_def fresh_tracker_def)
  ultimately show ?thesis using fresh_reachable by (blast intro: reach_step)
qed

theorem waited_no_connection_witness:
  "Closer empty_closed_tracker = Waited \<and> OpenConns empty_closed_tracker = {} \<and> ActiveDials empty_closed_tracker = 0"
proof -
  have w: "Closer empty_closed_tracker = Waited" by (simp add: empty_closed_tracker_def)
  with waited_no_connection [OF closed_reachable w] show ?thesis by simp
qed


end
