(* ===== verification/Server_Monad.thy ===== *)
theory Server_Monad
  imports "HOL-Library.State_Monad" Rim_Prelude
begin

text \<open>
  Reasoning about the operations of the server, which thread its state through many calls and are
  written in the state monad of the library. A triple says what an operation makes of a state and
  which value it returns; \<open>keeps\<close> says that it keeps a predicate of the state, and \<open>leaves\<close> that it
  does not change a part of the state. The rules follow the shape of the operations.
\<close>

named_theorems keeps_intros \<open>operations that keep a predicate of the server state\<close>
named_theorems leaves_intros \<open>operations that leave a part of the server state unchanged\<close>

section \<open>Operations\<close>

definition modify :: "('s \<Rightarrow> 's) \<Rightarrow> ('s, unit) state" where
  "modify f = do { s \<leftarrow> State_Monad.get; State_Monad.set (f s) }"

definition gets :: "('s \<Rightarrow> 'a) \<Rightarrow> ('s, 'a) state" where
  "gets f = do { s \<leftarrow> State_Monad.get; State_Monad.return (f s) }"

definition unless :: "bool \<Rightarrow> ('s, unit) state \<Rightarrow> ('s, unit) state" where
  "unless b m = (if b then State_Monad.return () else m)"

lemma run_state_modify [simp]: "run_state (modify f) s = ((), f s)"
  by (simp add: modify_def)

lemma run_state_gets [simp]: "run_state (gets f) s = (f s, s)"
  by (simp add: gets_def)

lemma run_state_unless [simp]: "run_state (unless b m) s = (if b then ((), s) else run_state m s)"
  by (simp add: unless_def)

section \<open>Triples\<close>

definition triple :: "('s \<Rightarrow> bool) \<Rightarrow> ('s, 'a) state \<Rightarrow> ('a \<Rightarrow> 's \<Rightarrow> bool) \<Rightarrow> bool" where
  "triple P m Q \<longleftrightarrow> (\<forall>s. P s \<longrightarrow> (case run_state m s of (x, t) \<Rightarrow> Q x t))"

lemma tripleI: "(\<And>s x t. P s \<Longrightarrow> run_state m s = (x, t) \<Longrightarrow> Q x t) \<Longrightarrow> triple P m Q"
  by (auto simp: triple_def)

lemma tripleD: "triple P m Q \<Longrightarrow> P s \<Longrightarrow> run_state m s = (x, t) \<Longrightarrow> Q x t"
  by (auto simp: triple_def split: prod.splits)

lemma triple_return: "(\<And>s. P s \<Longrightarrow> Q x s) \<Longrightarrow> triple P (State_Monad.return x) Q"
  by (simp add: triple_def)

lemma triple_bind:
  "triple P m R \<Longrightarrow> (\<And>x. triple (R x) (f x) Q) \<Longrightarrow> triple P (State_Monad.bind m f) Q"
  by (fastforce simp: triple_def split: prod.splits)

lemma triple_modify: "(\<And>s. P s \<Longrightarrow> Q () (f s)) \<Longrightarrow> triple P (modify f) Q"
  by (simp add: triple_def)

lemma triple_gets: "(\<And>s. P s \<Longrightarrow> Q (f s) s) \<Longrightarrow> triple P (gets f) Q"
  by (simp add: triple_def)

lemma triple_if: "(b \<Longrightarrow> triple P m Q) \<Longrightarrow> (\<not> b \<Longrightarrow> triple P n Q) \<Longrightarrow> triple P (if b then m else n) Q"
  by simp

lemma triple_weaken:
  "triple P' m Q' \<Longrightarrow> (\<And>s. P s \<Longrightarrow> P' s) \<Longrightarrow> (\<And>x s. Q' x s \<Longrightarrow> Q x s) \<Longrightarrow> triple P m Q"
  by (fastforce simp: triple_def split: prod.splits)

lemma triple_fixed: "triple P (f c) Q \<Longrightarrow> triple (\<lambda>s. v = c \<and> P s) (f v) Q"
  by (simp add: triple_def)

lemma triple_conj: "triple P m Q \<Longrightarrow> triple P' m Q' \<Longrightarrow> triple (\<lambda>s. P s \<and> P' s) m (\<lambda>x s. Q x s \<and> Q' x s)"
  by (fastforce simp: triple_def split: prod.splits)

section \<open>Invariants and frames\<close>

definition keeps :: "('s \<Rightarrow> bool) \<Rightarrow> ('s, 'a) state \<Rightarrow> bool" where
  "keeps P m \<longleftrightarrow> (\<forall>s. P s \<longrightarrow> P (snd (run_state m s)))"

lemma keepsD: "keeps P m \<Longrightarrow> P s \<Longrightarrow> run_state m s = (x, t) \<Longrightarrow> P t"
  by (metis keeps_def snd_conv)

lemma keeps_triple: "keeps P m \<Longrightarrow> triple P m (\<lambda>_. P)"
  by (auto simp: keeps_def triple_def split: prod.splits)

lemma triple_keeps: "triple P m (\<lambda>_. P) \<Longrightarrow> keeps P m"
  by (metis (no_types, lifting) keeps_def surjective_pairing tripleD)

lemma keeps_conj: "keeps P m \<Longrightarrow> keeps P' m \<Longrightarrow> keeps (\<lambda>s. P s \<and> P' s) m"
  by (simp add: keeps_def)

lemma keeps_return [keeps_intros]: "keeps P (State_Monad.return x)"
  by (simp add: keeps_def)

lemma keeps_bind [keeps_intros]:
  "keeps P m \<Longrightarrow> (\<And>x. keeps P (f x)) \<Longrightarrow> keeps P (State_Monad.bind m f)"
  unfolding keeps_def by (auto split: prod.splits)

lemma keeps_get [keeps_intros]: "keeps P State_Monad.get"
  by (simp add: keeps_def)

lemma keeps_gets [keeps_intros]: "keeps P (gets f)"
  by (simp add: keeps_def)

text \<open>A value read from the state, or returned by an operation, has the properties the state or the
  operation gives it.\<close>

lemma keeps_gets_bind:
  "(\<And>s. P s \<Longrightarrow> R (g s)) \<Longrightarrow> (\<And>x. R x \<Longrightarrow> keeps P (f x)) \<Longrightarrow> keeps P (State_Monad.bind (gets g) f)"
  by (simp add: keeps_def)

lemma keeps_bind_value:
  "keeps P m \<Longrightarrow> (\<And>s. P s \<Longrightarrow> R (fst (run_state m s))) \<Longrightarrow> (\<And>x. R x \<Longrightarrow> keeps P (f x)) \<Longrightarrow>
   keeps P (State_Monad.bind m f)"
  unfolding keeps_def by (auto split: prod.splits) (metis fst_conv snd_conv)

lemma keeps_modify: "(\<And>s. P s \<Longrightarrow> P (f s)) \<Longrightarrow> keeps P (modify f)"
  by (simp add: keeps_def)

lemma keeps_unless [keeps_intros]: "keeps P m \<Longrightarrow> keeps P (unless b m)"
  by (simp add: keeps_def)

lemma keeps_if [keeps_intros]: "(b \<Longrightarrow> keeps P m) \<Longrightarrow> (\<not> b \<Longrightarrow> keeps P n) \<Longrightarrow> keeps P (if b then m else n)"
  by simp

lemma keeps_option [keeps_intros]:
  "(v = None \<Longrightarrow> keeps P m) \<Longrightarrow> (\<And>x. v = Some x \<Longrightarrow> keeps P (f x)) \<Longrightarrow>
   keeps P (case v of None \<Rightarrow> m | Some x \<Rightarrow> f x)"
  by (simp split: option.split)

lemma keeps_sum [keeps_intros]:
  "(\<And>x. v = Inl x \<Longrightarrow> keeps P (f x)) \<Longrightarrow> (\<And>y. v = Inr y \<Longrightarrow> keeps P (g y)) \<Longrightarrow>
   keeps P (case v of Inl x \<Rightarrow> f x | Inr y \<Rightarrow> g y)"
  by (simp split: sum.split)

lemma keeps_prod [keeps_intros]:
  "(\<And>x y. keeps P (f x y)) \<Longrightarrow> keeps P (case v of (x, y) \<Rightarrow> f x y)"
  by (simp split: prod.split)

lemma keeps_let [keeps_intros]: "(\<And>x. keeps P (f x)) \<Longrightarrow> keeps P (let x = v in f x)"
  by simp

text \<open>An operation leaves a part of the state when it keeps every predicate that fixes the part.\<close>

definition leaves :: "('s \<Rightarrow> 'p) \<Rightarrow> ('s, 'a) state \<Rightarrow> bool" where
  "leaves part m \<longleftrightarrow> (\<forall>s. part (snd (run_state m s)) = part s)"

lemma leavesD: "leaves part m \<Longrightarrow> run_state m s = (x, t) \<Longrightarrow> part t = part s"
  by (metis leaves_def snd_conv)

lemma leaves_iff_keeps: "leaves part m \<longleftrightarrow> (\<forall>v. keeps (\<lambda>s. part s = v) m)"
  by (auto simp: leaves_def keeps_def)

lemma leaves_keeps: "leaves part m \<Longrightarrow> (\<And>s t. part s = part t \<Longrightarrow> P s = P t) \<Longrightarrow> keeps P m"
  unfolding leaves_def keeps_def by metis

lemma leaves_return [leaves_intros]: "leaves part (State_Monad.return x)"
  by (simp add: leaves_def)

lemma leaves_bind [leaves_intros]:
  "leaves part m \<Longrightarrow> (\<And>x. leaves part (f x)) \<Longrightarrow> leaves part (State_Monad.bind m f)"
  by (simp add: leaves_iff_keeps keeps_bind)

lemma leaves_get [leaves_intros]: "leaves part State_Monad.get"
  by (simp add: leaves_def)

lemma leaves_gets [leaves_intros]: "leaves part (gets f)"
  by (simp add: leaves_def)

lemma leaves_modify: "(\<And>s. part (f s) = part s) \<Longrightarrow> leaves part (modify f)"
  by (simp add: leaves_def)

lemma leaves_unless [leaves_intros]: "leaves part m \<Longrightarrow> leaves part (unless b m)"
  by (simp add: leaves_def)

lemma leaves_if [leaves_intros]: "(b \<Longrightarrow> leaves part m) \<Longrightarrow> (\<not> b \<Longrightarrow> leaves part n) \<Longrightarrow> leaves part (if b then m else n)"
  by simp

lemma leaves_option [leaves_intros]:
  "(v = None \<Longrightarrow> leaves part m) \<Longrightarrow> (\<And>x. v = Some x \<Longrightarrow> leaves part (f x)) \<Longrightarrow>
   leaves part (case v of None \<Rightarrow> m | Some x \<Rightarrow> f x)"
  by (simp split: option.split)

lemma leaves_sum [leaves_intros]:
  "(\<And>x. v = Inl x \<Longrightarrow> leaves part (f x)) \<Longrightarrow> (\<And>y. v = Inr y \<Longrightarrow> leaves part (g y)) \<Longrightarrow>
   leaves part (case v of Inl x \<Rightarrow> f x | Inr y \<Rightarrow> g y)"
  by (simp split: sum.split)

lemma leaves_prod [leaves_intros]:
  "(\<And>x y. leaves part (f x y)) \<Longrightarrow> leaves part (case v of (x, y) \<Rightarrow> f x y)"
  by (simp split: prod.split)

lemma leaves_let [leaves_intros]: "(\<And>x. leaves part (f x)) \<Longrightarrow> leaves part (let x = v in f x)"
  by simp

end
