(* ===== verification/Web_State.thy ===== *)
theory Web_State
  imports "HOL-Library.State_Monad" "HOL-Library.AList" Server_Monad Failover Vpngate Probe Residential
    Exit_Verify Json_Store Subscription Openvpn Xray
begin

text \<open>
  The state of the server and the operations that the handlers share (src/internal/web/server.go).
  The record joins AppState and the tunnel and proxy of Server. Everything outside the program is
  the record \<open>world\<close>: each call out of the program reads it at the next index, so that two calls may
  return different things; before every such call the tunnel may also fail on its own, which is how
  the watcher of the session acts on the controller. A handler runs as one operation here; handlers
  that overlap are not modelled.
\<close>

section \<open>The world\<close>

record world =
  WClock :: "nat \<Rightarrow> time"
  WDrop :: "nat \<Rightarrow> string option"
  WSave :: "nat \<Rightarrow> save_outcome"
  WFetch :: "nat \<Rightarrow> string \<Rightarrow> (int \<times> string) res"
  WCsvText :: "csv_error \<Rightarrow> string"
  WBatch :: "nat \<Rightarrow> batch_service"
  WProbeClock :: "nat \<Rightarrow> nat \<Rightarrow> time"
  WProbeDial :: "nat \<Rightarrow> dialer"
  WConnect :: "nat \<Rightarrow> connect_io"
  WTunnelClose :: "nat \<Rightarrow> close_error option \<times> close_error option"
  WVerify :: "nat \<Rightarrow> (int \<times> ip_api_response res) res"
  WReach :: "nat \<Rightarrow> (int \<times> string res) res"
  WRandom :: "nat \<Rightarrow> nat \<Rightarrow> bytes res"
  WCoreStart :: "nat \<Rightarrow> xray_config \<Rightarrow> string option"
  WCoreClose :: "nat \<Rightarrow> string option"
  WCtxErr :: "nat \<Rightarrow> string option"
  WAddrs :: "nat \<Rightarrow> ip option list res"
  WOS :: string

section \<open>The state\<close>

record log_entry =
  LogAt :: time
  LogSeverity :: string
  LogText :: string

record server =
  SrvCfg :: config
  SrvNodes :: "vpn_node list"
  SrvSnapshot :: connection_snapshot
  SrvSessions :: "string \<rightharpoonup> time"
  SrvLogs :: "log_entry list"
  SrvFiles :: store_files
  SrvTunnel :: controller
  SrvProxy :: proxy_manager
  SrvTicks :: nat

type_synonym 'a srv = "(server, 'a) state"

text \<open>The watcher of the current session reports a failure of the data path.\<close>

definition tunnelDrop :: "string option \<Rightarrow> controller \<Rightarrow> controller" where
  "tunnelDrop failure c =
     (case (failure, CtlSession c) of
        (Some err, Some x) \<Rightarrow> watchFailed (SessRef x) err c
      | _ \<Rightarrow> c)"

definition tick :: "world \<Rightarrow> server \<Rightarrow> server" where
  "tick w s = s\<lparr>SrvTicks := Suc (SrvTicks s), SrvTunnel := tunnelDrop (WDrop w (SrvTicks s)) (SrvTunnel s)\<rparr>"

definition call :: "world \<Rightarrow> (nat \<Rightarrow> 'a) \<Rightarrow> 'a srv" where
  "call w f = do {
     k \<leftarrow> gets SrvTicks;
     modify (tick w);
     State_Monad.return (f k)
   }"

definition time_now :: "world \<Rightarrow> time srv" where
  "time_now w = call w (WClock w)"

section \<open>Logs and persistence\<close>

definition appendLogLocked :: "time \<Rightarrow> log_entry list \<Rightarrow> string \<Rightarrow> string \<Rightarrow> log_entry list" where
  "appendLogLocked now logs level message =
     (let logs = logs @ [\<lparr>LogAt = now, LogSeverity = level, LogText = message\<rparr>]
      in if 300 < length logs then drop (length logs - 300) logs else logs)"

definition addLog :: "world \<Rightarrow> string \<Rightarrow> string \<Rightarrow> unit srv" where
  "addLog w level message = do {
     now \<leftarrow> time_now w;
     modify (\<lambda>s. s\<lparr>SrvLogs := appendLogLocked now (SrvLogs s) level message\<rparr>)
   }"

definition storeSave :: "world \<Rightarrow> string option srv" where
  "storeSave w = do {
     now \<leftarrow> time_now w;
     io \<leftarrow> call w (WSave w);
     s \<leftarrow> State_Monad.get;
     (case SaveState io (SrvNodes s) (SrvSnapshot s) now (SrvFiles s) of
        (files, err) \<Rightarrow> do {
          modify (\<lambda>s. s\<lparr>SrvFiles := files\<rparr>);
          State_Monad.return err
        })
   }"

definition saveLocked :: "world \<Rightarrow> unit srv" where
  "saveLocked w = do {
     err \<leftarrow> storeSave w;
     (case err of
        None \<Rightarrow> State_Monad.return ()
      | Some text \<Rightarrow> addLog w ''warning'' (msg_save_failed @ text))
   }"

definition persist :: "world \<Rightarrow> unit srv" where
  "persist w = do { _ \<leftarrow> storeSave w; State_Monad.return () }"

definition setSnapshot :: "connection_snapshot \<Rightarrow> unit srv" where
  "setSnapshot snapshot = modify (\<lambda>s. s\<lparr>SrvSnapshot := snapshot\<rparr>)"

definition setNodes :: "vpn_node list \<Rightarrow> unit srv" where
  "setNodes nodes = modify (\<lambda>s. s\<lparr>SrvNodes := nodes\<rparr>)"

definition currentSnapshot :: "connection_snapshot srv" where
  "currentSnapshot = gets SrvSnapshot"

section \<open>Snapshots\<close>

text \<open>A snapshot with the given state, message and metadata and zero values otherwise.\<close>

definition snap :: "connection_state \<Rightarrow> string \<Rightarrow> string \<Rightarrow> (string \<times> string) list \<Rightarrow> connection_snapshot" where
  "snap st message activeID meta =
     \<lparr>State = st, Message = message, ActiveNodeID = activeID, ExitIP = '''', ConnectedSince = None,
      LastVerifiedAt = None, ConsecutiveFailures = 0, Metadata = meta\<rparr>"

definition nodeMaintenanceSnapshot ::
  "connection_snapshot \<Rightarrow> environment_report \<Rightarrow> string \<Rightarrow> connection_snapshot" where
  "nodeMaintenanceSnapshot previous env message =
     (if \<not> RepRunning env then InitialSnapshot\<lparr>Message := message\<rparr>
      else
        let p = previous\<lparr>State := StateConnected, Message := message\<rparr>;
            p = (if RepNodeID env \<noteq> '''' then p\<lparr>ActiveNodeID := RepNodeID env\<rparr> else p)
        in if RepNodeID env \<noteq> '''' then p\<lparr>Metadata := AList.update ''node_id'' (RepNodeID env) (Metadata p)\<rparr>
           else p)"

definition connectionAttemptState :: "nat \<Rightarrow> connection_state" where
  "connectionAttemptState attempt = (if attempt = 0 then StateConnecting else StateFailingOver)"

definition countsLocked :: "vpn_node list \<Rightarrow> (string \<times> int) list" where
  "countsLocked nodes =
     (let count = (\<lambda>P. int (length (filter P nodes)))
      in [(''nodes'', int (length nodes)),
          (''available'', count (\<lambda>n. Status n = NodeAvailable)),
          (''strict_home'', count (\<lambda>n. PurityGrade n = PurityStrictHome)),
          (''candidate'', count (\<lambda>n. PurityGrade n = PurityCandidate)),
          (''unavailable'', count (\<lambda>n. Status n = NodeUnavailable))])"

definition countOf :: "string \<Rightarrow> (string \<times> int) list \<Rightarrow> int" where
  "countOf key counts = (case map_of counts key of Some n \<Rightarrow> n | None \<Rightarrow> 0)"

definition findActive :: "server \<Rightarrow> vpn_node option" where
  "findActive s =
     (if ActiveNodeID (SrvSnapshot s) = '''' then None
      else find (\<lambda>n. ID n = ActiveNodeID (SrvSnapshot s)) (SrvNodes s))"

definition activeNode :: "vpn_node option srv" where
  "activeNode = gets findActive"

section \<open>The tunnel and the exit\<close>

definition checkEnvironment :: "world \<Rightarrow> environment_report srv" where
  "checkEnvironment w = gets (\<lambda>s. CheckEnvironment (WOS w) (SrvTunnel s))"

text \<open>Connecting: the index of the call is the reference of the session.\<close>

definition tunnelConnect :: "world \<Rightarrow> vpn_node \<Rightarrow> connect_error option srv" where
  "tunnelConnect w node = do {
     k \<leftarrow> call w (\<lambda>k. k);
     c \<leftarrow> gets SrvTunnel;
     (case Connect (WConnect w k) k node c of
        (c', err, calls) \<Rightarrow> do {
          modify (\<lambda>s. s\<lparr>SrvTunnel := c'\<rparr>);
          State_Monad.return err
        })
   }"

definition tunnelDisconnect :: "world \<Rightarrow> unit srv" where
  "tunnelDisconnect w = do {
     errs \<leftarrow> call w (WTunnelClose w);
     modify (\<lambda>s. s\<lparr>SrvTunnel := fst (Disconnect (fst errs) (snd errs) (SrvTunnel s))\<rparr>)
   }"

text \<open>The request of the verifier goes through the tunnel's dialer; without a session it fails with
  the error of the dialer.\<close>

definition through_tunnel :: "controller \<Rightarrow> string \<Rightarrow> 'a res \<Rightarrow> 'a res" where
  "through_tunnel c url answer =
     (case DialContext (\<lambda>_ _ _. Inr ()) c ''tcp'' url of
        Inl err \<Rightarrow> Inl (''Get '' @ go_quote url @ '': '' @ err)
      | Inr _ \<Rightarrow> answer)"

definition verifyURL :: "config \<Rightarrow> string" where
  "verifyURL cfg =
     (let url = VerifyAPIURL (VerifySection cfg)
      in if url = '''' then
           ''http://ip-api.com/json/?fields=status,message,query,country,countryCode,isp,as,asname,proxy,hosting,mobile''
         else url)"

definition verifyNodeExit :: "world \<Rightarrow> vpn_node \<Rightarrow> verify_result res srv" where
  "verifyNodeExit w node = do {
     answer \<leftarrow> call w (WVerify w);
     s \<leftarrow> State_Monad.get;
     State_Monad.return
       (Verify (through_tunnel (SrvTunnel s) (verifyURL (SrvCfg s)) answer) node)
   }"

definition reachAnswer :: "(int \<times> string res) res \<Rightarrow> string res" where
  "reachAnswer answer =
     (case answer of
        Inl err \<Rightarrow> Inl err
      | Inr (statusCode, body) \<Rightarrow>
          if statusCode < 200 \<or> 300 \<le> statusCode then
            Inl (''public IP probe returned HTTP '' @ itoa statusCode)
          else case body of
              Inl err \<Rightarrow> Inl err
            | Inr text \<Rightarrow>
                let ip = trim_space (take 128 text)
                in if ParseIP ip = None then Inl (''public IP probe returned invalid address '' @ go_quote ip)
                   else Inr ip)"

definition checkExitReachability :: "world \<Rightarrow> string res srv" where
  "checkExitReachability w = do {
     answer \<leftarrow> call w (WReach w);
     c \<leftarrow> gets SrvTunnel;
     State_Monad.return (reachAnswer (through_tunnel c ''https://api.ipify.org'' answer))
   }"

definition verifyMetadata :: "verify_result \<Rightarrow> (string \<times> string) list \<Rightarrow> (string \<times> string) list" where
  "verifyMetadata result meta =
     AList.update ''verify_passed'' (show_bool (ResPassed result))
       (AList.update ''exit_asn'' (ResASN result)
         (AList.update ''exit_country'' (ResCountryCode result) meta))"

definition recordVerification :: "world \<Rightarrow> verify_result \<Rightarrow> unit srv" where
  "recordVerification w result = do {
     now \<leftarrow> time_now w;
     modify (\<lambda>s. s\<lparr>SrvSnapshot := (SrvSnapshot s)\<lparr>LastVerifiedAt := Some now, ExitIP := ResExitIP result,
       Metadata := verifyMetadata result (Metadata (SrvSnapshot s))\<rparr>\<rparr>);
     saveLocked w
   }"

definition verdictSnapshot :: "vpn_node \<Rightarrow> verify_result \<Rightarrow> time \<Rightarrow> connection_snapshot \<Rightarrow> connection_snapshot" where
  "verdictSnapshot node result now p =
     p\<lparr>State := (if ResPassed result then StateConnected else StateError), ActiveNodeID := ID node,
       ExitIP := ResExitIP result, LastVerifiedAt := Some now, Message := ResMessage result,
       Metadata := verifyMetadata result (AList.update ''node_ip'' (IP node) (Metadata p))\<rparr>"

definition applyVerifyResult :: "world \<Rightarrow> vpn_node \<Rightarrow> verify_result \<Rightarrow> unit srv" where
  "applyVerifyResult w node result = do {
     now \<leftarrow> time_now w;
     modify (\<lambda>s. s\<lparr>SrvSnapshot := verdictSnapshot node result now (SrvSnapshot s)\<rparr>);
     addLog w ''info'' (msg_verified @ ResMessage result);
     saveLocked w
   }"

definition cooldownNode :: "world \<Rightarrow> string \<Rightarrow> string \<Rightarrow> unit srv" where
  "cooldownNode w nodeID message = do {
     cfg \<leftarrow> gets SrvCfg;
     now \<leftarrow> time_now w;
     modify (\<lambda>s. s\<lparr>SrvNodes := markNodeFailure (SrvNodes s) nodeID message
       (wrap64 (CooldownSeconds (FailoverSection cfg) * 1000000000)) now\<rparr>);
     addLog w ''warning'' (msg_cooling @ nodeID @ '': '' @ message);
     saveLocked w
   }"

section \<open>Quiet operations\<close>

text \<open>Waiting, logging and saving only touch the clock, the log, the files, and the tunnel when it
  fails on its own. A predicate that these updates keep is kept by the operations built from them.\<close>

named_theorems server_ops \<open>operations that keep a predicate of the server state\<close>

locale quiet_frame =
  fixes I :: "server \<Rightarrow> bool"
  assumes I_tick: "I s \<Longrightarrow> I (tick w s)"
    and I_log: "I s \<Longrightarrow> I (s\<lparr>SrvLogs := appendLogLocked now (SrvLogs s) level message\<rparr>)"
    and I_files: "I s \<Longrightarrow> I (s\<lparr>SrvFiles := files\<rparr>)"
begin

lemma call_keeps [server_ops]: "keeps I (call w f)"
  unfolding call_def by (intro keeps_intros keeps_modify) (rule I_tick)

lemma time_now_keeps [server_ops]: "keeps I (time_now w)"
  unfolding time_now_def by (rule call_keeps)

lemma addLog_keeps [server_ops]: "keeps I (addLog w level message)"
  unfolding addLog_def
  by (intro keeps_intros keeps_modify server_ops) (rule I_log)

lemma storeSave_keeps [server_ops]: "keeps I (storeSave w)"
  unfolding storeSave_def
  by (intro keeps_intros keeps_modify server_ops) (rule I_files)

lemma saveLocked_keeps [server_ops]: "keeps I (saveLocked w)"
  unfolding saveLocked_def by (intro keeps_intros server_ops)

lemma persist_keeps [server_ops]: "keeps I (persist w)"
  unfolding persist_def by (intro keeps_intros server_ops)

lemma reads_keeps [server_ops]:
  "keeps I currentSnapshot" "keeps I activeNode" "keeps I (checkEnvironment w)"
  unfolding currentSnapshot_def activeNode_def checkEnvironment_def by (rule keeps_gets)+

lemma verify_keeps [server_ops]:
  "keeps I (verifyNodeExit w node)" "keeps I (checkExitReachability w)"
  unfolding verifyNodeExit_def checkExitReachability_def by (intro keeps_intros server_ops)+

end

end
