(* ===== verification/Web_Exit.thy ===== *)
theory Web_Exit
  imports "HOL-Library.State_Monad" Web_State
begin

text \<open>
  How the server connects, checks and replaces its exit (src/internal/web/server.go): one candidate
  (connectCandidate), the loops over candidates of the connect handler, of the recovery and of the
  automatic start, the health check and the monitor.
\<close>

section \<open>One candidate\<close>

text \<open>The outcome of an attempt. A crash of the engine's parser ends the handler that runs it.\<close>

datatype 'a outcome = Done 'a | Failed string | Panicked string

definition verifyingSnapshot :: "time \<Rightarrow> vpn_node \<Rightarrow> connection_snapshot" where
  "verifyingSnapshot now node =
     (snap StateVerifying msg_verifying (ID node) [(''node_ip'', IP node)])\<lparr>ConnectedSince := Some now\<rparr>"

definition connectedSnapshot ::
  "string \<Rightarrow> vpn_node \<Rightarrow> verify_result \<Rightarrow> time \<Rightarrow> time option \<Rightarrow> connection_snapshot" where
  "connectedSnapshot message node result now verifiedAt =
     (snap StateConnected message (ID node)
        [(''node_ip'', IP node), (''exit_country'', ResCountryCode result), (''exit_asn'', ResASN result),
         (''verify_passed'', show_bool (ResPassed result))])
       \<lparr>ExitIP := ResExitIP result, ConnectedSince := Some now, LastVerifiedAt := verifiedAt\<rparr>"

definition enterConnected :: "world \<Rightarrow> vpn_node \<Rightarrow> connection_snapshot \<Rightarrow> connection_snapshot outcome srv" where
  "enterConnected w node snapshot = do {
     setSnapshot snapshot;
     addLog w ''info'' (msg_connected_node @ ID node);
     saveLocked w;
     State_Monad.return (Done snapshot)
   }"

text \<open>Once the tunnel is up: the verdict of the verification, and the whole rest of the attempt.\<close>

definition judgeCandidate :: "world \<Rightarrow> vpn_node \<Rightarrow> time \<Rightarrow> verify_result res \<Rightarrow> connection_snapshot outcome srv" where
  "judgeCandidate w node now verdict =
     (case verdict of
        Inl e \<Rightarrow> do {
          tunnelDisconnect w;
          State_Monad.return (Failed (msg_verify_failed @ e))
        }
      | Inr result \<Rightarrow>
          if \<not> ResPassed result then do {
            tunnelDisconnect w;
            State_Monad.return (Failed (msg_not_passed @ ResMessage result))
          } else do {
            verified \<leftarrow> time_now w;
            enterConnected w node (connectedSnapshot msg_connected_verified node result now (Some verified))
          })"

definition finishCandidate :: "world \<Rightarrow> vpn_node \<Rightarrow> connection_snapshot outcome srv" where
  "finishCandidate w node = do {
     now \<leftarrow> time_now w;
     cfg \<leftarrow> gets SrvCfg;
     if VerifyEnabled (VerifySection cfg) then do {
       setSnapshot (verifyingSnapshot now node);
       verdict \<leftarrow> verifyNodeExit w node;
       judgeCandidate w node now verdict
     } else
       enterConnected w node (connectedSnapshot msg_connected_unverified node zero_result now None)
   }"

definition connectCandidate :: "world \<Rightarrow> vpn_node \<Rightarrow> connection_snapshot outcome srv" where
  "connectCandidate w node = do {
     err \<leftarrow> tunnelConnect w node;
     (case err of
        Some (Crashes why) \<Rightarrow> State_Monad.return (Panicked why)
      | Some e \<Rightarrow> State_Monad.return (Failed (msg_openvpn_failed @ connect_error_text e))
      | None \<Rightarrow> finishCandidate w node)
   }"

section \<open>Loops over candidates\<close>

definition attemptText :: "nat \<Rightarrow> nat \<Rightarrow> string" where
  "attemptText attempt many = itoa (int attempt + 1) @ ''/'' @ itoa (int many)"

definition attemptSnapshot :: "string \<Rightarrow> nat \<Rightarrow> nat \<Rightarrow> vpn_node \<Rightarrow> connection_snapshot" where
  "attemptSnapshot message attempt many node =
     snap (connectionAttemptState attempt) (message @ attemptText attempt many @ msg_colon @ IP node) (ID node)
       [(''node_ip'', IP node), (''attempt'', attemptText attempt many)]"

definition failoverSnapshot :: "nat \<Rightarrow> nat \<Rightarrow> vpn_node \<Rightarrow> connection_snapshot" where
  "failoverSnapshot attempt many node =
     snap StateFailingOver (msg_switching @ attemptText attempt many @ msg_colon @ IP node) (ID node)
       [(''attempt'', attemptText attempt many)]"

text \<open>The three loops have one shape: announce the attempt, connect, on failure cool the node down and
  note the failure, on success stop. The result is the snapshot, or the last error if every
  candidate failed.\<close>

fun tryCandidates ::
  "world \<Rightarrow> (nat \<Rightarrow> vpn_node \<Rightarrow> connection_snapshot) \<Rightarrow> (nat \<Rightarrow> vpn_node \<Rightarrow> string \<Rightarrow> unit srv) \<Rightarrow>
   nat \<Rightarrow> string option \<Rightarrow> vpn_node list \<Rightarrow> (connection_snapshot, string option) sum outcome srv" where
  "tryCandidates w announce onFailure attempt lastErr [] = State_Monad.return (Done (Inr lastErr))"
| "tryCandidates w announce onFailure attempt lastErr (node # candidates) = do {
     setSnapshot (announce attempt node);
     result \<leftarrow> connectCandidate w node;
     (case result of
        Panicked why \<Rightarrow> State_Monad.return (Panicked why)
      | Done snapshot \<Rightarrow> State_Monad.return (Done (Inl snapshot))
      | Failed err \<Rightarrow> do {
          cooldownNode w (ID node) err;
          onFailure attempt node err;
          tryCandidates w announce onFailure (Suc attempt) (Some err) candidates
        })
   }"

section \<open>Recovery\<close>

definition snapshotConnected :: "server \<Rightarrow> bool" where
  "snapshotConnected s = (State (SrvSnapshot s) = StateConnected)"

definition exitIsRunning :: "world \<Rightarrow> bool srv" where
  "exitIsRunning w = do {
     connected \<leftarrow> gets snapshotConnected;
     env \<leftarrow> checkEnvironment w;
     State_Monad.return (connected \<and> RepRunning env)
   }"

definition exitNeedsRecovery :: "world \<Rightarrow> bool srv" where
  "exitNeedsRecovery w = do {
     connected \<leftarrow> gets snapshotConnected;
     env \<leftarrow> checkEnvironment w;
     State_Monad.return (connected \<and> \<not> RepRunning env \<and> \<not> RepConnecting env)
   }"

text \<open>What a background task ends with: normally, or with a crash of the process.\<close>

definition recoveryReason :: "string \<Rightarrow> environment_report \<Rightarrow> string" where
  "recoveryReason reason env =
     (if reason \<noteq> '''' then reason
      else if RepMessage env \<noteq> '''' then RepMessage env
      else msg_channel_stopped)"

definition switchExit :: "world \<Rightarrow> unit outcome srv" where
  "switchExit w = do {
     addLog w ''warning'' msg_exit_lost;
     nodes \<leftarrow> gets SrvNodes;
     cfg \<leftarrow> gets SrvCfg;
     now \<leftarrow> time_now w;
     (let candidates = connectionCandidates nodes '''' (MaxAttempts (FailoverSection cfg)) now
      in do {
        result \<leftarrow> tryCandidates w (\<lambda>i n. failoverSnapshot i (length candidates) n)
          (\<lambda>_ _ _. State_Monad.return ()) 0 None candidates;
        (case result of
           Panicked why \<Rightarrow> State_Monad.return (Panicked why)
         | Failed why \<Rightarrow> State_Monad.return (Failed why)
         | Done (Inl snapshot) \<Rightarrow> do {
             addLog w ''info'' msg_switched;
             State_Monad.return (Done ())
           }
         | Done (Inr lastErr) \<Rightarrow> do {
             setSnapshot (snap StateError msg_no_cached_candidate '''' []);
             addLog w ''error'' msg_switch_failed;
             State_Monad.return (Done ())
           })
      })
   }"

definition recoverExit :: "world \<Rightarrow> string \<Rightarrow> unit outcome srv" where
  "recoverExit w reason = do {
     needed \<leftarrow> exitNeedsRecovery w;
     if \<not> needed then State_Monad.return (Done ())
     else do {
       ctxErr \<leftarrow> call w (WCtxErr w);
       if ctxErr \<noteq> None then State_Monad.return (Done ())
       else do {
         failedNodeID \<leftarrow> gets (\<lambda>s. ActiveNodeID (SrvSnapshot s));
         env \<leftarrow> checkEnvironment w;
         (if failedNodeID \<noteq> '''' then cooldownNode w failedNodeID (recoveryReason reason env)
          else State_Monad.return ());
         switchExit w
       }
     }
   }"

section \<open>The automatic start\<close>

definition autoPrepare :: "world \<Rightarrow> vpn_node list option srv" where
  "autoPrepare w = do {
     previousNodes \<leftarrow> gets SrvNodes;
     cfg \<leftarrow> gets SrvCfg;
     setSnapshot (snap StateFetchingNodes msg_auto_fetching '''' []);
     fetched \<leftarrow> call w (\<lambda>k. Fetch \<lparr>APIURL = VPNGateAPIURL (VPNGate cfg), MaxNodes = VPNGateMaxNodes (VPNGate cfg)\<rparr> (WFetch w k));
     (case fetched of
        Inl e \<Rightarrow> do {
          addLog w ''warning'' (msg_auto_fetch_failed @ fetchErrorText (WCsvText w) e);
          setSnapshot (snap StateError (msg_auto_fetch_failed @ fetchErrorText (WCsvText w) e) '''' []);
          State_Monad.return None
        }
      | Inr fresh \<Rightarrow> do {
          classified \<leftarrow> (if ClassifierEnabled (Classifier cfg) then do {
              setSnapshot (snap StateProbingNodes msg_auto_classifying '''' []);
              post \<leftarrow> call w (WBatch w);
              now \<leftarrow> time_now w;
              State_Monad.return (Classify post now fresh)
            } else State_Monad.return fresh);
          setSnapshot (snap StateProbingNodes msg_auto_probing '''' []);
          probed \<leftarrow> call w (\<lambda>k. Probe
            \<lparr>ProbeTimeout = wrap64 (ProbeTimeoutMS (ProbeSection cfg) * 1000000),
             MaxConcurrency = ProbeMaxConcurrency (ProbeSection cfg), Samples = ProbeSamples (ProbeSection cfg)\<rparr>
            (WProbeClock w k) (WProbeDial w k) classified);
          now \<leftarrow> time_now w;
          (let nodes = preserveNodeCooldowns probed previousNodes now
           in do {
             setNodes nodes;
             setSnapshot (InitialSnapshot\<lparr>Message := msg_auto_prepared @ itoa (int (length nodes)) @ msg_nodes_suffix\<rparr>);
             saveLocked w;
             State_Monad.return (Some nodes)
           })
        })
   }"

definition autoConnectExit :: "world \<Rightarrow> unit outcome srv" where
  "autoConnectExit w = do {
     addLog w ''info'' msg_auto_preparing;
     env \<leftarrow> checkEnvironment w;
     if \<not> RepReady env then do {
       addLog w ''warning'' (msg_auto_skipped @ RepMessage env);
       State_Monad.return (Done ())
     } else do {
       prepared \<leftarrow> autoPrepare w;
       (case prepared of
          None \<Rightarrow> State_Monad.return (Done ())
        | Some nodes \<Rightarrow> do {
            cfg \<leftarrow> gets SrvCfg;
            now \<leftarrow> time_now w;
            (let maxAttempts = (if MaxAttempts (FailoverSection cfg) \<le> 0 then 1 else MaxAttempts (FailoverSection cfg));
                 candidates = connectionCandidates nodes '''' maxAttempts now
             in if candidates = [] then do {
                  addLog w ''warning'' msg_auto_no_node;
                  State_Monad.return (Done ())
                } else do {
                  result \<leftarrow> tryCandidates w (\<lambda>i n. attemptSnapshot msg_auto_connecting i (length candidates) n)
                    (\<lambda>_ n err. addLog w ''warning'' (msg_auto_node_prefix @ IP n @ msg_failed_infix @ err)) 0 None candidates;
                  (case result of
                     Panicked why \<Rightarrow> State_Monad.return (Panicked why)
                   | Failed why \<Rightarrow> State_Monad.return (Failed why)
                   | Done (Inl snapshot) \<Rightarrow> do {
                       addLog w ''info'' msg_auto_connected;
                       State_Monad.return (Done ())
                     }
                   | Done (Inr lastErr) \<Rightarrow> do {
                       setSnapshot (snap StateError msg_auto_failed '''' []);
                       State_Monad.return (Done ())
                     })
                })
          })
     }
   }"

section \<open>The monitor\<close>

definition checkExitHealth :: "world \<Rightarrow> string option srv" where
  "checkExitHealth w = do {
     active \<leftarrow> activeNode;
     (case active of
        None \<Rightarrow> State_Monad.return (Some msg_active_node_missing)
      | Some node \<Rightarrow> do {
          verdict \<leftarrow> verifyNodeExit w node;
          (case verdict of
             Inl err \<Rightarrow> do {
               reachable \<leftarrow> checkExitReachability w;
               (case reachable of
                  Inr _ \<Rightarrow> State_Monad.return None
                | Inl reachErr \<Rightarrow> State_Monad.return (Some (msg_strict_failed @ err @ msg_probe_failed_too @ reachErr)))
             }
           | Inr result \<Rightarrow>
               if \<not> ResPassed result then State_Monad.return (Some (ResMessage result))
               else do {
                 recordVerification w result;
                 State_Monad.return None
               })
        })
   }"

datatype monitor_event = TransportTick | HealthTick

definition failureThreshold :: "config \<Rightarrow> int" where
  "failureThreshold cfg =
     (if FailureThreshold (FailoverSection cfg) \<le> 0 then 2 else FailureThreshold (FailoverSection cfg))"

text \<open>One turn of the loop of monitorExit; the argument and the value are the failures in a row.\<close>

fun monitorTurn :: "world \<Rightarrow> monitor_event \<Rightarrow> int \<Rightarrow> int outcome srv" where
  "monitorTurn w TransportTick healthFailures = do {
     needed \<leftarrow> exitNeedsRecovery w;
     if needed then do {
       r \<leftarrow> recoverExit w '''';
       State_Monad.return (case r of Panicked why \<Rightarrow> Panicked why | _ \<Rightarrow> Done 0)
     } else State_Monad.return (Done healthFailures)
   }"
| "monitorTurn w HealthTick healthFailures = do {
     cfg \<leftarrow> gets SrvCfg;
     running \<leftarrow> exitIsRunning w;
     if \<not> VerifyEnabled (VerifySection cfg) \<or> \<not> running then State_Monad.return (Done 0)
     else do {
       failure \<leftarrow> checkExitHealth w;
       (case failure of
          None \<Rightarrow> State_Monad.return (Done 0)
        | Some reason \<Rightarrow> do {
            addLog w ''warning'' (msg_health_failed @ itoa (healthFailures + 1) @ ''/'' @
              itoa (failureThreshold cfg) @ '': '' @ reason);
            if failureThreshold cfg \<le> healthFailures + 1 then do {
              tunnelDisconnect w;
              r \<leftarrow> recoverExit w reason;
              State_Monad.return (case r of Panicked why \<Rightarrow> Panicked why | _ \<Rightarrow> Done 0)
            } else State_Monad.return (Done (healthFailures + 1))
          })
     }
   }"

end
