(* ===== verification/Web_Server.thy ===== *)
theory Web_Server
  imports "HOL-Library.State_Monad" Web_Exit
begin

text \<open>
  The HTTP interface of the server (src/internal/web/server.go): the handlers, the session check
  around them and the routing. A request carries what the handlers read of it; a response carries
  the status, the headers, the session cookie and the value that is encoded as its body.
\<close>

section \<open>Requests and responses\<close>

record request =
  ReqMethod :: string
  ReqPath :: string
  ReqCookie :: "string option"
  ReqTLS :: bool
  ReqToken :: string
  ReqLogin :: "(string \<times> string) res"
  ReqNodeID :: string

datatype body =
    ErrorBody string
  | OkBody
  | UserBody string
  | StatusBody connection_snapshot "(string \<times> int) list"
  | NodesBody "vpn_node list"
  | NodeCountBody int
  | CountsBody "(string \<times> int) list"
  | EnvironmentBody environment_report proxy_status
  | VerdictBody verify_result
  | ProxyBody proxy_status
  | ProxyErrorBody string proxy_status
  | SnapshotBody connection_snapshot
  | LogsBody "log_entry list"
  | PreviewBody "(string \<times> string) list" int
  | TextBody string
  | PageBody
  | Aborted string

text \<open>The session cookie: its value, whether it is marked secure, and its end: a time, or at once.\<close>

datatype cookie_end = ExpiresAt time | DeletedNow

record response =
  RespStatus :: int
  RespHeaders :: "(string \<times> string) list"
  RespCookie :: "(string \<times> bool \<times> cookie_end) option"
  RespBody :: body

definition jsonType :: string where "jsonType = ''application/json; charset=utf-8''"

definition writeJSON :: "int \<Rightarrow> body \<Rightarrow> response" where
  "writeJSON status value =
     \<lparr>RespStatus = status, RespHeaders = [(''Content-Type'', jsonType)], RespCookie = None, RespBody = value\<rparr>"

definition writeError :: "int \<Rightarrow> string \<Rightarrow> response" where
  "writeError status message = writeJSON status (ErrorBody message)"

definition methodNotAllowed :: response where
  "methodNotAllowed = writeError 405 ''method not allowed''"

definition writeText :: "string \<Rightarrow> string \<Rightarrow> response" where
  "writeText contentType text =
     \<lparr>RespStatus = 200, RespHeaders = [(''Content-Type'', contentType)], RespCookie = None, RespBody = TextBody text\<rparr>"

definition securityHeaders :: "response \<Rightarrow> response" where
  "securityHeaders r =
     (let q = [CHR 0x27]
      in r\<lparr>RespHeaders :=
        [(''Content-Security-Policy'',
          ''default-src '' @ q @ ''self'' @ q @ ''; base-uri '' @ q @ ''none'' @ q @ ''; connect-src '' @ q @ ''self'' @ q @
          ''; font-src '' @ q @ ''self'' @ q @ ''; form-action '' @ q @ ''self'' @ q @ ''; frame-ancestors '' @ q @ ''none'' @ q @
          ''; img-src '' @ q @ ''self'' @ q @ '' data:; object-src '' @ q @ ''none'' @ q @ ''; script-src '' @ q @ ''self'' @ q @
          '' '' @ q @ ''unsafe-inline'' @ q @ ''; style-src '' @ q @ ''self'' @ q @ '' '' @ q @ ''unsafe-inline'' @ q),
         (''Permissions-Policy'', ''camera=(), geolocation=(), microphone=()''),
         (''X-Frame-Options'', ''DENY''),
         (''X-Content-Type-Options'', ''nosniff''),
         (''Referrer-Policy'', ''same-origin'')] @ RespHeaders r\<rparr>)"

type_synonym handler = "world \<Rightarrow> request \<Rightarrow> response srv"

definition postOnly :: "handler \<Rightarrow> handler" where
  "postOnly next w r =
     (if ReqMethod r \<noteq> ''POST'' then State_Monad.return methodNotAllowed else next w r)"

section \<open>Sessions\<close>

definition index :: handler where
  "index w r =
     State_Monad.return
       (if ReqPath r \<noteq> ''/'' then
          \<lparr>RespStatus = 404, RespHeaders = [(''Content-Type'', ''text/plain; charset=utf-8''), (''X-Content-Type-Options'', ''nosniff'')],
           RespCookie = None, RespBody = TextBody (''404 page not found'' @ [CHR 0x0A])\<rparr>
        else
          \<lparr>RespStatus = 200, RespHeaders = [(''Content-Type'', ''text/html; charset=utf-8'')], RespCookie = None,
           RespBody = PageBody\<rparr>)"

definition sessionLifetime :: duration where "sessionLifetime = 24 * 3600 * 1000000000"

definition randomToken :: "world \<Rightarrow> nat \<Rightarrow> string res srv" where
  "randomToken w n = do {
     buffer \<leftarrow> call w (\<lambda>k. WRandom w k n);
     State_Monad.return (case buffer of Inl err \<Rightarrow> Inl err | Inr b \<Rightarrow> Inr (hex_encode b))
   }"

definition openLogin :: "world \<Rightarrow> request \<Rightarrow> string \<Rightarrow> response srv" where
  "openLogin w r sessionID = do {
     now \<leftarrow> time_now w;
     modify (\<lambda>s. s\<lparr>SrvSessions := (SrvSessions s)(sessionID \<mapsto> now + sessionLifetime)\<rparr>);
     cookieNow \<leftarrow> time_now w;
     addLog w ''info'' msg_login_ok;
     State_Monad.return ((writeJSON 200 OkBody)\<lparr>RespCookie := Some (sessionID, ReqTLS r, ExpiresAt (cookieNow + sessionLifetime))\<rparr>)
   }"

definition login :: handler where
  "login = postOnly (\<lambda>w r.
     (case ReqLogin r of
        Inl _ \<Rightarrow> State_Monad.return (writeError 400 ''invalid JSON'')
      | Inr (username, password) \<Rightarrow> do {
          cfg \<leftarrow> gets SrvCfg;
          if username \<noteq> AuthUsername (Auth cfg) \<or> password \<noteq> AuthPassword (Auth cfg) then do {
            addLog w ''warning'' msg_login_failed;
            State_Monad.return (writeError 401 msg_bad_credentials)
          } else do {
            token \<leftarrow> randomToken w 32;
            (case token of
               Inl err \<Rightarrow> do {
                 addLog w ''error'' msg_no_session_token;
                 State_Monad.return (writeError 500 msg_no_session)
               }
             | Inr sessionID \<Rightarrow> openLogin w r sessionID)
          }
        }))"

definition logout :: handler where
  "logout = postOnly (\<lambda>w r. do {
     (case ReqCookie r of
        None \<Rightarrow> State_Monad.return ()
      | Some v \<Rightarrow> modify (\<lambda>s. s\<lparr>SrvSessions := (SrvSessions s)(v := None)\<rparr>));
     State_Monad.return ((writeJSON 200 OkBody)\<lparr>RespCookie := Some ('''', ReqTLS r, DeletedNow)\<rparr>)
   })"

definition sessionValid :: "world \<Rightarrow> string \<Rightarrow> bool srv" where
  "sessionValid w v = do {
     expires \<leftarrow> gets (\<lambda>s. SrvSessions s v);
     (case expires of
        None \<Rightarrow> State_Monad.return False
      | Some e \<Rightarrow> do {
          now \<leftarrow> time_now w;
          State_Monad.return (now < e)
        })
   }"

definition requireAuth :: "handler \<Rightarrow> handler" where
  "requireAuth next w r =
     (case ReqCookie r of
        None \<Rightarrow> State_Monad.return (writeError 401 ''login required'')
      | Some v \<Rightarrow> do {
          ok \<leftarrow> sessionValid w v;
          if \<not> ok then State_Monad.return (writeError 401 ''login required'') else next w r
        })"

section \<open>Reading the state\<close>

definition me :: handler where
  "me w r = do {
     cfg \<leftarrow> gets SrvCfg;
     State_Monad.return (writeJSON 200 (UserBody (AuthUsername (Auth cfg))))
   }"

definition status :: handler where
  "status w r = do {
     s \<leftarrow> State_Monad.get;
     State_Monad.return (writeJSON 200 (StatusBody (SrvSnapshot s) (countsLocked (SrvNodes s))))
   }"

definition nodes_handler :: handler where
  "nodes_handler w r = do {
     nodes \<leftarrow> gets SrvNodes;
     State_Monad.return (writeJSON 200 (NodesBody nodes))
   }"

definition environment :: handler where
  "environment w r = do {
     env \<leftarrow> checkEnvironment w;
     proxy \<leftarrow> gets SrvProxy;
     State_Monad.return (writeJSON 200 (EnvironmentBody env (ManagerStatus proxy)))
   }"

definition logs_handler :: handler where
  "logs_handler w r = do {
     logs \<leftarrow> gets SrvLogs;
     State_Monad.return (writeJSON 200 (LogsBody logs))
   }"

definition proxyStatus :: handler where
  "proxyStatus w r = do {
     proxy \<leftarrow> gets SrvProxy;
     State_Monad.return (writeJSON 200 (ProxyBody (ManagerStatus proxy)))
   }"

section \<open>Maintaining the nodes\<close>

text \<open>Storing a new node list together with the snapshot that follows from the tunnel's state.\<close>

definition storeNodes :: "world \<Rightarrow> connection_snapshot \<Rightarrow> vpn_node list \<Rightarrow> string \<Rightarrow> unit srv" where
  "storeNodes w previous nodes message = do {
     setNodes nodes;
     env \<leftarrow> checkEnvironment w;
     setSnapshot (nodeMaintenanceSnapshot previous env message);
     saveLocked w
   }"

definition refreshNodes :: handler where
  "refreshNodes = postOnly (\<lambda>w r. do {
     previous \<leftarrow> currentSnapshot;
     previousNodes \<leftarrow> gets SrvNodes;
     cfg \<leftarrow> gets SrvCfg;
     setSnapshot (snap StateFetchingNodes msg_fetching '''' []);
     fetched \<leftarrow> call w (\<lambda>k. Fetch \<lparr>APIURL = VPNGateAPIURL (VPNGate cfg), MaxNodes = VPNGateMaxNodes (VPNGate cfg)\<rparr> (WFetch w k));
     (case fetched of
        Inl e \<Rightarrow> do {
          env \<leftarrow> checkEnvironment w;
          setSnapshot (nodeMaintenanceSnapshot previous env (msg_refresh_failed @ fetchErrorText (WCsvText w) e));
          addLog w ''error'' (msg_refresh_failed @ fetchErrorText (WCsvText w) e);
          State_Monad.return (writeError 502 (fetchErrorText (WCsvText w) e))
        }
      | Inr fresh \<Rightarrow> do {
          now \<leftarrow> time_now w;
          (let nodes = preserveNodeCooldowns fresh previousNodes now; n = int (length nodes)
           in do {
             storeNodes w previous nodes (msg_refreshed_prefix @ itoa n @ msg_nodes_suffix);
             addLog w ''info'' (msg_refreshed_prefix @ itoa n @ msg_vpngate_nodes_suffix);
             State_Monad.return (writeJSON 200 (NodeCountBody n))
           })
        })
   })"

definition classifyNodes :: handler where
  "classifyNodes = postOnly (\<lambda>w r. do {
     previous \<leftarrow> currentSnapshot;
     nodes \<leftarrow> gets SrvNodes;
     if nodes = [] then State_Monad.return (writeError 409 msg_refresh_first)
     else do {
       setSnapshot (snap StateProbingNodes msg_classifying '''' []);
       post \<leftarrow> call w (WBatch w);
       now \<leftarrow> time_now w;
       storeNodes w previous (Classify post now nodes) msg_classified;
       counts \<leftarrow> gets (\<lambda>s. countsLocked (SrvNodes s));
       addLog w ''info'' (msg_classified_counts @ itoa (countOf ''strict_home'' counts) @ msg_candidates_infix @
         itoa (countOf ''candidate'' counts));
       State_Monad.return (writeJSON 200 (CountsBody counts))
     }
   })"

definition probeNodes :: handler where
  "probeNodes = postOnly (\<lambda>w r. do {
     previous \<leftarrow> currentSnapshot;
     nodes \<leftarrow> gets SrvNodes;
     cfg \<leftarrow> gets SrvCfg;
     if nodes = [] then State_Monad.return (writeError 409 msg_refresh_first)
     else do {
       setSnapshot (snap StateProbingNodes msg_probing '''' []);
       probed \<leftarrow> call w (\<lambda>k. Probe
         \<lparr>ProbeTimeout = wrap64 (ProbeTimeoutMS (ProbeSection cfg) * 1000000),
          MaxConcurrency = ProbeMaxConcurrency (ProbeSection cfg), Samples = ProbeSamples (ProbeSection cfg)\<rparr>
         (WProbeClock w k) (WProbeDial w k) nodes);
       storeNodes w previous probed msg_probed;
       counts \<leftarrow> gets (\<lambda>s. countsLocked (SrvNodes s));
       addLog w ''info'' (msg_probed_counts @ itoa (countOf ''available'' counts) @ msg_unavailable_infix @
         itoa (countOf ''unavailable'' counts));
       State_Monad.return (writeJSON 200 (CountsBody counts))
     }
   })"

section \<open>The exit and the proxy\<close>

definition verifyExit :: handler where
  "verifyExit = postOnly (\<lambda>w r. do {
     active \<leftarrow> activeNode;
     (case active of
        None \<Rightarrow> State_Monad.return (writeError 409 msg_no_active_node)
      | Some node \<Rightarrow> do {
          verdict \<leftarrow> verifyNodeExit w node;
          (case verdict of
             Inl err \<Rightarrow> do {
               addLog w ''error'' (msg_verify_failed @ err);
               State_Monad.return (writeError 502 err)
             }
           | Inr result \<Rightarrow> do {
               applyVerifyResult w node result;
               State_Monad.return (writeJSON 200 (VerdictBody result))
             })
        })
   })"

definition proxyReply :: "world \<Rightarrow> string \<Rightarrow> string \<Rightarrow> proxy_status \<times> string option \<Rightarrow> response srv" where
  "proxyReply w failed ok outcome =
     (case outcome of
        (st, Some err) \<Rightarrow> do {
          addLog w ''error'' (failed @ err);
          State_Monad.return (writeJSON 502 (ProxyErrorBody err st))
        }
      | (st, None) \<Rightarrow> do {
          addLog w ''info'' ok;
          State_Monad.return (writeJSON 200 (ProxyBody st))
        })"

definition managerStart :: "world \<Rightarrow> string option \<Rightarrow> (proxy_status \<times> string option) srv" where
  "managerStart w ctxErr = do {
     start \<leftarrow> call w (WCoreStart w);
     m \<leftarrow> gets SrvProxy;
     modify (\<lambda>s. s\<lparr>SrvProxy := fst (ManagerStart ctxErr start m)\<rparr>);
     State_Monad.return (snd (ManagerStart ctxErr start m))
   }"

definition managerStop :: "world \<Rightarrow> (proxy_status \<times> string option) srv" where
  "managerStop w = do {
     closeErr \<leftarrow> call w (WCoreClose w);
     m \<leftarrow> gets SrvProxy;
     modify (\<lambda>s. s\<lparr>SrvProxy := fst (ManagerStop closeErr m)\<rparr>);
     State_Monad.return (snd (ManagerStop closeErr m))
   }"

definition proxyStart :: handler where
  "proxyStart = postOnly (\<lambda>w r. do {
     outcome \<leftarrow> managerStart w None;
     proxyReply w msg_core_start_failed msg_core_started outcome
   })"

definition proxyStop :: handler where
  "proxyStop = postOnly (\<lambda>w r. do {
     outcome \<leftarrow> managerStop w;
     proxyReply w msg_core_stop_failed msg_core_stopped outcome
   })"

text \<open>Every candidate of a connect request has failed.\<close>

definition allFailed :: "world \<Rightarrow> nat \<Rightarrow> string option \<Rightarrow> response srv" where
  "allFailed w attempts lastErr =
     (let message = msg_all_failed @ (case lastErr of None \<Rightarrow> '''' | Some err \<Rightarrow> '': '' @ err)
      in do {
        setSnapshot (snap StateError message '''' [(''attempts'', itoa (int attempts))]);
        addLog w ''error'' message;
        saveLocked w;
        State_Monad.return (writeError 502 message)
      })"

definition nextLog :: "world \<Rightarrow> nat \<Rightarrow> nat \<Rightarrow> vpn_node \<Rightarrow> string \<Rightarrow> unit srv" where
  "nextLog w many attempt node err =
     (if Suc attempt < many then addLog w ''warning'' (msg_node_prefix @ IP node @ msg_next_infix @ err)
      else State_Monad.return ())"

definition connectTo :: "world \<Rightarrow> vpn_node list \<Rightarrow> response srv" where
  "connectTo w candidates = do {
     result \<leftarrow> tryCandidates w (\<lambda>i n. attemptSnapshot msg_connecting i (length candidates) n)
       (nextLog w (length candidates)) 0 None candidates;
     (case result of
        Panicked why \<Rightarrow> State_Monad.return (writeJSON 500 (Aborted why))
      | Failed why \<Rightarrow> State_Monad.return (writeJSON 500 (Aborted why))
      | Done (Inl snapshot) \<Rightarrow> State_Monad.return (writeJSON 200 (SnapshotBody snapshot))
      | Done (Inr lastErr) \<Rightarrow> allFailed w (length candidates) lastErr)
   }"

definition connect_handler :: handler where
  "connect_handler = postOnly (\<lambda>w r. do {
     env \<leftarrow> checkEnvironment w;
     if \<not> RepReady env then State_Monad.return (writeError 502 (RepMessage env))
     else if RepRunning env then do {
       current \<leftarrow> currentSnapshot;
       setSnapshot (nodeMaintenanceSnapshot current env msg_exit_kept);
       State_Monad.return (writeJSON 200 (SnapshotBody (nodeMaintenanceSnapshot current env msg_exit_kept)))
     } else do {
       nodes \<leftarrow> gets SrvNodes;
       cfg \<leftarrow> gets SrvCfg;
       if nodes = [] then State_Monad.return (writeError 409 msg_refresh_first)
       else do {
         now \<leftarrow> time_now w;
         (let maxAttempts = (if ReqNodeID r = '''' \<and> FailoverEnabled (FailoverSection cfg)
                             then MaxAttempts (FailoverSection cfg) else 1);
              candidates = connectionCandidates nodes (ReqNodeID r) maxAttempts now
          in if candidates = [] then State_Monad.return (writeError 404 msg_no_connectable)
             else connectTo w candidates)
       }
     }
   })"

definition disconnect_handler :: handler where
  "disconnect_handler = postOnly (\<lambda>w r. do {
     tunnelDisconnect w;
     setSnapshot InitialSnapshot;
     persist w;
     addLog w ''info'' msg_disconnected;
     State_Monad.return (writeJSON 200 OkBody)
   })"

section \<open>Subscriptions\<close>

definition subscriptionPreview :: handler where
  "subscriptionPreview w r = do {
     addrs \<leftarrow> call w (WAddrs w);
     again \<leftarrow> call w (WAddrs w);
     s \<leftarrow> State_Monad.get;
     (let cfg = SrvCfg s; sub = Subscription cfg
      in State_Monad.return
        (case VMESS addrs sub (SrvNodes s) of
           Inl err \<Rightarrow> writeError 400 err
         | Inr text \<Rightarrow>
             writeJSON 200 (PreviewBody
               [(''vmess_url'', ''/sub/vmess?token='' @ Token sub),
                (''quantumult_x_url'', ''/sub/quantumult-x?token='' @ Token sub),
                (''subscription_host'', Host sub), (''resolved_host'', ResolveHost again (Host sub)),
                (''server_listen'', Listen (Server cfg)), (''subscription_listen'', SubListen sub)]
               (int (length text)))))
   }"

definition validSubscriptionToken :: "config \<Rightarrow> request \<Rightarrow> bool" where
  "validSubscriptionToken cfg r \<longleftrightarrow> SubEnabled (Subscription cfg) \<and> ReqToken r = Token (Subscription cfg)"

definition subscriptionReply ::
  "(ip option list res \<Rightarrow> subscription_config \<Rightarrow> vpn_node list \<Rightarrow> string res) \<Rightarrow> string \<Rightarrow> handler" where
  "subscriptionReply format contentType w r = do {
     cfg \<leftarrow> gets SrvCfg;
     if \<not> validSubscriptionToken cfg r then State_Monad.return (writeError 401 ''invalid subscription token'')
     else do {
       nodes \<leftarrow> gets SrvNodes;
       addrs \<leftarrow> call w (WAddrs w);
       State_Monad.return
         (case format addrs (Subscription cfg) nodes of
            Inl err \<Rightarrow> writeError 400 err
          | Inr text \<Rightarrow> writeText contentType text)
     }
   }"

definition vmessSubscription :: handler where
  "vmessSubscription = subscriptionReply VMESS ''text/plain; charset=utf-8''"

definition quantumultXSubscription :: handler where
  "quantumultXSubscription = subscriptionReply QuantumultX ''text/plain; charset=utf-8''"

definition clashSubscription :: handler where
  "clashSubscription = subscriptionReply ClashYAML ''text/yaml; charset=utf-8''"

section \<open>Routing\<close>

definition protectedRoutes :: "(string \<times> handler) list" where
  "protectedRoutes =
     [(''/api/logout'', logout), (''/api/me'', me), (''/api/status'', status), (''/api/nodes'', nodes_handler),
      (''/api/nodes/refresh'', refreshNodes), (''/api/nodes/classify'', classifyNodes),
      (''/api/nodes/probe'', probeNodes), (''/api/environment'', environment), (''/api/exit/verify'', verifyExit),
      (''/api/proxy/status'', proxyStatus), (''/api/proxy/start'', proxyStart), (''/api/proxy/stop'', proxyStop),
      (''/api/connect'', connect_handler), (''/api/disconnect'', disconnect_handler), (''/api/logs'', logs_handler),
      (''/api/subscription/preview'', subscriptionPreview)]"

definition subscriptionRoutes :: "(string \<times> handler) list" where
  "subscriptionRoutes =
     [(''/sub/vmess'', vmessSubscription), (''/sub/quantumult-x'', quantumultXSubscription),
      (''/sub/clash'', clashSubscription)]"

text \<open>The pattern of a route is an exact path; the pattern / takes every other path.\<close>

definition routes :: "(string \<times> handler) list" where
  "routes =
     [(''/api/login'', login)] @ map (\<lambda>(path, h). (path, requireAuth h)) protectedRoutes @ subscriptionRoutes"

definition Handler :: handler where
  "Handler w r = do {
     response \<leftarrow> (case map_of routes (ReqPath r) of Some h \<Rightarrow> h w r | None \<Rightarrow> index w r);
     State_Monad.return (securityHeaders response)
   }"

definition subscriptionHandler :: handler where
  "subscriptionHandler w r = do {
     response \<leftarrow>
       (case map_of subscriptionRoutes (ReqPath r) of
          Some h \<Rightarrow> h w r
        | None \<Rightarrow> State_Monad.return (writeText ''text/plain; charset=utf-8'' (''404 page not found'' @ [CHR 0x0A]))
            \<bind> (\<lambda>p. State_Monad.return (p\<lparr>RespStatus := 404\<rparr>)));
     State_Monad.return (securityHeaders response)
   }"

end
