(* ===== verification/Web_Frame.thy ===== *)
theory Web_Frame
  imports "HOL-Library.State_Monad" Web_Server
begin

text \<open>
  The interface between the server's operations and the invariants of its state. The locale
  \<open>server_frame\<close> extends the quiet frame: it asks of a predicate that the updates of the snapshot,
  the nodes, the tunnel and the proxy keep it as well; every operation and handler then keeps it. The sessions are not among these fields: the login and logout handlers
  are the only ones that change them.
\<close>

section \<open>Vetted nodes\<close>

text \<open>A node with a profile has been vetted: its address is public, the profile's remote is that
  address, and port and protocol are those of the profile. All of this depends on the identity of
  the node only.\<close>

definition vetted :: "vpn_node \<Rightarrow> bool" where
  "vetted n \<longleftrightarrow>
     OpenVPNConfig n = '''' \<or>
     (\<exists>ip. IP n = IP_String ip \<and> RemoteHost n = IP n \<and> IsGlobalUnicast ip \<and> \<not> IsPrivate ip \<and> \<not> IsLoopback ip \<and>
        ParseIP (fst (parseRemote (OpenVPNConfig n))) = Some ip) \<and>
     snd (parseRemote (OpenVPNConfig n)) = (RemotePort n, Protocol n) \<and>
     1 \<le> RemotePort n \<and> RemotePort n \<le> 65535 \<and> ID n \<noteq> ''''"

lemma vetted_identity: "node_identity n = node_identity m \<Longrightarrow> vetted n = vetted m"
  by (simp add: vetted_def node_identity_eq_iff)

lemma vetted_pass:
  assumes "map node_identity ns = map node_identity ms"
  shows "list_all vetted ns = list_all vetted ms"
  using assms
proof (induction ns arbitrary: ms)
  case Nil
  then show ?case by simp
next
  case (Cons n ns)
  then obtain m ms' where ms: "ms = m # ms'" "node_identity n = node_identity m"
    "map node_identity ns = map node_identity ms'"
    by auto
  from vetted_identity [OF ms(2)] Cons.IH [OF ms(3)] show ?case
    by (simp add: ms(1))
qed

lemma safe_vetted: "safe_node n \<Longrightarrow> vetted n"
  by (auto simp: safe_node_def vetted_def)

lemma Fetch_parsed:
  assumes "Fetch src response = Inr nodes"
  obtains code csv all where "response (APIURL src) = Inr (code, csv)" "ParseVPNGateCSV csv = Inr all"
    "set nodes \<subseteq> set all"
proof (cases "response (APIURL src)")
  case (Inl err)
  with assms show ?thesis by (simp add: Fetch_def)
next
  case (Inr answer)
  obtain code csv where answer: "answer = (code, csv)" by fastforce
  show ?thesis
  proof (cases "ParseVPNGateCSV csv")
    case (Inl err)
    with assms Inr answer show ?thesis by (simp add: Fetch_def split: if_splits)
  next
    case parsed: (Inr all)
    with assms Inr answer have "set nodes \<subseteq> set all"
      by (auto simp: Fetch_def split: if_splits dest: in_set_takeD)
    with that [of code csv all] Inr answer parsed show ?thesis by simp
  qed
qed

lemma Fetch_vetted: "Fetch src response = Inr nodes \<Longrightarrow> list_all vetted nodes"
  by (erule Fetch_parsed) (use ParseVPNGateCSV_sound safe_vetted in \<open>fastforce simp: list_all_iff\<close>)

section \<open>Generic facts\<close>

lemma fst_call [simp]: "fst (run_state (call w f) s) = f (SrvTicks s)"
  by (simp add: call_def)

lemma passes_vetted:
  "list_all vetted nodes \<Longrightarrow> list_all vetted (Classify post now nodes)"
  "list_all vetted nodes \<Longrightarrow> list_all vetted (Probe p clock dial nodes)"
  "list_all vetted nodes \<Longrightarrow> list_all vetted (preserveNodeCooldowns nodes previous now)"
  by (simp_all add: vetted_pass [OF classify.pass_identity] vetted_pass [OF probe.pass_identity]
      vetted_pass [OF preserve.pass_identity])

lemma keeps_postOnly: "keeps P (next w r) \<Longrightarrow> keeps P (postOnly next w r)"
  unfolding postOnly_def by (intro keeps_intros)

lemma routes_keep:
  assumes "keeps P (login w r)" and "\<And>path h. (path, h) \<in> set protectedRoutes \<Longrightarrow> keeps P (requireAuth h w r)"
    and "\<And>path h. (path, h) \<in> set subscriptionRoutes \<Longrightarrow> keeps P (h w r)" and "keeps P (index w r)"
  shows "keeps P (Handler w r)"
proof -
  have "keeps P (h w r)" if "map_of routes path = Some h" for path h
    using map_of_SomeD [OF that] assms(1-3) by (auto simp: routes_def)
  with assms(4) show ?thesis
    unfolding Handler_def by (intro keeps_intros)
qed

lemma subscription_routes_keep:
  assumes "\<And>path h. (path, h) \<in> set subscriptionRoutes \<Longrightarrow> keeps P (h w r)"
  shows "keeps P (subscriptionHandler w r)"
proof -
  have "keeps P (h w r)" if "map_of subscriptionRoutes path = Some h" for path h
    using map_of_SomeD [OF that] assms by auto
  then show ?thesis
    unfolding subscriptionHandler_def by (intro keeps_intros)
qed

section \<open>The interface\<close>

locale server_frame = quiet_frame I for I :: "server \<Rightarrow> bool" +
  assumes I_snapshot: "I s \<Longrightarrow> I (s\<lparr>SrvSnapshot := snapshot\<rparr>)"
    and I_tunnel: "I s \<Longrightarrow> I (s\<lparr>SrvTunnel := c\<rparr>)"
    and I_nodes: "I s \<Longrightarrow> list_all vetted nodes \<Longrightarrow> I (s\<lparr>SrvNodes := nodes\<rparr>)"
    and I_core: "I s \<Longrightarrow> proxy_inv m \<Longrightarrow> I (s\<lparr>SrvProxy := m\<rparr>)"
    and I_vetted: "I s \<Longrightarrow> list_all vetted (SrvNodes s)"
    and I_core_inv: "I s \<Longrightarrow> proxy_inv (SrvProxy s)"
begin

lemma setSnapshot_keeps [server_ops]: "keeps I (setSnapshot p)"
  unfolding setSnapshot_def by (intro keeps_modify) (rule I_snapshot)

lemma setNodes_keeps: "list_all vetted nodes \<Longrightarrow> keeps I (setNodes nodes)"
  unfolding setNodes_def by (intro keeps_modify I_nodes)

lemma tunnel_update_keeps: "keeps I (modify (\<lambda>s. s\<lparr>SrvTunnel := f s\<rparr>))"
  by (intro keeps_modify) (rule I_tunnel)

lemma tunnelConnect_keeps [server_ops]: "keeps I (tunnelConnect w node)"
  unfolding tunnelConnect_def by (intro keeps_intros server_ops tunnel_update_keeps)

lemma tunnelDisconnect_keeps [server_ops]: "keeps I (tunnelDisconnect w)"
  unfolding tunnelDisconnect_def by (intro keeps_intros server_ops tunnel_update_keeps)

lemma snapshot_update_keeps: "keeps I (modify (\<lambda>s. s\<lparr>SrvSnapshot := f s\<rparr>))"
  by (intro keeps_modify) (rule I_snapshot)

lemma recordVerification_keeps [server_ops]: "keeps I (recordVerification w result)"
  unfolding recordVerification_def by (intro keeps_intros server_ops snapshot_update_keeps)

lemma applyVerifyResult_keeps [server_ops]: "keeps I (applyVerifyResult w node result)"
  unfolding applyVerifyResult_def by (intro keeps_intros server_ops snapshot_update_keeps)

lemma cooldownNode_keeps [server_ops]: "keeps I (cooldownNode w nodeID message)"
  unfolding cooldownNode_def
  by (intro keeps_intros server_ops keeps_modify I_nodes)
    (simp_all add: vetted_pass [OF markNodeFailure_identity] I_vetted)

lemma enterConnected_keeps [server_ops]: "keeps I (enterConnected w node p)"
  unfolding enterConnected_def by (intro keeps_intros server_ops)

lemma connectCandidate_keeps [server_ops]: "keeps I (connectCandidate w node)"
  unfolding connectCandidate_def finishCandidate_def judgeCandidate_def
  by (auto intro!: keeps_intros server_ops split: connect_error.split option.split)

lemma tryCandidates_keeps:
  assumes "\<And>i n e. keeps I (onFailure i n e)"
  shows "keeps I (tryCandidates w announce onFailure attempt lastErr candidates)"
  using assms
  by (induction candidates arbitrary: attempt lastErr)
    (auto intro!: keeps_intros server_ops split: outcome.split)

lemma exit_queries_keeps [server_ops]:
  "keeps I (exitIsRunning w)" "keeps I (exitNeedsRecovery w)"
  unfolding exitIsRunning_def exitNeedsRecovery_def by (intro keeps_intros server_ops)+

lemma switchExit_keeps [server_ops]: "keeps I (switchExit w)"
  unfolding switchExit_def
  by (auto intro!: keeps_intros server_ops tryCandidates_keeps split: outcome.split sum.split)

lemma recoverExit_keeps [server_ops]: "keeps I (recoverExit w reason)"
  unfolding recoverExit_def by (intro keeps_intros server_ops)

lemma checkExitHealth_keeps [server_ops]: "keeps I (checkExitHealth w)"
  unfolding checkExitHealth_def by (intro keeps_intros server_ops)

lemma monitorTurn_keeps [server_ops]: "keeps I (monitorTurn w e k)"
  by (cases e) (auto intro!: keeps_intros server_ops)

lemma fetch_keeps:
  assumes "\<And>e. keeps I (onError e)" and "\<And>nodes. list_all vetted nodes \<Longrightarrow> keeps I (onNodes nodes)"
  shows "keeps I (State_Monad.bind (call w (\<lambda>k. Fetch src (WFetch w k)))
    (\<lambda>fetched. case fetched of Inl e \<Rightarrow> onError e | Inr nodes \<Rightarrow> onNodes nodes))"
  by (rule keeps_bind_value [where R = "\<lambda>v. \<forall>nodes. v = Inr nodes \<longrightarrow> list_all vetted nodes"])
    (auto intro: call_keeps Fetch_vetted keeps_sum assms)

lemma probe_keeps:
  assumes "list_all vetted nodes" and "\<And>probed. list_all vetted probed \<Longrightarrow> keeps I (f probed)"
  shows "keeps I (State_Monad.bind (call w (\<lambda>k. Probe p (WProbeClock w k) (WProbeDial w k) nodes)) f)"
  by (rule keeps_bind_value [where R = "list_all vetted"])
    (simp_all add: call_keeps passes_vetted(2) [OF assms(1)] assms(2))

lemma autoPrepare_keeps [server_ops]: "keeps I (autoPrepare w)"
proof -
  have classified: "keeps I (State_Monad.bind
      (if b then do {
         setSnapshot p; post \<leftarrow> call w (WBatch w); now \<leftarrow> time_now w; State_Monad.return (Classify post now fresh)
       } else State_Monad.return fresh) f)"
    if "list_all vetted fresh" "\<And>ns. list_all vetted ns \<Longrightarrow> keeps I (f ns)" for b p fresh f
  proof (rule keeps_bind_value [where R = "list_all vetted"])
    show "list_all vetted (fst (run_state (if b then do {
        setSnapshot p; post \<leftarrow> call w (WBatch w); now \<leftarrow> time_now w; State_Monad.return (Classify post now fresh)
      } else State_Monad.return fresh) s))" for s
      using that(1) passes_vetted(1) [OF that(1)] by (simp split: prod.split)
  qed (auto intro!: keeps_intros server_ops that(2))
  show ?thesis
    unfolding autoPrepare_def Let_def
    by (rule keeps_bind, rule keeps_gets, rule keeps_bind, rule keeps_gets, rule keeps_bind,
        rule setSnapshot_keeps, rule fetch_keeps, (intro keeps_intros server_ops)[1], rule classified, assumption,
        rule keeps_bind, rule setSnapshot_keeps, rule probe_keeps, assumption, rule keeps_bind, rule time_now_keeps)
      (intro keeps_intros server_ops setNodes_keeps passes_vetted, assumption)
qed

lemma autoConnectExit_keeps [server_ops]: "keeps I (autoConnectExit w)"
  unfolding autoConnectExit_def
  by (auto intro!: keeps_intros server_ops tryCandidates_keeps split: outcome.split sum.split)

lemma managerStart_keeps [server_ops]: "keeps I (managerStart w ctxErr)"
  unfolding managerStart_def
  by (intro keeps_intros server_ops keeps_gets_bind [where R = proxy_inv] keeps_modify)
    (auto intro: I_core_inv I_core ManagerStart_inv)

lemma managerStop_keeps [server_ops]: "keeps I (managerStop w)"
  unfolding managerStop_def
  by (intro keeps_intros server_ops keeps_gets_bind [where R = proxy_inv] keeps_modify)
    (auto intro: I_core_inv I_core ManagerStop_inv)

lemma sessionValid_keeps [server_ops]: "keeps I (sessionValid w v)"
  unfolding sessionValid_def by (intro keeps_intros server_ops)

lemma keeps_requireAuth: "keeps I (next w r) \<Longrightarrow> keeps I (requireAuth next w r)"
  unfolding requireAuth_def by (intro keeps_intros server_ops)

lemma readers_keeps [server_ops]:
  "keeps I (index w r)" "keeps I (me w r)" "keeps I (status w r)"
  "keeps I (nodes_handler w r)" "keeps I (environment w r)"
  "keeps I (logs_handler w r)" "keeps I (proxyStatus w r)"
  "keeps I (subscriptionPreview w r)"
  unfolding index_def me_def status_def nodes_handler_def environment_def logs_handler_def proxyStatus_def
    subscriptionPreview_def
  by (intro keeps_intros server_ops)+

lemma storeNodes_keeps: "list_all vetted nodes \<Longrightarrow> keeps I (storeNodes w p nodes message)"
  unfolding storeNodes_def by (intro keeps_intros server_ops setNodes_keeps)

lemma refreshNodes_keeps [server_ops]: "keeps I (refreshNodes w r)"
  unfolding refreshNodes_def Let_def
  by (rule keeps_postOnly, rule keeps_bind, rule reads_keeps, rule keeps_bind, rule keeps_gets, rule keeps_bind,
      rule keeps_gets, rule keeps_bind, rule setSnapshot_keeps, rule fetch_keeps)
    (intro keeps_intros server_ops storeNodes_keeps passes_vetted; assumption)+

lemma classifyNodes_keeps [server_ops]: "keeps I (classifyNodes w r)"
  unfolding classifyNodes_def
  by (rule keeps_postOnly, rule keeps_bind, rule reads_keeps,
      rule keeps_gets_bind [where R = "list_all vetted"], erule I_vetted)
    (intro keeps_intros server_ops storeNodes_keeps passes_vetted; assumption)

lemma probeNodes_keeps [server_ops]: "keeps I (probeNodes w r)"
  unfolding probeNodes_def
  by (rule keeps_postOnly, rule keeps_bind, rule reads_keeps,
      rule keeps_gets_bind [where R = "list_all vetted"], erule I_vetted, rule keeps_bind, rule keeps_gets,
      rule keeps_if, rule keeps_return, rule keeps_bind, rule setSnapshot_keeps, rule probe_keeps, assumption)
    (intro keeps_intros server_ops storeNodes_keeps; assumption)

lemma verifyExit_keeps [server_ops]: "keeps I (verifyExit w r)"
  unfolding verifyExit_def by (intro keeps_postOnly keeps_intros server_ops)

lemma proxy_handlers_keeps [server_ops]:
  "keeps I (proxyStart w r)" "keeps I (proxyStop w r)"
  unfolding proxyStart_def proxyStop_def proxyReply_def
  by (intro keeps_postOnly keeps_intros server_ops)+

lemma connectTo_keeps [server_ops]: "keeps I (connectTo w candidates)"
  unfolding connectTo_def allFailed_def
  by (auto intro!: keeps_intros server_ops tryCandidates_keeps simp: nextLog_def split: outcome.split sum.split)

lemma connect_handler_keeps [server_ops]: "keeps I (connect_handler w r)"
  unfolding connect_handler_def by (intro keeps_postOnly keeps_intros server_ops)

lemma disconnect_handler_keeps [server_ops]: "keeps I (disconnect_handler w r)"
  unfolding disconnect_handler_def by (intro keeps_postOnly keeps_intros server_ops)

lemma subscriptions_keeps [server_ops]:
  "keeps I (vmessSubscription w r)" "keeps I (quantumultXSubscription w r)"
  "keeps I (clashSubscription w r)"
  unfolding vmessSubscription_def quantumultXSubscription_def clashSubscription_def subscriptionReply_def
  by (intro keeps_intros server_ops)+

lemma subscriptionHandler_keeps [server_ops]: "keeps I (subscriptionHandler w r)"
  by (rule subscription_routes_keep) (auto simp: subscriptionRoutes_def intro!: server_ops)

end

end
