(* ===== verification/Web_System.thy ===== *)
theory Web_System
  imports "HOL-Library.State_Monad" Web_Frame
begin

text \<open>
  The server as a whole (src/internal/web/server.go): how it starts from the stored state, the
  automation it runs, and the machine whose events are requests, ticks of the monitor, the
  automatic start and the shutdown. A crash of a background task ends the process. Shown here: the
  session check guards every protected route, sessions come from logins only, the log stays
  bounded, and every node the server may connect to has been vetted.
\<close>

section \<open>Start, automation and shutdown\<close>

definition newState :: "config \<Rightarrow> string \<Rightarrow> store_files \<Rightarrow> server" where
  "newState cfg dataDir files =
     \<lparr>SrvCfg = cfg, SrvNodes = [], SrvSnapshot = InitialSnapshot, SrvSessions = Map.empty, SrvLogs = [],
      SrvFiles = files, SrvTunnel = NewOpenVPNController (OpenVPN cfg) dataDir,
      SrvProxy = NewManager (ProxyCore cfg) (Subscription cfg) True, SrvTicks = 0\<rparr>"

definition NewServer :: "world \<Rightarrow> config \<Rightarrow> string \<Rightarrow> string option \<Rightarrow> store_files \<Rightarrow> server" where
  "NewServer w cfg dataDir readError files =
     snd (run_state (do {
       (case LoadState readError (StateFile files) of
          Inr saved \<Rightarrow> do {
            setNodes (Nodes saved);
            setSnapshot (SavedSnapshot saved);
            addLog w ''info'' (msg_restored_prefix @ itoa (int (length (Nodes saved))) @ msg_nodes_suffix)
          }
        | Inl err \<Rightarrow> addLog w ''warning'' (msg_restore_failed @ err));
       addLog w ''info'' (msg_started @ dataDir)
     }) (newState cfg dataDir files))"

definition autoStartCore :: "world \<Rightarrow> unit srv" where
  "autoStartCore w = do {
     ctxErr \<leftarrow> call w (WCtxErr w);
     outcome \<leftarrow> managerStart w ctxErr;
     (case outcome of
        (st, Some err) \<Rightarrow> addLog w ''warning'' (msg_vmess_autostart_failed @ err)
      | (st, None) \<Rightarrow> addLog w ''info'' msg_vmess_autostarted)
   }"

definition shutdown :: "world \<Rightarrow> unit srv" where
  "shutdown w = do {
     _ \<leftarrow> managerStop w;
     tunnelDisconnect w
   }"

text \<open>The automation that the configuration asks for.\<close>

datatype server_event =
    Console request
  | SubscriptionPort request
  | StartCore
  | ConnectExit
  | Monitor monitor_event
  | Shutdown

definition automated :: "config \<Rightarrow> server_event \<Rightarrow> bool" where
  "automated cfg e =
     (case e of
        StartCore \<Rightarrow> AutoStartVMESS (Deployment cfg) \<and> CoreEnabled (ProxyCore cfg)
      | ConnectExit \<Rightarrow> AutoConnectExit (Deployment cfg)
      | Monitor _ \<Rightarrow> AutoConnectExit (Deployment cfg) \<and> FailoverEnabled (FailoverSection cfg)
      | SubscriptionPort _ \<Rightarrow>
          SubEnabled (Subscription cfg) \<and> SubListen (Subscription cfg) \<noteq> '''' \<and>
          SubListen (Subscription cfg) \<noteq> Listen (Server cfg)
      | _ \<Rightarrow> True)"

text \<open>The machine: the server and the monitor's count of failures, or None after a crash. An event
  that the configuration does not automate does not happen.\<close>

definition settle :: "int \<Rightarrow> 'a outcome \<times> server \<Rightarrow> (server \<times> int) option" where
  "settle failures r = (case r of (Panicked why, s) \<Rightarrow> None | (_, s) \<Rightarrow> Some (s, failures))"

fun perform :: "world \<Rightarrow> server_event \<Rightarrow> server \<Rightarrow> int \<Rightarrow> (server \<times> int) option" where
  "perform w (Console r) s failures = Some (snd (run_state (Handler w r) s), failures)"
| "perform w (SubscriptionPort r) s failures = Some (snd (run_state (subscriptionHandler w r) s), failures)"
| "perform w StartCore s failures = Some (snd (run_state (autoStartCore w) s), failures)"
| "perform w ConnectExit s failures = settle failures (run_state (autoConnectExit w) s)"
| "perform w (Monitor e) s failures =
     (case run_state (monitorTurn w e failures) s of
        (Panicked why, s') \<Rightarrow> None
      | (Done failures', s') \<Rightarrow> Some (s', failures')
      | (Failed why, s') \<Rightarrow> Some (s', failures))"
| "perform w Shutdown s failures = Some (snd (run_state (shutdown w) s), failures)"

definition serve :: "world \<Rightarrow> (server \<times> int) option \<Rightarrow> server_event \<Rightarrow> (server \<times> int) option" where
  "serve w sys e =
     (case sys of
        None \<Rightarrow> None
      | Some (s, failures) \<Rightarrow> if automated (SrvCfg s) e then perform w e s failures else sys)"

section \<open>Frames of the whole server\<close>

context server_frame
begin

lemma automation_keeps [server_ops]:
  "keeps I (autoStartCore w)" "keeps I (shutdown w)"
  unfolding autoStartCore_def shutdown_def by (intro keeps_intros server_ops)+

lemma protected_keeps:
  "(path, h) \<in> set protectedRoutes \<Longrightarrow> path \<noteq> ''/api/logout'' \<Longrightarrow> keeps I (h w r)"
  unfolding protectedRoutes_def by (auto intro!: server_ops)

lemma subscription_keeps: "(path, h) \<in> set subscriptionRoutes \<Longrightarrow> keeps I (h w r)"
  unfolding subscriptionRoutes_def by (auto intro!: server_ops)

text \<open>A request other than a login or a logout.\<close>

lemma Handler_keeps:
  assumes "ReqPath r \<noteq> ''/api/login''" and "ReqPath r \<noteq> ''/api/logout''"
  shows "keeps I (Handler w r)"
proof -
  have "keeps I (h w r)" if "map_of routes (ReqPath r) = Some h" for h
    using map_of_SomeD [OF that] assms
    by (auto simp: routes_def intro: keeps_requireAuth protected_keeps subscription_keeps)
  then show ?thesis
    unfolding Handler_def by (intro keeps_intros server_ops)
qed

end

section \<open>The basic invariant\<close>

definition base_inv :: "config \<Rightarrow> server \<Rightarrow> bool" where
  "base_inv cfg s \<longleftrightarrow>
     SrvCfg s = cfg \<and> length (SrvLogs s) \<le> 300 \<and> proxy_inv (SrvProxy s) \<and> list_all vetted (SrvNodes s)"

interpretation log_buffer: bounded_buffer length 300 "\<lambda>(now, level, message) logs. appendLogLocked now logs level message"
  by unfold_locales (auto simp: appendLogLocked_def Let_def)

lemma appendLog_bounded: "length logs \<le> 300 \<Longrightarrow> length (appendLogLocked now logs level message) \<le> 300"
  using log_buffer.put_bounded [of logs "(now, level, message)"] by simp

interpretation base: server_frame "base_inv cfg" for cfg
  by unfold_locales (simp_all add: base_inv_def tick_def appendLog_bounded)

text \<open>The same with the sessions fixed.\<close>

definition sessions_inv :: "config \<Rightarrow> (string \<rightharpoonup> time) \<Rightarrow> server \<Rightarrow> bool" where
  "sessions_inv cfg m s \<longleftrightarrow> base_inv cfg s \<and> SrvSessions s = m"

interpretation sessions: server_frame "sessions_inv cfg m" for cfg m
  by unfold_locales
    (simp_all add: sessions_inv_def base_inv_def tick_def appendLog_bounded)

lemma sessions_update_base: "keeps (base_inv cfg) (modify (\<lambda>s. s\<lparr>SrvSessions := f s\<rparr>))"
  by (intro keeps_modify) (simp add: base_inv_def)

lemma login_base: "keeps (base_inv cfg) (login w r)"
  unfolding login_def openLogin_def randomToken_def
  by (intro keeps_postOnly keeps_intros server_ops sessions_update_base)

lemma logout_base: "keeps (base_inv cfg) (logout w r)"
  unfolding logout_def by (intro keeps_postOnly keeps_intros sessions_update_base)

lemma Handler_base: "keeps (base_inv cfg) (Handler w r)"
proof (rule routes_keep)
  show "keeps (base_inv cfg) (requireAuth h w r)" if "(path, h) \<in> set protectedRoutes" for path h
  proof (cases "path = ''/api/logout''")
    case True
    with that have "h = logout" by (auto simp: protectedRoutes_def)
    then show ?thesis by (simp add: base.keeps_requireAuth logout_base)
  next
    case False
    then show ?thesis by (intro base.keeps_requireAuth base.protected_keeps [OF that])
  qed
  show "keeps (base_inv cfg) (h w r)" if "(path, h) \<in> set subscriptionRoutes" for path h
    by (rule base.subscription_keeps [OF that])
qed (intro login_base base.readers_keeps)+

text \<open>A predicate that every operation keeps is kept by every event.\<close>

lemma perform_keeps:
  assumes "\<And>r. keeps P (Handler w r)" and "\<And>r. keeps P (subscriptionHandler w r)" and "keeps P (autoStartCore w)"
    and "keeps P (autoConnectExit w)" and "\<And>m k. keeps P (monitorTurn w m k)" and "keeps P (shutdown w)"
    and "P s" and "perform w e s failures = Some (s', failures')"
  shows "P s'"
  using assms
  by (cases e) (auto simp: settle_def keeps_def [THEN iffD1, rule_format] split: outcome.splits prod.splits
      dest: keepsD keepsD [OF assms(5) assms(7)])

lemma perform_base:
  "base_inv cfg s \<Longrightarrow> perform w e s failures = Some (s', failures') \<Longrightarrow> base_inv cfg s'"
  by (rule perform_keeps [OF Handler_base base.subscriptionHandler_keeps base.automation_keeps(1)
        base.autoConnectExit_keeps base.monitorTurn_keeps base.automation_keeps(2)])

definition system_inv :: "config \<Rightarrow> (server \<times> int) option \<Rightarrow> bool" where
  "system_inv cfg sys \<longleftrightarrow> (case sys of None \<Rightarrow> True | Some (s, failures) \<Rightarrow> base_inv cfg s)"

interpretation system: event_machine "serve w" "system_inv cfg" for w cfg
proof
  fix sys e
  assume inv: "system_inv cfg sys"
  show "system_inv cfg (serve w sys e)"
  proof (cases sys)
    case None
    then show ?thesis by (simp add: serve_def system_inv_def)
  next
    case (Some p)
    obtain s failures where p: "p = (s, failures)" by fastforce
    with inv Some have "base_inv cfg s" by (simp add: system_inv_def)
    with perform_base [of cfg s w e failures] Some p show ?thesis
      by (cases "perform w e s failures") (auto simp: serve_def system_inv_def)
  qed
qed

lemma loaded_vetted: "LoadState readError content = Inr saved \<Longrightarrow> list_all vetted (Nodes saved)"
  by (auto simp: LoadState_def Let_def stored_node_def vetted_def list_all_iff
      split: option.splits disk_file.splits if_splits)

lemma NewServer_base: "base_inv cfg (NewServer w cfg dataDir readError files)"
proof -
  have start: "base_inv cfg (newState cfg dataDir files)"
    by (simp add: base_inv_def newState_def NewManager_inv)
  have "keeps (base_inv cfg) (do {
       (case LoadState readError (StateFile files) of
          Inr saved \<Rightarrow> do {
            setNodes (Nodes saved);
            setSnapshot (SavedSnapshot saved);
            addLog w ''info'' (msg_restored_prefix @ itoa (int (length (Nodes saved))) @ msg_nodes_suffix)
          }
        | Inl err \<Rightarrow> addLog w ''warning'' (msg_restore_failed @ err));
       addLog w ''info'' (msg_started @ dataDir)
     })"
    by (intro keeps_intros base.setNodes_keeps base.setSnapshot_keeps base.addLog_keeps loaded_vetted)
  with start show ?thesis
    unfolding NewServer_def keeps_def by blast
qed

section \<open>The session check\<close>

lemma run_call [simp]: "run_state (call w f) s = (f (SrvTicks s), tick w s)"
  by (simp add: call_def)

lemma run_time_now [simp]: "run_state (time_now w) s = (WClock w (SrvTicks s), tick w s)"
  by (simp add: time_now_def)

lemma run_addLog [simp]:
  "run_state (addLog w level message) s =
     ((), (tick w s)\<lparr>SrvLogs := appendLogLocked (WClock w (SrvTicks s)) (SrvLogs (tick w s)) level message\<rparr>)"
  by (simp add: addLog_def)

lemma tick_sessions [simp]: "SrvSessions (tick w s) = SrvSessions s" "SrvCfg (tick w s) = SrvCfg s"
  by (simp_all add: tick_def)

text \<open>A cookie that names no session, or one that has ended at the time of the request.\<close>

definition unauthenticated :: "world \<Rightarrow> request \<Rightarrow> server \<Rightarrow> bool" where
  "unauthenticated w r s \<longleftrightarrow>
     (case ReqCookie r of
        None \<Rightarrow> True
      | Some v \<Rightarrow>
          (case SrvSessions s v of None \<Rightarrow> True | Some e \<Rightarrow> e \<le> WClock w (SrvTicks s)))"

lemma requireAuth_rejects:
  "unauthenticated w r s \<Longrightarrow>
   \<exists>t. run_state (requireAuth h w r) s = (writeError 401 ''login required'', t) \<and> (t = s \<or> t = tick w s)"
  by (auto simp: unauthenticated_def requireAuth_def sessionValid_def split: option.splits)

lemma routes_distinct: "distinct (map fst routes)"
proof -
  have "map fst routes = [''/api/login''] @ map fst protectedRoutes @ map fst subscriptionRoutes"
    by (simp add: routes_def case_prod_beta comp_def)
  moreover have "distinct ([''/api/login''] @ map fst protectedRoutes @ map fst subscriptionRoutes)"
    by (simp add: protectedRoutes_def subscriptionRoutes_def)
  ultimately show ?thesis by simp
qed

lemma protected_route: "(path, h) \<in> set protectedRoutes \<Longrightarrow> map_of routes path = Some (requireAuth h)"
  by (rule map_of_is_SomeI [OF routes_distinct]) (force simp: routes_def)

lemma login_sessions:
  assumes "run_state (login w r) s = (resp, t)" and "SrvSessions t v = Some e" and "SrvSessions s v \<noteq> Some e"
  shows "ReqMethod r = ''POST'' \<and> ReqLogin r = Inr (AuthUsername (Auth (SrvCfg s)), AuthPassword (Auth (SrvCfg s))) \<and>
    RespStatus resp = 200 \<and> (\<exists>k. e = WClock w k + sessionLifetime) \<and> (\<exists>b x. RespCookie resp = Some (v, b, x))"
  using assms
  by (auto simp: login_def postOnly_def openLogin_def randomToken_def writeJSON_def
      split: if_splits sum.splits prod.splits)

lemma logout_sessions: "run_state (logout w r) s = (resp, t) \<Longrightarrow> SrvSessions t v = Some e \<Longrightarrow> SrvSessions s v = Some e"
  by (auto simp: logout_def postOnly_def split: if_splits option.splits)

lemma requireAuth_sessions:
  assumes "run_state (requireAuth h w r) s = (resp, t)"
    and "\<And>s' x. SrvSessions s' = SrvSessions s \<Longrightarrow> run_state (h w r) s' = (x, t) \<Longrightarrow> SrvSessions t v = Some e \<Longrightarrow>
      SrvSessions s v = Some e"
    and "SrvSessions t v = Some e"
  shows "SrvSessions s v = Some e"
  using assms(1) assms(2) [of "tick w s"] assms(2) [of s] assms(3)
  by (auto simp: requireAuth_def sessionValid_def split: option.splits if_splits)

section \<open>Properties\<close>

text \<open>C1: a request to a protected route without a valid session is answered with status 401 and
  changes nothing: no node, no snapshot, no session, no log entry, no file and no proxy state.\<close>

theorem unauthenticated_request_rejected:
  assumes "(ReqPath r, h) \<in> set protectedRoutes" and "unauthenticated w r s"
  shows "\<exists>t. run_state (Handler w r) s = (securityHeaders (writeError 401 ''login required''), t) \<and>
    (t = s \<or> t = tick w s)"
proof -
  obtain t where "run_state (requireAuth h w r) s = (writeError 401 ''login required'', t)" "t = s \<or> t = tick w s"
    using requireAuth_rejects [OF assms(2)] by blast
  then show ?thesis
    by (simp add: Handler_def protected_route [OF assms(1)])
qed

text \<open>C17: a session appears or is prolonged only by a login request with the configured user name and
  password; it lasts 24 hours from the login and its name is sent back in the cookie.\<close>

theorem sessions_from_login_only:
  assumes "run_events (serve w) (Some (NewServer w cfg dataDir readError files, 0)) es = Some (s, failures)"
    and "run_state (Handler w r) s = (resp, t)"
    and "SrvSessions t v = Some e" and "SrvSessions s v \<noteq> Some e"
  shows "ReqPath r = ''/api/login'' \<and> ReqMethod r = ''POST'' \<and>
    ReqLogin r = Inr (AuthUsername (Auth cfg), AuthPassword (Auth cfg)) \<and> RespStatus resp = 200 \<and>
    (\<exists>k. e = WClock w k + sessionLifetime) \<and> (\<exists>b x. RespCookie resp = Some (v, b, x))"
proof -
  have "system_inv cfg (Some (s, failures))"
    using system.run_invar [of cfg "Some (NewServer w cfg dataDir readError files, 0)" w es] assms(1) NewServer_base
    by (simp add: system_inv_def)
  then have base: "base_inv cfg s" and cfg: "SrvCfg s = cfg"
    by (simp_all add: system_inv_def base_inv_def)
  have login_route: "map_of routes ''/api/login'' = Some login"
    by (simp add: routes_def)
  have logout_route: "map_of routes ''/api/logout'' = Some (requireAuth logout)"
    by (rule protected_route) (simp add: protectedRoutes_def)
  have "ReqPath r = ''/api/login''"
  proof (rule ccontr)
    assume other: "ReqPath r \<noteq> ''/api/login''"
    show False
    proof (cases "ReqPath r = ''/api/logout''")
      case True
      then obtain resp0 where "run_state (requireAuth logout w r) s = (resp0, t)"
        using assms(2) by (auto simp: Handler_def logout_route split: prod.splits)
      from requireAuth_sessions [OF this _ assms(3)] logout_sessions assms(4) show False by metis
    next
      case False
      have "sessions_inv cfg (SrvSessions s) s"
        using base by (simp add: sessions_inv_def)
      from keepsD [OF sessions.Handler_keeps [OF other False] this assms(2)] assms(3,4)
      show False by (simp add: sessions_inv_def)
    qed
  qed
  moreover obtain resp0 where "run_state (login w r) s = (resp0, t)" "resp = securityHeaders resp0"
    using assms(2) calculation by (auto simp: Handler_def login_route split: prod.splits)
  ultimately show ?thesis
    using login_sessions [OF _ assms(3,4)] cfg by (auto simp: securityHeaders_def Let_def)
qed

text \<open>C4: from any stored state and through any sequence of requests, ticks and automation, every node
  the server holds either has no profile, so that connecting to it fails, or has a public address
  that is also the remote of its profile.\<close>

theorem nodes_always_vetted:
  assumes "run_events (serve w) (Some (NewServer w cfg dataDir readError files, 0)) es = Some (s, failures)"
  shows "list_all vetted (SrvNodes s) \<and> SrvCfg s = cfg"
  using system.run_invar [of cfg "Some (NewServer w cfg dataDir readError files, 0)" w es] assms NewServer_base
  by (simp add: system_inv_def base_inv_def)

text \<open>The log never holds more than 300 entries, and the proxy core never runs without the
  tunnel's dialer, also while the server handles arbitrary events.\<close>

theorem log_bounded_and_core_guarded:
  assumes "run_events (serve w) (Some (NewServer w cfg dataDir readError files, 0)) es = Some (s, failures)"
  shows "length (SrvLogs s) \<le> 300 \<and>
    lib_state (CoreCalls (SrvProxy s)) = Some (Instance (SrvProxy s) \<noteq> None, Instance (SrvProxy s))"
  using system.run_invar [of cfg "Some (NewServer w cfg dataDir readError files, 0)" w es] assms NewServer_base
  by (simp add: system_inv_def base_inv_def proxy_inv_def)

section \<open>Witnesses\<close>

definition calm_world :: world where
  "calm_world =
     \<lparr>WClock = (\<lambda>k. int k), WDrop = (\<lambda>_. None), WSave = (\<lambda>_. smooth), WFetch = (\<lambda>_ _. Inl ''offline''),
      WCsvText = (\<lambda>_. ''bad csv''), WBatch = (\<lambda>_ _ _. Inl ''offline''), WProbeClock = (\<lambda>_ _. 0),
      WProbeDial = (\<lambda>_ _ _ _ _. Inl ''refused''), WConnect = (\<lambda>_. some_io), WTunnelClose = (\<lambda>_. (None, None)),
      WVerify = (\<lambda>_. Inr (200, Inr home_payload)), WReach = (\<lambda>_. Inl ''offline''),
      WRandom = (\<lambda>_ n. Inr (replicate n 7)), WCoreStart = (\<lambda>_ _. None), WCoreClose = (\<lambda>_. None),
      WCtxErr = (\<lambda>_. None), WAddrs = (\<lambda>_. Inr []), WOS = ''linux''\<rparr>"

definition empty_files :: store_files where
  "empty_files = \<lparr>StateFile = NoFile, TmpFile = NoFile\<rparr>"

definition fresh_server :: server where
  "fresh_server = NewServer calm_world some_gateway ''/data'' None empty_files"

definition some_request :: "string \<Rightarrow> string \<Rightarrow> request" where
  "some_request method path =
     \<lparr>ReqMethod = method, ReqPath = path, ReqCookie = None, ReqTLS = False, ReqToken = '''',
      ReqLogin = Inr (AuthUsername (Auth some_gateway), AuthPassword (Auth some_gateway)), ReqNodeID = ''''\<rparr>"

theorem unauthenticated_request_rejected_witness:
  "\<exists>t. run_state (Handler calm_world (some_request ''GET'' ''/api/nodes'')) fresh_server =
     (securityHeaders (writeError 401 ''login required''), t)"
proof -
  have "(ReqPath (some_request ''GET'' ''/api/nodes''), nodes_handler) \<in> set protectedRoutes"
    by (simp add: some_request_def protectedRoutes_def)
  moreover have "unauthenticated calm_world (some_request ''GET'' ''/api/nodes'') fresh_server"
    by (simp add: unauthenticated_def some_request_def)
  ultimately show ?thesis using unauthenticated_request_rejected by blast
qed

lemma fresh_server_simps: "SrvCfg fresh_server = some_gateway" "SrvSessions fresh_server = Map.empty"
proof -
  show "SrvCfg fresh_server = some_gateway"
    using NewServer_base by (simp add: fresh_server_def base_inv_def)
  show "SrvSessions fresh_server = Map.empty"
    by (simp add: fresh_server_def NewServer_def LoadState_def empty_files_def setNodes_def setSnapshot_def newState_def)
qed

lemma login_on_fresh:
  "\<exists>e. SrvSessions (snd (run_state (Handler calm_world (some_request ''POST'' ''/api/login'')) fresh_server))
     (hex_encode (replicate 32 7)) = Some e"
  by (simp add: Handler_def routes_def some_request_def login_def postOnly_def openLogin_def randomToken_def
      fresh_server_simps calm_world_def)

theorem sessions_from_login_only_witness:
  "\<exists>resp. RespStatus resp = 200 \<and>
     resp = fst (run_state (Handler calm_world (some_request ''POST'' ''/api/login'')) fresh_server)"
proof -
  let ?run = "run_state (Handler calm_world (some_request ''POST'' ''/api/login'')) fresh_server"
  have run: "run_events (serve calm_world) (Some (NewServer calm_world some_gateway ''/data'' None empty_files, 0)) [] =
      Some (fresh_server, 0)"
    by (simp add: fresh_server_def)
  have pair: "?run = (fst ?run, snd ?run)" by simp
  obtain e where e: "SrvSessions (snd ?run) (hex_encode (replicate 32 7)) = Some e"
    using login_on_fresh by blast
  have new: "SrvSessions fresh_server (hex_encode (replicate 32 7)) \<noteq> Some e"
    by (simp add: fresh_server_simps)
  from sessions_from_login_only [OF run pair e new] show ?thesis by blast
qed

definition cached_files :: store_files where
  "cached_files = \<lparr>StateFile = Stored (encoded [zero_node\<lparr>ID := ''n''\<rparr>] InitialSnapshot 0), TmpFile = NoFile\<rparr>"

lemma connect_event_runs:
  "\<exists>s k. run_events (serve calm_world) (Some (NewServer calm_world some_gateway ''/data'' None cached_files, 0))
     [StartCore, ConnectExit] = Some (s, k) \<and> length (SrvNodes s) = 1 \<and> SrvLogs s \<noteq> []"
proof -
  have "case run_events (serve calm_world) (Some (NewServer calm_world some_gateway ''/data'' None cached_files, 0))
      [StartCore, ConnectExit] of Some (s, k) \<Rightarrow> length (SrvNodes s) = 1 \<and> SrvLogs s \<noteq> [] | None \<Rightarrow> False"
    by code_simp
  then show ?thesis by (auto split: option.splits)
qed

theorem nodes_always_vetted_witness:
  "\<exists>s k. run_events (serve calm_world) (Some (NewServer calm_world some_gateway ''/data'' None cached_files, 0))
     [StartCore, ConnectExit] = Some (s, k) \<and> list_all vetted (SrvNodes s)"
  using connect_event_runs nodes_always_vetted by blast

theorem log_bounded_and_core_guarded_witness:
  "\<exists>s k. run_events (serve calm_world) (Some (NewServer calm_world some_gateway ''/data'' None cached_files, 0))
     [StartCore, ConnectExit] = Some (s, k) \<and> length (SrvLogs s) \<le> 300"
  using connect_event_runs log_bounded_and_core_guarded by blast

end
