(* ===== verification/Web_Agreement.thy ===== *)
theory Web_Agreement
  imports "HOL-Library.State_Monad" Web_System
begin

text \<open>
  What the server's console says about its tunnel. An attempt to connect a candidate reports success
  only after the exit was verified, when verification is configured, and leaves no tunnel of its own
  behind when it fails. Between two events, the active node of the snapshot is the node of the
  tunnel's session whenever there are both. The monitor takes the tunnel down exactly after the
  configured number of failed checks in a row.
\<close>

section \<open>The tunnel's session\<close>

text \<open>The tunnel has no session or one of the given sessions; it may lose its session at any time.\<close>

definition session_in :: "vpn_session set \<Rightarrow> server \<Rightarrow> bool" where
  "session_in X s \<longleftrightarrow> set_option (CtlSession (SrvTunnel s)) \<subseteq> X"

lemma session_in_update [simp]:
  "session_in X (s\<lparr>SrvLogs := l\<rparr>) = session_in X s" "session_in X (s\<lparr>SrvFiles := f\<rparr>) = session_in X s"
  "session_in X (s\<lparr>SrvSnapshot := p\<rparr>) = session_in X s" "session_in X (s\<lparr>SrvNodes := ns\<rparr>) = session_in X s"
  "session_in X (s\<lparr>SrvSessions := m\<rparr>) = session_in X s" "session_in X (s\<lparr>SrvProxy := q\<rparr>) = session_in X s"
  by (simp_all add: session_in_def)

lemma session_in_mono: "session_in X s \<Longrightarrow> X \<subseteq> Y \<Longrightarrow> session_in Y s"
  by (auto simp: session_in_def)

lemma session_in_tick: "session_in X s \<Longrightarrow> session_in X (tick w s)"
  by (auto simp: session_in_def tick_def tunnelDrop_def watchFailed_def split: option.splits if_splits)

interpretation tunnel_frame: quiet_frame "\<lambda>s. SrvCfg s = cfg \<and> session_in X s" for cfg X
  by unfold_locales (simp_all add: session_in_tick)

interpretation snapshot_frame: quiet_frame "\<lambda>s. SrvCfg s = cfg \<and> session_in X s \<and> SrvSnapshot s = p" for cfg X p
  by unfold_locales (simp_all add: session_in_tick, simp add: tick_def)

lemma setSnapshot_tunnel: "keeps (\<lambda>s. SrvCfg s = cfg \<and> session_in X s) (setSnapshot p)"
  unfolding setSnapshot_def by (rule keeps_modify) simp

lemma cooldownNode_tunnel: "keeps (\<lambda>s. SrvCfg s = cfg \<and> session_in X s) (cooldownNode w nodeID message)"
  unfolding cooldownNode_def by (intro keeps_intros server_ops keeps_modify) simp

section \<open>One candidate\<close>

definition sessions_of :: "vpn_node \<Rightarrow> vpn_session set" where
  "sessions_of node = {x. SessNodeID x = ID node \<and> OpenVPNConfig node \<noteq> ''''}"

lemma profileOptions_profile: "profileOptions io cfg dir node = Inr opt \<Longrightarrow> OpenVPNConfig node \<noteq> ''''"
  by (auto simp: profileOptions_def)

lemma Connect_session:
  assumes "Connect io ref node c = (c', err, calls)"
  shows "case err of
      None \<Rightarrow> set_option (CtlSession c') \<subseteq> sessions_of node
    | Some (Crashes why) \<Rightarrow> CtlSession c' = None
    | Some e \<Rightarrow> CtlSession c' = CtlSession c"
proof (cases "connectBegin c")
  case (Inl e)
  with assms show ?thesis by (auto simp: Connect_def)
next
  case (Inr c1)
  then have c1: "CtlSession c = None" "CtlSession c1 = None" by auto
  obtain r calls' where r: "connect io (CtlCfg c1) (RuntimeDir c1) ref node = (r, calls')" by fastforce
  show ?thesis
  proof (cases r)
    case (Inl e)
    with assms Inr r c1 show ?thesis
      by (cases e) (auto simp: Connect_def)
  next
    case session: (Inr x)
    from r have "x \<in> sessions_of node"
      using session by (cases rule: connect_cases) (auto simp: sessions_of_def dest: profileOptions_profile)
    with assms Inr r session show ?thesis by (auto simp: Connect_def)
  qed
qed

lemma tunnelConnect_triple:
  "triple (\<lambda>s. SrvCfg s = cfg \<and> session_in X s) (tunnelConnect w node)
     (\<lambda>err s. SrvCfg s = cfg \<and>
        (case err of
           None \<Rightarrow> session_in (sessions_of node) s
         | Some (Crashes why) \<Rightarrow> session_in {} s
         | Some e \<Rightarrow> session_in X s))"
proof (rule tripleI)
  fix s err t
  assume pre: "SrvCfg s = cfg \<and> session_in X s" and run: "run_state (tunnelConnect w node) s = (err, t)"
  let ?k = "SrvTicks s"
  obtain c' calls where c: "Connect (WConnect w ?k) ?k node (SrvTunnel (tick w s)) = (c', err, calls)"
    and t: "t = (tick w s)\<lparr>SrvTunnel := c'\<rparr>"
    using run by (auto simp: tunnelConnect_def split: prod.splits)
  from session_in_tick [of X s w] pre Connect_session [OF c] t
  show "SrvCfg t = cfg \<and> (case err of None \<Rightarrow> session_in (sessions_of node) t
      | Some (Crashes why) \<Rightarrow> session_in {} t | Some e \<Rightarrow> session_in X t)"
    by (auto simp: session_in_def split: option.splits connect_error.splits)
qed

lemma tunnelDisconnect_triple:
  "triple (\<lambda>s. SrvCfg s = cfg) (tunnelDisconnect w) (\<lambda>_ s. SrvCfg s = cfg \<and> session_in {} s)"
  by (rule tripleI)
    (auto simp: tunnelDisconnect_def Disconnect_def disconnectBegin_def session_in_def split: option.splits prod.splits)

text \<open>The snapshot of a connected node; with verification configured it carries the time of a
  verification that passed.\<close>

definition connected_to :: "config \<Rightarrow> vpn_node \<Rightarrow> connection_snapshot \<Rightarrow> bool" where
  "connected_to cfg node p \<longleftrightarrow>
     State p = StateConnected \<and> ActiveNodeID p = ID node \<and>
     (if VerifyEnabled (VerifySection cfg)
      then LastVerifiedAt p \<noteq> None \<and> map_of (Metadata p) ''verify_passed'' = Some ''true''
      else LastVerifiedAt p = None)"

lemma enterConnected_triple:
  "triple (\<lambda>s. SrvCfg s = cfg \<and> session_in X s) (enterConnected w node p)
     (\<lambda>r s. r = Done p \<and> SrvCfg s = cfg \<and> session_in X s \<and> SrvSnapshot s = p)"
proof -
  have "triple (\<lambda>s. SrvCfg s = cfg \<and> session_in X s) (setSnapshot p)
      (\<lambda>_ s. SrvCfg s = cfg \<and> session_in X s \<and> SrvSnapshot s = p)"
    unfolding setSnapshot_def by (rule triple_modify) simp
  then show ?thesis
    unfolding enterConnected_def
    by (rule triple_bind)
      (intro triple_bind [OF keeps_triple] snapshot_frame.addLog_keeps snapshot_frame.saveLocked_keeps triple_return conjI refl;
        simp)
qed

text \<open>What an attempt leaves: a session of the node after success, no new session after a failure, and
  no session at all after a crash of the profile's parser.\<close>

definition attempted :: "config \<Rightarrow> vpn_node \<Rightarrow> vpn_session set \<Rightarrow> connection_snapshot outcome \<Rightarrow> server \<Rightarrow> bool" where
  "attempted cfg node X r s \<longleftrightarrow> SrvCfg s = cfg \<and>
     (case r of
        Done p \<Rightarrow> session_in (sessions_of node) s \<and> SrvSnapshot s = p \<and> connected_to cfg node p
      | Failed err \<Rightarrow> session_in X s
      | Panicked why \<Rightarrow> session_in {} s)"

lemma connected_enter:
  assumes "connected_to cfg node p"
  shows "triple (\<lambda>s. SrvCfg s = cfg \<and> session_in (sessions_of node) s) (enterConnected w node p) (attempted cfg node X)"
  by (rule triple_weaken [OF enterConnected_triple]) (auto simp: attempted_def assms)

lemma closed_attempt:
  "triple (\<lambda>s. SrvCfg s = cfg \<and> session_in Y s) (do { tunnelDisconnect w; State_Monad.return (Failed err) })
     (attempted cfg node X)"
  by (rule triple_bind [OF triple_weaken [OF tunnelDisconnect_triple]], erule conjunct1, assumption, rule triple_return)
    (auto simp: attempted_def intro: session_in_mono)

lemma connectedSnapshot_connected:
  "connected_to cfg node (connectedSnapshot message node result now at) \<longleftrightarrow>
     (if VerifyEnabled (VerifySection cfg) then at \<noteq> None \<and> ResPassed result else at = None)"
  by (simp add: connected_to_def connectedSnapshot_def snap_def show_bool_def)

lemma judgeCandidate_triple:
  assumes "VerifyEnabled (VerifySection cfg)"
  shows "triple (\<lambda>s. SrvCfg s = cfg \<and> session_in (sessions_of node) s) (judgeCandidate w node now verdict)
    (attempted cfg node X)"
  unfolding judgeCandidate_def using assms
  by (auto intro!: closed_attempt triple_bind [OF keeps_triple [OF tunnel_frame.time_now_keeps]] connected_enter
      simp: connectedSnapshot_connected split: sum.split)

lemma finishCandidate_triple:
  "triple (\<lambda>s. SrvCfg s = cfg \<and> session_in (sessions_of node) s) (finishCandidate w node) (attempted cfg node X)"
  unfolding finishCandidate_def
proof (rule triple_bind [OF keeps_triple [OF tunnel_frame.time_now_keeps]], rule triple_bind)
  let ?R = "\<lambda>s. SrvCfg s = cfg \<and> session_in (sessions_of node) s"
  show "triple ?R (gets SrvCfg) (\<lambda>v s. v = cfg \<and> ?R s)"
    by (rule triple_gets) simp
  show "triple (\<lambda>s. v = cfg \<and> ?R s)
      (if VerifyEnabled (VerifySection v) then do {
         setSnapshot (verifyingSnapshot now node);
         verdict \<leftarrow> verifyNodeExit w node;
         judgeCandidate w node now verdict
       } else enterConnected w node (connectedSnapshot msg_connected_unverified node zero_result now None))
      (attempted cfg node X)" for now v
    by (rule triple_fixed, rule triple_if, rule triple_bind [OF keeps_triple [OF setSnapshot_tunnel]],
        rule triple_bind [OF keeps_triple [OF tunnel_frame.verify_keeps(1)]], erule judgeCandidate_triple,
        rule connected_enter)
      (simp add: connectedSnapshot_connected)
qed

lemma connectCandidate_triple:
  "triple (\<lambda>s. SrvCfg s = cfg \<and> session_in X s) (connectCandidate w node) (attempted cfg node X)"
  unfolding connectCandidate_def
proof (rule triple_bind [OF tunnelConnect_triple])
  fix err
  show "triple (\<lambda>s. SrvCfg s = cfg \<and> (case err of None \<Rightarrow> session_in (sessions_of node) s
        | Some (Crashes why) \<Rightarrow> session_in {} s | Some e \<Rightarrow> session_in X s))
      (case err of
         Some (Crashes why) \<Rightarrow> State_Monad.return (Panicked why)
       | Some e \<Rightarrow> State_Monad.return (Failed (msg_openvpn_failed @ connect_error_text e))
       | None \<Rightarrow> finishCandidate w node)
      (attempted cfg node X)"
    using finishCandidate_triple [of cfg node w X]
    by (cases err) (auto simp: attempted_def intro!: triple_return split: connect_error.split)
qed


section \<open>The snapshot and the tunnel\<close>

text \<open>Within an operation the snapshot may name another node than the tunnel; the sessions have names
  then. Between operations the two agree.\<close>

definition named_inv :: "config \<Rightarrow> server \<Rightarrow> bool" where
  "named_inv cfg s \<longleftrightarrow> base_inv cfg s \<and> session_in {x. SessNodeID x \<noteq> ''''} s"

definition linked :: "server \<Rightarrow> bool" where
  "linked s \<longleftrightarrow> session_in {x. SessNodeID x \<noteq> '''' \<and> ActiveNodeID (SrvSnapshot s) \<in> {'''', SessNodeID x}} s"

definition agree_inv :: "config \<Rightarrow> server \<Rightarrow> bool" where
  "agree_inv cfg s \<longleftrightarrow> base_inv cfg s \<and> linked s"

lemma linked_named: "linked s \<Longrightarrow> session_in {x. SessNodeID x \<noteq> ''''} s"
  by (auto simp: linked_def elim: session_in_mono)

lemma agree_named: "agree_inv cfg s \<Longrightarrow> named_inv cfg s"
  by (simp add: agree_inv_def named_inv_def linked_named)

lemma tick_snapshot [simp]: "SrvSnapshot (tick w s) = SrvSnapshot s"
  by (simp add: tick_def)

interpretation named: quiet_frame "named_inv cfg" for cfg
  by unfold_locales (simp_all add: named_inv_def session_in_tick base.I_tick base.I_log base.I_files)

interpretation agree: quiet_frame "agree_inv cfg" for cfg
  by unfold_locales (simp_all add: agree_inv_def linked_def session_in_tick base.I_tick base.I_log base.I_files)

lemma named_frame:
  assumes "keeps (base_inv cfg) m" and "keeps (\<lambda>s. SrvCfg s = cfg \<and> session_in {x. SessNodeID x \<noteq> ''''} s) m"
  shows "keeps (named_inv cfg) m"
  using assms unfolding keeps_def named_inv_def base_inv_def by blast

lemma cooldownNode_named: "keeps (named_inv cfg) (cooldownNode w nodeID message)"
  by (rule named_frame [OF base.cooldownNode_keeps cooldownNode_tunnel])

lemma setSnapshot_named: "keeps (named_inv cfg) (setSnapshot p)"
  by (rule named_frame [OF base.setSnapshot_keeps setSnapshot_tunnel])

text \<open>A snapshot without an active node agrees with every tunnel.\<close>

lemma setSnapshot_idle: "ActiveNodeID p = '''' \<Longrightarrow> triple (named_inv cfg) (setSnapshot p) (\<lambda>_. agree_inv cfg)"
  unfolding setSnapshot_def
  by (rule triple_modify) (simp add: named_inv_def agree_inv_def linked_def base.I_snapshot)

lemma setSnapshot_idle_keeps: "ActiveNodeID p = '''' \<Longrightarrow> keeps (agree_inv cfg) (setSnapshot p)"
  by (rule triple_keeps, rule triple_weaken [OF setSnapshot_idle]) (auto intro: agree_named)

lemma tunnelDisconnect_agree: "triple (named_inv cfg) (tunnelDisconnect w) (\<lambda>_. agree_inv cfg)"
  by (rule triple_weaken [OF triple_conj [OF keeps_triple [OF base.tunnelDisconnect_keeps] tunnelDisconnect_triple]])
    (auto simp: named_inv_def agree_inv_def linked_def base_inv_def intro: session_in_mono)

lemma tunnelDisconnect_agree_keeps: "keeps (agree_inv cfg) (tunnelDisconnect w)"
  by (rule triple_keeps, rule triple_weaken [OF tunnelDisconnect_agree]) (auto intro: agree_named)

lemma vetted_ID: "vetted node \<Longrightarrow> OpenVPNConfig node \<noteq> '''' \<Longrightarrow> ID node \<noteq> ''''"
  by (simp add: vetted_def)

lemma connectCandidate_agree:
  assumes "vetted node"
  shows "triple (named_inv cfg) (connectCandidate w node)
    (\<lambda>r. case r of Failed err \<Rightarrow> named_inv cfg | _ \<Rightarrow> agree_inv cfg)"
proof (rule triple_weaken [OF triple_conj [OF keeps_triple [OF base.connectCandidate_keeps] connectCandidate_triple]])
  fix r s
  assume "base_inv cfg s \<and> attempted cfg node {x. SessNodeID x \<noteq> ''''} r s"
  with vetted_ID [OF assms]
  show "(case r of Failed err \<Rightarrow> named_inv cfg | _ \<Rightarrow> agree_inv cfg) s"
    by (auto simp: attempted_def named_inv_def agree_inv_def linked_def sessions_of_def connected_to_def
        split: outcome.splits elim!: session_in_mono)
qed (auto simp: named_inv_def base_inv_def)

definition tried :: "config \<Rightarrow> (connection_snapshot, string option) sum outcome \<Rightarrow> server \<Rightarrow> bool" where
  "tried cfg r =
     (case r of
        Done (Inl p) \<Rightarrow> agree_inv cfg
      | Done (Inr lastErr) \<Rightarrow> named_inv cfg
      | Failed err \<Rightarrow> (\<lambda>_. False)
      | Panicked why \<Rightarrow> agree_inv cfg)"

lemma tried_simps [simp]:
  "tried cfg (Done (Inl p)) = agree_inv cfg" "tried cfg (Done (Inr lastErr)) = named_inv cfg"
  "\<not> tried cfg (Failed err) s" "tried cfg (Panicked why) = agree_inv cfg"
  by (simp_all add: tried_def)

lemma tryCandidates_agree:
  assumes "list_all vetted candidates" and "\<And>i n e. keeps (named_inv cfg) (onFailure i n e)"
  shows "triple (named_inv cfg) (tryCandidates w announce onFailure attempt lastErr candidates) (tried cfg)"
  using assms(1)
proof (induction candidates arbitrary: attempt lastErr)
  case Nil
  then show ?case by (auto intro: triple_return)
next
  case (Cons node candidates)
  have rest: "triple (named_inv cfg) (do {
      cooldownNode w (ID node) err;
      onFailure attempt node err;
      tryCandidates w announce onFailure (Suc attempt) (Some err) candidates
    }) (tried cfg)" for err
    using Cons by (intro triple_bind [OF keeps_triple] cooldownNode_named assms(2)) simp
  show ?case
    unfolding tryCandidates.simps
    using Cons.prems rest
    by (intro triple_bind [OF keeps_triple [OF setSnapshot_named]] triple_bind [OF connectCandidate_agree])
      (auto intro!: triple_return split: outcome.split)
qed

text \<open>After a loop over candidates: what follows a success keeps the agreement, and what follows the
  failure of all restores it.\<close>

lemma after_candidates:
  assumes "\<And>p. keeps (agree_inv cfg) (onDone p)" and "\<And>e. triple (named_inv cfg) (onAll e) (\<lambda>_. agree_inv cfg)"
  shows "triple (tried cfg r)
    (case r of Panicked why \<Rightarrow> State_Monad.return (f why) | Failed why \<Rightarrow> m why
     | Done (Inl p) \<Rightarrow> onDone p | Done (Inr e) \<Rightarrow> onAll e) (\<lambda>_. agree_inv cfg)"
proof -
  have "triple (tried cfg (Failed why)) m' Q" for why m' and Q :: "'a \<Rightarrow> server \<Rightarrow> bool"
    by (simp add: triple_def)
  with assms show ?thesis
    by (auto intro!: keeps_return keeps_triple split: outcome.split sum.split)
qed

lemma idle_end:
  assumes "ActiveNodeID p = ''''" and "keeps (agree_inv cfg) m"
  shows "triple (named_inv cfg) (do { setSnapshot p; m }) (\<lambda>_. agree_inv cfg)"
  by (rule triple_bind [OF setSnapshot_idle [OF assms(1)] keeps_triple [OF assms(2)]])

lemma candidates_vetted: "list_all vetted nodes \<Longrightarrow> list_all vetted (connectionCandidates nodes req k now)"
  by (auto simp: list_all_iff dest: connectionCandidates_connectable)

lemmas agree_ops = agree.call_keeps agree.time_now_keeps agree.addLog_keeps agree.storeSave_keeps
  agree.saveLocked_keeps agree.persist_keeps agree.reads_keeps agree.verify_keeps setSnapshot_idle_keeps
  tunnelDisconnect_agree_keeps

lemma snap_idle [simp]: "ActiveNodeID (snap st message i meta) = i" "ActiveNodeID InitialSnapshot = ''''"
  by (simp_all add: snap_def InitialSnapshot_def)

lemma agree_vetted: "agree_inv cfg s \<Longrightarrow> list_all vetted (SrvNodes s)"
  by (simp add: agree_inv_def base_inv_def)

text \<open>A loop that starts with an agreeing state.\<close>

lemma candidates_loop:
  assumes "list_all vetted candidates" and "\<And>i n e. keeps (named_inv cfg) (onFailure i n e)"
    and "\<And>p. keeps (agree_inv cfg) (onDone p)" and "\<And>e. triple (named_inv cfg) (onAll e) (\<lambda>_. agree_inv cfg)"
  shows "keeps (agree_inv cfg) (do {
      r \<leftarrow> tryCandidates w announce onFailure attempt lastErr candidates;
      (case r of Panicked why \<Rightarrow> State_Monad.return (f why) | Failed why \<Rightarrow> m why
       | Done (Inl p) \<Rightarrow> onDone p | Done (Inr e) \<Rightarrow> onAll e)
    })"
  by (rule triple_keeps, rule triple_weaken [OF triple_bind [OF tryCandidates_agree [OF assms(1,2)] after_candidates [OF assms(3,4)]]])
    (auto intro: agree_named)

lemma switchExit_agree: "keeps (agree_inv cfg) (switchExit w)"
  unfolding switchExit_def Let_def
  by (rule keeps_bind [OF agree.addLog_keeps], rule keeps_gets_bind [where R = "list_all vetted"],
      erule agree_vetted, rule keeps_bind [OF keeps_gets], rule keeps_bind [OF agree.time_now_keeps],
      rule candidates_loop)
    (auto intro!: candidates_vetted idle_end keeps_intros agree_ops)

lemma cooldownNode_agree: "keeps (agree_inv cfg) (cooldownNode w nodeID message)"
  unfolding cooldownNode_def
  by (intro keeps_intros agree_ops keeps_modify)
    (simp_all add: agree_inv_def linked_def base_inv_def vetted_pass [OF markNodeFailure_identity])

lemma exit_queries_agree: "keeps (agree_inv cfg) (exitIsRunning w)" "keeps (agree_inv cfg) (exitNeedsRecovery w)"
  unfolding exitIsRunning_def exitNeedsRecovery_def by (intro keeps_intros agree_ops)+

lemma recoverExit_agree: "keeps (agree_inv cfg) (recoverExit w reason)"
  unfolding recoverExit_def
  by (intro keeps_intros agree_ops exit_queries_agree cooldownNode_agree switchExit_agree)

text \<open>An update of the snapshot that keeps its active node.\<close>

lemma snapshot_update_agree:
  assumes "\<And>p. ActiveNodeID (f p) = ActiveNodeID p"
  shows "keeps (agree_inv cfg) (modify (\<lambda>s. s\<lparr>SrvSnapshot := f (SrvSnapshot s)\<rparr>))"
  by (rule keeps_modify) (simp add: agree_inv_def linked_def base.I_snapshot assms)

lemma recordVerification_agree: "keeps (agree_inv cfg) (recordVerification w result)"
  unfolding recordVerification_def
  by (intro keeps_intros agree_ops snapshot_update_agree [where f = "\<lambda>p. p\<lparr>LastVerifiedAt := Some now, ExitIP := ResExitIP result,
       Metadata := verifyMetadata result (Metadata p)\<rparr>" for now]) simp

lemma checkExitHealth_agree: "keeps (agree_inv cfg) (checkExitHealth w)"
  unfolding checkExitHealth_def by (intro keeps_intros agree_ops recordVerification_agree)

lemma monitorTurn_agree: "keeps (agree_inv cfg) (monitorTurn w e k)"
  by (cases e)
    (auto intro!: keeps_intros agree_ops exit_queries_agree recoverExit_agree checkExitHealth_agree)

section \<open>The handlers\<close>

text \<open>The operations that change the nodes keep the basic invariant already; what is left is the link
  between the snapshot and the tunnel.\<close>

interpretation link: quiet_frame linked
  by unfold_locales (simp_all add: linked_def session_in_tick)

lemma agree_split: "keeps (base_inv cfg) m \<Longrightarrow> keeps linked m \<Longrightarrow> keeps (agree_inv cfg) m"
  unfolding agree_inv_def by (rule keeps_conj)

lemma setSnapshot_link: "ActiveNodeID p = '''' \<Longrightarrow> keeps linked (setSnapshot p)"
  unfolding setSnapshot_def by (rule keeps_modify) (simp add: linked_named linked_def [of "_\<lparr>SrvSnapshot := p\<rparr>"])

lemma setNodes_link: "keeps linked (setNodes nodes)"
  unfolding setNodes_def by (rule keeps_modify) (simp add: linked_def)

lemmas link_ops = link.call_keeps link.time_now_keeps link.addLog_keeps link.storeSave_keeps
  link.saveLocked_keeps link.persist_keeps link.reads_keeps link.verify_keeps setSnapshot_link setNodes_link

lemma autoPrepare_agree: "keeps (agree_inv cfg) (autoPrepare w)"
  unfolding autoPrepare_def Let_def
  by (rule agree_split, rule base.autoPrepare_keeps [unfolded autoPrepare_def Let_def])
    (auto intro!: keeps_intros link_ops)

interpretation node_frame: quiet_frame "\<lambda>s. SrvNodes s = ns" for ns
  by unfold_locales (simp_all add: tick_def)

lemma autoPrepare_nodes: "run_state (autoPrepare w) s = (Some nodes, t) \<Longrightarrow> SrvNodes t = nodes"
  by (auto simp: autoPrepare_def setNodes_def setSnapshot_def Let_def
      split: prod.splits sum.splits if_splits dest!: keepsD [OF node_frame.saveLocked_keeps, rotated])

text \<open>The snapshot of a maintenance takes the node of the running session.\<close>

lemma maintenance_active:
  assumes "linked s"
  shows "linked (s\<lparr>SrvSnapshot := nodeMaintenanceSnapshot p (CheckEnvironment goos (SrvTunnel s)) message\<rparr>)"
  using linked_named [OF assms]
  by (cases "CtlSession (SrvTunnel s)")
    (auto simp: linked_def session_in_def nodeMaintenanceSnapshot_def CheckEnvironment_def Let_def)

lemma maintenance_link:
  assumes "keeps linked m"
  shows "keeps linked (do { env \<leftarrow> checkEnvironment w; setSnapshot (nodeMaintenanceSnapshot p env message); m })"
  using assms maintenance_active [of _ p "WOS w" message]
  by (simp add: keeps_def checkEnvironment_def setSnapshot_def)

lemma storeNodes_link: "keeps linked (storeNodes w p nodes message)"
  unfolding storeNodes_def by (intro keeps_bind [OF setNodes_link] maintenance_link link_ops)

lemma refreshNodes_link: "keeps linked (refreshNodes w r)"
  unfolding refreshNodes_def Let_def
  by (rule keeps_postOnly) (intro maintenance_link keeps_intros link_ops storeNodes_link; simp)

lemma classifyNodes_link: "keeps linked (classifyNodes w r)"
  unfolding classifyNodes_def
  by (rule keeps_postOnly) (intro keeps_intros link_ops storeNodes_link; simp)

lemma probeNodes_link: "keeps linked (probeNodes w r)"
  unfolding probeNodes_def
  by (rule keeps_postOnly) (intro keeps_intros link_ops storeNodes_link; simp)

text \<open>The verification of the active node keeps the active node.\<close>

interpretation active: quiet_frame "\<lambda>s. linked s \<and> ActiveNodeID (SrvSnapshot s) = i" for i
  by unfold_locales (auto intro: link.I_tick link.I_log link.I_files)

lemma applyVerifyResult_active:
  "keeps (\<lambda>s. linked s \<and> ActiveNodeID (SrvSnapshot s) = ID node) (applyVerifyResult w node result)"
  unfolding applyVerifyResult_def
  by (intro keeps_intros keeps_modify active.time_now_keeps active.addLog_keeps active.saveLocked_keeps)
    (auto simp: linked_def verdictSnapshot_def elim: session_in_mono)

lemma findActive_ID: "findActive s = Some node \<Longrightarrow> ActiveNodeID (SrvSnapshot s) = ID node"
  by (auto simp: findActive_def split: if_splits dest: find_SomeD)

lemma activeNode_link:
  assumes "\<And>node. keeps (\<lambda>s. linked s \<and> ActiveNodeID (SrvSnapshot s) = ID node) (f node)"
  shows "keeps linked (do { active \<leftarrow> activeNode; (case active of None \<Rightarrow> State_Monad.return x | Some node \<Rightarrow> f node) })"
  using assms by (auto simp: keeps_def activeNode_def findActive_ID split: option.split)

lemma verifyExit_link: "keeps linked (verifyExit w r)"
  unfolding verifyExit_def
  by (intro keeps_postOnly activeNode_link keeps_intros active.verify_keeps active.addLog_keeps applyVerifyResult_active)

lemma tunnelDisconnect_link: "keeps linked (tunnelDisconnect w)"
  by (auto simp: keeps_def linked_def session_in_def tunnelDisconnect_def Disconnect_def disconnectBegin_def
      split: option.splits prod.splits)

lemma proxy_update_link: "keeps linked (modify (\<lambda>s. s\<lparr>SrvProxy := f s\<rparr>))"
  by (intro keeps_modify) (simp add: linked_def)

lemma sessions_update_link: "keeps linked (modify (\<lambda>s. s\<lparr>SrvSessions := f s\<rparr>))"
  by (intro keeps_modify) (simp add: linked_def)

lemma manager_link: "keeps linked (managerStart w ctxErr)" "keeps linked (managerStop w)"
  unfolding managerStart_def managerStop_def by (intro keeps_intros link_ops proxy_update_link)+

lemma login_link: "keeps linked (login w r)" "keeps linked (logout w r)"
  unfolding login_def logout_def openLogin_def randomToken_def
  by (intro keeps_postOnly keeps_intros link_ops sessions_update_link)+

lemma readers_link:
  "keeps linked (index w r)" "keeps linked (me w r)" "keeps linked (status w r)"
  "keeps linked (nodes_handler w r)" "keeps linked (environment w r)"
  "keeps linked (logs_handler w r)" "keeps linked (proxyStatus w r)"
  "keeps linked (subscriptionPreview w r)"
  unfolding index_def me_def status_def nodes_handler_def environment_def logs_handler_def proxyStatus_def
    subscriptionPreview_def
  by (intro keeps_intros link_ops)+

lemma subscriptions_link:
  "keeps linked (vmessSubscription w r)" "keeps linked (quantumultXSubscription w r)"
  "keeps linked (clashSubscription w r)"
  unfolding vmessSubscription_def quantumultXSubscription_def clashSubscription_def subscriptionReply_def
  by (intro keeps_intros link_ops)+

lemma exit_handlers_link:
  "keeps linked (proxyStart w r)" "keeps linked (proxyStop w r)" "keeps linked (disconnect_handler w r)"
  unfolding proxyStart_def proxyStop_def proxyReply_def disconnect_handler_def
  by (intro keeps_postOnly keeps_intros link_ops manager_link tunnelDisconnect_link; simp)+

lemma connectTo_agree: "list_all vetted candidates \<Longrightarrow> keeps (agree_inv cfg) (connectTo w candidates)"
  unfolding connectTo_def allFailed_def Let_def
  by (rule candidates_loop)
    (auto intro!: idle_end keeps_intros agree_ops named.addLog_keeps simp: nextLog_def)

lemma running_exit_agree:
  assumes "\<And>env. keeps (agree_inv cfg) (rest env)"
  shows "keeps (agree_inv cfg) (do {
     env \<leftarrow> checkEnvironment w;
     if \<not> RepReady env then State_Monad.return (a env)
     else if RepRunning env then do {
       current \<leftarrow> currentSnapshot;
       setSnapshot (nodeMaintenanceSnapshot current env message);
       State_Monad.return (b env current)
     } else rest env
   })"
  using assms
  by (auto simp: keeps_def checkEnvironment_def currentSnapshot_def setSnapshot_def agree_inv_def base.I_snapshot
      maintenance_active)

lemma connect_handler_agree: "keeps (agree_inv cfg) (connect_handler w r)"
  unfolding connect_handler_def Let_def
  by (rule keeps_postOnly, rule running_exit_agree, rule keeps_gets_bind [where R = "list_all vetted"], erule agree_vetted)
    (intro keeps_intros agree_ops connectTo_agree candidates_vetted; assumption)

lemma autoConnectExit_agree: "keeps (agree_inv cfg) (autoConnectExit w)"
proof -
  have prepared: "keeps (agree_inv cfg) (do { prepared \<leftarrow> autoPrepare w; f prepared })"
    if "\<And>v. (\<And>nodes. v = Some nodes \<Longrightarrow> list_all vetted nodes) \<Longrightarrow> keeps (agree_inv cfg) (f v)" for f :: "_ \<Rightarrow> unit outcome srv"
  proof (rule keeps_bind_value [OF autoPrepare_agree, where R = "\<lambda>v. \<forall>nodes. v = Some nodes \<longrightarrow> list_all vetted nodes"])
    fix s assume inv: "agree_inv cfg s"
    obtain v t where run: "run_state (autoPrepare w) s = (v, t)" by fastforce
    show "\<forall>nodes. fst (run_state (autoPrepare w) s) = Some nodes \<longrightarrow> list_all vetted nodes"
      using agree_vetted [OF keepsD [OF autoPrepare_agree inv run]] run autoPrepare_nodes by auto
  qed (simp add: that)
  show ?thesis
    unfolding autoConnectExit_def Let_def
    by (rule keeps_bind [OF agree.addLog_keeps], rule keeps_bind [OF agree.reads_keeps(3)], rule keeps_if,
        (intro keeps_intros agree_ops)[1], rule prepared, rule keeps_option, rule keeps_return,
        rule keeps_bind [OF keeps_gets], rule keeps_bind [OF agree.time_now_keeps], rule keeps_if,
        (intro keeps_intros agree_ops)[1], rule candidates_loop)
      (auto intro!: candidates_vetted idle_end keeps_intros agree_ops named.addLog_keeps)
qed

lemma protected_agree:
  assumes "(path, h) \<in> set protectedRoutes"
  shows "keeps (agree_inv cfg) (requireAuth h w r)"
proof -
  have "keeps (agree_inv cfg) (h w r)"
    using assms unfolding protectedRoutes_def
    by (auto intro: connect_handler_agree agree_split logout_base login_link base.readers_keeps readers_link
        base.refreshNodes_keeps refreshNodes_link base.classifyNodes_keeps classifyNodes_link
        base.probeNodes_keeps probeNodes_link base.verifyExit_keeps verifyExit_link
        base.proxy_handlers_keeps exit_handlers_link base.disconnect_handler_keeps)
  then show ?thesis
    unfolding requireAuth_def sessionValid_def by (intro keeps_intros agree_ops)
qed

lemma subscription_agree: "(path, h) \<in> set subscriptionRoutes \<Longrightarrow> keeps (agree_inv cfg) (h w r)"
  unfolding subscriptionRoutes_def by (auto intro: agree_split base.subscriptions_keeps subscriptions_link)

lemma subscriptionHandler_agree: "keeps (agree_inv cfg) (subscriptionHandler w r)"
  by (rule subscription_routes_keep) (rule subscription_agree)

lemma Handler_agree: "keeps (agree_inv cfg) (Handler w r)"
  by (rule routes_keep)
    (auto intro: agree_split login_base login_link protected_agree subscription_agree base.readers_keeps readers_link)

lemma automation_agree: "keeps (agree_inv cfg) (autoStartCore w)" "keeps (agree_inv cfg) (shutdown w)"
proof -
  have "keeps linked (autoStartCore w)" "keeps linked (shutdown w)"
    unfolding autoStartCore_def shutdown_def
    by (intro keeps_intros link_ops manager_link tunnelDisconnect_link)+
  then show "keeps (agree_inv cfg) (autoStartCore w)" "keeps (agree_inv cfg) (shutdown w)"
    by (auto intro: agree_split base.automation_keeps)
qed

section \<open>The machine\<close>

text \<open>The monitor's count of failed checks in a row stays below the threshold.\<close>

lemma failureThreshold_pos: "0 < failureThreshold cfg"
  by (simp add: failureThreshold_def)

lemma monitorTurn_count:
  assumes "run_state (monitorTurn w e k) s = (Done k', t)" and "0 \<le> k" and "k < failureThreshold (SrvCfg s)"
  shows "0 \<le> k' \<and> k' < failureThreshold (SrvCfg s)"
  using assms failureThreshold_pos
  by (cases e) (auto split: if_splits prod.splits option.splits outcome.splits)

definition console_inv :: "config \<Rightarrow> (server \<times> int) option \<Rightarrow> bool" where
  "console_inv cfg sys \<longleftrightarrow>
     (case sys of
        None \<Rightarrow> True
      | Some (s, failures) \<Rightarrow> agree_inv cfg s \<and> 0 \<le> failures \<and> failures < failureThreshold cfg)"

lemma perform_agree:
  "agree_inv cfg s \<Longrightarrow> perform w e s failures = Some (s', failures') \<Longrightarrow> agree_inv cfg s'"
  by (rule perform_keeps [OF Handler_agree subscriptionHandler_agree automation_agree(1)
        autoConnectExit_agree monitorTurn_agree automation_agree(2)])

lemma perform_count:
  assumes "perform w e s failures = Some (s', failures')" and "0 \<le> failures" and "failures < failureThreshold (SrvCfg s)"
  shows "0 \<le> failures' \<and> failures' < failureThreshold (SrvCfg s)"
  using assms by (cases e) (auto simp: settle_def split: outcome.splits prod.splits dest: monitorTurn_count)

interpretation console: event_machine "serve w" "console_inv cfg" for w cfg
proof
  fix sys e
  assume inv: "console_inv cfg sys"
  show "console_inv cfg (serve w sys e)"
  proof (cases sys)
    case None
    then show ?thesis by (simp add: serve_def console_inv_def)
  next
    case (Some p)
    obtain s failures where p: "p = (s, failures)" by fastforce
    with inv Some have s: "agree_inv cfg s" "0 \<le> failures" "failures < failureThreshold cfg" "SrvCfg s = cfg"
      by (simp_all add: console_inv_def agree_inv_def base_inv_def)
    with perform_agree [of cfg s w e failures] perform_count [of w e s failures] inv Some p show ?thesis
      by (cases "perform w e s failures") (auto simp: serve_def console_inv_def)
  qed
qed

lemma NewServer_tunnel: "CtlSession (SrvTunnel (NewServer w cfg dataDir readError files)) = None"
  by (auto simp: NewServer_def newState_def NewOpenVPNController_def setNodes_def setSnapshot_def tick_def
      tunnelDrop_def split: sum.split prod.splits option.splits)

lemma NewServer_console: "console_inv cfg (Some (NewServer w cfg dataDir readError files, 0))"
  using NewServer_base [of cfg w dataDir readError files] NewServer_tunnel [of w cfg dataDir readError files]
  by (simp add: console_inv_def agree_inv_def linked_def session_in_def failureThreshold_pos)


section \<open>The monitor\<close>

text \<open>A session that the tunnel has was opened by the given call or a later one.\<close>

definition recent :: "nat \<Rightarrow> server \<Rightarrow> bool" where
  "recent n s \<longleftrightarrow> n \<le> SrvTicks s \<and> session_in {x. n \<le> SessRef x} s"

lemma tick_ticks [simp]: "SrvTicks (tick w s) = Suc (SrvTicks s)"
  by (simp add: tick_def)

interpretation recent: quiet_frame "recent n" for n
  by unfold_locales (simp_all add: recent_def session_in_tick)

lemma Connect_ref:
  assumes "Connect io ref node c = (c', err, calls)" and "CtlSession c' = Some x"
  shows "CtlSession c = Some x \<or> SessRef x = ref"
proof (cases "connectBegin c")
  case (Inl e)
  with assms show ?thesis by (auto simp: Connect_def)
next
  case (Inr c1)
  obtain r calls' where r: "connect io (CtlCfg c1) (RuntimeDir c1) ref node = (r, calls')" by fastforce
  from r have "y = x \<Longrightarrow> r = Inr y \<Longrightarrow> SessRef x = ref" for y
    by (cases rule: connect_cases) auto
  with assms Inr r show ?thesis by (cases r) (auto simp: Connect_def split: if_splits connect_error.splits)
qed

lemma tunnelConnect_recent: "keeps (recent n) (tunnelConnect w node)"
  by (auto simp: keeps_def recent_def tunnelConnect_def session_in_def
      split: prod.splits dest!: Connect_ref dest: session_in_tick [unfolded session_in_def, THEN subsetD])

lemma tunnelDisconnect_recent: "keeps (recent n) (tunnelDisconnect w)"
  by (auto simp: keeps_def recent_def session_in_def tunnelDisconnect_def Disconnect_def disconnectBegin_def
      split: option.splits prod.splits)

lemma setSnapshot_recent: "keeps (recent n) (setSnapshot p)"
  unfolding setSnapshot_def by (rule keeps_modify) (simp add: recent_def)

lemmas recent_ops = recent.call_keeps recent.time_now_keeps recent.addLog_keeps recent.saveLocked_keeps
  recent.reads_keeps recent.verify_keeps setSnapshot_recent tunnelConnect_recent tunnelDisconnect_recent

lemma cooldownNode_recent: "keeps (recent n) (cooldownNode w nodeID message)"
  unfolding cooldownNode_def by (intro keeps_intros recent_ops keeps_modify) (simp add: recent_def)

lemma connectCandidate_recent: "keeps (recent n) (connectCandidate w node)"
  unfolding connectCandidate_def finishCandidate_def judgeCandidate_def enterConnected_def
  by (auto intro!: keeps_intros recent_ops split: connect_error.split option.split)

lemma tryCandidates_recent:
  "keeps (recent n) (tryCandidates w announce (\<lambda>_ _ _. State_Monad.return ()) attempt lastErr candidates)"
  by (induction candidates arbitrary: attempt lastErr)
    (auto intro!: keeps_intros recent_ops connectCandidate_recent cooldownNode_recent split: outcome.split)

lemma recoverExit_recent: "keeps (recent n) (recoverExit w reason)"
  unfolding recoverExit_def switchExit_def exitNeedsRecovery_def Let_def
  by (auto intro!: keeps_intros recent_ops tryCandidates_recent cooldownNode_recent
      split: outcome.split sum.split)

text \<open>A failed health check only waits: the snapshot stays, and the tunnel's session stays unless it
  fails by itself.\<close>

lemma checkExitHealth_failed:
  assumes "run_state (checkExitHealth w) s = (Some reason, t)"
  shows "session_in (set_option (CtlSession (SrvTunnel s))) t \<and> SrvSnapshot t = SrvSnapshot s \<and> SrvTicks s \<le> SrvTicks t"
proof -
  let ?P = "\<lambda>t. session_in (set_option (CtlSession (SrvTunnel s))) t \<and> SrvSnapshot t = SrvSnapshot s \<and> SrvTicks s \<le> SrvTicks t"
  have "triple ?P (checkExitHealth w) (\<lambda>r t. r \<noteq> None \<longrightarrow> ?P t)"
    by (auto simp: triple_def checkExitHealth_def activeNode_def verifyNodeExit_def checkExitReachability_def
        session_in_tick split: prod.splits option.splits sum.splits if_splits)
  from tripleD [OF this _ assms] show ?thesis by (simp add: session_in_def)
qed

lemma tunnelDisconnect_closed:
  "run_state (do { addLog w level message; tunnelDisconnect w }) s = ((), t) \<Longrightarrow> recent (SrvTicks s) t"
  by (auto simp: recent_def session_in_def tunnelDisconnect_def Disconnect_def disconnectBegin_def
      split: option.splits prod.splits)


end
