(* ===== verification/Web_Example.thy ===== *)
theory Web_Example
  imports "HOL-Library.State_Monad" Web_Agreement
begin

text \<open>
  A complete run of the server in a small world: the listing has one node, the automatic start
  fetches, probes, connects and verifies it, and afterwards the exit stops answering. The run gives
  the properties of the whole server concrete instances in which a tunnel is up.
\<close>

section \<open>The world\<close>

definition gate_profile :: string where
  "gate_profile = join newline [''proto tcp'', ''remote 1.2.3.4 443'', ''cipher AES-128-CBC'', ''auth SHA1'']"

definition gate_csv :: string where
  "gate_csv = join newline
     [''*vpn_servers'', ''#HostName,IP,CountryShort,OpenVPN_ConfigData_Base64'',
      ''vpn1,1.2.3.4,jp,cHJvdG8gdGNwCnJlbW90ZSAxLjIuMy40IDQ0MwpjaXBoZXIgQUVTLTEyOC1DQkMKYXV0aCBTSEEx'', ''*'', '''']"

definition gate_node :: vpn_node where
  "gate_node = zero_node\<lparr>ID := ''JP_1.2.3.4_443_tcp'', IP := ''1.2.3.4'', RemoteHost := ''1.2.3.4'',
     RemotePort := 443, Protocol := ''tcp'', CountryCode := ''JP'', PurityGrade := PurityCandidate,
     Status := NodeUnknown, OpenVPNConfig := gate_profile\<rparr>"

definition gate_config :: config where
  "gate_config = some_gateway\<lparr>Classifier := (Classifier some_gateway)\<lparr>ClassifierEnabled := False\<rparr>\<rparr>"

text \<open>The exit answers until the given call.\<close>

definition gate_world :: "nat \<Rightarrow> world" where
  "gate_world n = calm_world\<lparr>WFetch := (\<lambda>_ _. Inr (200, gate_csv)), WProbeDial := (\<lambda>_ _ _ _ _. Inr 20000000),
     WVerify := (\<lambda>k. if k < n then Inr (200, Inr home_payload) else Inl ''timeout'')\<rparr>"

definition probed_node :: vpn_node where
  "probed_node = gate_node\<lparr>LatencyMS := Some 20, ProbeAttempts := 3, ProbeSuccesses := 3, Status := NodeAvailable,
     LastCheckedAt := Some 0\<rparr>"

section \<open>The parts\<close>

lemma gate_fetch: "ParseVPNGateCSV gate_csv = Inr [gate_node]"
  by code_simp

lemma gate_probe:
  "Probe \<lparr>ProbeTimeout = 3000000000, MaxConcurrency = 64, Samples = 3\<rparr> (\<lambda>_. 0) (\<lambda>_ _ _ _. Inr 20000000) [gate_node] = [probed_node]"
  by code_simp

definition gate_session :: "nat \<Rightarrow> vpn_session" where
  "gate_session ref =
     \<lparr>SessRef = ref, SessNodeID = ''JP_1.2.3.4_443_tcp'', SessLocalIP = ''10.8.0.2'', SessGateway = ''10.8.0.1'',
      SessDNS = [Addr4 [1, 1, 1, 1], Addr4 [8, 8, 8, 8]], SessMTU = 1420, PacketsOut = 0, PacketsIn = 0,
      BytesOut = 0, BytesIn = 0\<rparr>"

lemma gate_connect:
  "fst (connect some_io (OpenVPN gate_config) ''/data/runtime'' ref probed_node) = Inr (gate_session ref)"
  by code_simp

lemma gate_tunnel:
  assumes "CtlSession c = None" and "\<not> Connecting c" and "CtlCfg c = OpenVPN gate_config"
    and "RuntimeDir c = ''/data/runtime''"
  shows "\<exists>calls. Connect some_io ref probed_node c =
    (c\<lparr>Connecting := False, CtlLastError := '''', CtlSession := Some (gate_session ref)\<rparr>, None, calls)"
  using gate_connect [of ref] assms
  by (cases "connect some_io (OpenVPN gate_config) ''/data/runtime'' ref probed_node")
    (simp add: Connect_def connectBegin_def connectEnd_def)

lemma gate_verify:
  "\<exists>result. Verify (Inr (200, Inr home_payload)) probed_node = Inr result \<and> ResPassed result"
proof -
  have "case Verify (Inr (200, Inr home_payload)) probed_node of Inr result \<Rightarrow> ResPassed result | Inl _ \<Rightarrow> False"
    by code_simp
  then show ?thesis by (auto split: sum.splits)
qed

lemma gate_candidates:
  "connectionCandidates [probed_node] '''' 5 now = [probed_node]"
proof -
  have "connectable probed_node now" by code_simp
  then show ?thesis by (simp add: connectionCandidates_def insertion_sort_def)
qed

lemma gate_settings:
  "AutoConnectExit (Deployment gate_config)" "ClassifierEnabled (Classifier gate_config) = False"
  "VPNGateMaxNodes (VPNGate gate_config) = 300" "ProbeTimeoutMS (ProbeSection gate_config) = 3000"
  "ProbeMaxConcurrency (ProbeSection gate_config) = 64" "ProbeSamples (ProbeSection gate_config) = 3"
  "MaxAttempts (FailoverSection gate_config) = 5" "failureThreshold gate_config = 2"
  "VerifyEnabled (VerifySection gate_config)"
  by code_simp+

section \<open>The run\<close>

lemma gate_world_simps:
  "WFetch (gate_world n) = (\<lambda>_ _. Inr (200, gate_csv))" "WProbeDial (gate_world n) = (\<lambda>_ _ _ _ _. Inr 20000000)"
  "WVerify (gate_world n) = (\<lambda>k. if k < n then Inr (200, Inr home_payload) else Inl ''timeout'')"
  "WClock (gate_world n) = int" "WDrop (gate_world n) = (\<lambda>_. None)" "WSave (gate_world n) = (\<lambda>_. smooth)"
  "WProbeClock (gate_world n) = (\<lambda>_ _. 0)" "WConnect (gate_world n) = (\<lambda>_. some_io)"
  "WReach (gate_world n) = (\<lambda>_. Inl ''offline'')" "WOS (gate_world n) = ''linux''"
  by (simp_all add: gate_world_def calm_world_def fun_eq_iff)

definition gate_start :: "nat \<Rightarrow> server" where
  "gate_start n = NewServer (gate_world n) gate_config ''/data'' None empty_files"

lemma gate_tick [simp]: "tick (gate_world n) s = s\<lparr>SrvTicks := Suc (SrvTicks s)\<rparr>"
  by (simp add: tick_def tunnelDrop_def gate_world_simps)

lemma gate_start_fields:
  "SrvCfg (gate_start n) = gate_config" "SrvNodes (gate_start n) = []" "SrvTicks (gate_start n) = 2"
  "SrvTunnel (gate_start n) = NewOpenVPNController (OpenVPN gate_config) ''/data''"
  by (simp_all add: gate_start_def NewServer_def newState_def LoadState_def empty_files_def setNodes_def setSnapshot_def)

lemma smooth_save:
  "run_state (storeSave (gate_world n)) s =
    (None, s\<lparr>SrvTicks := Suc (Suc (SrvTicks s)), SrvFiles := fst (SaveState smooth (SrvNodes s) (SrvSnapshot s)
       (int (SrvTicks s)) (SrvFiles s))\<rparr>)"
  by (simp add: storeSave_def gate_world_simps SaveState_def save_steps_def smooth_def)

lemma smooth_saveLocked:
  "run_state (saveLocked (gate_world n)) s =
    ((), s\<lparr>SrvTicks := Suc (Suc (SrvTicks s)), SrvFiles := fst (SaveState smooth (SrvNodes s) (SrvSnapshot s)
       (int (SrvTicks s)) (SrvFiles s))\<rparr>)"
  by (simp add: saveLocked_def smooth_save)

lemma gate_prepare:
  assumes "SrvCfg s = gate_config" and "SrvNodes s = []"
  shows "\<exists>t. run_state (autoPrepare (gate_world n)) s = (Some [probed_node], t) \<and> SrvCfg t = gate_config \<and>
    SrvNodes t = [probed_node] \<and> SrvTunnel t = SrvTunnel s \<and> SrvTicks t = SrvTicks s + 5"
  using assms
  by (simp add: autoPrepare_def gate_settings Fetch_def gate_fetch gate_probe gate_world_simps setSnapshot_def setNodes_def
      preserveNodeCooldowns_def cooldownsByID_def Let_def smooth_saveLocked wrap64_def)

lemma gate_candidate:
  assumes "SrvCfg s = gate_config" and "SrvTunnel s = NewOpenVPNController (OpenVPN gate_config) ''/data''"
    and "SrvTicks s + 2 < n"
  shows "\<exists>p t. run_state (connectCandidate (gate_world n) probed_node) s = (Done p, t) \<and> SrvCfg t = gate_config \<and>
    SrvNodes t = SrvNodes s \<and> CtlSession (SrvTunnel t) = Some (gate_session (SrvTicks s)) \<and>
    SrvSnapshot t = p \<and> SrvTicks t = SrvTicks s + 7 \<and> State p = StateConnected \<and> ActiveNodeID p = ID probed_node"
proof -
  obtain result where result: "Verify (Inr (200, Inr home_payload)) probed_node = Inr result" "ResPassed result"
    using gate_verify by blast
  have idle: "CtlSession (SrvTunnel s) = None" "\<not> Connecting (SrvTunnel s)" "CtlCfg (SrvTunnel s) = OpenVPN gate_config"
    "RuntimeDir (SrvTunnel s) = ''/data/runtime''"
    unfolding assms(2) by code_simp+
  obtain calls where up: "Connect some_io (SrvTicks s) probed_node (SrvTunnel s) =
      ((SrvTunnel s)\<lparr>Connecting := False, CtlLastError := '''', CtlSession := Some (gate_session (SrvTicks s))\<rparr>, None, calls)"
    using gate_tunnel [OF idle] by blast
  show ?thesis
    using assms up result
    by (simp add: connectCandidate_def finishCandidate_def judgeCandidate_def enterConnected_def tunnelConnect_def
        verifyNodeExit_def through_tunnel_def DialContext_def setSnapshot_def smooth_saveLocked gate_world_simps
        gate_settings connectedSnapshot_def snap_def)
qed

lemma gate_connected:
  "\<exists>s. run_events (serve (gate_world 17)) (Some (gate_start 17, 0)) [ConnectExit] = Some (s, 0) \<and>
     SrvNodes s = [probed_node] \<and> CtlSession (SrvTunnel s) = Some (gate_session 9) \<and> SrvTicks s = 17 \<and>
     State (SrvSnapshot s) = StateConnected \<and> ActiveNodeID (SrvSnapshot s) = ID probed_node"
proof -
  let ?w = "gate_world 17"
  let ?s1 = "snd (run_state (addLog ?w ''info'' msg_auto_preparing) (gate_start 17))"
  have ready: "RepReady (CheckEnvironment goos c)" for goos c
    by (simp add: CheckEnvironment_def Let_def split: option.split)
  obtain s2 where s2: "run_state (autoPrepare ?w) ?s1 = (Some [probed_node], s2)" "SrvCfg s2 = gate_config"
    "SrvNodes s2 = [probed_node]" "SrvTunnel s2 = SrvTunnel ?s1" "SrvTicks s2 = SrvTicks ?s1 + 5"
    using gate_prepare [of ?s1 17] by (auto simp: gate_start_fields)
  define s3 where "s3 = s2\<lparr>SrvTicks := 9, SrvSnapshot := attemptSnapshot msg_auto_connecting 0 1 probed_node\<rparr>"
  obtain p t where t: "run_state (connectCandidate ?w probed_node) s3 = (Done p, t)" "SrvCfg t = gate_config"
    "SrvNodes t = SrvNodes s3" "CtlSession (SrvTunnel t) = Some (gate_session 9)" "SrvSnapshot t = p"
    "SrvTicks t = 16" "State p = StateConnected" "ActiveNodeID p = ID probed_node"
    using gate_candidate [of s3 17] s2 by (auto simp: s3_def gate_start_fields)
  show ?thesis
    using s2 t
    by (simp add: serve_def automated_def gate_start_fields gate_settings settle_def autoConnectExit_def checkEnvironment_def
        ready gate_candidates setSnapshot_def gate_world_simps s3_def Let_def)
qed



end
