(* ===== verification/Go_Flag.thy ===== *)
theory Go_Flag
  imports Go_Strings "HOL-Library.AList"
begin

text \<open>
  Package flag as the command line uses it: flag sets with string, integer and duration flags, and
  strconv.ParseInt with base 0 and time.ParseDuration, which their values go through. The product
  of the fraction of a duration is taken in float64 by the library; it is the argument \<open>frac\<close>.
\<close>

section \<open>Integers in any base\<close>

datatype num_error = BadSyntax | OutOfRange

text \<open>The value of a digit or letter, for every base up to 36.\<close>

definition base_digit :: "char \<Rightarrow> nat option" where
  "base_digit c =
     (let n = of_char c :: nat
      in if 48 \<le> n \<and> n \<le> 57 then Some (n - 48)
         else if 97 \<le> n \<and> n \<le> 122 then Some (n - 87)
         else if 65 \<le> n \<and> n \<le> 90 then Some (n - 55)
         else None)"

text \<open>Underscores may only stand between digits, where the prefix of the base counts as a digit. The
  state is the kind of the previous character.\<close>

datatype seen = SeenNothing | SeenDigit | SeenUnderscore | SeenOther

fun underscores_ok :: "bool \<Rightarrow> seen \<Rightarrow> string \<Rightarrow> bool" where
  "underscores_ok hex prev [] \<longleftrightarrow> prev \<noteq> SeenUnderscore"
| "underscores_ok hex prev (c # s) \<longleftrightarrow>
     (if is_digit c \<or> hex \<and> (case base_digit c of Some d \<Rightarrow> d < 16 | None \<Rightarrow> False) then underscores_ok hex SeenDigit s
      else if c = CHR ''_'' then prev = SeenDigit \<and> underscores_ok hex SeenUnderscore s
      else prev \<noteq> SeenUnderscore \<and> underscores_ok hex SeenOther s)"

definition base_prefix :: "string \<Rightarrow> bool" where
  "base_prefix s \<longleftrightarrow> 2 \<le> length s \<and> hd s = CHR ''0'' \<and> lower_char (s ! 1) \<in> {CHR ''b'', CHR ''o'', CHR ''x''}"

definition underscoreOK :: "string \<Rightarrow> bool" where
  "underscoreOK s =
     (if base_prefix s then underscores_ok (lower_char (s ! 1) = CHR ''x'') SeenDigit (drop 2 s)
      else underscores_ok False SeenNothing s)"

fun uint_digits :: "nat \<Rightarrow> nat \<Rightarrow> string \<Rightarrow> num_error + nat" where
  "uint_digits base n [] = Inr n"
| "uint_digits base n (c # s) =
     (if c = CHR ''_'' then uint_digits base n s
      else case base_digit c of
          None \<Rightarrow> Inl BadSyntax
        | Some d \<Rightarrow>
            if base \<le> d then Inl BadSyntax
            else if 2 ^ 64 \<le> n * base + d then Inl OutOfRange
            else uint_digits base (n * base + d) s)"

definition parse_uint0 :: "string \<Rightarrow> num_error + nat" where
  "parse_uint0 s =
     (if s = [] then Inl BadSyntax
      else
        let (base, ds) =
          (if hd s = CHR ''0'' then
             if 3 \<le> length s \<and> lower_char (s ! 1) = CHR ''b'' then (2, drop 2 s)
             else if 3 \<le> length s \<and> lower_char (s ! 1) = CHR ''o'' then (8, drop 2 s)
             else if 3 \<le> length s \<and> lower_char (s ! 1) = CHR ''x'' then (16, drop 2 s)
             else (8, tl s)
           else (10, s))
        in case uint_digits base 0 ds of
            Inl err \<Rightarrow> Inl err
          | Inr n \<Rightarrow> if CHR ''_'' \<in> set ds \<and> \<not> underscoreOK s then Inl BadSyntax else Inr n)"

definition parse_int0 :: "string \<Rightarrow> num_error + int" where
  "parse_int0 s =
     (let neg = has_prefix s ''-'';
          ds = (if neg \<or> has_prefix s ''+'' then tl s else s)
      in case parse_uint0 ds of
          Inl err \<Rightarrow> Inl err
        | Inr n \<Rightarrow>
            if \<not> neg \<and> 2 ^ 63 \<le> n \<or> neg \<and> 2 ^ 63 < n then Inl OutOfRange
            else Inr (if neg then - int n else int n))"

section \<open>Durations\<close>

definition duration_unit :: "string \<Rightarrow> nat option" where
  "duration_unit u = map_of
     [(''ns'', 1), (''us'', 1000), ([CHR 0xC2, CHR 0xB5, CHR ''s''], 1000), ([CHR 0xCE, CHR 0xBC, CHR ''s''], 1000),
      (''ms'', 1000000), (''s'', 1000000000), (''m'', 60000000000), (''h'', 3600000000000)] u"

text \<open>The digits in front; more than 63 bits is an error for the integer part.\<close>

fun leading_int :: "nat \<Rightarrow> string \<Rightarrow> (nat \<times> string) option" where
  "leading_int n [] = Some (n, [])"
| "leading_int n (c # s) =
     (if \<not> is_digit c then Some (n, c # s)
      else if 2 ^ 63 div 10 < n \<or> 2 ^ 63 < n * 10 + digit_val c then None
      else leading_int (n * 10 + digit_val c) s)"

text \<open>The digits of the fraction, their number as a power of ten; digits beyond 63 bits are skipped.\<close>

fun leading_fraction :: "bool \<Rightarrow> nat \<Rightarrow> nat \<Rightarrow> string \<Rightarrow> nat \<times> nat \<times> string" where
  "leading_fraction over f scale [] = (f, scale, [])"
| "leading_fraction over f scale (c # s) =
     (if \<not> is_digit c then (f, scale, c # s)
      else if over \<or> (2 ^ 63 - 1) div 10 < f \<or> 2 ^ 63 < f * 10 + digit_val c then leading_fraction True f scale s
      else leading_fraction False (f * 10 + digit_val c) (scale * 10) s)"

definition unit_char :: "char \<Rightarrow> bool" where
  "unit_char c \<longleftrightarrow> c \<noteq> CHR ''.'' \<and> \<not> is_digit c"

text \<open>One number with its unit: its value in nanoseconds and the rest.\<close>

definition duration_part :: "(nat \<Rightarrow> nat \<Rightarrow> nat \<Rightarrow> nat) \<Rightarrow> string \<Rightarrow> (nat \<times> string) option" where
  "duration_part frac s =
     (if s = [] \<or> unit_char (hd s) then None
      else case leading_int 0 s of
          None \<Rightarrow> None
        | Some (v, s1) \<Rightarrow>
            let (f, scale, s2) = (if has_prefix s1 ''.'' then leading_fraction False 0 1 (tl s1) else (0, 1, s1));
                digits = (s1 \<noteq> s \<or> has_prefix s1 ''.'' \<and> s2 \<noteq> tl s1);
                u = takeWhile unit_char s2
            in if \<not> digits \<or> u = [] then None
               else case duration_unit u of
                   None \<Rightarrow> None
                 | Some unit \<Rightarrow>
                     if 2 ^ 63 div unit < v then None
                     else let w = v * unit + (if 0 < f then frac f unit scale else 0)
                          in if 0 < f \<and> 2 ^ 63 < w then None else Some (w, dropWhile unit_char s2))"

lemma leading_int_length: "leading_int n s = Some (v, r) \<Longrightarrow> length r \<le> length s"
  by (induction n s rule: leading_int.induct) (auto split: if_splits)

lemma leading_fraction_length: "leading_fraction over f scale s = (f', scale', r) \<Longrightarrow> length r \<le> length s"
  by (induction over f scale s rule: leading_fraction.induct) (auto split: if_splits)

lemma duration_part_length:
  assumes "duration_part frac s = Some (w, rest)"
  shows "length rest < length s"
proof -
  obtain v s1 where s1: "leading_int 0 s = Some (v, s1)"
    using assms by (auto simp: duration_part_def split: if_splits option.splits)
  obtain f scale s2 where s2:
    "(if has_prefix s1 ''.'' then leading_fraction False 0 1 (tl s1) else (0, 1, s1)) = (f, scale, s2)"
    by (metis prod_cases3)
  have "length s2 \<le> length s"
    using s2 leading_int_length [OF s1] leading_fraction_length [of False 0 1 "tl s1" f scale s2]
    by (auto split: if_splits)
  moreover have "rest = dropWhile unit_char s2" "takeWhile unit_char s2 \<noteq> []"
    using assms s1 s2 by (auto simp: duration_part_def Let_def split: if_splits option.splits)
  moreover have "length (takeWhile unit_char s2) + length (dropWhile unit_char s2) = length s2"
    by (metis length_append takeWhile_dropWhile_id)
  ultimately show ?thesis
    by (metis add_gr_0 le_add2 length_greater_0_conv less_add_same_cancel2 order_less_le_trans)
qed

text \<open>The sum is taken in 64 bits without sign.\<close>

function duration_sum :: "(nat \<Rightarrow> nat \<Rightarrow> nat \<Rightarrow> nat) \<Rightarrow> nat \<Rightarrow> string \<Rightarrow> nat option" where
  "duration_sum frac d s =
     (if s = [] then Some d
      else case duration_part frac s of
          None \<Rightarrow> None
        | Some (w, rest) \<Rightarrow>
            (let d' = (d + w) mod 2 ^ 64
             in if 2 ^ 63 < d' then None else duration_sum frac d' rest))"
  by pat_completeness auto
termination
  by (relation "measure (\<lambda>(_, _, s). length s)") (auto dest: duration_part_length)

declare duration_sum.simps [simp del]

definition ParseDuration :: "(nat \<Rightarrow> nat \<Rightarrow> nat \<Rightarrow> nat) \<Rightarrow> string \<Rightarrow> int option" where
  "ParseDuration frac s =
     (let neg = has_prefix s ''-'';
          ds = (if neg \<or> has_prefix s ''+'' then tl s else s)
      in if ds = ''0'' then Some 0
         else if ds = [] then None
         else case duration_sum frac 0 ds of
             None \<Rightarrow> None
           | Some d \<Rightarrow> if neg then Some (- int d) else if 2 ^ 63 \<le> d then None else Some (int d))"

section \<open>Flag sets\<close>

text \<open>A flag set is the list of its flags with their values; before parsing these are the defaults.\<close>

datatype flag_value = StringFlag string | IntFlag int | DurationFlag int

type_synonym flag_set = "(string \<times> flag_value) list"

datatype flag_error = HelpRequested | FlagError string

fun num_error_text :: "num_error \<Rightarrow> string" where
  "num_error_text BadSyntax = ''parse error''"
| "num_error_text OutOfRange = ''value out of range''"

fun set_value :: "(nat \<Rightarrow> nat \<Rightarrow> nat \<Rightarrow> nat) \<Rightarrow> flag_value \<Rightarrow> string \<Rightarrow> string + flag_value" where
  "set_value frac (StringFlag _) v = Inr (StringFlag v)"
| "set_value frac (IntFlag _) v =
     (case parse_int0 v of Inl err \<Rightarrow> Inl (num_error_text err) | Inr i \<Rightarrow> Inr (IntFlag i))"
| "set_value frac (DurationFlag _) v =
     (case ParseDuration frac v of None \<Rightarrow> Inl ''parse error'' | Some d \<Rightarrow> Inr (DurationFlag d))"

text \<open>The name and the value of an argument: the value is what follows the first equals sign after
  the first character of the name.\<close>

definition split_flag :: "string \<Rightarrow> string \<times> string option" where
  "split_flag name =
     (case dropWhile (\<lambda>c. c \<noteq> CHR ''='') (tl name) of
        [] \<Rightarrow> (name, None)
      | _ # v \<Rightarrow> (hd name # takeWhile (\<lambda>c. c \<noteq> CHR ''='') (tl name), Some v))"

text \<open>One flag with the arguments after it.\<close>

definition parse_flag ::
  "(nat \<Rightarrow> nat \<Rightarrow> nat \<Rightarrow> nat) \<Rightarrow> flag_set \<Rightarrow> string \<Rightarrow> string list \<Rightarrow> flag_error + flag_set \<times> string list" where
  "parse_flag frac flags name0 args =
     (case split_flag name0 of
        (name, given) \<Rightarrow>
          (case map_of flags name of
             None \<Rightarrow>
               if name = ''help'' \<or> name = ''h'' then Inl HelpRequested
               else Inl (FlagError (''flag provided but not defined: -'' @ name))
           | Some old \<Rightarrow>
               (case (given, args) of
                  (None, []) \<Rightarrow> Inl (FlagError (''flag needs an argument: -'' @ name))
                | _ \<Rightarrow>
                    let v = (case given of Some v \<Rightarrow> v | None \<Rightarrow> hd args);
                        rest = (case given of Some _ \<Rightarrow> args | None \<Rightarrow> tl args)
                    in case set_value frac old v of
                        Inl err \<Rightarrow> Inl (FlagError (''invalid value '' @ go_quote v @ '' for flag -'' @ name @ '': '' @ err))
                      | Inr new \<Rightarrow> Inr (AList.update name new flags, rest))))"

lemma parse_flag_length: "parse_flag frac flags name args = Inr (flags', rest) \<Longrightarrow> length rest \<le> length args"
  by (cases args) (auto simp: parse_flag_def Let_def split: prod.splits option.splits if_splits sum.splits)

text \<open>Parse: the flags and the arguments that are left, or the first error.\<close>

function parse_flags ::
  "(nat \<Rightarrow> nat \<Rightarrow> nat \<Rightarrow> nat) \<Rightarrow> flag_set \<Rightarrow> string list \<Rightarrow> flag_error + flag_set \<times> string list" where
  "parse_flags frac flags [] = Inr (flags, [])"
| "parse_flags frac flags (s # args) =
     (if length s < 2 \<or> hd s \<noteq> CHR ''-'' then Inr (flags, s # args)
      else if s = ''--'' then Inr (flags, args)
      else
        (let name = (if s ! 1 = CHR ''-'' then drop 2 s else tl s)
         in if name = [] \<or> hd name = CHR ''-'' \<or> hd name = CHR ''='' then Inl (FlagError (''bad flag syntax: '' @ s))
            else case parse_flag frac flags name args of
                Inl err \<Rightarrow> Inl err
              | Inr (flags', rest) \<Rightarrow> parse_flags frac flags' rest))"
  by pat_completeness auto
termination
  by (relation "measure (\<lambda>(_, _, args). length args)") (auto dest: parse_flag_length simp: less_Suc_eq_le)

declare parse_flags.simps(2) [simp del]

text \<open>Parsing keeps the names and the kinds of the flags.\<close>

fun same_kind :: "flag_value \<Rightarrow> flag_value \<Rightarrow> bool" where
  "same_kind (StringFlag _) (StringFlag _) = True"
| "same_kind (IntFlag _) (IntFlag _) = True"
| "same_kind (DurationFlag _) (DurationFlag _) = True"
| "same_kind _ _ = False"

lemma same_kind_refl [simp]: "same_kind v v"
  by (cases v) simp_all

lemma same_kind_trans: "same_kind a b \<Longrightarrow> same_kind b c \<Longrightarrow> same_kind a c"
  by (cases a; cases b; cases c) simp_all

lemma set_value_kind: "set_value frac old v = Inr new \<Longrightarrow> same_kind old new"
  by (cases old) (auto split: sum.splits option.splits)

lemma parse_flag_kinds:
  "parse_flag frac flags name args = Inr (flags', rest) \<Longrightarrow>
   rel_option same_kind (map_of flags n) (map_of flags' n)"
  by (cases args)
    (auto simp: parse_flag_def Let_def update_conv set_value_kind option.rel_refl
      split: prod.splits option.splits if_splits sum.splits)

lemma parse_flags_kinds:
  "parse_flags frac flags args = Inr (flags', rest) \<Longrightarrow>
   rel_option same_kind (map_of flags n) (map_of flags' n)"
proof (induction frac flags args arbitrary: flags' rest rule: parse_flags.induct)
  case (1 frac flags)
  then show ?case by (simp add: option.rel_refl)
next
  case (2 frac flags s args)
  let ?name = "if s ! 1 = CHR ''-'' then drop 2 s else tl s"
  show ?case
  proof (cases "\<exists>flags1 rest1. parse_flag frac flags ?name args = Inr (flags1, rest1) \<and>
      parse_flags frac flags1 rest1 = Inr (flags', rest)")
    case True
    then obtain flags1 rest1 where one: "parse_flag frac flags ?name args = Inr (flags1, rest1)"
      and more: "parse_flags frac flags1 rest1 = Inr (flags', rest)" by blast
    show ?thesis
    proof (cases "flags' = flags")
      case False
      with 2(2) have "\<not> (length s < 2 \<or> hd s \<noteq> CHR ''-'')" "s \<noteq> ''--''"
        and "\<not> (?name = [] \<or> hd ?name = CHR ''-'' \<or> hd ?name = CHR ''='')"
        by (auto simp: parse_flags.simps(2) Let_def split: if_splits)
      from 2(1) [OF this(1,2) refl this(3) one refl more] parse_flag_kinds [OF one, of n]
      show ?thesis
        by (auto simp: option.rel_sel intro: same_kind_trans)
    qed (simp add: option.rel_refl)
  next
    case False
    with 2(2) show ?thesis
      by (auto simp: parse_flags.simps(2) Let_def option.rel_refl split: if_splits sum.splits)
  qed
qed

text \<open>A value may follow the name after an equals sign or as the next argument.\<close>

lemma split_flag_plain: "CHR ''='' \<notin> set (tl name) \<Longrightarrow> split_flag name = (name, None)"
proof -
  assume "CHR ''='' \<notin> set (tl name)"
  then have "dropWhile (\<lambda>c. c \<noteq> CHR ''='') (tl name) = []" by auto
  then show ?thesis by (simp only: split_flag_def list.case)
qed

lemma split_flag_equals:
  "name \<noteq> [] \<Longrightarrow> CHR ''='' \<notin> set (tl name) \<Longrightarrow> split_flag (name @ CHR ''='' # v) = (name, Some v)"
  by (cases name) (auto simp: split_flag_def dropWhile_append takeWhile_append)

lemma parse_flags_equals:
  assumes "map_of flags name = Some old" and "name \<noteq> []" and "hd name \<noteq> CHR ''-''" and "CHR ''='' \<notin> set name"
  shows "parse_flags frac flags ((''--'' @ name @ CHR ''='' # v) # args) =
    parse_flags frac flags ((''--'' @ name) # v # args)"
proof -
  have "CHR ''='' \<notin> set (tl name)" "hd name \<noteq> CHR ''=''"
    using assms(2,4) by (cases name; auto)+
  then show ?thesis
    using assms
    by (simp add: parse_flags.simps(2) parse_flag_def split_flag_plain split_flag_equals Let_def)
qed

end
