(* ===== verification/Service.thy ===== *)
theory Service
  imports Config Ovpn_Config
begin

text \<open>
  The service files (src/internal/service/service.go): a systemd unit, a launchd property list and
  two PowerShell scripts. The file system is an argument: what making the directory and writing a
  file return. The text of a file is the source's template with the options put in. Options without
  line breaks can not add a directive to the unit or a statement to the script.
\<close>

section \<open>Options\<close>

record service_options =
  BinaryPath :: string
  ConfigPath :: string
  OptDataDir :: string
  OptListen :: string
  OptVersion :: string

definition serviceValueOr :: "string \<Rightarrow> string \<Rightarrow> string" where
  "serviceValueOr value fallback = (if trim_space value = '''' then fallback else value)"

definition DefaultBinaryPath :: "string \<Rightarrow> string" where
  "DefaultBinaryPath goos = (if goos = ''windows'' then ''rim.exe'' else ''rim'')"

section \<open>Templates\<close>

text \<open>A text is the list of its lines, each with its line break. The quotation mark and the backslash
  are named.\<close>

definition file_text :: "string list \<Rightarrow> string" where
  "file_text ls = concat (map (\<lambda>l. l @ newline) ls)"

abbreviation "dq \<equiv> [CHR 0x22]"
abbreviation "backslash \<equiv> [CHR 0x5C]"

definition execStart :: "service_options \<Rightarrow> string" where
  "execStart opts =
     ''ExecStart='' @ serviceValueOr (BinaryPath opts) ''/usr/local/bin/rim'' @ '' serve --config '' @
     serviceValueOr (ConfigPath opts) ''/etc/residential-ip-manager/config.json'' @ '' --listen '' @
     serviceValueOr (OptListen opts) ''127.0.0.1:8899''"

definition unitLines :: "service_options \<Rightarrow> string list" where
  "unitLines opts =
     [''[Unit]'', ''Description=Residential IP Manager Go'', ''After=network-online.target'',
      ''Wants=network-online.target'', '''', ''[Service]'', ''Type=simple'', execStart opts,
      ''WorkingDirectory='' @ serviceValueOr (OptDataDir opts) ''/var/lib/residential-ip-manager'',
      ''Restart=on-failure'', ''RestartSec=5'', '''', ''[Install]'', ''WantedBy=multi-user.target'']"

definition systemdUnit :: "service_options \<Rightarrow> string" where
  "systemdUnit opts = file_text (unitLines opts)"

definition plistString :: "string \<Rightarrow> string" where
  "plistString value = ''<string>'' @ value @ ''</string>''"

definition plistLines :: "service_options \<Rightarrow> string list" where
  "plistLines opts =
     [''<?xml version='' @ dq @ ''1.0'' @ dq @ '' encoding='' @ dq @ ''UTF-8'' @ dq @ ''?>'',
      ''<!DOCTYPE plist PUBLIC '' @ dq @ ''-//Apple//DTD PLIST 1.0//EN'' @ dq @ '' '' @ dq @
        ''http://www.apple.com/DTDs/PropertyList-1.0.dtd'' @ dq @ ''>'',
      ''<plist version='' @ dq @ ''1.0'' @ dq @ ''>'',
      ''<dict>'',
      ''  <key>Label</key>'',
      ''  '' @ plistString ''com.guli-joy.residential-ip-manager'',
      ''  <key>ProgramArguments</key>'',
      ''  <array>'',
      ''    '' @ plistString (serviceValueOr (BinaryPath opts) ''/usr/local/bin/rim''),
      ''    '' @ plistString ''serve'',
      ''    '' @ plistString ''--config'',
      ''    '' @ plistString (serviceValueOr (ConfigPath opts) ''/usr/local/etc/residential-ip-manager/config.json''),
      ''    '' @ plistString ''--listen'',
      ''    '' @ plistString (serviceValueOr (OptListen opts) ''127.0.0.1:8899''),
      ''  </array>'',
      ''  <key>RunAtLoad</key>'',
      ''  <true/>'',
      ''  <key>KeepAlive</key>'',
      ''  <true/>'',
      ''  <key>WorkingDirectory</key>'',
      ''  '' @ plistString (serviceValueOr (OptDataDir opts) ''/usr/local/var/residential-ip-manager''),
      ''  <key>EnvironmentVariables</key>'',
      ''  <dict>'',
      ''  </dict>'',
      ''</dict>'',
      ''</plist>'']"

definition launchdPlist :: "service_options \<Rightarrow> string" where
  "launchdPlist opts = file_text (plistLines opts)"

definition quoted :: "string \<Rightarrow> string" where
  "quoted s = dq @ s @ dq"

text \<open>In PowerShell a backquote before a quotation mark keeps it in the string.\<close>

definition ticked :: "string \<Rightarrow> string" where
  "ticked s = ''`'' @ dq @ s @ ''`'' @ dq"

definition installLines :: "service_options \<Rightarrow> string list" where
  "installLines opts =
     [''$ErrorActionPreference = '' @ quoted ''Stop'',
      ''$binary = '' @ quoted (serviceValueOr (BinaryPath opts) ''rim.exe''),
      ''$config = '' @ quoted (serviceValueOr (ConfigPath opts)
        (''$env:ProgramData'' @ backslash @ ''ResidentialIPManager'' @ backslash @ ''config.json'')),
      ''$listen = '' @ quoted (serviceValueOr (OptListen opts) ''127.0.0.1:8899''),
      ''$name = '' @ quoted ''ResidentialIPManagerGo'', '''',
      ''if (-not (Get-Command sc.exe -ErrorAction SilentlyContinue)) {'',
      ''    throw '' @ quoted ''sc.exe is required'',
      ''}'', '''',
      ''$binPath = '' @ quoted (ticked ''$binary'' @ '' serve --config '' @ ticked ''$config'' @ '' --listen '' @ ticked ''$listen''),
      ''sc.exe create $name binPath= $binPath start= auto | Out-Null'',
      ''sc.exe description $name '' @ quoted ''Residential IP Manager Go'' @ '' | Out-Null'',
      ''Write-Host '' @ quoted ''Installed $name'']"

definition windowsInstallScript :: "service_options \<Rightarrow> string" where
  "windowsInstallScript opts = file_text (installLines opts)"

definition windowsUninstallScript :: string where
  "windowsUninstallScript = file_text
     [''$ErrorActionPreference = '' @ quoted ''Stop'',
      ''$name = '' @ quoted ''ResidentialIPManagerGo'',
      ''sc.exe stop $name | Out-Null'',
      ''sc.exe delete $name | Out-Null'',
      ''Write-Host '' @ quoted ''Removed ResidentialIPManagerGo'']"

section \<open>Generate\<close>

text \<open>The files that a call writes, in order, and its error. A file whose write fails is not among
  them.\<close>

fun writeFiles :: "(string \<Rightarrow> string option) \<Rightarrow> (string \<times> string) list \<Rightarrow> (string \<times> string) list \<times> string option" where
  "writeFiles write [] = ([], None)"
| "writeFiles write ((path, text) # files) =
     (case write path of
        Some err \<Rightarrow> ([], Some err)
      | None \<Rightarrow> (case writeFiles write files of (ws, err) \<Rightarrow> ((path, text) # ws, err)))"

definition serviceFiles :: "string \<Rightarrow> service_options \<Rightarrow> (string \<times> string) list option" where
  "serviceFiles platform opts =
     (let p = to_lower platform
      in if p = ''linux'' then Some [(''residential-ip-manager.service'', systemdUnit opts)]
         else if p = ''darwin'' \<or> p = ''macos'' then
           Some [(''com.guli-joy.residential-ip-manager.plist'', launchdPlist opts)]
         else if p = ''windows'' then
           Some [(''install-service.ps1'', windowsInstallScript opts), (''uninstall-service.ps1'', windowsUninstallScript)]
         else None)"

definition Generate ::
  "(string \<Rightarrow> string option) \<Rightarrow> (string \<Rightarrow> string option) \<Rightarrow> string \<Rightarrow> service_options \<Rightarrow> string \<Rightarrow>
   (string \<times> string) list \<times> string option" where
  "Generate mkdir write platform opts outputDir0 =
     (let outputDir = (if outputDir0 = '''' then ''.'' else outputDir0)
      in case mkdir outputDir of
          Some err \<Rightarrow> ([], Some err)
        | None \<Rightarrow>
            (case serviceFiles platform opts of
               None \<Rightarrow> ([], Some (''unsupported platform '' @ go_quote platform))
             | Some files \<Rightarrow> writeFiles write (map (\<lambda>(name, text). (path_join outputDir name, text)) files)))"

section \<open>Laws\<close>

definition one_line :: "string \<Rightarrow> bool" where
  "one_line s \<longleftrightarrow> CHR 0x0A \<notin> set s"

definition plain_options :: "service_options \<Rightarrow> bool" where
  "plain_options opts \<longleftrightarrow> list_all one_line [BinaryPath opts, ConfigPath opts, OptDataDir opts, OptListen opts]"

lemma file_text_lines: "list_all one_line ls \<Longrightarrow> split_on CHR 0x0A (file_text ls) = ls @ ['''']"
  by (induction ls) (simp_all add: file_text_def newline_def one_line_def split_on_step)

lemma one_line_append [simp]: "one_line (a @ b) \<longleftrightarrow> one_line a \<and> one_line b"
  by (auto simp: one_line_def)

lemma one_line_value [simp]: "one_line value \<Longrightarrow> one_line fallback \<Longrightarrow> one_line (serviceValueOr value fallback)"
  by (simp add: serviceValueOr_def)

lemma unitLines_one_line:
  assumes "plain_options opts"
  shows "list_all one_line (unitLines opts)"
  using assms by (simp add: unitLines_def execStart_def plain_options_def) (simp add: one_line_def serviceValueOr_def)

lemma serviceFiles_platforms:
  "serviceFiles platform opts = None \<longleftrightarrow> to_lower platform \<notin> {''linux'', ''darwin'', ''macos'', ''windows''}"
  by (auto simp: serviceFiles_def Let_def)

lemma writeFiles_prefix:
  "writeFiles write files = (ws, err) \<Longrightarrow>
     (\<exists>rest. files = ws @ rest \<and> (err = None \<longleftrightarrow> rest = []) \<and> (rest \<noteq> [] \<longrightarrow> write (fst (hd rest)) = err)) \<and>
     list_all (\<lambda>(path, text). write path = None) ws"
proof (induction files arbitrary: ws err)
  case (Cons f files)
  obtain path t where f: "f = (path, t)" by fastforce
  show ?case
  proof (cases "write path")
    case None
    obtain ws' err' where r: "writeFiles write files = (ws', err')" by fastforce
    with Cons.prems None f have "ws = f # ws'" "err = err'" by auto
    with Cons.IH [OF r] None f show ?thesis by auto
  next
    case (Some e)
    with Cons.prems f have "ws = []" "err = Some e" by simp_all
    with f Some show ?thesis by simp
  qed
qed simp

text \<open>A call that succeeds has written every file of a known platform; one that fails has written a
  proper beginning of them.\<close>

lemma Generate_outcome:
  assumes "Generate mkdir write platform opts outputDir = (ws, err)"
  shows "if err = None then map snd ws = map snd (the (serviceFiles platform opts)) \<and> serviceFiles platform opts \<noteq> None
    else serviceFiles platform opts = None \<and> ws = [] \<or> length ws < length (the (serviceFiles platform opts))"
proof (cases "mkdir (if outputDir = '''' then ''.'' else outputDir) = None \<and> serviceFiles platform opts \<noteq> None")
  case True
  then obtain files where files: "serviceFiles platform opts = Some files" by auto
  let ?files = "map (\<lambda>(name, t). (path_join (if outputDir = '''' then ''.'' else outputDir) name, t)) files"
  have "writeFiles write ?files = (ws, err)"
    using assms True files by (simp add: Generate_def Let_def)
  from writeFiles_prefix [OF this] obtain rest where "?files = ws @ rest" "err = None \<longleftrightarrow> rest = []" by blast
  moreover have "map snd ?files = map snd files" by (simp add: split_beta comp_def)
  moreover have "length ws < length files" if "rest \<noteq> []"
    using calculation(1) that by (metis length_append length_greater_0_conv length_map less_add_same_cancel1)
  ultimately show ?thesis
    using files by (cases "err = None") auto
next
  case False
  moreover have "serviceFiles platform opts \<noteq> None \<Longrightarrow> the (serviceFiles platform opts) \<noteq> []"
    by (auto simp: serviceFiles_def Let_def split: if_splits)
  ultimately show ?thesis
    using assms by (auto simp: Generate_def Let_def split: option.splits)
qed

section \<open>Properties\<close>

text \<open>A generated unit runs one command. If the options have no line breaks, the lines of the
  unit are those of the template with the values in place; exactly one of them starts a command, and
  it is the serve command with the configured paths.\<close>

theorem unit_runs_one_command:
  assumes "plain_options opts"
  shows "split_on CHR 0x0A (systemdUnit opts) = unitLines opts @ [''''] \<and>
    filter (\<lambda>l. has_prefix l ''Exec'') (split_on CHR 0x0A (systemdUnit opts)) = [execStart opts]"
proof -
  have lines: "split_on CHR 0x0A (systemdUnit opts) = unitLines opts @ ['''']"
    unfolding systemdUnit_def by (rule file_text_lines [OF unitLines_one_line [OF assms]])
  then show ?thesis
    by (simp add: unitLines_def execStart_def has_prefix_def)
qed

theorem unit_runs_one_command_witness:
  "filter (\<lambda>l. has_prefix l ''Exec'')
     (split_on CHR 0x0A (systemdUnit \<lparr>BinaryPath = ''/usr/bin/rim'', ConfigPath = ''/etc/rim.json'', OptDataDir = '''',
        OptListen = ''127.0.0.1:9988'', OptVersion = ''1''\<rparr>)) =
     [''ExecStart=/usr/bin/rim serve --config /etc/rim.json --listen 127.0.0.1:9988'']"
proof -
  let ?opts = "\<lparr>BinaryPath = ''/usr/bin/rim'', ConfigPath = ''/etc/rim.json'', OptDataDir = '''',
    OptListen = ''127.0.0.1:9988'', OptVersion = ''1''\<rparr>"
  have plain: "plain_options ?opts" by code_simp
  have "execStart ?opts = ''ExecStart=/usr/bin/rim serve --config /etc/rim.json --listen 127.0.0.1:9988''"
    by code_simp
  with conjunct2 [OF unit_runs_one_command [OF plain]] show ?thesis by (simp only:)
qed

end
