(* ===== verification/Cli.thy ===== *)
theory Cli
  imports "HOL-Library.State_Monad" Go_Flag Service Web_State
begin

text \<open>
  The command line (src/cmd/rim/main.go): the commands with their flags and the diagnosis, which
  fetches and probes the listing and tries the reachable nodes one after the other. What the
  commands ask of their surroundings is the record \<open>cli_world\<close>; the n-th attempt of a diagnosis
  reads it at n. A result has the lines printed, the files written and how the command ends.
\<close>

section \<open>Surroundings and results\<close>

record cli_world =
  CliRead :: "string \<Rightarrow> string res"
  CliUnmarshal :: "string \<Rightarrow> config \<Rightarrow> config \<times> string option"
  CliStat :: "string \<Rightarrow> path_status"
  CliRandom :: random_source
  CliMkdir :: "string \<Rightarrow> string option"
  CliWriteConfig :: "string \<Rightarrow> config \<Rightarrow> string option"
  CliWrite :: "string \<Rightarrow> string option"
  CliEnvGOOS :: string
  CliGOOS :: string
  CliUserConfigDir :: "string res"
  CliTempDir :: string
  CliFrac :: "nat \<Rightarrow> nat \<Rightarrow> nat \<Rightarrow> nat"
  CliListen :: "config \<Rightarrow> string option"
  CliFetch :: "string \<Rightarrow> (int \<times> string) res"
  CliCsvText :: "csv_error \<Rightarrow> string"
  CliProbeClock :: "nat \<Rightarrow> time"
  CliProbeDial :: dialer
  CliConnect :: "nat \<Rightarrow> connect_io"
  CliDrop :: "nat \<Rightarrow> string option"
  CliParseURL :: "string \<Rightarrow> string option"
  CliCheck :: "nat \<Rightarrow> (int \<times> string res) res"
  CliClose :: "nat \<Rightarrow> close_error option \<times> close_error option"

datatype cli_error =
    FlagFailed flag_error
  | LoadFailed load_error
  | InitFailed init_error
  | GenerateFailed string
  | ServeFailed string
  | DiagnoseFailed string

datatype cli_end = Returned "cli_error option" | Exited int | CliPanicked string

record cli_result =
  Printed :: "string list"
  FilesWritten :: "(string \<times> string) list"
  Served :: "config option"
  Ended :: cli_end

definition ended :: "string list \<Rightarrow> cli_end \<Rightarrow> cli_result" where
  "ended out e = \<lparr>Printed = out, FilesWritten = [], Served = None, Ended = e\<rparr>"

text \<open>The exit status of the process.\<close>

definition exit_code :: "cli_end \<Rightarrow> int" where
  "exit_code e = (case e of Returned None \<Rightarrow> 0 | Returned (Some _) \<Rightarrow> 1 | Exited n \<Rightarrow> n | CliPanicked _ \<Rightarrow> 2)"

definition cli_version :: string where "cli_version = ''0.1.0-go-alpha''"

definition usageLines :: "string list" where
  "usageLines =
     [''Residential IP Manager Go'', '''', ''Usage:'',
      ''  rim serve --config config.json [--listen 127.0.0.1:8899]'',
      ''  rim config init --output config.json'',
      ''  rim diagnose vpngate [--config config.json]'',
      ''  rim service generate --platform linux --output service'',
      ''  rim version'']"

definition printUsage :: cli_result where
  "printUsage = ended usageLines (Returned None)"

definition runtimeGOOS :: "cli_world \<Rightarrow> string" where
  "runtimeGOOS w = (if CliEnvGOOS w \<noteq> '''' then CliEnvGOOS w else CliGOOS w)"

text \<open>A flag set that exits on errors, as the commands other than the diagnosis use it: status 0
  after help, 2 after an error.\<close>

definition orExit :: "flag_error + flag_set \<times> string list \<Rightarrow> (flag_set \<Rightarrow> cli_result) \<Rightarrow> cli_result" where
  "orExit parsed body =
     (case parsed of
        Inl HelpRequested \<Rightarrow> ended [] (Exited 0)
      | Inl (FlagError _) \<Rightarrow> ended [] (Exited 2)
      | Inr (flags, rest) \<Rightarrow> body flags)"

definition stringFlag :: "flag_set \<Rightarrow> string \<Rightarrow> string" where
  "stringFlag flags name = (case map_of flags name of Some (StringFlag v) \<Rightarrow> v | _ \<Rightarrow> '''')"

definition intFlag :: "flag_set \<Rightarrow> string \<Rightarrow> int" where
  "intFlag flags name = (case map_of flags name of Some (IntFlag v) \<Rightarrow> v | _ \<Rightarrow> 0)"

definition durationFlag :: "flag_set \<Rightarrow> string \<Rightarrow> int" where
  "durationFlag flags name = (case map_of flags name of Some (DurationFlag v) \<Rightarrow> v | _ \<Rightarrow> 0)"

section \<open>Serve, config and service\<close>

definition serveFlags :: flag_set where
  "serveFlags = [(''config'', StringFlag ''config.json''), (''listen'', StringFlag '''')]"

definition loadConfig :: "cli_world \<Rightarrow> string \<Rightarrow> config \<times> load_error option" where
  "loadConfig w path = LoadConfig (CliRead w) (CliUnmarshal w) path"

definition overrideListen :: "string \<Rightarrow> config \<Rightarrow> config" where
  "overrideListen listen cfg =
     (if trim_space listen \<noteq> '''' then cfg\<lparr>Server := (Server cfg)\<lparr>Listen := listen\<rparr>\<rparr> else cfg)"

definition serve_command :: "cli_world \<Rightarrow> string list \<Rightarrow> cli_result" where
  "serve_command w args =
     orExit (parse_flags (CliFrac w) serveFlags args) (\<lambda>flags.
       (case loadConfig w (stringFlag flags ''config'') of
          (cfg, Some err) \<Rightarrow> ended [] (Returned (Some (LoadFailed err)))
        | (cfg, None) \<Rightarrow>
            (let cfg = overrideListen (stringFlag flags ''listen'') cfg
             in (ended [] (Returned (map_option ServeFailed (CliListen w cfg))))\<lparr>Served := Some cfg\<rparr>)))"

definition initFlags :: flag_set where
  "initFlags = [(''output'', StringFlag ''config.json'')]"

definition init_command :: "cli_world \<Rightarrow> string list \<Rightarrow> cli_result" where
  "init_command w args =
     orExit (parse_flags (CliFrac w) initFlags args) (\<lambda>flags.
       let output = stringFlag flags ''output''
       in case InitConfig (CliStat w) (CliRandom w) (CliMkdir w) (CliWriteConfig w) output of
           Inl err \<Rightarrow> ended [] (Returned (Some (InitFailed err)))
         | Inr cfg \<Rightarrow> ended
             [''created '' @ output, ''web username: '' @ AuthUsername (Auth cfg), ''web password: '' @ AuthPassword (Auth cfg),
              ''store this password securely; it will not be shown again''] (Returned None))"

definition serviceFlags :: "cli_world \<Rightarrow> flag_set" where
  "serviceFlags w =
     [(''platform'', StringFlag (runtimeGOOS w)), (''output'', StringFlag ''service''),
      (''binary'', StringFlag (DefaultBinaryPath (CliGOOS w))), (''config'', StringFlag ''config.json''),
      (''data-dir'', StringFlag ''''), (''listen'', StringFlag ''127.0.0.1:8899'')]"

definition service_command :: "cli_world \<Rightarrow> string list \<Rightarrow> cli_result" where
  "service_command w args =
     orExit (parse_flags (CliFrac w) (serviceFlags w) args) (\<lambda>flags.
       let opts = \<lparr>BinaryPath = stringFlag flags ''binary'', ConfigPath = stringFlag flags ''config'',
             OptDataDir = stringFlag flags ''data-dir'', OptListen = stringFlag flags ''listen'', OptVersion = cli_version\<rparr>;
           output = stringFlag flags ''output''
       in case Generate (CliMkdir w) (CliWrite w) (stringFlag flags ''platform'') opts output of
           (ws, Some err) \<Rightarrow> (ended [] (Returned (Some (GenerateFailed err))))\<lparr>FilesWritten := ws\<rparr>
         | (ws, None) \<Rightarrow> (ended [''generated service files in '' @ output] (Returned None))\<lparr>FilesWritten := ws\<rparr>)"

section \<open>The diagnosis\<close>

definition diagnoseFlags :: flag_set where
  "diagnoseFlags =
     [(''config'', StringFlag ''''), (''max-nodes'', IntFlag 50), (''attempts'', IntFlag 5),
      (''check-url'', StringFlag ''https://api.ipify.org''), (''timeout'', DurationFlag (4 * 60 * 1000000000))]"

definition diagLess :: "vpn_node \<Rightarrow> vpn_node \<Rightarrow> bool" where
  "diagLess left right =
     (case (LatencyMS left, LatencyMS right) of
        (Some l, Some r) \<Rightarrow> if l \<noteq> r then l < r else Score right < Score left
      | _ \<Rightarrow> Score right < Score left)"

definition reachableTCP :: "vpn_node \<Rightarrow> bool" where
  "reachableTCP node \<longleftrightarrow> Protocol node = ''tcp'' \<and> Status node = NodeAvailable"

definition diagnosticCandidates :: "vpn_node list \<Rightarrow> vpn_node list" where
  "diagnosticCandidates nodes = insertion_sort diagLess (filter reachableTCP nodes)"

definition exitIPAnswer :: "(int \<times> string res) res \<Rightarrow> string res" where
  "exitIPAnswer answer =
     (case answer of
        Inl err \<Rightarrow> Inl err
      | Inr (statusCode, body) \<Rightarrow>
          if statusCode < 200 \<or> 300 \<le> statusCode then Inl (''IP check returned HTTP '' @ itoa statusCode)
          else case body of
              Inl err \<Rightarrow> Inl err
            | Inr content \<Rightarrow>
                let ip = trim_space (take 256 content)
                in if ParseIP ip = None then Inl (''IP check returned invalid address/body '' @ go_quote ip)
                   else Inr ip)"

definition checkExitIP :: "cli_world \<Rightarrow> nat \<Rightarrow> controller \<Rightarrow> string \<Rightarrow> string res" where
  "checkExitIP w i c url =
     (case CliParseURL w url of
        Some err \<Rightarrow> Inl err
      | None \<Rightarrow> exitIPAnswer (through_tunnel c url (CliCheck w i)))"

datatype diag_end = DiagPassed vpn_node string | DiagFailed "string list" | DiagPanicked string

definition attemptLine :: "nat \<Rightarrow> nat \<Rightarrow> vpn_node \<Rightarrow> string" where
  "attemptLine i many node =
     ''[3/4] connecting '' @ itoa (int i + 1) @ ''/'' @ itoa (int many) @ '' to '' @ IP node @ '':'' @
     itoa (RemotePort node) @ '' ('' @ CountryCode node @ '')''"

definition dataPathLine :: "string \<Rightarrow> environment_report \<Rightarrow> string" where
  "dataPathLine err env =
     ''      data path failed: '' @ err @ '' (packets out/in='' @ itoa (uint (RepPacketsOut env)) @ ''/'' @
     itoa (uint (RepPacketsIn env)) @ '', bytes out/in='' @ itoa (uint (RepBytesOut env)) @ ''/'' @
     itoa (uint (RepBytesIn env)) @ '')''"

definition passedLines :: "vpn_node \<Rightarrow> environment_report \<Rightarrow> string \<Rightarrow> string list" where
  "passedLines node env exitIP =
     [''[4/4] userspace VPN data path passed'',
      ''node='' @ ID node @ '' country='' @ CountryCode node @ '' tunnel_ip='' @ RepLocalIP env @ '' gateway='' @
      RepGateway env @ '' exit_ip='' @ exitIP]"

text \<open>The loop over the candidates; the tunnel may fail on its own before the check.\<close>

fun diagnoseLoop ::
  "cli_world \<Rightarrow> string \<Rightarrow> nat \<Rightarrow> nat \<Rightarrow> string list \<Rightarrow> controller \<Rightarrow> vpn_node list \<Rightarrow>
   string list \<times> diag_end \<times> controller" where
  "diagnoseLoop w url many i failures c [] = ([], DiagFailed failures, c)"
| "diagnoseLoop w url many i failures c (node # nodes) =
     (case Connect (CliConnect w i) i node c of
        (c1, Some (Crashes why), calls) \<Rightarrow> ([attemptLine i many node], DiagPanicked why, c1)
      | (c1, Some err, calls) \<Rightarrow>
          (case diagnoseLoop w url many (Suc i) (failures @ [ID node @ '': '' @ connect_error_text err]) c1 nodes of
             (out, result) \<Rightarrow>
               (attemptLine i many node # (''      handshake failed: '' @ connect_error_text err) # out, result))
      | (c1, None, calls) \<Rightarrow>
          (let c2 = tunnelDrop (CliDrop w i) c1; env = CheckEnvironment (CliGOOS w) c2
           in case checkExitIP w i c2 url of
               Inr exitIP \<Rightarrow> (attemptLine i many node # passedLines node env exitIP, DiagPassed node exitIP, c2)
             | Inl err \<Rightarrow>
                 (let c3 = fst (Disconnect (fst (CliClose w i)) (snd (CliClose w i)) c2)
                  in case diagnoseLoop w url many (Suc i) (failures @ [ID node @ '' data path: '' @ err]) c3 nodes of
                      (out, result) \<Rightarrow> (attemptLine i many node # dataPathLine err env # out, result))))"

text \<open>The tries on the candidates with the controller before and after; the disconnection is deferred
  and happens on every way out.\<close>

definition diagnoseTunnels ::
  "cli_world \<Rightarrow> config \<Rightarrow> string \<Rightarrow> vpn_node list \<Rightarrow> string list \<times> diag_end \<times> controller" where
  "diagnoseTunnels w cfg url candidates =
     (let dataDir = DataDir (CliUserConfigDir w) (CliTempDir w) (CliGOOS w) cfg
      in case diagnoseLoop w url (length candidates) 0 [] (NewOpenVPNController (OpenVPN cfg) dataDir) candidates of
          (out, result, c) \<Rightarrow>
            (out, result, fst (Disconnect (fst (CliClose w (length candidates))) (snd (CliClose w (length candidates))) c)))"

definition diagnoseNodes :: "cli_world \<Rightarrow> config \<Rightarrow> int \<Rightarrow> fetch_error + vpn_node list" where
  "diagnoseNodes w cfg maxNodes = Fetch \<lparr>APIURL = VPNGateAPIURL (VPNGate cfg), MaxNodes = maxNodes\<rparr> (CliFetch w)"

definition diagnoseProbed :: "cli_world \<Rightarrow> config \<Rightarrow> vpn_node list \<Rightarrow> vpn_node list" where
  "diagnoseProbed w cfg nodes =
     Probe \<lparr>ProbeTimeout = wrap64 (ProbeTimeoutMS (ProbeSection cfg) * 1000000),
            MaxConcurrency = ProbeMaxConcurrency (ProbeSection cfg), Samples = 0\<rparr>
       (CliProbeClock w) (CliProbeDial w) nodes"

definition diag_result :: "diag_end \<Rightarrow> cli_end" where
  "diag_result e =
     (case e of
        DiagPassed node exitIP \<Rightarrow> Returned None
      | DiagFailed failures \<Rightarrow> Returned (Some (DiagnoseFailed (''all VPNGate attempts failed: '' @ join '' | '' failures)))
      | DiagPanicked why \<Rightarrow> CliPanicked why)"

definition diagnose :: "cli_world \<Rightarrow> config \<Rightarrow> flag_set \<Rightarrow> cli_result" where
  "diagnose w cfg flags =
     (case diagnoseNodes w cfg (intFlag flags ''max-nodes'') of
        Inl err \<Rightarrow> ended [''[1/4] fetching VPNGate nodes'']
          (Returned (Some (DiagnoseFailed (''fetch VPNGate nodes: '' @ fetchErrorText (CliCsvText w) err))))
      | Inr nodes \<Rightarrow>
          (let out = [''[1/4] fetching VPNGate nodes'', ''[2/4] probing '' @ itoa (int (length nodes)) @ '' TCP profiles''];
               candidates = diagnosticCandidates (diagnoseProbed w cfg nodes);
               tried = take (nat (intFlag flags ''attempts'')) candidates
           in if candidates = [] then
                ended out (Returned (Some (DiagnoseFailed ''no reachable TCP VPNGate profiles found'')))
              else case diagnoseTunnels w cfg (stringFlag flags ''check-url'') tried of
                  (tries, result, c) \<Rightarrow> ended (out @ tries) (diag_result result)))"

definition diagnoseVPNGate :: "cli_world \<Rightarrow> string list \<Rightarrow> cli_result" where
  "diagnoseVPNGate w args =
     (case parse_flags (CliFrac w) diagnoseFlags args of
        Inl err \<Rightarrow> ended [] (Returned (Some (FlagFailed err)))
      | Inr (flags, rest) \<Rightarrow>
          if intFlag flags ''max-nodes'' < 1 \<or> intFlag flags ''attempts'' < 1 \<or> durationFlag flags ''timeout'' \<le> 0 then
            ended [] (Returned (Some (DiagnoseFailed ''max-nodes, attempts, and timeout must be positive'')))
          else if trim_space (stringFlag flags ''config'') \<noteq> '''' then
            (case loadConfig w (stringFlag flags ''config'') of
               (cfg, Some err) \<Rightarrow> ended [] (Returned (Some (LoadFailed err)))
             | (cfg, None) \<Rightarrow> diagnose w cfg flags)
          else diagnose w Default flags)"

section \<open>The commands\<close>

definition run :: "cli_world \<Rightarrow> string list \<Rightarrow> cli_result" where
  "run w args =
     (case args of
        _ # command # rest \<Rightarrow>
          if command = ''serve'' then serve_command w rest
          else if command = ''config'' then
            (case rest of sub # options \<Rightarrow> if sub = ''init'' then init_command w options else printUsage | [] \<Rightarrow> printUsage)
          else if command = ''service'' then
            (case rest of sub # options \<Rightarrow> if sub = ''generate'' then service_command w options else printUsage | [] \<Rightarrow> printUsage)
          else if command = ''diagnose'' then
            (case rest of sub # options \<Rightarrow> if sub = ''vpngate'' then diagnoseVPNGate w options else printUsage | [] \<Rightarrow> printUsage)
          else if command = ''version'' then ended [cli_version] (Returned None)
          else printUsage
      | _ \<Rightarrow> printUsage)"

section \<open>The order of the candidates\<close>

text \<open>Without a latency on one side the comparator looks at the scores only and is not transitive.
  The candidates of a diagnosis have all been measured; on them it is the order by latency and
  descending score, which is a strict weak order on all nodes.\<close>

definition measuredLess :: "vpn_node \<Rightarrow> vpn_node \<Rightarrow> bool" where
  "measuredLess left right \<longleftrightarrow>
     the (LatencyMS left) < the (LatencyMS right) \<or>
     the (LatencyMS left) = the (LatencyMS right) \<and> Score right < Score left"

interpretation measured: strict_weak_order measuredLess
  by unfold_locales (auto simp: measuredLess_def)

lemma diagLess_measured:
  "LatencyMS a \<noteq> None \<Longrightarrow> LatencyMS b \<noteq> None \<Longrightarrow> diagLess a b = measuredLess a b"
  by (auto simp: diagLess_def measuredLess_def)

lemma reachable_measured:
  assumes "n \<in> set (Probe p clock dial nodes)" and "reachableTCP n"
  shows "LatencyMS n \<noteq> None"
proof -
  obtain i where i: "i < length nodes" "n = Probe p clock dial nodes ! i"
    using assms(1) probe.pass_length by (metis in_set_conv_nth)
  have "Protocol (nodes ! i) = ''tcp''"
    using probe.pass_nth [OF i(1)] i(2) assms(2) by (metis node_identity_eq_iff reachableTCP_def)
  then have "equal_fold (Protocol (nodes ! i)) ''tcp''"
    by (simp add: equal_fold_def)
  then show ?thesis
    using assms(2) i by (auto simp: Probe_nth reachableTCP_def probeNode_latencies status_defs split: if_splits)
qed

lemma diagnosticCandidates_measured:
  assumes "\<And>n. n \<in> set nodes \<Longrightarrow> reachableTCP n \<Longrightarrow> LatencyMS n \<noteq> None"
  shows "diagnosticCandidates nodes = insertion_sort measuredLess (filter reachableTCP nodes)"
  unfolding diagnosticCandidates_def by (rule insertion_sort_cong) (use assms diagLess_measured in auto)

section \<open>The attempts\<close>

text \<open>What one attempt comes to, without regard to the attempts before it.\<close>

definition attemptEnd :: "cli_world \<Rightarrow> openvpn_config \<Rightarrow> string \<Rightarrow> string \<Rightarrow> nat \<Rightarrow> vpn_node \<Rightarrow> diag_end" where
  "attemptEnd w cfg dir url i node =
     (case fst (connect (CliConnect w i) cfg dir i node) of
        Inl (Crashes why) \<Rightarrow> DiagPanicked why
      | Inl err \<Rightarrow> DiagFailed [ID node @ '': '' @ connect_error_text err]
      | Inr session \<Rightarrow>
          (case CliParseURL w url of
             Some err \<Rightarrow> DiagFailed [ID node @ '' data path: '' @ err]
           | None \<Rightarrow>
               (case exitIPAnswer (if CliDrop w i = None then CliCheck w i
                                   else Inl (''Get '' @ go_quote url @ '': VPNGate exit is not connected'')) of
                  Inl err \<Rightarrow> DiagFailed [ID node @ '' data path: '' @ err]
                | Inr exitIP \<Rightarrow> DiagPassed node exitIP)))"

text \<open>The first attempt that does not fail decides; the failures before it are collected.\<close>

fun firstDecisive :: "string list \<Rightarrow> diag_end list \<Rightarrow> diag_end" where
  "firstDecisive failures [] = DiagFailed failures"
| "firstDecisive failures (DiagFailed fs # es) = firstDecisive (failures @ fs) es"
| "firstDecisive failures (e # es) = e"

definition idle :: "openvpn_config \<Rightarrow> string \<Rightarrow> controller \<Rightarrow> bool" where
  "idle cfg dir c \<longleftrightarrow> CtlSession c = None \<and> \<not> Connecting c \<and> CtlCfg c = cfg \<and> RuntimeDir c = dir"

lemma Disconnect_simps [simp]:
  "CtlSession (fst (Disconnect v d c)) = None" "Connecting (fst (Disconnect v d c)) = Connecting c"
  "CtlCfg (fst (Disconnect v d c)) = CtlCfg c" "RuntimeDir (fst (Disconnect v d c)) = RuntimeDir c"
  by (simp_all add: Disconnect_def disconnectBegin_def split: option.split)

text \<open>An attempt of an idle controller comes to what the attempt alone comes to and, unless the
  parser panics, leaves the controller idle or passes.\<close>

lemma diagnoseLoop_attempts:
  "idle cfg dir c \<Longrightarrow>
   fst (snd (diagnoseLoop w url many i failures c nodes)) =
   firstDecisive failures (map (\<lambda>k. attemptEnd w cfg dir url (i + k) (nodes ! k)) [0..<length nodes])"
proof (induction nodes arbitrary: i failures c)
  case Nil
  then show ?case by simp
next
  case (Cons node nodes)
  let ?es = "map (\<lambda>k. attemptEnd w cfg dir url (Suc i + k) (nodes ! k)) [0..<length nodes]"
  have es: "map (\<lambda>k. attemptEnd w cfg dir url (i + k) ((node # nodes) ! k)) [0..<length (node # nodes)] =
    attemptEnd w cfg dir url i node # ?es"
    by (simp add: upt_conv_Cons map_Suc_upt [symmetric] comp_def del: upt_Suc map_Suc_upt)
  obtain r calls where r: "connect (CliConnect w i) cfg dir i node = (r, calls)"
    by (cases "connect (CliConnect w i) cfg dir i node")
  obtain c0 where begin_ok: "connectBegin c = Inr c0"
    and c0: "CtlCfg c0 = cfg" "RuntimeDir c0 = dir" "CtlSession c0 = None"
    using Cons.prems by (simp add: connectBegin_def idle_def)
  show ?case
  proof (cases r)
    case (Inl err)
    have alone: "attemptEnd w cfg dir url i node = (case err of Crashes why \<Rightarrow> DiagPanicked why
        | _ \<Rightarrow> DiagFailed [ID node @ '': '' @ connect_error_text err])"
      by (cases err) (simp_all add: attemptEnd_def r Inl)
    have "idle cfg dir (connectEnd (Inl err) c0)"
      using c0 by (simp add: idle_def connectEnd_def)
    from Cons.IH [OF this] show ?thesis
      unfolding es alone
      by (cases err) (simp_all add: Connect_def begin_ok c0 r Inl split_beta)
  next
    case (Inr session)
    define c2 where "c2 = tunnelDrop (CliDrop w i) (connectEnd (Inr session) c0)"
    have through: "through_tunnel c2 url a = (if CliDrop w i = None then a
        else Inl (''Get '' @ go_quote url @ '': VPNGate exit is not connected''))" for a :: "(int \<times> string res) res"
      by (auto simp: c2_def tunnelDrop_def connectEnd_def watchFailed_def through_tunnel_def DialContext_def
          split: option.split)
    have alone: "attemptEnd w cfg dir url i node = (case checkExitIP w i c2 url of
        Inl err \<Rightarrow> DiagFailed [ID node @ '' data path: '' @ err] | Inr exitIP \<Rightarrow> DiagPassed node exitIP)"
      by (simp add: attemptEnd_def checkExitIP_def r Inr through split: option.split)
    have "idle cfg dir (fst (Disconnect v d c2))" for v d
      using c0 by (auto simp: idle_def c2_def tunnelDrop_def connectEnd_def watchFailed_def split: option.split)
    from Cons.IH [OF this] show ?thesis
      unfolding es alone
      by (simp add: Connect_def begin_ok c0 r Inr Let_def split_beta flip: c2_def split: sum.split)
  qed
qed

lemma firstDecisive_passed:
  "firstDecisive failures es = DiagPassed node ip \<Longrightarrow> DiagPassed node ip \<in> set es"
  by (induction failures es rule: firstDecisive.induct) auto

lemma exitIPAnswer_valid: "exitIPAnswer a = Inr ip \<Longrightarrow> ParseIP ip \<noteq> None"
  by (auto simp: exitIPAnswer_def Let_def split: sum.splits prod.splits if_splits)

lemma attemptEnd_passed: "attemptEnd w cfg dir url i n = DiagPassed node ip \<Longrightarrow> node = n \<and> ParseIP ip \<noteq> None"
  by (auto simp: attemptEnd_def dest: exitIPAnswer_valid
      split: sum.splits connect_error.splits option.splits)

lemma loadConfig_valid: "loadConfig w path = (cfg, None) \<Longrightarrow> Validate cfg = None"
  by (auto simp: loadConfig_def LoadConfig_def split: if_splits sum.splits prod.splits option.splits)

lemma serve_command_served:
  "Served (serve_command w args) = Some cfg \<Longrightarrow>
   \<exists>base listen. Validate base = None \<and> cfg = overrideListen listen base"
  by (auto simp: serve_command_def orExit_def ended_def Let_def dest: loadConfig_valid
      split: sum.splits flag_error.splits prod.splits option.splits)

lemma others_not_served:
  "Served printUsage = None" "Served (init_command w args) = None" "Served (service_command w args) = None"
  "Served (diagnoseVPNGate w args) = None"
  by (auto simp: printUsage_def init_command_def service_command_def diagnoseVPNGate_def diagnose_def orExit_def
      ended_def Let_def split: sum.split flag_error.split prod.split option.split)

section \<open>Properties\<close>

text \<open>C25: a diagnosis decides by the first node that does not fail. What the attempt on a node comes
  to depends on the node and on the answers it gets alone: a failed attempt leaves nothing behind that
  changes a later one. A node that passes is one of those tried and the exit address it reports is an
  IP address; on every way out the tunnel is down.\<close>

theorem diagnosis_attempts_independent:
  "case diagnoseTunnels w cfg url nodes of
     (out, result, c) \<Rightarrow>
       CtlSession c = None \<and>
       result = firstDecisive []
         (map (\<lambda>i. attemptEnd w (OpenVPN cfg)
                (path_join (DataDir (CliUserConfigDir w) (CliTempDir w) (CliGOOS w) cfg) ''runtime'') url i (nodes ! i))
            [0..<length nodes]) \<and>
       (case result of DiagPassed node ip \<Rightarrow> node \<in> set nodes \<and> ParseIP ip \<noteq> None | _ \<Rightarrow> True)"
proof -
  let ?dir = "path_join (DataDir (CliUserConfigDir w) (CliTempDir w) (CliGOOS w) cfg) ''runtime''"
  let ?es = "map (\<lambda>i. attemptEnd w (OpenVPN cfg) ?dir url i (nodes ! i)) [0..<length nodes]"
  obtain out result c where d: "diagnoseTunnels w cfg url nodes = (out, result, c)"
    by (cases "diagnoseTunnels w cfg url nodes")
  have down: "CtlSession c = None"
    using d by (auto simp: diagnoseTunnels_def Let_def split: prod.splits)
  have "idle (OpenVPN cfg) ?dir
      (NewOpenVPNController (OpenVPN cfg) (DataDir (CliUserConfigDir w) (CliTempDir w) (CliGOOS w) cfg))"
    by (simp add: idle_def NewOpenVPNController_def)
  from diagnoseLoop_attempts [OF this, of w url "length nodes" 0 "[]" nodes]
  have first: "result = firstDecisive [] ?es"
    using d by (auto simp: diagnoseTunnels_def Let_def split: prod.splits)
  have "node \<in> set nodes \<and> ParseIP ip \<noteq> None" if "result = DiagPassed node ip" for node ip
  proof -
    from firstDecisive_passed that first have "DiagPassed node ip \<in> set ?es" by metis
    then obtain i where "i < length nodes" "attemptEnd w (OpenVPN cfg) ?dir url i (nodes ! i) = DiagPassed node ip"
      by auto
    then show ?thesis using attemptEnd_passed by fastforce
  qed
  then show ?thesis
    using down first by (simp add: d split: diag_end.split)
qed

text \<open>The candidates of a diagnosis are the reachable TCP nodes of the probed listing. Each has a
  measured latency; they come by ascending latency and among equal latencies by descending score,
  and nodes that agree in both keep their order.\<close>

theorem diagnostic_order:
  "let probed = diagnoseProbed w cfg nodes; cs = diagnosticCandidates probed
   in mset cs = mset (filter reachableTCP probed) \<and> None \<notin> LatencyMS ` set cs \<and>
      sorted_wrt (\<lambda>a b. the (LatencyMS a) < the (LatencyMS b) \<or>
        LatencyMS a = LatencyMS b \<and> Score b \<le> Score a) cs \<and>
      filter (\<lambda>n. LatencyMS n = l \<and> Score n = k) cs = filter (\<lambda>n. LatencyMS n = l \<and> Score n = k) (filter reachableTCP probed)"
proof -
  let ?ns = "diagnoseProbed w cfg nodes"
  have measured: "LatencyMS n \<noteq> None" if "n \<in> set ?ns" "reachableTCP n" for n
    using reachable_measured that unfolding diagnoseProbed_def by blast
  then have cs: "diagnosticCandidates ?ns = insertion_sort measuredLess (filter reachableTCP ?ns)"
    by (rule diagnosticCandidates_measured)
  have "sorted_wrt (\<lambda>a b. the (LatencyMS a) < the (LatencyMS b) \<or>
      LatencyMS a = LatencyMS b \<and> Score b \<le> Score a) (diagnosticCandidates ?ns)"
    unfolding cs by (rule sorted_wrt_mono_rel [OF _ measured.sorted_insertion_sort])
      (auto simp: measuredLess_def intro: option.expand dest: measured)
  moreover have "filter (\<lambda>n. LatencyMS n = l \<and> Score n = k) (diagnosticCandidates ?ns) =
      filter (\<lambda>n. LatencyMS n = l \<and> Score n = k) (filter reachableTCP ?ns)"
    unfolding cs by (rule filter_insertion_sort) (auto simp: measuredLess_def)
  moreover have "None \<notin> LatencyMS ` set (diagnosticCandidates ?ns)"
    by (auto simp: cs dest!: measured)
  ultimately show ?thesis by (simp add: cs Let_def)
qed

text \<open>What the program serves is a configuration that was loaded and validated, with at most the
  listen address replaced from the command line; no other command serves.\<close>

theorem run_serves_validated:
  assumes "Served (run w args) = Some cfg"
  shows "\<exists>base listen. Validate base = None \<and> cfg = overrideListen listen base"
  using assms serve_command_served [of w _ cfg]
  by (auto simp: run_def others_not_served ended_def split: list.splits if_splits)

text \<open>The replaced listen address is not validated.\<close>

definition some_cli :: cli_world where
  "some_cli =
     \<lparr>CliRead = (\<lambda>_. Inr ''{}''), CliUnmarshal = (\<lambda>_ _. (some_gateway, None)), CliStat = (\<lambda>_. Absent),
      CliRandom = (\<lambda>_ _. Inl ''no entropy''), CliMkdir = (\<lambda>_. None), CliWriteConfig = (\<lambda>_ _. None),
      CliWrite = (\<lambda>_. None), CliEnvGOOS = '''', CliGOOS = ''linux'', CliUserConfigDir = Inr ''/home/rim/.config'',
      CliTempDir = ''/tmp'', CliFrac = (\<lambda>_ _ _. 0), CliListen = (\<lambda>_. None), CliFetch = (\<lambda>_. Inl ''offline''),
      CliCsvText = (\<lambda>_. ''''), CliProbeClock = (\<lambda>_. 0), CliProbeDial = (\<lambda>_ _ _ _. Inl ''refused''),
      CliConnect = (\<lambda>_. some_io), CliDrop = (\<lambda>_. None), CliParseURL = (\<lambda>_. None),
      CliCheck = (\<lambda>_. Inl ''offline''), CliClose = (\<lambda>_. (None, None))\<rparr>"

definition serve_anywhere :: "string list" where
  "serve_anywhere = [''rim'', ''serve'', ''--listen'', ''anywhere'']"

lemma run_serve_anywhere:
  "Served (run some_cli serve_anywhere) = Some (overrideListen ''anywhere'' some_gateway)"
  by code_simp

theorem serve_listen_not_validated:
  "map_option Validate (Served (run some_cli serve_anywhere)) \<noteq> Some None"
proof -
  have "Validate (overrideListen ''anywhere'' some_gateway) \<noteq> None" by code_simp
  then show ?thesis by (simp add: run_serve_anywhere)
qed

theorem run_serves_validated_witness:
  "Served (run some_cli serve_anywhere) \<noteq> None \<and>
   (\<exists>base listen. Validate base = None \<and> overrideListen ''anywhere'' some_gateway = overrideListen listen base)"
  using run_serves_validated [OF run_serve_anywhere] by (simp add: run_serve_anywhere)

end
