(* ===== verification/Page_Text.thy ===== *)
theory Page_Text
  imports Main
begin

text \<open>
  The literals of the console page (src/internal/web/static.go) that are not ASCII, as the bytes of
  their UTF-8 text. The
  comment before each gives its meaning in English.
\<close>

text \<open>refreshing the nodes\<close>

definition lbl_fetching_nodes :: string where
  "lbl_fetching_nodes =
    [CHR 0xE6, CHR 0xAD, CHR 0xA3, CHR 0xE5, CHR 0x9C, CHR 0xA8, CHR 0xE5, CHR 0x88, CHR 0xB7,
     CHR 0xE6, CHR 0x96, CHR 0xB0, CHR 0xE8, CHR 0x8A, CHR 0x82, CHR 0xE7, CHR 0x82, CHR 0xB9]"

text \<open>checking the nodes\<close>

definition lbl_probing_nodes :: string where
  "lbl_probing_nodes =
    [CHR 0xE6, CHR 0xAD, CHR 0xA3, CHR 0xE5, CHR 0x9C, CHR 0xA8, CHR 0xE6, CHR 0xA3, CHR 0x80,
     CHR 0xE6, CHR 0xB5, CHR 0x8B, CHR 0xE8, CHR 0x8A, CHR 0x82, CHR 0xE7, CHR 0x82, CHR 0xB9]"

text \<open>setting up the tunnel\<close>

definition lbl_connecting :: string where
  "lbl_connecting =
    [CHR 0xE6, CHR 0xAD, CHR 0xA3, CHR 0xE5, CHR 0x9C, CHR 0xA8, CHR 0xE5, CHR 0xBB, CHR 0xBA,
     CHR 0xE7, CHR 0xAB, CHR 0x8B, CHR 0xE9, CHR 0x9A, CHR 0xA7, CHR 0xE9, CHR 0x81, CHR 0x93]"

text \<open>verifying the exit\<close>

definition lbl_verifying :: string where
  "lbl_verifying =
    [CHR 0xE6, CHR 0xAD, CHR 0xA3, CHR 0xE5, CHR 0x9C, CHR 0xA8, CHR 0xE5, CHR 0xA4, CHR 0x8D,
     CHR 0xE6, CHR 0xA0, CHR 0xB8, CHR 0xE5, CHR 0x87, CHR 0xBA, CHR 0xE5, CHR 0x8F, CHR 0xA3]"

text \<open>exit connected\<close>

definition lbl_connected :: string where
  "lbl_connected =
    [CHR 0xE5, CHR 0x87, CHR 0xBA, CHR 0xE5, CHR 0x8F, CHR 0xA3, CHR 0xE5, CHR 0xB7, CHR 0xB2,
     CHR 0xE8, CHR 0xBF, CHR 0x9E, CHR 0xE6, CHR 0x8E, CHR 0xA5]"

text \<open>switching nodes\<close>

definition lbl_failing_over :: string where
  "lbl_failing_over =
    [CHR 0xE6, CHR 0xAD, CHR 0xA3, CHR 0xE5, CHR 0x9C, CHR 0xA8, CHR 0xE5, CHR 0x88, CHR 0x87,
     CHR 0xE6, CHR 0x8D, CHR 0xA2, CHR 0xE8, CHR 0x8A, CHR 0x82, CHR 0xE7, CHR 0x82, CHR 0xB9]"

text \<open>disconnecting\<close>

definition lbl_disconnecting :: string where
  "lbl_disconnecting =
    [CHR 0xE6, CHR 0xAD, CHR 0xA3, CHR 0xE5, CHR 0x9C, CHR 0xA8, CHR 0xE6, CHR 0x96, CHR 0xAD,
     CHR 0xE5, CHR 0xBC, CHR 0x80]"

text \<open>needs attention\<close>

definition lbl_error :: string where
  "lbl_error =
    [CHR 0xE9, CHR 0x9C, CHR 0x80, CHR 0xE8, CHR 0xA6, CHR 0x81, CHR 0xE5, CHR 0xA4, CHR 0x84,
     CHR 0xE7, CHR 0x90, CHR 0x86]"

text \<open>strictly residential\<close>

definition lbl_strict_home :: string where
  "lbl_strict_home =
    [CHR 0xE4, CHR 0xB8, CHR 0xA5, CHR 0xE6, CHR 0xA0, CHR 0xBC, CHR 0xE5, CHR 0xAE, CHR 0xB6,
     CHR 0xE5, CHR 0xAE, CHR 0xBD]"

text \<open>candidate\<close>

definition lbl_candidate :: string where
  "lbl_candidate =
    [CHR 0xE5, CHR 0x80, CHR 0x99, CHR 0xE9, CHR 0x80, CHR 0x89]"

text \<open>excluded\<close>

definition lbl_rejected :: string where
  "lbl_rejected =
    [CHR 0xE5, CHR 0xB7, CHR 0xB2, CHR 0xE6, CHR 0x8E, CHR 0x92, CHR 0xE9, CHR 0x99, CHR 0xA4]"

text \<open>available\<close>

definition lbl_available :: string where
  "lbl_available =
    [CHR 0xE5, CHR 0x8F, CHR 0xAF, CHR 0xE7, CHR 0x94, CHR 0xA8]"

text \<open>unavailable\<close>

definition lbl_unavailable :: string where
  "lbl_unavailable =
    [CHR 0xE4, CHR 0xB8, CHR 0x8D, CHR 0xE5, CHR 0x8F, CHR 0xAF, CHR 0xE7, CHR 0x94, CHR 0xA8]"

text \<open>being checked\<close>

definition lbl_checking :: string where
  "lbl_checking =
    [CHR 0xE6, CHR 0xA3, CHR 0x80, CHR 0xE6, CHR 0xB5, CHR 0x8B, CHR 0xE4, CHR 0xB8, CHR 0xAD]"

text \<open>cooling down\<close>

definition lbl_cooldown :: string where
  "lbl_cooldown =
    [CHR 0xE5, CHR 0x86, CHR 0xB7, CHR 0xE5, CHR 0x8D, CHR 0xB4, CHR 0xE4, CHR 0xB8, CHR 0xAD]"

text \<open>unknown\<close>

definition lbl_unknown :: string where
  "lbl_unknown =
    [CHR 0xE6, CHR 0x9C, CHR 0xAA, CHR 0xE7, CHR 0x9F, CHR 0xA5]"

text \<open>the login is no longer valid\<close>

definition pg_login_lost :: string where
  "pg_login_lost =
    [CHR 0xE7, CHR 0x99, CHR 0xBB, CHR 0xE5, CHR 0xBD, CHR 0x95, CHR 0xE7, CHR 0x8A, CHR 0xB6,
     CHR 0xE6, CHR 0x80, CHR 0x81, CHR 0xE5, CHR 0xB7, CHR 0xB2, CHR 0xE5, CHR 0xA4, CHR 0xB1,
     CHR 0xE6, CHR 0x95, CHR 0x88]"

text \<open>waiting for an operation\<close>

definition pg_waiting :: string where
  "pg_waiting =
    [CHR 0xE7, CHR 0xAD, CHR 0x89, CHR 0xE5, CHR 0xBE, CHR 0x85, CHR 0xE6, CHR 0x93, CHR 0x8D,
     CHR 0xE4, CHR 0xBD, CHR 0x9C]"

text \<open>VPNGate exit online\<close>

definition pg_exit_online :: string where
  "pg_exit_online =
    [CHR ''V'', CHR ''P'', CHR ''N'', CHR ''G'', CHR ''a'', CHR ''t'', CHR ''e'', CHR 0x20,
     CHR 0xE5, CHR 0x87, CHR 0xBA, CHR 0xE5, CHR 0x8F, CHR 0xA3, CHR 0xE5, CHR 0x9C, CHR 0xA8,
     CHR 0xE7, CHR 0xBA, CHR 0xBF]"

text \<open>service running\<close>

definition pg_service_running :: string where
  "pg_service_running =
    [CHR 0xE6, CHR 0x9C, CHR 0x8D, CHR 0xE5, CHR 0x8A, CHR 0xA1, CHR 0xE8, CHR 0xBF, CHR 0x90,
     CHR 0xE8, CHR 0xA1, CHR 0x8C, CHR 0xE4, CHR 0xB8, CHR 0xAD]"

text \<open>not connected\<close>

definition pg_not_connected :: string where
  "pg_not_connected =
    [CHR 0xE6, CHR 0x9C, CHR 0xAA, CHR 0xE8, CHR 0xBF, CHR 0x9E, CHR 0xE6, CHR 0x8E, CHR 0xA5]"

text \<open>not yet verified\<close>

definition pg_not_verified :: string where
  "pg_not_verified =
    [CHR 0xE5, CHR 0xB0, CHR 0x9A, CHR 0xE6, CHR 0x9C, CHR 0xAA, CHR 0xE9, CHR 0xAA, CHR 0x8C,
     CHR 0xE8, CHR 0xAF, CHR 0x81]"

text \<open>the exit address is shown once connected\<close>

definition pg_exit_hint :: string where
  "pg_exit_hint =
    [CHR 0xE8, CHR 0xBF, CHR 0x9E, CHR 0xE6, CHR 0x8E, CHR 0xA5, CHR 0xE5, CHR 0x90, CHR 0x8E,
     CHR 0xE6, CHR 0x98, CHR 0xBE, CHR 0xE7, CHR 0xA4, CHR 0xBA, CHR 0xE5, CHR 0x87, CHR 0xBA,
     CHR 0xE5, CHR 0x8F, CHR 0xA3, CHR 0xE5, CHR 0x9C, CHR 0xB0, CHR 0xE5, CHR 0x9D, CHR 0x80]"

text \<open>separator\<close>

definition pg_dot :: string where
  "pg_dot =
    [CHR 0x20, CHR 0xC2, CHR 0xB7, CHR 0x20]"

text \<open>verification passed\<close>

definition pg_verified :: string where
  "pg_verified =
    [CHR 0xE9, CHR 0xAA, CHR 0x8C, CHR 0xE8, CHR 0xAF, CHR 0x81, CHR 0xE9, CHR 0x80, CHR 0x9A,
     CHR 0xE8, CHR 0xBF, CHR 0x87, CHR 0x20, CHR 0xC2, CHR 0xB7, CHR 0x20]"

text \<open>waiting for the verification of the exit\<close>

definition pg_awaiting_verification :: string where
  "pg_awaiting_verification =
    [CHR 0xE7, CHR 0xAD, CHR 0x89, CHR 0xE5, CHR 0xBE, CHR 0x85, CHR 0xE5, CHR 0x87, CHR 0xBA,
     CHR 0xE5, CHR 0x8F, CHR 0xA3, CHR 0xE9, CHR 0xAA, CHR 0x8C, CHR 0xE8, CHR 0xAF, CHR 0x81]"

text \<open>SOCKS5 ready\<close>

definition pg_socks_ready :: string where
  "pg_socks_ready =
    [CHR ''S'', CHR ''O'', CHR ''C'', CHR ''K'', CHR ''S'', CHR ''5'', CHR 0x20, CHR 0xE5,
     CHR 0xB7, CHR 0xB2, CHR 0xE5, CHR 0xB0, CHR 0xB1, CHR 0xE7, CHR 0xBB, CHR 0xAA]"

text \<open>proxy service not running\<close>

definition pg_proxy_not_running :: string where
  "pg_proxy_not_running =
    [CHR 0xE4, CHR 0xBB, CHR 0xA3, CHR 0xE7, CHR 0x90, CHR 0x86, CHR 0xE6, CHR 0x9C, CHR 0x8D,
     CHR 0xE5, CHR 0x8A, CHR 0xA1, CHR 0xE6, CHR 0x9C, CHR 0xAA, CHR 0xE8, CHR 0xBF, CHR 0x90,
     CHR 0xE8, CHR 0xA1, CHR 0x8C]"

text \<open>VMESS inbound ready\<close>

definition pg_vmess_ready :: string where
  "pg_vmess_ready =
    [CHR ''V'', CHR ''M'', CHR ''E'', CHR ''S'', CHR ''S'', CHR 0x20, CHR 0xE5, CHR 0x85,
     CHR 0xA5, CHR 0xE7, CHR 0xAB, CHR 0x99, CHR 0xE5, CHR 0xB7, CHR 0xB2, CHR 0xE5, CHR 0xB0,
     CHR 0xB1, CHR 0xE7, CHR 0xBB, CHR 0xAA]"

text \<open>service not running\<close>

definition pg_service_not_running :: string where
  "pg_service_not_running =
    [CHR 0xE6, CHR 0x9C, CHR 0x8D, CHR 0xE5, CHR 0x8A, CHR 0xA1, CHR 0xE6, CHR 0x9C, CHR 0xAA,
     CHR 0xE8, CHR 0xBF, CHR 0x90, CHR 0xE8, CHR 0xA1, CHR 0x8C]"

text \<open>stop VMESS\<close>

definition pg_stop_vmess :: string where
  "pg_stop_vmess =
    [CHR 0xE5, CHR 0x81, CHR 0x9C, CHR 0xE6, CHR 0xAD, CHR 0xA2, CHR 0x20, CHR ''V'', CHR ''M'',
     CHR ''E'', CHR ''S'', CHR ''S'']"

text \<open>start VMESS\<close>

definition pg_start_vmess :: string where
  "pg_start_vmess =
    [CHR 0xE5, CHR 0x90, CHR 0xAF, CHR 0xE5, CHR 0x8A, CHR 0xA8, CHR 0x20, CHR ''V'', CHR ''M'',
     CHR ''E'', CHR ''S'', CHR ''S'']"

text \<open>tunnel online\<close>

definition pg_tunnel_online :: string where
  "pg_tunnel_online =
    [CHR 0xE9, CHR 0x9A, CHR 0xA7, CHR 0xE9, CHR 0x81, CHR 0x93, CHR 0xE5, CHR 0x9C, CHR 0xA8,
     CHR 0xE7, CHR 0xBA, CHR 0xBF]"

text \<open> downstream\<close>

definition pg_downstream :: string where
  "pg_downstream =
    [CHR 0x20, CHR 0xE4, CHR 0xB8, CHR 0x8B, CHR 0xE8, CHR 0xA1, CHR 0x8C]"

text \<open>waiting for a node to be chosen\<close>

definition pg_choose_node :: string where
  "pg_choose_node =
    [CHR 0xE7, CHR 0xAD, CHR 0x89, CHR 0xE5, CHR 0xBE, CHR 0x85, CHR 0xE9, CHR 0x80, CHR 0x89,
     CHR 0xE6, CHR 0x8B, CHR 0xA9, CHR 0xE8, CHR 0x8A, CHR 0x82, CHR 0xE7, CHR 0x82, CHR 0xB9]"

text \<open>OpenVPN engine\<close>

definition pg_row_engine :: string where
  "pg_row_engine =
    [CHR ''O'', CHR ''p'', CHR ''e'', CHR ''n'', CHR ''V'', CHR ''P'', CHR ''N'', CHR 0x20,
     CHR 0xE5, CHR 0xBC, CHR 0x95, CHR 0xE6, CHR 0x93, CHR 0x8E]"

text \<open>built-in protocol engine\<close>

definition pg_builtin_engine :: string where
  "pg_builtin_engine =
    [CHR 0xE5, CHR 0x86, CHR 0x85, CHR 0xE5, CHR 0xB5, CHR 0x8C, CHR 0xE5, CHR 0x8D, CHR 0x8F,
     CHR 0xE8, CHR 0xAE, CHR 0xAE, CHR 0xE5, CHR 0xBC, CHR 0x95, CHR 0xE6, CHR 0x93, CHR 0x8E]"

text \<open>state of the tunnel\<close>

definition pg_row_tunnel :: string where
  "pg_row_tunnel =
    [CHR 0xE9, CHR 0x9A, CHR 0xA7, CHR 0xE9, CHR 0x81, CHR 0x93, CHR 0xE7, CHR 0x8A, CHR 0xB6,
     CHR 0xE6, CHR 0x80, CHR 0x81]"

text \<open>connected\<close>

definition pg_connected :: string where
  "pg_connected =
    [CHR 0xE5, CHR 0xB7, CHR 0xB2, CHR 0xE8, CHR 0xBF, CHR 0x9E, CHR 0xE6, CHR 0x8E, CHR 0xA5]"

text \<open>connecting\<close>

definition pg_connecting :: string where
  "pg_connecting =
    [CHR 0xE8, CHR 0xBF, CHR 0x9E, CHR 0xE6, CHR 0x8E, CHR 0xA5, CHR 0xE4, CHR 0xB8, CHR 0xAD]"

text \<open>tunnel address\<close>

definition pg_row_address :: string where
  "pg_row_address =
    [CHR 0xE9, CHR 0x9A, CHR 0xA7, CHR 0xE9, CHR 0x81, CHR 0x93, CHR 0xE5, CHR 0x9C, CHR 0xB0,
     CHR 0xE5, CHR 0x9D, CHR 0x80]"

text \<open>VPNGate gateway\<close>

definition pg_row_gateway :: string where
  "pg_row_gateway =
    [CHR ''V'', CHR ''P'', CHR ''N'', CHR ''G'', CHR ''a'', CHR ''t'', CHR ''e'', CHR 0x20,
     CHR 0xE7, CHR 0xBD, CHR 0x91, CHR 0xE5, CHR 0x85, CHR 0xB3]"

text \<open>packets received and sent\<close>

definition pg_row_packets :: string where
  "pg_row_packets =
    [CHR 0xE6, CHR 0x94, CHR 0xB6, CHR 0xE5, CHR 0x8F, CHR 0x91, CHR 0xE6, CHR 0x95, CHR 0xB0,
     CHR 0xE6, CHR 0x8D, CHR 0xAE, CHR 0xE5, CHR 0x8C, CHR 0x85]"

text \<open>traffic received and sent\<close>

definition pg_row_bytes :: string where
  "pg_row_bytes =
    [CHR 0xE6, CHR 0x94, CHR 0xB6, CHR 0xE5, CHR 0x8F, CHR 0x91, CHR 0xE6, CHR 0xB5, CHR 0x81,
     CHR 0xE9, CHR 0x87, CHR 0x8F]"

text \<open>VMESS service\<close>

definition pg_row_vmess :: string where
  "pg_row_vmess =
    [CHR ''V'', CHR ''M'', CHR ''E'', CHR ''S'', CHR ''S'', CHR 0x20, CHR 0xE6, CHR 0x9C,
     CHR 0x8D, CHR 0xE5, CHR 0x8A, CHR 0xA1]"

text \<open>running\<close>

definition pg_running :: string where
  "pg_running =
    [CHR 0xE8, CHR 0xBF, CHR 0x90, CHR 0xE8, CHR 0xA1, CHR 0x8C, CHR 0xE4, CHR 0xB8, CHR 0xAD]"

text \<open>not running\<close>

definition pg_not_running :: string where
  "pg_not_running =
    [CHR 0xE6, CHR 0x9C, CHR 0xAA, CHR 0xE8, CHR 0xBF, CHR 0x90, CHR 0xE8, CHR 0xA1, CHR 0x8C]"

text \<open>local SOCKS\<close>

definition pg_row_socks :: string where
  "pg_row_socks =
    [CHR 0xE6, CHR 0x9C, CHR 0xAC, CHR 0xE6, CHR 0x9C, CHR 0xBA, CHR 0x20, CHR ''S'', CHR ''O'',
     CHR ''C'', CHR ''K'', CHR ''S'']"

text \<open>system privileges\<close>

definition pg_row_privilege :: string where
  "pg_row_privilege =
    [CHR 0xE7, CHR 0xB3, CHR 0xBB, CHR 0xE7, CHR 0xBB, CHR 0x9F, CHR 0xE6, CHR 0x9D, CHR 0x83,
     CHR 0xE9, CHR 0x99, CHR 0x90]"

text \<open>no additional privileges needed\<close>

definition pg_no_privilege :: string where
  "pg_no_privilege =
    [CHR 0xE6, CHR 0x97, CHR 0xA0, CHR 0xE9, CHR 0x9C, CHR 0x80, CHR 0xE9, CHR 0xA2, CHR 0x9D,
     CHR 0xE5, CHR 0xA4, CHR 0x96, CHR 0xE6, CHR 0x9D, CHR 0x83, CHR 0xE9, CHR 0x99, CHR 0x90]"

text \<open> results\<close>

definition pg_results :: string where
  "pg_results =
    [CHR 0x20, CHR 0xE4, CHR 0xB8, CHR 0xAA, CHR 0xE7, CHR 0xBB, CHR 0x93, CHR 0xE6, CHR 0x9E,
     CHR 0x9C]"

text \<open>not judged\<close>

definition pg_unjudged :: string where
  "pg_unjudged =
    [CHR 0xE6, CHR 0x9C, CHR 0xAA, CHR 0xE5, CHR 0x88, CHR 0xA4, CHR 0xE5, CHR 0xAE, CHR 0x9A]"

text \<open>current\<close>

definition pg_current :: string where
  "pg_current =
    [CHR 0xE5, CHR 0xBD, CHR 0x93, CHR 0xE5, CHR 0x89, CHR 0x8D]"

text \<open>connect\<close>

definition pg_connect :: string where
  "pg_connect =
    [CHR 0xE8, CHR 0xBF, CHR 0x9E, CHR 0xE6, CHR 0x8E, CHR 0xA5]"

text \<open>no log entries\<close>

definition pg_no_logs :: string where
  "pg_no_logs =
    [CHR 0xE6, CHR 0x9A, CHR 0x82, CHR 0xE6, CHR 0x97, CHR 0xA0, CHR 0xE6, CHR 0x97, CHR 0xA5,
     CHR 0xE5, CHR 0xBF, CHR 0x97]"

text \<open>events of the service are shown here\<close>

definition pg_logs_hint :: string where
  "pg_logs_hint =
    [CHR 0xE6, CHR 0x9C, CHR 0x8D, CHR 0xE5, CHR 0x8A, CHR 0xA1, CHR 0xE4, CHR 0xBA, CHR 0x8B,
     CHR 0xE4, CHR 0xBB, CHR 0xB6, CHR 0xE4, CHR 0xBC, CHR 0x9A, CHR 0xE6, CHR 0x98, CHR 0xBE,
     CHR 0xE7, CHR 0xA4, CHR 0xBA, CHR 0xE5, CHR 0x9C, CHR 0xA8, CHR 0xE8, CHR 0xBF, CHR 0x99,
     CHR 0xE9, CHR 0x87, CHR 0x8C, CHR 0xE3, CHR 0x80, CHR 0x82]"

text \<open>copy the Quantumult X subscription\<close>

definition pg_copy_qx :: string where
  "pg_copy_qx =
    [CHR 0xE5, CHR 0xA4, CHR 0x8D, CHR 0xE5, CHR 0x88, CHR 0xB6, CHR 0x20, CHR ''Q'', CHR ''u'',
     CHR ''a'', CHR ''n'', CHR ''t'', CHR ''u'', CHR ''m'', CHR ''u'', CHR ''l'', CHR ''t'',
     CHR 0x20, CHR ''X'', CHR 0x20, CHR 0xE8, CHR 0xAE, CHR 0xA2, CHR 0xE9, CHR 0x98, CHR 0x85]"

text \<open>copy the VMESS subscription\<close>

definition pg_copy_vmess :: string where
  "pg_copy_vmess =
    [CHR 0xE5, CHR 0xA4, CHR 0x8D, CHR 0xE5, CHR 0x88, CHR 0xB6, CHR 0x20, CHR ''V'', CHR ''M'',
     CHR ''E'', CHR ''S'', CHR ''S'', CHR 0x20, CHR 0xE8, CHR 0xAE, CHR 0xA2, CHR 0xE9, CHR 0x98,
     CHR 0x85]"

text \<open>address chosen automatically\<close>

definition pg_auto_host :: string where
  "pg_auto_host =
    [CHR 0xE8, CHR 0x87, CHR 0xAA, CHR 0xE5, CHR 0x8A, CHR 0xA8, CHR 0xE9, CHR 0x80, CHR 0x89,
     CHR 0xE6, CHR 0x8B, CHR 0xA9, CHR 0xE5, CHR 0x9C, CHR 0xB0, CHR 0xE5, CHR 0x9D, CHR 0x80]"

text \<open>clients in the local network can fetch the subscription\<close>

definition pg_sub_lan :: string where
  "pg_sub_lan =
    [CHR 0xE5, CHR 0xB1, CHR 0x80, CHR 0xE5, CHR 0x9F, CHR 0x9F, CHR 0xE7, CHR 0xBD, CHR 0x91,
     CHR 0xE5, CHR 0xAE, CHR 0xA2, CHR 0xE6, CHR 0x88, CHR 0xB7, CHR 0xE7, CHR 0xAB, CHR 0xAF,
     CHR 0xE5, CHR 0x8F, CHR 0xAF, CHR 0xE8, CHR 0x8E, CHR 0xB7, CHR 0xE5, CHR 0x8F, CHR 0x96,
     CHR 0xE8, CHR 0xAE, CHR 0xA2, CHR 0xE9, CHR 0x98, CHR 0x85]"

text \<open>only this machine can fetch the subscription; phones need a listener in the local network\<close>

definition pg_sub_local :: string where
  "pg_sub_local =
    [CHR 0xE4, CHR 0xBB, CHR 0x85, CHR 0xE6, CHR 0x9C, CHR 0xAC, CHR 0xE6, CHR 0x9C, CHR 0xBA,
     CHR 0xE5, CHR 0x8F, CHR 0xAF, CHR 0xE8, CHR 0x8E, CHR 0xB7, CHR 0xE5, CHR 0x8F, CHR 0x96,
     CHR 0xE8, CHR 0xAE, CHR 0xA2, CHR 0xE9, CHR 0x98, CHR 0x85, CHR 0xEF, CHR 0xBC, CHR 0x9B,
     CHR 0xE6, CHR 0x89, CHR 0x8B, CHR 0xE6, CHR 0x9C, CHR 0xBA, CHR 0xE9, CHR 0x9C, CHR 0x80,
     CHR 0xE8, CHR 0xA6, CHR 0x81, CHR 0xE5, CHR 0xBC, CHR 0x80, CHR 0xE5, CHR 0x90, CHR 0xAF,
     CHR 0xE5, CHR 0xB1, CHR 0x80, CHR 0xE5, CHR 0x9F, CHR 0x9F, CHR 0xE7, CHR 0xBD, CHR 0x91,
     CHR 0xE7, CHR 0x9B, CHR 0x91, CHR 0xE5, CHR 0x90, CHR 0xAC]"

text \<open>not applicable\<close>

definition pg_not_applicable :: string where
  "pg_not_applicable =
    [CHR 0xE4, CHR 0xB8, CHR 0x8D, CHR 0xE9, CHR 0x80, CHR 0x82, CHR 0xE7, CHR 0x94, CHR 0xA8]"

text \<open> times\<close>

definition pg_times :: string where
  "pg_times =
    [CHR 0x20, CHR 0xE6, CHR 0xAC, CHR 0xA1]"

text \<open>not sampled\<close>

definition pg_not_sampled :: string where
  "pg_not_sampled =
    [CHR 0xE6, CHR 0x9C, CHR 0xAA, CHR 0xE9, CHR 0x87, CHR 0x87, CHR 0xE6, CHR 0xA0, CHR 0xB7]"

text \<open>to be measured again\<close>

definition pg_retest :: string where
  "pg_retest =
    [CHR 0xE5, CHR 0xBE, CHR 0x85, CHR 0xE5, CHR 0xA4, CHR 0x8D, CHR 0xE6, CHR 0xB5, CHR 0x8B]"

text \<open> - taken over by this machine, it seems\<close>

definition pg_suspect :: string where
  "pg_suspect =
    [CHR 0x20, CHR 0xC2, CHR 0xB7, CHR 0x20, CHR 0xE7, CHR 0x96, CHR 0x91, CHR 0xE4, CHR 0xBC,
     CHR 0xBC, CHR 0xE6, CHR 0x9C, CHR 0xAC, CHR 0xE6, CHR 0x9C, CHR 0xBA, CHR 0xE6, CHR 0x8E,
     CHR 0xA5, CHR 0xE7, CHR 0xAE, CHR 0xA1]"

text \<open> - median of the TCP times\<close>

definition pg_median :: string where
  "pg_median =
    [CHR 0x20, CHR 0xC2, CHR 0xB7, CHR 0x20, CHR ''T'', CHR ''C'', CHR ''P'', CHR 0x20, CHR 0xE4,
     CHR 0xB8, CHR 0xAD, CHR 0xE4, CHR 0xBD, CHR 0x8D, CHR 0xE6, CHR 0x95, CHR 0xB0]"

text \<open>reference value of VPNGate\<close>

definition pg_advertised :: string where
  "pg_advertised =
    [CHR ''V'', CHR ''P'', CHR ''N'', CHR ''G'', CHR ''a'', CHR ''t'', CHR ''e'', CHR 0x20,
     CHR 0xE5, CHR 0x8F, CHR 0x82, CHR 0xE8, CHR 0x80, CHR 0x83, CHR 0xE5, CHR 0x80, CHR 0xBC]"

text \<open>logging in\<close>

definition pg_busy_login :: string where
  "pg_busy_login =
    [CHR 0xE6, CHR 0xAD, CHR 0xA3, CHR 0xE5, CHR 0x9C, CHR 0xA8, CHR 0xE7, CHR 0x99, CHR 0xBB,
     CHR 0xE5, CHR 0xBD, CHR 0x95]"

text \<open>verifying\<close>

definition pg_busy_verify :: string where
  "pg_busy_verify =
    [CHR 0xE5, CHR 0xA4, CHR 0x8D, CHR 0xE6, CHR 0xA0, CHR 0xB8, CHR 0xE4, CHR 0xB8, CHR 0xAD]"

text \<open>refreshing\<close>

definition pg_busy_refresh :: string where
  "pg_busy_refresh =
    [CHR 0xE5, CHR 0x88, CHR 0xB7, CHR 0xE6, CHR 0x96, CHR 0xB0, CHR 0xE4, CHR 0xB8, CHR 0xAD]"

text \<open>judging\<close>

definition pg_busy_classify :: string where
  "pg_busy_classify =
    [CHR 0xE5, CHR 0x88, CHR 0xA4, CHR 0xE5, CHR 0xAE, CHR 0x9A, CHR 0xE4, CHR 0xB8, CHR 0xAD]"

text \<open>probing\<close>

definition pg_busy_probe :: string where
  "pg_busy_probe =
    [CHR 0xE6, CHR 0x8E, CHR 0xA2, CHR 0xE6, CHR 0xB4, CHR 0xBB, CHR 0xE4, CHR 0xB8, CHR 0xAD]"

text \<open>disconnecting\<close>

definition pg_busy_disconnect :: string where
  "pg_busy_disconnect =
    [CHR 0xE6, CHR 0x96, CHR 0xAD, CHR 0xE5, CHR 0xBC, CHR 0x80, CHR 0xE4, CHR 0xB8, CHR 0xAD]"

text \<open>stopping\<close>

definition pg_busy_stop :: string where
  "pg_busy_stop =
    [CHR 0xE5, CHR 0x81, CHR 0x9C, CHR 0xE6, CHR 0xAD, CHR 0xA2, CHR 0xE4, CHR 0xB8, CHR 0xAD]"

text \<open>starting\<close>

definition pg_busy_start :: string where
  "pg_busy_start =
    [CHR 0xE5, CHR 0x90, CHR 0xAF, CHR 0xE5, CHR 0x8A, CHR 0xA8, CHR 0xE4, CHR 0xB8, CHR 0xAD]"

text \<open>connecting\<close>

definition pg_busy_node :: string where
  "pg_busy_node =
    [CHR 0xE6, CHR 0xAD, CHR 0xA3, CHR 0xE5, CHR 0x9C, CHR 0xA8, CHR 0xE8, CHR 0xBF, CHR 0x9E,
     CHR 0xE6, CHR 0x8E, CHR 0xA5]"

text \<open>node connected\<close>

definition pg_node_connected :: string where
  "pg_node_connected =
    [CHR 0xE8, CHR 0x8A, CHR 0x82, CHR 0xE7, CHR 0x82, CHR 0xB9, CHR 0xE5, CHR 0xB7, CHR 0xB2,
     CHR 0xE8, CHR 0xBF, CHR 0x9E, CHR 0xE6, CHR 0x8E, CHR 0xA5]"

text \<open>VPNGate exit connected\<close>

definition pg_exit_connected :: string where
  "pg_exit_connected =
    [CHR ''V'', CHR ''P'', CHR ''N'', CHR ''G'', CHR ''a'', CHR ''t'', CHR ''e'', CHR 0x20,
     CHR 0xE5, CHR 0x87, CHR 0xBA, CHR 0xE5, CHR 0x8F, CHR 0xA3, CHR 0xE5, CHR 0xB7, CHR 0xB2,
     CHR 0xE8, CHR 0xBF, CHR 0x9E, CHR 0xE6, CHR 0x8E, CHR 0xA5]"

text \<open>verification of the exit passed: \<close>

definition pg_exit_verified :: string where
  "pg_exit_verified =
    [CHR 0xE5, CHR 0x87, CHR 0xBA, CHR 0xE5, CHR 0x8F, CHR 0xA3, CHR 0xE9, CHR 0xAA, CHR 0x8C,
     CHR 0xE8, CHR 0xAF, CHR 0x81, CHR 0xE9, CHR 0x80, CHR 0x9A, CHR 0xE8, CHR 0xBF, CHR 0x87,
     CHR 0xEF, CHR 0xBC, CHR 0x9A]"

text \<open>node list refreshed\<close>

definition pg_refreshed :: string where
  "pg_refreshed =
    [CHR 0xE8, CHR 0x8A, CHR 0x82, CHR 0xE7, CHR 0x82, CHR 0xB9, CHR 0xE5, CHR 0x88, CHR 0x97,
     CHR 0xE8, CHR 0xA1, CHR 0xA8, CHR 0xE5, CHR 0xB7, CHR 0xB2, CHR 0xE5, CHR 0x88, CHR 0xB7,
     CHR 0xE6, CHR 0x96, CHR 0xB0]"

text \<open>residential classification finished\<close>

definition pg_classified :: string where
  "pg_classified =
    [CHR 0xE5, CHR 0xAE, CHR 0xB6, CHR 0xE5, CHR 0xAE, CHR 0xBD, CHR 0xE5, CHR 0x88, CHR 0xA4,
     CHR 0xE5, CHR 0xAE, CHR 0x9A, CHR 0xE5, CHR 0xB7, CHR 0xB2, CHR 0xE5, CHR 0xAE, CHR 0x8C,
     CHR 0xE6, CHR 0x88, CHR 0x90]"

text \<open>TCP probe finished\<close>

definition pg_probed :: string where
  "pg_probed =
    [CHR ''T'', CHR ''C'', CHR ''P'', CHR 0x20, CHR 0xE6, CHR 0x8E, CHR 0xA2, CHR 0xE6, CHR 0xB4,
     CHR 0xBB, CHR 0xE5, CHR 0xB7, CHR 0xB2, CHR 0xE5, CHR 0xAE, CHR 0x8C, CHR 0xE6, CHR 0x88,
     CHR 0x90]"

text \<open>VPNGate exit disconnected\<close>

definition pg_exit_disconnected :: string where
  "pg_exit_disconnected =
    [CHR ''V'', CHR ''P'', CHR ''N'', CHR ''G'', CHR ''a'', CHR ''t'', CHR ''e'', CHR 0x20,
     CHR 0xE5, CHR 0x87, CHR 0xBA, CHR 0xE5, CHR 0x8F, CHR 0xA3, CHR 0xE5, CHR 0xB7, CHR 0xB2,
     CHR 0xE6, CHR 0x96, CHR 0xAD, CHR 0xE5, CHR 0xBC, CHR 0x80]"

text \<open>VMESS service stopped\<close>

definition pg_vmess_stopped :: string where
  "pg_vmess_stopped =
    [CHR ''V'', CHR ''M'', CHR ''E'', CHR ''S'', CHR ''S'', CHR 0x20, CHR 0xE6, CHR 0x9C,
     CHR 0x8D, CHR 0xE5, CHR 0x8A, CHR 0xA1, CHR 0xE5, CHR 0xB7, CHR 0xB2, CHR 0xE5, CHR 0x81,
     CHR 0x9C, CHR 0xE6, CHR 0xAD, CHR 0xA2]"

text \<open>VMESS service started\<close>

definition pg_vmess_started :: string where
  "pg_vmess_started =
    [CHR ''V'', CHR ''M'', CHR ''E'', CHR ''S'', CHR ''S'', CHR 0x20, CHR 0xE6, CHR 0x9C,
     CHR 0x8D, CHR 0xE5, CHR 0x8A, CHR 0xA1, CHR 0xE5, CHR 0xB7, CHR 0xB2, CHR 0xE5, CHR 0x90,
     CHR 0xAF, CHR 0xE5, CHR 0x8A, CHR 0xA8]"

text \<open>the subscription address is not ready yet\<close>

definition pg_no_subscription :: string where
  "pg_no_subscription =
    [CHR 0xE8, CHR 0xAE, CHR 0xA2, CHR 0xE9, CHR 0x98, CHR 0x85, CHR 0xE5, CHR 0x9C, CHR 0xB0,
     CHR 0xE5, CHR 0x9D, CHR 0x80, CHR 0xE5, CHR 0xB0, CHR 0x9A, CHR 0xE6, CHR 0x9C, CHR 0xAA,
     CHR 0xE5, CHR 0x87, CHR 0x86, CHR 0xE5, CHR 0xA4, CHR 0x87, CHR 0xE5, CHR 0xA5, CHR 0xBD]"

text \<open>subscription address copied\<close>

definition pg_copied :: string where
  "pg_copied =
    [CHR 0xE8, CHR 0xAE, CHR 0xA2, CHR 0xE9, CHR 0x98, CHR 0x85, CHR 0xE5, CHR 0x9C, CHR 0xB0,
     CHR 0xE5, CHR 0x9D, CHR 0x80, CHR 0xE5, CHR 0xB7, CHR 0xB2, CHR 0xE5, CHR 0xA4, CHR 0x8D,
     CHR 0xE5, CHR 0x88, CHR 0xB6]"

text \<open>the browser did not allow the copy, copy it by hand from the address field\<close>

definition pg_not_copied :: string where
  "pg_not_copied =
    [CHR 0xE6, CHR 0xB5, CHR 0x8F, CHR 0xE8, CHR 0xA7, CHR 0x88, CHR 0xE5, CHR 0x99, CHR 0xA8,
     CHR 0xE6, CHR 0x9C, CHR 0xAA, CHR 0xE5, CHR 0x85, CHR 0x81, CHR 0xE8, CHR 0xAE, CHR 0xB8,
     CHR 0xE5, CHR 0xA4, CHR 0x8D, CHR 0xE5, CHR 0x88, CHR 0xB6, CHR 0xEF, CHR 0xBC, CHR 0x8C,
     CHR 0xE8, CHR 0xAF, CHR 0xB7, CHR 0xE4, CHR 0xBB, CHR 0x8E, CHR 0xE5, CHR 0x9C, CHR 0xB0,
     CHR 0xE5, CHR 0x9D, CHR 0x80, CHR 0xE6, CHR 0xA1, CHR 0x86, CHR 0xE6, CHR 0x89, CHR 0x8B,
     CHR 0xE5, CHR 0x8A, CHR 0xA8, CHR 0xE5, CHR 0xA4, CHR 0x8D, CHR 0xE5, CHR 0x88, CHR 0xB6]"

text \<open>reading the state of the service\<close>

definition pg_reading_status :: string where
  "pg_reading_status =
    [CHR 0xE6, CHR 0xAD, CHR 0xA3, CHR 0xE5, CHR 0x9C, CHR 0xA8, CHR 0xE8, CHR 0xAF, CHR 0xBB,
     CHR 0xE5, CHR 0x8F, CHR 0x96, CHR 0xE6, CHR 0x9C, CHR 0x8D, CHR 0xE5, CHR 0x8A, CHR 0xA1,
     CHR 0xE7, CHR 0x8A, CHR 0xB6, CHR 0xE6, CHR 0x80, CHR 0x81]"

text \<open>waiting for the state of the service\<close>

definition pg_awaiting_status :: string where
  "pg_awaiting_status =
    [CHR 0xE7, CHR 0xAD, CHR 0x89, CHR 0xE5, CHR 0xBE, CHR 0x85, CHR 0xE6, CHR 0x9C, CHR 0x8D,
     CHR 0xE5, CHR 0x8A, CHR 0xA1, CHR 0xE7, CHR 0x8A, CHR 0xB6, CHR 0xE6, CHR 0x80, CHR 0x81]"

text \<open>waiting for the VMESS core\<close>

definition pg_awaiting_core :: string where
  "pg_awaiting_core =
    [CHR 0xE7, CHR 0xAD, CHR 0x89, CHR 0xE5, CHR 0xBE, CHR 0x85, CHR 0x20, CHR ''V'', CHR ''M'',
     CHR ''E'', CHR ''S'', CHR ''S'', CHR 0x20, CHR 0xE6, CHR 0xA0, CHR 0xB8, CHR 0xE5, CHR 0xBF,
     CHR 0x83]"

text \<open>reading the state\<close>

definition pg_reading :: string where
  "pg_reading =
    [CHR 0xE6, CHR 0xAD, CHR 0xA3, CHR 0xE5, CHR 0x9C, CHR 0xA8, CHR 0xE8, CHR 0xAF, CHR 0xBB,
     CHR 0xE5, CHR 0x8F, CHR 0x96, CHR 0xE7, CHR 0x8A, CHR 0xB6, CHR 0xE6, CHR 0x80, CHR 0x81]"

text \<open>arrow\<close>

definition pg_arrow :: string where
  "pg_arrow =
    [CHR 0xE2, CHR 0x86, CHR 0x97]"

text \<open>connect automatically\<close>

definition pg_auto_connect :: string where
  "pg_auto_connect =
    [CHR 0xE8, CHR 0x87, CHR 0xAA, CHR 0xE5, CHR 0x8A, CHR 0xA8, CHR 0xE8, CHR 0xBF, CHR 0x9E,
     CHR 0xE6, CHR 0x8E, CHR 0xA5]"

text \<open>check mark\<close>

definition pg_check_mark :: string where
  "pg_check_mark =
    [CHR 0xE2, CHR 0x9C, CHR 0x93]"

text \<open>verify the exit now\<close>

definition pg_verify_now :: string where
  "pg_verify_now =
    [CHR 0xE7, CHR 0xAB, CHR 0x8B, CHR 0xE5, CHR 0x8D, CHR 0xB3, CHR 0xE9, CHR 0xAA, CHR 0x8C,
     CHR 0xE8, CHR 0xAF, CHR 0x81, CHR 0xE5, CHR 0x87, CHR 0xBA, CHR 0xE5, CHR 0x8F, CHR 0xA3]"

text \<open>disconnect the exit\<close>

definition pg_disconnect :: string where
  "pg_disconnect =
    [CHR 0xE6, CHR 0x96, CHR 0xAD, CHR 0xE5, CHR 0xBC, CHR 0x80, CHR 0xE5, CHR 0x87, CHR 0xBA,
     CHR 0xE5, CHR 0x8F, CHR 0xA3]"

text \<open>log in\<close>

definition pg_login :: string where
  "pg_login =
    [CHR 0xE7, CHR 0x99, CHR 0xBB, CHR 0xE5, CHR 0xBD, CHR 0x95]"

text \<open>refresh\<close>

definition pg_refresh :: string where
  "pg_refresh =
    [CHR 0xE2, CHR 0x86, CHR 0xBB]"

text \<open>residential classification\<close>

definition pg_classify :: string where
  "pg_classify =
    [CHR 0xE5, CHR 0xAE, CHR 0xB6, CHR 0xE5, CHR 0xAE, CHR 0xBD, CHR 0xE5, CHR 0x88, CHR 0xA4,
     CHR 0xE5, CHR 0xAE, CHR 0x9A]"

text \<open>TCP probe\<close>

definition pg_probe :: string where
  "pg_probe =
    [CHR ''T'', CHR ''C'', CHR ''P'', CHR 0x20, CHR 0xE6, CHR 0x8E, CHR 0xA2, CHR 0xE6, CHR 0xB4,
     CHR 0xBB]"

text \<open>copy the subscription address\<close>

definition pg_copy :: string where
  "pg_copy =
    [CHR 0xE5, CHR 0xA4, CHR 0x8D, CHR 0xE5, CHR 0x88, CHR 0xB6, CHR 0xE8, CHR 0xAE, CHR 0xA2,
     CHR 0xE9, CHR 0x98, CHR 0x85, CHR 0xE5, CHR 0x9C, CHR 0xB0, CHR 0xE5, CHR 0x9D, CHR 0x80]"

text \<open>reading the subscription configuration\<close>

definition pg_reading_subscription :: string where
  "pg_reading_subscription =
    [CHR 0xE6, CHR 0xAD, CHR 0xA3, CHR 0xE5, CHR 0x9C, CHR 0xA8, CHR 0xE8, CHR 0xAF, CHR 0xBB,
     CHR 0xE5, CHR 0x8F, CHR 0x96, CHR 0xE8, CHR 0xAE, CHR 0xA2, CHR 0xE9, CHR 0x98, CHR 0x85,
     CHR 0xE9, CHR 0x85, CHR 0x8D, CHR 0xE7, CHR 0xBD, CHR 0xAE]"

text \<open>to be resolved\<close>

definition pg_unresolved :: string where
  "pg_unresolved =
    [CHR 0xE5, CHR 0xBE, CHR 0x85, CHR 0xE8, CHR 0xA7, CHR 0xA3, CHR 0xE6, CHR 0x9E, CHR 0x90]"

text \<open>0 results\<close>

definition pg_no_results :: string where
  "pg_no_results =
    [CHR ''0'', CHR 0x20, CHR 0xE4, CHR 0xB8, CHR 0xAA, CHR 0xE7, CHR 0xBB, CHR 0x93, CHR 0xE6,
     CHR 0x9E, CHR 0x9C]"

text \<open>disconnect the current exit\<close>

definition pg_ask_disconnect :: string where
  "pg_ask_disconnect =
    [CHR 0xE6, CHR 0x96, CHR 0xAD, CHR 0xE5, CHR 0xBC, CHR 0x80, CHR 0xE5, CHR 0xBD, CHR 0x93,
     CHR 0xE5, CHR 0x89, CHR 0x8D, CHR 0xE5, CHR 0x87, CHR 0xBA, CHR 0xE5, CHR 0x8F, CHR 0xA3]"

text \<open>local SOCKS and remote VMESS traffic will not reach the Internet for now\<close>

definition pg_ask_disconnect_why :: string where
  "pg_ask_disconnect_why =
    [CHR 0xE6, CHR 0x9C, CHR 0xAC, CHR 0xE6, CHR 0x9C, CHR 0xBA, CHR 0x20, CHR ''S'', CHR ''O'',
     CHR ''C'', CHR ''K'', CHR ''S'', CHR 0x20, CHR 0xE5, CHR 0x92, CHR 0x8C, CHR 0xE8, CHR 0xBF,
     CHR 0x9C, CHR 0xE7, CHR 0xA8, CHR 0x8B, CHR 0x20, CHR ''V'', CHR ''M'', CHR ''E'',
     CHR ''S'', CHR ''S'', CHR 0x20, CHR 0xE6, CHR 0xB5, CHR 0x81, CHR 0xE9, CHR 0x87, CHR 0x8F,
     CHR 0xE5, CHR 0xB0, CHR 0x86, CHR 0xE6, CHR 0x9A, CHR 0x82, CHR 0xE6, CHR 0x97, CHR 0xB6,
     CHR 0xE6, CHR 0x97, CHR 0xA0, CHR 0xE6, CHR 0xB3, CHR 0x95, CHR 0xE8, CHR 0xAE, CHR 0xBF,
     CHR 0xE9, CHR 0x97, CHR 0xAE, CHR 0xE5, CHR 0x85, CHR 0xAC, CHR 0xE7, CHR 0xBD, CHR 0x91,
     CHR 0xE3, CHR 0x80, CHR 0x82]"

text \<open>stop the VMESS service\<close>

definition pg_ask_stop :: string where
  "pg_ask_stop =
    [CHR 0xE5, CHR 0x81, CHR 0x9C, CHR 0xE6, CHR 0xAD, CHR 0xA2, CHR 0x20, CHR ''V'', CHR ''M'',
     CHR ''E'', CHR ''S'', CHR ''S'', CHR 0x20, CHR 0xE6, CHR 0x9C, CHR 0x8D, CHR 0xE5, CHR 0x8A,
     CHR 0xA1]"

text \<open>local SOCKS and all connections of VMESS clients will be cut at once\<close>

definition pg_ask_stop_why :: string where
  "pg_ask_stop_why =
    [CHR 0xE6, CHR 0x9C, CHR 0xAC, CHR 0xE6, CHR 0x9C, CHR 0xBA, CHR 0x20, CHR ''S'', CHR ''O'',
     CHR ''C'', CHR ''K'', CHR ''S'', CHR 0x20, CHR 0xE5, CHR 0x92, CHR 0x8C, CHR 0xE6, CHR 0x89,
     CHR 0x80, CHR 0xE6, CHR 0x9C, CHR 0x89, CHR 0x20, CHR ''V'', CHR ''M'', CHR ''E'',
     CHR ''S'', CHR ''S'', CHR 0x20, CHR 0xE5, CHR 0xAE, CHR 0xA2, CHR 0xE6, CHR 0x88, CHR 0xB7,
     CHR 0xE7, CHR 0xAB, CHR 0xAF, CHR 0xE8, CHR 0xBF, CHR 0x9E, CHR 0xE6, CHR 0x8E, CHR 0xA5,
     CHR 0xE5, CHR 0xB0, CHR 0x86, CHR 0xE7, CHR 0xAB, CHR 0x8B, CHR 0xE5, CHR 0x8D, CHR 0xB3,
     CHR 0xE4, CHR 0xB8, CHR 0xAD, CHR 0xE6, CHR 0x96, CHR 0xAD, CHR 0xE3, CHR 0x80, CHR 0x82]"

text \<open>stop the service\<close>

definition pg_stop_service :: string where
  "pg_stop_service =
    [CHR 0xE5, CHR 0x81, CHR 0x9C, CHR 0xE6, CHR 0xAD, CHR 0xA2, CHR 0xE6, CHR 0x9C, CHR 0x8D,
     CHR 0xE5, CHR 0x8A, CHR 0xA1]"

text \<open>port 10086\<close>

definition pg_port :: string where
  "pg_port =
    [CHR 0xE7, CHR 0xAB, CHR 0xAF, CHR 0xE5, CHR 0x8F, CHR 0xA3, CHR 0x20, CHR ''1'', CHR ''0'',
     CHR ''0'', CHR ''8'', CHR ''6'']"

text \<open>information\<close>

definition pg_info :: string where
  "pg_info =
    [CHR 0xE2, CHR 0x93, CHR 0x98]"

text \<open>leave\<close>

definition pg_leave :: string where
  "pg_leave =
    [CHR 0xE2, CHR 0x86, CHR 0xAA]"

text \<open>log out\<close>

definition pg_logout :: string where
  "pg_logout =
    [CHR 0xE9, CHR 0x80, CHR 0x80, CHR 0xE5, CHR 0x87, CHR 0xBA]"

text \<open>refresh\<close>

definition pg_reload :: string where
  "pg_reload =
    [CHR 0xE5, CHR 0x88, CHR 0xB7, CHR 0xE6, CHR 0x96, CHR 0xB0]"

text \<open>confirm the operation\<close>

definition pg_confirm :: string where
  "pg_confirm =
    [CHR 0xE7, CHR 0xA1, CHR 0xAE, CHR 0xE8, CHR 0xAE, CHR 0xA4, CHR 0xE6, CHR 0x93, CHR 0x8D,
     CHR 0xE4, CHR 0xBD, CHR 0x9C]"

text \<open>cancel\<close>

definition pg_cancel :: string where
  "pg_cancel =
    [CHR 0xE5, CHR 0x8F, CHR 0x96, CHR 0xE6, CHR 0xB6, CHR 0x88]"

text \<open>continue\<close>

definition pg_continue :: string where
  "pg_continue =
    [CHR 0xE7, CHR 0xBB, CHR 0xA7, CHR 0xE7, CHR 0xBB, CHR 0xAD]"

end
