(* ===== verification/Page_View.thy ===== *)
theory Page_View
  imports Page_Text Go_Strings Openvpn Xray
begin

text \<open>
  What the script of the console page (src/internal/web/static.go) makes of the server's data: the
  labels and classes, the filter of the node table and the markup it assigns to innerHTML. Text that
  depends on the browser (case mapping, trimming, local times, number formats) is the record
  \<open>browser\<close>. The decoded JSON values are the server's own records. The lemmas show that the data,
  which comes from hosts that are not trusted, never changes the structure of the markup.
\<close>

section \<open>Values of the script\<close>

record browser =
  BrLower :: "string \<Rightarrow> string"
  BrUpper :: "string \<Rightarrow> string"
  BrTrim :: "string \<Rightarrow> string"
  BrTime :: "time \<Rightarrow> string"
  BrNumber :: "nat \<Rightarrow> string"

text \<open>The operator || on strings, and filter(Boolean) on a list of strings.\<close>

definition js_or :: "string \<Rightarrow> string \<Rightarrow> string" where
  "js_or a b = (if a = '''' then b else a)"

definition truthy :: "string list \<Rightarrow> string list" where
  "truthy = filter (\<lambda>s. s \<noteq> '''')"

text \<open>An integer of a JSON text becomes the nearest double, of two equally near ones the even one.\<close>

fun bit_length :: "nat \<Rightarrow> nat" where
  "bit_length n = (if n = 0 then 0 else Suc (bit_length (n div 2)))"

declare bit_length.simps [simp del]

definition js_number :: "nat \<Rightarrow> nat" where
  "js_number n =
     (if n < 2 ^ 53 then n
      else
        let e = bit_length n - 53; q = n div 2 ^ e; r = n mod 2 ^ e; half = 2 ^ (e - 1)
        in (if half < r \<or> r = half \<and> odd q then q + 1 else q) * 2 ^ e)"

text \<open>toFixed(1) of n / unit, where the unit is a power of two and the quotient is exact: the nearest
  tenth, of two equally near ones the larger.\<close>

definition to_fixed1 :: "nat \<Rightarrow> nat \<Rightarrow> string" where
  "to_fixed1 n unit =
     (let tenths = (20 * n + unit) div (2 * unit)
      in nat_digits (tenths div 10) @ ''.'' @ nat_digits (tenths mod 10))"

definition formatBytes :: "nat \<Rightarrow> string" where
  "formatBytes value =
     (let number = js_number value
      in if number < 1024 then nat_digits number @ '' B''
         else if number < 1048576 then to_fixed1 number 1024 @ '' KB''
         else if number < 1073741824 then to_fixed1 number 1048576 @ '' MB''
         else to_fixed1 number 1073741824 @ '' GB'')"

definition formatNumber :: "browser \<Rightarrow> nat \<Rightarrow> string" where
  "formatNumber br value = BrNumber br (js_number value)"

section \<open>Labels and classes\<close>

definition stateLabels :: "(string \<times> string) list" where
  "stateLabels =
     [(''idle'', msg_ready), (''fetching_nodes'', lbl_fetching_nodes), (''probing_nodes'', lbl_probing_nodes),
      (''connecting'', lbl_connecting), (''verifying'', lbl_verifying), (''connected'', lbl_connected),
      (''failing_over'', lbl_failing_over), (''disconnecting'', lbl_disconnecting), (''error'', lbl_error)]"

definition purityLabels :: "(string \<times> string) list" where
  "purityLabels = [(''strict_home'', lbl_strict_home), (''candidate'', lbl_candidate), (''rejected'', lbl_rejected)]"

definition statusLabels :: "(string \<times> string) list" where
  "statusLabels =
     [(''available'', lbl_available), (''unavailable'', lbl_unavailable), (''checking'', lbl_checking),
      (''cooldown'', lbl_cooldown), (''unknown'', lbl_unknown)]"

definition label_or :: "(string \<times> string) list \<Rightarrow> string \<Rightarrow> string \<Rightarrow> string" where
  "label_or labels key fallback = (case map_of labels key of Some l \<Rightarrow> l | None \<Rightarrow> fallback)"

definition stateTone :: "string \<Rightarrow> string" where
  "stateTone state =
     (if state = ''connected'' then ''connected''
      else if state = ''error'' then ''error''
      else if state \<in> set [''fetching_nodes'', ''probing_nodes'', ''connecting'', ''verifying'', ''failing_over'', ''disconnecting'']
        then ''busy''
      else '''')"

definition latencyTone :: "int option \<Rightarrow> string" where
  "latencyTone latency =
     (case latency of None \<Rightarrow> '''' | Some ms \<Rightarrow> if ms < 180 then ''good'' else if 450 < ms then ''warn'' else '''')"

definition purityTone :: "string \<Rightarrow> string" where
  "purityTone grade =
     (if grade = ''strict_home'' then ''good'' else if grade = ''candidate'' then ''info''
      else if grade = ''rejected'' then ''bad'' else '''')"

definition nodeStatusTone :: "string \<Rightarrow> string" where
  "nodeStatusTone status =
     (if status = ''available'' then ''good'' else if status = ''checking'' then ''info''
      else if status = ''cooldown'' then ''warn'' else if status = ''unavailable'' then ''bad'' else '''')"

record latency_view =
  LvValue :: string
  LvDetail :: string
  LvTone :: string

definition latencyView :: "browser \<Rightarrow> vpn_node \<Rightarrow> latency_view" where
  "latencyView br node =
     (let samples = (if ProbeAttempts node \<noteq> 0
                     then itoa (ProbeSuccesses node) @ ''/'' @ itoa (ProbeAttempts node) @ pg_times else pg_not_sampled)
      in if BrLower br (Protocol node) \<noteq> ''tcp'' then \<lparr>LvValue = pg_not_applicable, LvDetail = ''UDP'', LvTone = ''''\<rparr>
         else if LatencySuspicious node then \<lparr>LvValue = pg_retest, LvDetail = samples @ pg_suspect, LvTone = ''warn''\<rparr>
         else case LatencyMS node of
             Some ms \<Rightarrow> \<lparr>LvValue = itoa ms @ '' ms'', LvDetail = samples @ pg_median, LvTone = latencyTone (Some ms)\<rparr>
           | None \<Rightarrow>
               if 0 < AdvertisedPingMS node
               then \<lparr>LvValue = itoa (AdvertisedPingMS node) @ '' ms'', LvDetail = pg_advertised, LvTone = ''''\<rparr>
               else \<lparr>LvValue = ''-'', LvDetail = samples, LvTone = ''''\<rparr>)"

section \<open>The node table\<close>

definition nodeMatches :: "browser \<Rightarrow> string \<Rightarrow> string \<Rightarrow> vpn_node \<Rightarrow> bool" where
  "nodeMatches br nodeFilter query node =
     (if nodeFilter = ''available'' \<and> Status node \<noteq> ''available'' then False
      else if nodeFilter = ''strict_home'' \<and> PurityGrade node \<noteq> ''strict_home'' then False
      else if query = '''' then True
      else str_contains
        (BrLower br (join '' '' (truthy [Country node, CountryCode node, IP node, ISP node, ASN node, City node]))) query)"

definition filteredNodes :: "browser \<Rightarrow> string \<Rightarrow> string \<Rightarrow> vpn_node list \<Rightarrow> vpn_node list" where
  "filteredNodes br search nodeFilter nodes =
     filter (nodeMatches br nodeFilter (BrLower br (BrTrim br search))) nodes"

definition escape_char :: "char \<Rightarrow> string" where
  "escape_char c =
     (if c = CHR ''&'' then ''&amp;'' else if c = CHR ''<'' then ''&lt;'' else if c = CHR ''>'' then ''&gt;''
      else if c = CHR 0x22 then ''&quot;'' else if c = CHR 0x27 then ''&#039;'' else [c])"

definition escapeHtml :: "string \<Rightarrow> string" where
  "escapeHtml value = concat (map escape_char value)"

definition attr :: "string \<Rightarrow> string \<Rightarrow> string" where
  "attr name value = name @ ''='' @ [CHR 0x22] @ value @ [CHR 0x22]"

text \<open>The parts of a row of the node table; the active node is the one of the snapshot.\<close>

definition nodeCells :: "browser \<Rightarrow> bool \<Rightarrow> vpn_node \<Rightarrow> string list" where
  "nodeCells br active node =
     (let latency = latencyView br node;
          isp = js_or (join pg_dot (truthy [ISP node, ASN node])) ''-''
      in
       [''<tr '' @ attr ''class'' (if active then ''active-row'' else '''') @ ''>'',
        ''<td><div '' @ attr ''class'' ''country-cell'' @ ''><span '' @ attr ''class'' ''country-code'' @ ''>'' @
          escapeHtml (js_or (CountryCode node) ''--'') @ ''</span><span>'' @
          escapeHtml (js_or (js_or (Country node) (City node)) lbl_unknown) @ ''</span></div></td>'',
        ''<td><div '' @ attr ''class'' ''ip-cell'' @ ''>'' @ escapeHtml (IP node) @ '':'' @ escapeHtml (itoa (RemotePort node)) @
          ''</div><div '' @ attr ''class'' ''micro'' @ ''>'' @ escapeHtml (BrUpper br (Protocol node)) @ ''</div></td>'',
        ''<td '' @ attr ''class'' ''isp-cell'' @ '' '' @ attr ''title'' (escapeHtml isp) @ ''>'' @ escapeHtml isp @ ''</td>'',
        ''<td><div '' @ attr ''class'' ''latency-cell'' @ '' '' @ attr ''title'' (escapeHtml (LastError node)) @ ''><span '' @
          attr ''class'' (''latency '' @ LvTone latency) @ ''>'' @ escapeHtml (LvValue latency) @ ''</span><span '' @
          attr ''class'' ''micro'' @ ''>'' @ escapeHtml (LvDetail latency) @ ''</span></div></td>'',
        ''<td><span '' @ attr ''class'' (''badge '' @ purityTone (PurityGrade node)) @ ''>'' @
          escapeHtml (label_or purityLabels (PurityGrade node) (js_or (PurityGrade node) pg_unjudged)) @ ''</span></td>'',
        ''<td><span '' @ attr ''class'' (''badge '' @ nodeStatusTone (Status node)) @ ''>'' @
          escapeHtml (label_or statusLabels (Status node) (js_or (Status node) lbl_unknown)) @ ''</span></td>'',
        ''<td><button '' @ attr ''class'' (''compact '' @ (if active then ''primary'' else '''')) @ '' '' @
          attr ''data-node'' (escapeHtml (ID node)) @ '' '' @ (if active then ''disabled'' else '''') @ ''>'' @
          (if active then pg_current else pg_connect) @ ''</button></td>'',
        ''</tr>''])"

definition nodeRow :: "browser \<Rightarrow> bool \<Rightarrow> vpn_node \<Rightarrow> string" where
  "nodeRow br active node = concat (nodeCells br active node)"

definition nodeRows :: "browser \<Rightarrow> string option \<Rightarrow> vpn_node list \<Rightarrow> string" where
  "nodeRows br activeID nodes = concat (map (\<lambda>n. nodeRow br (activeID = Some (ID n)) n) nodes)"

section \<open>Other markup\<close>

definition noLogs :: string where
  "noLogs = ''<div '' @ attr ''class'' ''empty-state'' @ ''><strong>'' @ pg_no_logs @ ''</strong><span>'' @ pg_logs_hint @
     ''</span></div>''"

definition logLine :: "browser \<Rightarrow> time \<times> string \<times> string \<Rightarrow> string" where
  "logLine br item =
     (case item of
        (at, severity, message) \<Rightarrow>
          ''<div '' @ attr ''class'' ''log'' @ ''><span '' @ attr ''class'' ''log-time'' @ ''>'' @ escapeHtml (BrTime br at) @
          ''</span><span '' @ attr ''class'' (''log-dot '' @ escapeHtml (BrLower br (js_or severity ''info''))) @ ''></span><span '' @
          attr ''class'' ''log-message'' @ ''>'' @ escapeHtml message @ ''</span></div>'')"

definition logLines :: "browser \<Rightarrow> (time \<times> string \<times> string) list \<Rightarrow> string" where
  "logLines br logs = (if logs = [] then noLogs else concat (map (logLine br) (rev logs)))"

definition diagnosticRows :: "browser \<Rightarrow> environment_report \<Rightarrow> proxy_status \<Rightarrow> (string \<times> string) list" where
  "diagnosticRows br vpn proxy =
     [(pg_row_engine, js_or (RepEngine vpn) pg_builtin_engine),
      (pg_row_tunnel, if RepRunning vpn then pg_connected else if RepConnecting vpn then pg_connecting else pg_not_connected),
      (pg_row_address, js_or (RepLocalIP vpn) ''-''),
      (pg_row_gateway, js_or (RepGateway vpn) ''-''),
      (pg_row_packets, formatNumber br (unat (RepPacketsIn vpn)) @ '' / '' @ formatNumber br (unat (RepPacketsOut vpn))),
      (pg_row_bytes, formatBytes (unat (RepBytesIn vpn)) @ '' / '' @ formatBytes (unat (RepBytesOut vpn))),
      (pg_row_vmess, if StRunning proxy then pg_running else pg_not_running),
      (pg_row_socks, js_or (StLocalSOCKS proxy) ''-''),
      (pg_row_privilege, js_or (RepPrivilegeHint vpn) pg_no_privilege)]"

definition diagnosticRow :: "string \<times> string \<Rightarrow> string" where
  "diagnosticRow row =
     ''<div '' @ attr ''class'' ''diagnostic-row'' @ ''><span>'' @ escapeHtml (fst row) @ ''</span><span '' @
     attr ''class'' ''mono'' @ ''>'' @ escapeHtml (snd row) @ ''</span></div>''"

definition diagnosticList :: "browser \<Rightarrow> environment_report \<Rightarrow> proxy_status \<Rightarrow> string" where
  "diagnosticList br vpn proxy = concat (map diagnosticRow (diagnosticRows br vpn proxy))"

definition toastMarkup :: "string \<Rightarrow> string" where
  "toastMarkup message =
     ''<span '' @ attr ''class'' ''toast-mark'' @ ''></span><span '' @ attr ''class'' ''toast-text'' @ ''>'' @
     escapeHtml message @ ''</span>''"

definition busyMarkup :: "string \<Rightarrow> string" where
  "busyMarkup busyLabel = ''<span '' @ attr ''class'' ''spinner'' @ ''></span>'' @ busyLabel"

section \<open>The structure of markup\<close>

text \<open>The reading of markup, as far as the page's templates use it: text, a tag, and an attribute
  value in double quotes. The skeleton is what is left without the text and the attribute values:
  the tags with the names of their attributes.\<close>

datatype html_mode = InText | InTag | InQuote

fun html_step :: "html_mode \<Rightarrow> char \<Rightarrow> html_mode \<times> string" where
  "html_step InText c = (if c = CHR ''<'' then (InTag, [c]) else (InText, []))"
| "html_step InTag c = (if c = CHR ''>'' then (InText, [c]) else if c = CHR 0x22 then (InQuote, [c]) else (InTag, [c]))"
| "html_step InQuote c = (if c = CHR 0x22 then (InTag, [c]) else (InQuote, []))"

fun skeleton :: "html_mode \<Rightarrow> string \<Rightarrow> string \<times> html_mode" where
  "skeleton m [] = ([], m)"
| "skeleton m (c # s) = (case html_step m c of (m', out) \<Rightarrow> case skeleton m' s of (rest, m'') \<Rightarrow> (out @ rest, m''))"

text \<open>Character references that the script writes, as the browser reads them.\<close>

fun unescape :: "string \<Rightarrow> string" where
  "unescape [] = []"
| "unescape (c # s) =
     (if c = CHR ''&'' \<and> has_prefix s ''amp;'' then CHR ''&'' # unescape (drop 4 s)
      else if c = CHR ''&'' \<and> has_prefix s ''lt;'' then CHR ''<'' # unescape (drop 3 s)
      else if c = CHR ''&'' \<and> has_prefix s ''gt;'' then CHR ''>'' # unescape (drop 3 s)
      else if c = CHR ''&'' \<and> has_prefix s ''quot;'' then CHR 0x22 # unescape (drop 5 s)
      else if c = CHR ''&'' \<and> has_prefix s ''#039;'' then CHR 0x27 # unescape (drop 5 s)
      else c # unescape s)"

declare unescape.simps(2) [simp del]

lemma unescape_escape [simp]: "unescape (escapeHtml s) = s"
proof (induction s)
  case (Cons c s)
  have "unescape (escape_char c @ t) = c # unescape t" for t
    by (simp add: escape_char_def has_prefix_def unescape.simps(2))
  then show ?case using Cons by (simp add: escapeHtml_def)
qed (simp add: escapeHtml_def)

lemma skeleton_append:
  "skeleton m (a @ b) = (case skeleton m a of (x, m') \<Rightarrow> case skeleton m' b of (y, m'') \<Rightarrow> (x @ y, m''))"
  by (induction m a rule: skeleton.induct) (auto split: prod.splits)

definition inert :: "string \<Rightarrow> bool" where
  "inert s \<longleftrightarrow> list_all (\<lambda>c. c \<notin> {CHR ''<'', CHR ''>'', CHR 0x22}) s"

lemma inert_skeleton:
  "inert s \<Longrightarrow> skeleton InText s = ([], InText)" "inert s \<Longrightarrow> skeleton InQuote s = ([], InQuote)"
  by (induction s) (auto simp: inert_def)

lemma inert_escape [simp]: "inert (escapeHtml s)"
  by (induction s) (auto simp: escapeHtml_def inert_def escape_char_def)

section \<open>Templates\<close>

text \<open>The tags of the script's templates, without the attribute values.\<close>

definition open_tag :: "string \<Rightarrow> string list \<Rightarrow> string" where
  "open_tag name attrs = ''<'' @ name @ concat (map (\<lambda>a. CHR '' '' # attr a '''') attrs) @ ''>''"

definition close_tag :: "string \<Rightarrow> string" where
  "close_tag name = ''</'' @ name @ ''>''"

definition nodeButton :: "bool \<Rightarrow> string" where
  "nodeButton active =
     ''<button '' @ attr ''class'' '''' @ '' '' @ attr ''data-node'' '''' @ '' '' @ (if active then ''disabled'' else '''') @ ''>''"

definition pageTags :: "string list" where
  "pageTags =
     [open_tag ''tr'' [''class''], open_tag ''td'' [], open_tag ''td'' [''class'', ''title''], open_tag ''div'' [''class''],
      open_tag ''div'' [''class'', ''title''], open_tag ''span'' [''class''], open_tag ''span'' [], open_tag ''strong'' [],
      nodeButton True, nodeButton False, close_tag ''tr'', close_tag ''td'', close_tag ''div'', close_tag ''span'',
      close_tag ''strong'', close_tag ''button'']"

definition rowTags :: "bool \<Rightarrow> string list list" where
  "rowTags active =
     (let td = open_tag ''td'' []; td' = close_tag ''td''; block = open_tag ''div'' [''class'']; block' = close_tag ''div'';
          span = open_tag ''span'' [''class'']; span' = close_tag ''span''
      in [[open_tag ''tr'' [''class'']],
          [td, block, span, span', open_tag ''span'' [], span', block', td'],
          [td, block, block', block, block', td'],
          [open_tag ''td'' [''class'', ''title''], td'],
          [td, open_tag ''div'' [''class'', ''title''], span, span', span, span', block', td'],
          [td, span, span', td'], [td, span, span', td'],
          [td, nodeButton active, close_tag ''button'', td'],
          [close_tag ''tr'']])"

definition harmless :: "string \<Rightarrow> bool" where
  "harmless s \<longleftrightarrow> (\<exists>ts. set ts \<subseteq> set pageTags \<and> skeleton InText s = (concat ts, InText))"

lemma harmlessI: "skeleton InText s = (concat ts, InText) \<Longrightarrow> set ts \<subseteq> set pageTags \<Longrightarrow> harmless s"
  by (auto simp: harmless_def)

lemma skeleton_text_append:
  "skeleton InText a = (concat ts, InText) \<Longrightarrow> skeleton InText b = (concat us, InText) \<Longrightarrow>
   skeleton InText (a @ b) = (concat (ts @ us), InText)"
  by (simp add: skeleton_append)

lemma harmless_append: "harmless a \<Longrightarrow> harmless b \<Longrightarrow> harmless (a @ b)"
  unfolding harmless_def by (metis skeleton_text_append set_append Un_least)

lemma harmless_concat: "(\<And>x. x \<in> set xs \<Longrightarrow> harmless (f x)) \<Longrightarrow> harmless (concat (map f xs))"
  by (induction xs) (auto intro: harmless_append harmlessI [where ts = "[]"])

lemma inert_harmless: "inert s \<Longrightarrow> harmless s"
  by (rule harmlessI [where ts = "[]"]) (simp_all add: inert_skeleton)

lemma inert_tones [simp]:
  "inert (purityTone g)" "inert (nodeStatusTone s)" "inert (latencyTone l)" "inert (LvTone (latencyView br n))"
  by (simp_all add: purityTone_def nodeStatusTone_def latencyTone_def latencyView_def inert_def Let_def split: option.split)

lemma inert_texts [simp]: "inert pg_current" "inert pg_connect" "inert pg_no_logs" "inert pg_logs_hint"
  by code_simp+

lemmas markup_defs = attr_def open_tag_def close_tag_def nodeButton_def

lemma skeleton_concat:
  "list_all2 (\<lambda>s ts. skeleton InText s = (concat ts, InText)) ss tss \<Longrightarrow>
   skeleton InText (concat ss) = (concat (concat tss), InText)"
  by (induction rule: list_all2_induct) (simp_all add: skeleton_append)

lemma nodeCells_skeleton:
  "list_all2 (\<lambda>s ts. skeleton InText s = (concat ts, InText)) (nodeCells br active node) (rowTags active)"
  unfolding nodeCells_def rowTags_def Let_def list_all2_Cons list_all2_Nil
  by (intro conjI; simp add: markup_defs skeleton_append inert_skeleton)

lemma nodeRow_skeleton: "skeleton InText (nodeRow br active node) = (concat (concat (rowTags active)), InText)"
  unfolding nodeRow_def by (rule skeleton_concat [OF nodeCells_skeleton])

lemma rowTags_page: "set (concat (rowTags active)) \<subseteq> set pageTags"
  by (cases active) (simp_all add: rowTags_def pageTags_def Let_def)

section \<open>Harmless markup\<close>

lemma nodeRows_harmless: "harmless (nodeRows br activeID nodes)"
  unfolding nodeRows_def by (rule harmless_concat) (rule harmlessI [OF nodeRow_skeleton rowTags_page])

lemma logLines_harmless: "harmless (logLines br logs)"
proof -
  have line: "harmless (logLine br item)" for item
    by (cases item; rule harmlessI [where ts = "[open_tag ''div'' [''class''], open_tag ''span'' [''class''], close_tag ''span'',
          open_tag ''span'' [''class''], close_tag ''span'', open_tag ''span'' [''class''], close_tag ''span'', close_tag ''div'']"])
      (simp_all add: logLine_def markup_defs skeleton_append inert_skeleton pageTags_def)
  have "harmless noLogs"
    by (rule harmlessI [where ts = "[open_tag ''div'' [''class''], open_tag ''strong'' [], close_tag ''strong'',
          open_tag ''span'' [], close_tag ''span'', close_tag ''div'']"])
      (simp_all add: noLogs_def markup_defs skeleton_append inert_skeleton pageTags_def)
  then show ?thesis
    unfolding logLines_def using harmless_concat [OF line] by auto
qed

lemma diagnosticList_harmless: "harmless (diagnosticList br vpn proxy)"
  unfolding diagnosticList_def
  by (rule harmless_concat, rule harmlessI [where ts = "[open_tag ''div'' [''class''], open_tag ''span'' [],
        close_tag ''span'', open_tag ''span'' [''class''], close_tag ''span'', close_tag ''div'']"])
    (simp_all add: diagnosticRow_def markup_defs skeleton_append inert_skeleton pageTags_def)

lemma toastMarkup_harmless: "harmless (toastMarkup message)"
  by (rule harmlessI [where ts = "[open_tag ''span'' [''class''], close_tag ''span'', open_tag ''span'' [''class''], close_tag ''span'']"])
    (simp_all add: toastMarkup_def markup_defs skeleton_append inert_skeleton pageTags_def)

lemma busyMarkup_harmless: "inert busyLabel \<Longrightarrow> harmless (busyMarkup busyLabel)"
  by (rule harmlessI [where ts = "[open_tag ''span'' [''class''], close_tag ''span'']"])
    (simp_all add: busyMarkup_def markup_defs skeleton_append inert_skeleton pageTags_def)

lemmas markup_harmless = nodeRows_harmless logLines_harmless diagnosticList_harmless toastMarkup_harmless busyMarkup_harmless

end
