(* ===== verification/Page.thy ===== *)
theory Page
  imports "HOL-Library.State_Monad" Web_Server Page_View
begin

text \<open>
  The script of the console page (src/internal/web/static.go) as a machine: its variables and the
  elements of the document are the record \<open>page\<close>, the clicks and the timer are events. An action is
  one step from the click to its end and takes the answers of the server to its requests; the load
  that the timer starts is two steps, so that actions may come in between. Focus, animation and the
  vanishing of toasts are left out.
\<close>

section \<open>Document\<close>

datatype content = PlainText string | Markup string

record element =
  ElContent :: content
  ElClass :: "string list"
  ElDisabled :: bool
  ElHref :: string
  ElValue :: string

text \<open>What the script asks of the browser: the address of a path relative to the page, the parts of an
  address, and the texts of errors.\<close>

record page_browser = browser +
  BrResolve :: "string \<Rightarrow> string"
  BrHostname :: "string \<Rightarrow> string"
  BrWithHostname :: "string \<Rightarrow> string \<Rightarrow> string"
  BrWithPort :: "string \<Rightarrow> string \<Rightarrow> string"
  BrStatusText :: "int \<Rightarrow> string"
  BrFetchError :: string
  BrSyntaxError :: string

record page =
  PgNodes :: "vpn_node list"
  PgSnapshot :: "connection_snapshot option"
  PgProxyRunning :: bool
  PgNodeFilter :: string
  PgFilterButton :: string
  PgSubscriptionURL :: string
  PgSubscriptionKind :: string
  PgSubButton :: string
  PgSubscriptionURLs :: "(string \<times> string) list"
  PgLoadingAll :: bool
  PgDialog :: bool
  PgDom :: "string \<Rightarrow> element"
  PgToasts :: "(string \<times> string) list"

definition upd :: "string \<Rightarrow> (element \<Rightarrow> element) \<Rightarrow> page \<Rightarrow> page" where
  "upd el f p = p\<lparr>PgDom := (PgDom p)(el := f (PgDom p el))\<rparr>"

definition setText :: "string \<Rightarrow> string \<Rightarrow> page \<Rightarrow> page" where
  "setText el v = upd el (\<lambda>e. e\<lparr>ElContent := PlainText v\<rparr>)"

definition setHTML :: "string \<Rightarrow> string \<Rightarrow> page \<Rightarrow> page" where
  "setHTML el v = upd el (\<lambda>e. e\<lparr>ElContent := Markup v\<rparr>)"

definition setClass :: "string \<Rightarrow> string \<Rightarrow> page \<Rightarrow> page" where
  "setClass el v = upd el (\<lambda>e. e\<lparr>ElClass := str_fields v\<rparr>)"

definition toggle :: "string \<Rightarrow> string \<Rightarrow> bool \<Rightarrow> page \<Rightarrow> page" where
  "toggle el c on = upd el (\<lambda>e. e\<lparr>ElClass :=
     (if \<not> on then filter (\<lambda>d. d \<noteq> c) (ElClass e) else if c \<in> set (ElClass e) then ElClass e else ElClass e @ [c])\<rparr>)"

definition setDisabled :: "string \<Rightarrow> bool \<Rightarrow> page \<Rightarrow> page" where
  "setDisabled el b = upd el (\<lambda>e. e\<lparr>ElDisabled := b\<rparr>)"

definition setValue :: "string \<Rightarrow> string \<Rightarrow> page \<Rightarrow> page" where
  "setValue el v = upd el (\<lambda>e. e\<lparr>ElValue := v\<rparr>)"

definition setHref :: "string \<Rightarrow> string \<Rightarrow> page \<Rightarrow> page" where
  "setHref el v = upd el (\<lambda>e. e\<lparr>ElHref := v\<rparr>)"

definition hiddenEl :: "page \<Rightarrow> string \<Rightarrow> bool" where
  "hiddenEl p el \<longleftrightarrow> ''hidden'' \<in> set (ElClass (PgDom p el))"

section \<open>Requests\<close>

definition toast :: "string \<Rightarrow> bool \<Rightarrow> page \<Rightarrow> page" where
  "toast message isError p =
     p\<lparr>PgToasts := PgToasts p @ [(if isError then ''toast error'' else ''toast'', toastMarkup message)]\<rparr>"

definition showApp :: "bool \<Rightarrow> page \<Rightarrow> page" where
  "showApp value p =
     (let p = toggle ''app'' ''hidden'' (\<not> value) (toggle ''login'' ''hidden'' value p)
      in if value then p else setValue ''password'' '''' p)"

text \<open>A body that is not JSON text makes response.json() fail.\<close>

definition jsonBody :: "body \<Rightarrow> body option" where
  "jsonBody b = (case b of TextBody _ \<Rightarrow> None | PageBody \<Rightarrow> None | Aborted _ \<Rightarrow> None | _ \<Rightarrow> Some b)"

definition errorField :: "body \<Rightarrow> string" where
  "errorField b = (case b of ErrorBody e \<Rightarrow> e | ProxyErrorBody e _ \<Rightarrow> e | _ \<Rightarrow> '''')"

text \<open>An answer is None when fetch itself fails.\<close>

definition api :: "page_browser \<Rightarrow> string \<Rightarrow> response option \<Rightarrow> page \<Rightarrow> page \<times> (string + body)" where
  "api br path answer p =
     (case answer of
        None \<Rightarrow> (p, Inl (BrFetchError br))
      | Some response \<Rightarrow>
          if RespStatus response = 401 \<and> path \<noteq> ''/api/login'' then (showApp False p, Inl pg_login_lost)
          else if RespStatus response < 200 \<or> 300 \<le> RespStatus response then
            (p, Inl (case jsonBody (RespBody response) of
                       None \<Rightarrow> BrStatusText br (RespStatus response)
                     | Some b \<Rightarrow> js_or (errorField b) (BrStatusText br (RespStatus response))))
          else case jsonBody (RespBody response) of
              None \<Rightarrow> (p, Inl (BrSyntaxError br))
            | Some b \<Rightarrow> (p, Inr b))"

section \<open>Rendering\<close>

definition renderStatus :: "page_browser \<Rightarrow> connection_snapshot \<Rightarrow> (string \<times> int) list \<Rightarrow> page \<Rightarrow> page" where
  "renderStatus br shot counts p =
     (let state = js_or (State shot) ''idle'';
          meta = (\<lambda>k. case map_of (Metadata shot) k of Some v \<Rightarrow> v | None \<Rightarrow> '''');
          count = (\<lambda>k. itoa (case map_of counts k of Some n \<Rightarrow> n | None \<Rightarrow> 0));
          p = setText ''stateText'' (label_or stateLabels state state) p;
          p = setText ''messageText'' (js_or (Message shot) pg_waiting) p;
          p = setText ''brandStatus'' (if state = ''connected'' then pg_exit_online
                                       else label_or stateLabels state pg_service_running) p;
          p = setClass ''stateLight'' (''state-light '' @ stateTone state) p;
          p = setText ''activeNode'' (js_or (ActiveNodeID shot) pg_not_connected) p;
          p = setText ''exitIP'' (js_or (ExitIP shot) pg_not_verified) p;
          p = setText ''exitDetail'' (if meta ''exit_country'' \<noteq> ''''
                then join pg_dot (truthy [meta ''exit_country'', meta ''exit_asn'']) else pg_exit_hint) p;
          p = toggle ''disconnectBtn'' ''hidden'' (state \<noteq> ''connected'') p;
          p = toggle ''verifyBtn'' ''hidden'' (state \<noteq> ''connected'') p;
          p = setDisabled ''connectBtn''
                (state \<in> set [''fetching_nodes'', ''probing_nodes'', ''connecting'', ''verifying'', ''failing_over'']) p;
          p = setDisabled ''verifyBtn'' (state \<noteq> ''connected'') p;
          p = (case LastVerifiedAt shot of
                 Some at \<Rightarrow> setClass ''verificationState'' ''badge good'' (setText ''verificationState'' (pg_verified @ BrTime br at) p)
               | None \<Rightarrow> setClass ''verificationState'' ''badge''
                   (setText ''verificationState'' (if state = ''connected'' then pg_awaiting_verification else pg_not_verified) p));
          p = setText ''countNodes'' (count ''nodes'') p;
          p = setText ''countAvailable'' (count ''available'') p;
          p = setText ''countStrict'' (count ''strict_home'') p
      in setText ''countCandidate'' (count ''candidate'') p)"

definition renderProxy :: "proxy_status \<Rightarrow> page \<Rightarrow> page" where
  "renderProxy proxy p =
     (let running = StRunning proxy;
          p = p\<lparr>PgProxyRunning := running\<rparr>;
          p = toggle ''pathLocal'' ''active'' (running \<and> StLocalSOCKS proxy \<noteq> '''') p;
          p = toggle ''pathVMESS'' ''active'' running p;
          p = setText ''localProxyValue'' (js_or (StLocalSOCKS proxy) ''127.0.0.1:1080'') p;
          p = setText ''localProxyDetail'' (if running then pg_socks_ready else pg_proxy_not_running) p;
          p = setText ''vmessDetail'' (if running then pg_vmess_ready else js_or (StMessage proxy) pg_service_not_running) p;
          p = setText ''proxyToggleBtn'' (if running then pg_stop_vmess else pg_start_vmess) p
      in toggle ''proxyToggleBtn'' ''danger'' running p)"

definition renderEnvironment :: "page_browser \<Rightarrow> environment_report \<Rightarrow> proxy_status \<Rightarrow> page \<Rightarrow> page" where
  "renderEnvironment br vpn proxy p =
     (let p = toggle ''pathVPN'' ''active'' (RepRunning vpn) p;
          p = toggle ''pathExit'' ''active'' (case PgSnapshot p of Some shot \<Rightarrow> ExitIP shot \<noteq> '''' | None \<Rightarrow> False) p;
          p = setText ''tunnelDetail''
                (if RepRunning vpn
                 then js_or (RepLocalIP vpn) pg_tunnel_online @ pg_dot @ formatBytes (unat (RepBytesIn vpn)) @ pg_downstream
                 else js_or (RepMessage vpn) pg_choose_node) p
      in setHTML ''diagnosticList'' (diagnosticList (browser.truncate br) vpn proxy) p)"

definition renderNodes :: "page_browser \<Rightarrow> page \<Rightarrow> page" where
  "renderNodes br p =
     (let visible = filteredNodes (browser.truncate br) (ElValue (PgDom p ''nodeSearch'')) (PgNodeFilter p) (PgNodes p);
          p = setText ''visibleCount'' (itoa (int (length visible)) @ pg_results) p;
          p = toggle ''nodeEmpty'' ''hidden'' (visible \<noteq> []) p;
          p = toggle ''tableWrap'' ''hidden'' (visible = []) p
      in setHTML ''nodeRows'' (nodeRows (browser.truncate br) (map_option ActiveNodeID (PgSnapshot p)) visible) p)"

definition renderLogs :: "page_browser \<Rightarrow> log_entry list \<Rightarrow> page \<Rightarrow> page" where
  "renderLogs br logs p =
     setHTML ''logs'' (logLines (browser.truncate br) (map (\<lambda>e. (LogAt e, LogSeverity e, LogText e)) logs)) p"

text \<open>The digits after the last colon of a listen address, if it ends so.\<close>

definition listenPort :: "string \<Rightarrow> string option" where
  "listenPort listen =
     (let digits = takeWhile is_digit (rev listen); rest = dropWhile is_digit (rev listen)
      in if digits \<noteq> [] \<and> rest \<noteq> [] \<and> hd rest = CHR '':'' then Some (rev digits) else None)"

definition field :: "(string \<times> string) list \<Rightarrow> string \<Rightarrow> string" where
  "field kvs key = (case map_of kvs key of Some v \<Rightarrow> v | None \<Rightarrow> '''')"

definition subscriptionAddress :: "page_browser \<Rightarrow> string \<Rightarrow> (string \<times> string) list \<Rightarrow> string" where
  "subscriptionAddress br path preview =
     (let url = BrResolve br path;
          currentIsLoopback = BrHostname br url \<in> set [''127.0.0.1'', ''localhost'', ''::1''];
          listen = js_or (field preview ''subscription_listen'') (field preview ''server_listen'');
          listensExternally = (has_prefix listen ''0.0.0.0:'' \<or> has_prefix listen ''[::]:'' \<or> has_prefix listen '':'');
          url = (if currentIsLoopback \<and> listensExternally \<and> field preview ''resolved_host'' \<noteq> ''''
                 then BrWithHostname br url (field preview ''resolved_host'') else url)
      in case listenPort listen of Some port \<Rightarrow> BrWithPort br url port | None \<Rightarrow> url)"

definition selectSubscription :: "string \<Rightarrow> page \<Rightarrow> page" where
  "selectSubscription kind p =
     (let url = field (PgSubscriptionURLs p) kind;
          p = p\<lparr>PgSubscriptionKind := kind, PgSubscriptionURL := url\<rparr>;
          p = setText ''subscriptionURL'' (js_or url ''-'') p;
          p = setHref ''subLink'' (js_or url ''#'') p;
          p = setText ''copySubBtn'' (if kind = ''quantumult-x'' then pg_copy_qx else pg_copy_vmess) p
      in p\<lparr>PgSubButton := kind\<rparr>)"

definition renderSubscription :: "page_browser \<Rightarrow> (string \<times> string) list \<Rightarrow> page \<Rightarrow> page" where
  "renderSubscription br preview p =
     (let p = p\<lparr>PgSubscriptionURLs :=
                [(''quantumult-x'', subscriptionAddress br (field preview ''quantumult_x_url'') preview),
                 (''vmess'', subscriptionAddress br (field preview ''vmess_url'') preview)]\<rparr>;
          p = selectSubscription (PgSubscriptionKind p) p;
          p = setText ''subscriptionHost''
                (js_or (js_or (field preview ''resolved_host'') (field preview ''subscription_host'')) pg_auto_host) p;
          listen = js_or (field preview ''subscription_listen'') (field preview ''server_listen'');
          external = (has_prefix listen ''0.0.0.0:'' \<or> has_prefix listen ''[::]:'');
          p = setText ''subMeta'' (if external then pg_sub_lan else pg_sub_local) p;
          p = setText ''subscriptionState'' lbl_available p
      in setClass ''subscriptionState'' ''badge good'' p)"

section \<open>Loading\<close>

text \<open>The answers to the six requests of a load, in the order in which they come. The first error makes
  the load fail.\<close>

type_synonym arrivals = "(string \<times> response option) list"

definition loadPaths :: "string list" where
  "loadPaths = [''/api/status'', ''/api/nodes'', ''/api/logs'', ''/api/proxy/status'', ''/api/environment'',
     ''/api/subscription/preview'']"

fun fetchAll :: "page_browser \<Rightarrow> arrivals \<Rightarrow> page \<Rightarrow> page \<times> (string + (string \<times> body) list)" where
  "fetchAll br [] p = (p, Inr [])"
| "fetchAll br ((path, answer) # rest) p =
     (case api br path answer p of
        (p1, Inl err) \<Rightarrow> (fst (fetchAll br rest p1), Inl err)
      | (p1, Inr b) \<Rightarrow>
          (case fetchAll br rest p1 of
             (p2, Inl err) \<Rightarrow> (p2, Inl err)
           | (p2, Inr bs) \<Rightarrow> (p2, Inr ((path, b) # bs))))"

definition showAll :: "page_browser \<Rightarrow> (string \<times> body) list \<Rightarrow> page \<Rightarrow> page" where
  "showAll br results p =
     (case map (map_of results) loadPaths of
        [Some (StatusBody shot counts), Some (NodesBody nodes), Some (LogsBody logs), Some (ProxyBody proxy),
         Some (EnvironmentBody vpn core), Some (PreviewBody preview _)] \<Rightarrow>
          let p = p\<lparr>PgNodes := nodes, PgSnapshot := Some shot\<rparr>
          in renderSubscription br preview (renderLogs br logs (renderNodes br (renderEnvironment br vpn core
               (renderProxy proxy (renderStatus br shot counts p)))))
      | _ \<Rightarrow> p)"

definition loadEnd :: "page_browser \<Rightarrow> bool \<Rightarrow> arrivals \<Rightarrow> page \<Rightarrow> page" where
  "loadEnd br showFailure arrived p =
     (case fetchAll br arrived p of
        (p1, Inl err) \<Rightarrow> (if showFailure then toast err True p1 else p1)
      | (p1, Inr results) \<Rightarrow> showAll br results p1)\<lparr>PgLoadingAll := False\<rparr>"

definition loadAll :: "page_browser \<Rightarrow> bool \<Rightarrow> arrivals \<Rightarrow> page \<Rightarrow> page" where
  "loadAll br showFailure arrived p =
     (if PgLoadingAll p then p else loadEnd br showFailure arrived (p\<lparr>PgLoadingAll := True\<rparr>))"

section \<open>Actions\<close>

text \<open>An action that throws returns the message of its error.\<close>

type_synonym page_action = "page \<Rightarrow> page \<times> string option"

definition runAction :: "string \<Rightarrow> string \<Rightarrow> page_action \<Rightarrow> page \<Rightarrow> page" where
  "runAction button busyLabel action p =
     (let original = ElContent (PgDom p button);
          p = setHTML button (busyMarkup busyLabel) (setDisabled button True p)
      in case action p of
          (p1, err) \<Rightarrow>
            let p2 = (case err of None \<Rightarrow> p1 | Some e \<Rightarrow> toast e True p1)
            in setDisabled button False (upd button (\<lambda>e. e\<lparr>ElContent := original\<rparr>) p2))"

definition requestThen :: "page_browser \<Rightarrow> string \<Rightarrow> response option \<Rightarrow> (body \<Rightarrow> page_action) \<Rightarrow> page_action" where
  "requestThen br path answer body p =
     (case api br path answer p of (p1, Inl err) \<Rightarrow> (p1, Some err) | (p1, Inr b) \<Rightarrow> body b p1)"

text \<open>A request, a toast and a load.\<close>

definition command :: "page_browser \<Rightarrow> string \<Rightarrow> response option \<Rightarrow> string \<Rightarrow> arrivals \<Rightarrow> page_action" where
  "command br path answer message arrived =
     requestThen br path answer (\<lambda>_ p. (loadAll br True arrived (toast message False p), None))"

definition askConfirm :: "string \<Rightarrow> string \<Rightarrow> string \<Rightarrow> page \<Rightarrow> page" where
  "askConfirm title message confirmLabel p =
     setText ''confirmAccept'' confirmLabel (setText ''confirmMessage'' message (setText ''confirmTitle'' title p))"

definition loginSubmit :: "page_browser \<Rightarrow> response option \<Rightarrow> arrivals \<Rightarrow> page \<Rightarrow> page" where
  "loginSubmit br answer arrived p =
     runAction ''loginSubmit'' pg_busy_login (\<lambda>p.
       case requestThen br ''/api/login'' answer (\<lambda>_ p. (loadAll br True arrived (showApp True p), None)) p of
         (p1, None) \<Rightarrow> (p1, None)
       | (p1, Some err) \<Rightarrow> (setText ''loginError'' err p1, Some err))
     (setText ''loginError'' '''' p)"

text \<open>The button of a row is replaced by the load that ends the action; only the error is left.\<close>

definition nodeClick :: "page_browser \<Rightarrow> response option \<Rightarrow> arrivals \<Rightarrow> page \<Rightarrow> page" where
  "nodeClick br answer arrived p =
     (case command br ''/api/connect'' answer pg_node_connected arrived p of
        (p1, None) \<Rightarrow> p1
      | (p1, Some err) \<Rightarrow> toast err True p1)"

definition connectClick :: "page_browser \<Rightarrow> response option \<Rightarrow> arrivals \<Rightarrow> page \<Rightarrow> page" where
  "connectClick br answer arrived =
     runAction ''connectBtn'' pg_connecting (command br ''/api/connect'' answer pg_exit_connected arrived)"

definition verifyClick :: "page_browser \<Rightarrow> response option \<Rightarrow> arrivals \<Rightarrow> page \<Rightarrow> page" where
  "verifyClick br answer arrived =
     runAction ''verifyBtn'' pg_busy_verify (requestThen br ''/api/exit/verify'' answer (\<lambda>b p.
       (loadAll br True arrived
          (toast (pg_exit_verified @ (case b of VerdictBody v \<Rightarrow> ResExitIP v | _ \<Rightarrow> ''undefined'')) False p), None)))"

definition refreshClick :: "page_browser \<Rightarrow> response option \<Rightarrow> arrivals \<Rightarrow> page \<Rightarrow> page" where
  "refreshClick br answer arrived =
     runAction ''refreshBtn'' pg_busy_refresh (command br ''/api/nodes/refresh'' answer pg_refreshed arrived)"

definition classifyClick :: "page_browser \<Rightarrow> response option \<Rightarrow> arrivals \<Rightarrow> page \<Rightarrow> page" where
  "classifyClick br answer arrived =
     runAction ''classifyBtn'' pg_busy_classify (command br ''/api/nodes/classify'' answer pg_classified arrived)"

definition probeClick :: "page_browser \<Rightarrow> response option \<Rightarrow> arrivals \<Rightarrow> page \<Rightarrow> page" where
  "probeClick br answer arrived =
     runAction ''probeBtn'' pg_busy_probe (command br ''/api/nodes/probe'' answer pg_probed arrived)"

definition disconnectClick :: "page_browser \<Rightarrow> bool \<Rightarrow> response option \<Rightarrow> arrivals \<Rightarrow> page \<Rightarrow> page" where
  "disconnectClick br confirmed answer arrived p =
     (let p = askConfirm pg_ask_disconnect pg_ask_disconnect_why pg_disconnect p
      in if \<not> confirmed then p
         else runAction ''disconnectBtn'' pg_busy_disconnect
           (command br ''/api/disconnect'' answer pg_exit_disconnected arrived) p)"

definition proxyToggleClick :: "page_browser \<Rightarrow> bool \<Rightarrow> response option \<Rightarrow> arrivals \<Rightarrow> page \<Rightarrow> page" where
  "proxyToggleClick br confirmed answer arrived p =
     (let running = PgProxyRunning p;
          p = (if running then askConfirm pg_ask_stop pg_ask_stop_why pg_stop_service p else p)
      in if running \<and> \<not> confirmed then p
         else runAction ''proxyToggleBtn'' (if running then pg_busy_stop else pg_busy_start)
           (command br (if running then ''/api/proxy/stop'' else ''/api/proxy/start'') answer
             (if running then pg_vmess_stopped else pg_vmess_started) arrived) p)"

definition logoutClick :: "page_browser \<Rightarrow> response option \<Rightarrow> page \<Rightarrow> page" where
  "logoutClick br answer p = fst (requestThen br ''/api/logout'' answer (\<lambda>_ p. (showApp False p, None)) p)"

definition copyClick :: "bool \<Rightarrow> page \<Rightarrow> page" where
  "copyClick allowed p =
     (if PgSubscriptionURL p = '''' then toast pg_no_subscription True p
      else if allowed then toast pg_copied False p
      else toast pg_not_copied True p)"

definition startPage :: "page_browser \<Rightarrow> response option \<Rightarrow> arrivals \<Rightarrow> page \<Rightarrow> page" where
  "startPage br answer arrived p =
     (case requestThen br ''/api/me'' answer (\<lambda>_ p. (loadAll br True arrived (showApp True p), None)) p of
        (p1, None) \<Rightarrow> p1
      | (p1, Some _) \<Rightarrow> showApp False p1)"

section \<open>Events\<close>

datatype page_event =
    PageStart "response option" arrivals
  | LoadStarted bool
  | LoadFinished arrivals
  | LoginSubmit "response option" arrivals
  | NodeClick "response option" arrivals
  | ConnectClick "response option" arrivals
  | VerifyClick "response option" arrivals
  | RefreshClick "response option" arrivals
  | ClassifyClick "response option" arrivals
  | ProbeClick "response option" arrivals
  | DisconnectClick bool "response option" arrivals
  | EnvironmentClick arrivals
  | ProxyToggleClick bool "response option" arrivals
  | LogoutClick "response option"
  | ReloadLogsClick arrivals
  | SearchInput string
  | FilterClick string
  | SubscriptionKindClick string
  | CopyClick bool
  | CloseDialog

text \<open>The timer and the return of the page to the foreground load in the background; \<open>LoadStarted\<close> has
  whether the document is hidden.\<close>

fun page_handle :: "page_browser \<Rightarrow> page \<Rightarrow> page_event \<Rightarrow> page" where
  "page_handle br p (PageStart answer arrived) = startPage br answer arrived p"
| "page_handle br p (LoadStarted hidden) = (if \<not> hidden \<and> \<not> hiddenEl p ''app'' then p\<lparr>PgLoadingAll := True\<rparr> else p)"
| "page_handle br p (LoadFinished arrived) = (if PgLoadingAll p then loadEnd br False arrived p else p)"
| "page_handle br p (LoginSubmit answer arrived) = loginSubmit br answer arrived p"
| "page_handle br p (NodeClick answer arrived) = nodeClick br answer arrived p"
| "page_handle br p (ConnectClick answer arrived) = connectClick br answer arrived p"
| "page_handle br p (VerifyClick answer arrived) = verifyClick br answer arrived p"
| "page_handle br p (RefreshClick answer arrived) = refreshClick br answer arrived p"
| "page_handle br p (ClassifyClick answer arrived) = classifyClick br answer arrived p"
| "page_handle br p (ProbeClick answer arrived) = probeClick br answer arrived p"
| "page_handle br p (DisconnectClick confirmed answer arrived) = disconnectClick br confirmed answer arrived p"
| "page_handle br p (EnvironmentClick arrived) = (loadAll br True arrived p)\<lparr>PgDialog := True\<rparr>"
| "page_handle br p (ProxyToggleClick confirmed answer arrived) = proxyToggleClick br confirmed answer arrived p"
| "page_handle br p (LogoutClick answer) = logoutClick br answer p"
| "page_handle br p (ReloadLogsClick arrived) = loadAll br True arrived p"
| "page_handle br p (SearchInput query) = renderNodes br (setValue ''nodeSearch'' query p)"
| "page_handle br p (FilterClick kind) = renderNodes br (p\<lparr>PgNodeFilter := kind, PgFilterButton := kind\<rparr>)"
| "page_handle br p (SubscriptionKindClick kind) = selectSubscription kind p"
| "page_handle br p (CopyClick allowed) = copyClick allowed p"
| "page_handle br p CloseDialog = p\<lparr>PgDialog := False\<rparr>"

text \<open>The elements with an identifier, with the class, text and value they have when the page is loaded.
  The children of an element that only holds others are not part of it.\<close>

definition element0 :: "content \<Rightarrow> string \<Rightarrow> element" where
  "element0 c classes = \<lparr>ElContent = c, ElClass = str_fields classes, ElDisabled = False, ElHref = '''', ElValue = ''''\<rparr>"

abbreviation container :: "string \<Rightarrow> element" where
  "container classes \<equiv> element0 (PlainText '''') classes"

abbreviation labelled :: "string \<Rightarrow> string \<Rightarrow> element" where
  "labelled label classes \<equiv> element0 (PlainText label) classes"

definition symbolLabel :: "string \<Rightarrow> string \<Rightarrow> string" where
  "symbolLabel symbol label = ''<span '' @ attr ''class'' ''button-symbol'' @ ''>'' @ symbol @ ''</span><span '' @
     attr ''class'' ''button-label'' @ ''>'' @ label @ ''</span>''"

definition verifyLabel :: string where
  "verifyLabel = ''<span '' @ attr ''class'' ''button-symbol'' @ ''>'' @ pg_check_mark @ ''</span>'' @ pg_verify_now"

definition emptyLogs :: string where
  "emptyLogs = ''<div '' @ attr ''class'' ''empty-state'' @ ''><strong>'' @ pg_no_logs @ ''</strong></div>''"

definition login_elements :: "(string \<times> element) list" where
  "login_elements =
     [(''loginForm'', container ''''), (''username'', (container '''')\<lparr>ElValue := ''admin''\<rparr>), (''password'', container ''''),
      (''loginSubmit'', labelled pg_login ''primary login-submit''), (''loginError'', container ''form-error'')]"

definition header_elements :: "(string \<times> element) list" where
  "header_elements =
     [(''brandStatus'', labelled pg_reading_status ''brand-meta''),
      (''connectBtn'', element0 (Markup (symbolLabel pg_arrow pg_auto_connect)) ''primary''),
      (''envBtn'', labelled pg_info ''icon-button''),
      (''logoutBtn'', element0 (Markup (symbolLabel pg_leave pg_logout)) ''quiet'')]"

definition state_elements :: "(string \<times> element) list" where
  "state_elements =
     [(''stateLight'', container ''state-light''), (''stateText'', labelled msg_ready ''state-title''),
      (''messageText'', labelled pg_awaiting_status ''route-message''),
      (''verificationState'', labelled pg_not_verified ''badge''), (''verifyBtn'', element0 (Markup verifyLabel) ''hidden''),
      (''disconnectBtn'', labelled pg_disconnect ''danger hidden'')]"

definition route_elements :: "(string \<times> element) list" where
  "route_elements =
     [(''pathLocal'', container ''route-step''), (''localProxyValue'', labelled ''127.0.0.1:1080'' ''route-value''),
      (''localProxyDetail'', labelled pg_awaiting_core ''route-detail''),
      (''pathVMESS'', container ''route-step''), (''vmessValue'', labelled pg_port ''route-value''),
      (''vmessDetail'', labelled pg_reading ''route-detail''),
      (''pathVPN'', container ''route-step''), (''activeNode'', labelled pg_not_connected ''route-value''),
      (''tunnelDetail'', labelled pg_choose_node ''route-detail''),
      (''pathExit'', container ''route-step''), (''exitIP'', labelled pg_not_verified ''route-value mono''),
      (''exitDetail'', labelled pg_exit_hint ''route-detail'')]"

definition metric_elements :: "(string \<times> element) list" where
  "metric_elements =
     [(''countNodes'', labelled ''0'' ''metric-value''), (''countAvailable'', labelled ''0'' ''metric-value''),
      (''countStrict'', labelled ''0'' ''metric-value''), (''countCandidate'', labelled ''0'' ''metric-value'')]"

definition node_elements :: "(string \<times> element) list" where
  "node_elements =
     [(''visibleCount'', labelled pg_no_results ''panel-count''), (''nodeSearch'', container ''search-input''),
      (''refreshBtn'', labelled pg_refresh ''icon-button''), (''nodeFilters'', container ''segmented''),
      (''classifyBtn'', labelled pg_classify ''compact''), (''probeBtn'', labelled pg_probe ''compact''),
      (''nodeEmpty'', container ''empty-state hidden''), (''tableWrap'', container ''table-wrap''),
      (''nodeRows'', element0 (Markup '''') '''')]"

definition subscription_elements :: "(string \<times> element) list" where
  "subscription_elements =
     [(''subscriptionState'', labelled pg_unresolved ''badge''), (''subscriptionHost'', labelled pg_auto_host ''''),
      (''subMeta'', labelled pg_reading_subscription ''micro''),
      (''subscriptionFormats'', container ''segmented subscription-format''),
      (''subscriptionURL'', labelled ''-'' ''subscription-address mono''), (''copySubBtn'', labelled pg_copy ''primary''),
      (''subLink'', (labelled pg_arrow ''subscription-open'')\<lparr>ElHref := ''#''\<rparr>)]"

definition log_elements :: "(string \<times> element) list" where
  "log_elements =
     [(''reloadLogsBtn'', labelled pg_reload ''quiet compact''), (''logs'', element0 (Markup emptyLogs) ''logs'')]"

definition dialog_elements :: "(string \<times> element) list" where
  "dialog_elements =
     [(''environmentDialog'', container ''''), (''diagnosticList'', element0 (Markup '''') ''diagnostic-list''),
      (''proxyToggleBtn'', labelled pg_stop_vmess ''''), (''confirmDialog'', container ''''),
      (''confirmTitle'', labelled pg_confirm ''''), (''confirmMessage'', container ''confirm-copy''),
      (''confirmCancel'', labelled pg_cancel ''''), (''confirmAccept'', labelled pg_continue ''danger''),
      (''toasts'', container ''toast-region'')]"

definition page_elements :: "(string \<times> element) list" where
  "page_elements =
     [(''login'', container ''login-view''), (''app'', container ''app-shell hidden'')] @ login_elements @
     header_elements @ state_elements @ route_elements @ metric_elements @ node_elements @ subscription_elements @
     log_elements @ dialog_elements"

lemmas element_groups = login_elements_def header_elements_def state_elements_def route_elements_def metric_elements_def
  node_elements_def subscription_elements_def log_elements_def dialog_elements_def

definition page0 :: page where
  "page0 =
     \<lparr>PgNodes = [], PgSnapshot = None, PgProxyRunning = False, PgNodeFilter = ''all'', PgFilterButton = ''all'',
      PgSubscriptionURL = '''', PgSubscriptionKind = ''quantumult-x'', PgSubButton = ''quantumult-x'',
      PgSubscriptionURLs = [], PgLoadingAll = False, PgDialog = False,
      PgDom = (\<lambda>el. case map_of page_elements el of Some e \<Rightarrow> e | None \<Rightarrow> element0 (PlainText '''') ''''),
      PgToasts = []\<rparr>"

section \<open>Markup of the document\<close>

definition content_ok :: "content \<Rightarrow> bool" where
  "content_ok c = (case c of PlainText _ \<Rightarrow> True | Markup m \<Rightarrow> harmless m)"

definition page_ok :: "page \<Rightarrow> bool" where
  "page_ok p \<longleftrightarrow> (\<forall>el. content_ok (ElContent (PgDom p el))) \<and> list_all (\<lambda>t. harmless (snd t)) (PgToasts p)"

lemma content_ok_simps [simp]: "content_ok (PlainText v)" "content_ok (Markup m) = harmless m"
  by (simp_all add: content_ok_def)

lemma page_ok_upd: "page_ok p \<Longrightarrow> content_ok (ElContent (f (PgDom p el))) \<Longrightarrow> page_ok (upd el f p)"
  by (simp add: page_ok_def upd_def)

lemma page_ok_content: "page_ok p \<Longrightarrow> content_ok (ElContent (PgDom p el))"
  by (simp add: page_ok_def)

lemma page_ok_set [intro]:
  "page_ok p \<Longrightarrow> page_ok (setText el v p)" "page_ok p \<Longrightarrow> page_ok (setClass el v p)" "page_ok p \<Longrightarrow> page_ok (toggle el v b p)"
  "page_ok p \<Longrightarrow> page_ok (setDisabled el b p)" "page_ok p \<Longrightarrow> page_ok (setValue el v p)" "page_ok p \<Longrightarrow> page_ok (setHref el v p)"
  "page_ok p \<Longrightarrow> harmless v \<Longrightarrow> page_ok (setHTML el v p)" "page_ok p \<Longrightarrow> page_ok (toast message e p)"
  by (simp_all add: setText_def setClass_def toggle_def setDisabled_def setValue_def setHref_def setHTML_def page_ok_upd
      page_ok_content) (simp add: page_ok_def toast_def toastMarkup_harmless)

lemma page_ok_variables [simp]:
  "page_ok (p\<lparr>PgNodes := ns\<rparr>) = page_ok p" "page_ok (p\<lparr>PgSnapshot := s\<rparr>) = page_ok p"
  "page_ok (p\<lparr>PgProxyRunning := b\<rparr>) = page_ok p" "page_ok (p\<lparr>PgNodeFilter := v\<rparr>) = page_ok p"
  "page_ok (p\<lparr>PgFilterButton := v\<rparr>) = page_ok p" "page_ok (p\<lparr>PgSubscriptionURL := v\<rparr>) = page_ok p"
  "page_ok (p\<lparr>PgSubscriptionKind := v\<rparr>) = page_ok p" "page_ok (p\<lparr>PgSubButton := v\<rparr>) = page_ok p"
  "page_ok (p\<lparr>PgSubscriptionURLs := us\<rparr>) = page_ok p" "page_ok (p\<lparr>PgLoadingAll := b\<rparr>) = page_ok p"
  "page_ok (p\<lparr>PgDialog := b\<rparr>) = page_ok p"
  by (simp_all add: page_ok_def)

lemma page_ok_showApp: "page_ok p \<Longrightarrow> page_ok (showApp b p)"
  by (simp add: showApp_def Let_def page_ok_set)

lemma page_ok_renderStatus: "page_ok p \<Longrightarrow> page_ok (renderStatus br shot counts p)"
  unfolding renderStatus_def Let_def by (cases "LastVerifiedAt shot") (simp_all add: page_ok_set)

lemma page_ok_renderProxy: "page_ok p \<Longrightarrow> page_ok (renderProxy proxy p)"
  by (simp add: renderProxy_def Let_def page_ok_set)

lemma page_ok_renderEnvironment: "page_ok p \<Longrightarrow> page_ok (renderEnvironment br vpn proxy p)"
  by (simp add: renderEnvironment_def Let_def page_ok_set diagnosticList_harmless)

lemma page_ok_renderNodes: "page_ok p \<Longrightarrow> page_ok (renderNodes br p)"
  by (simp add: renderNodes_def Let_def page_ok_set nodeRows_harmless)

lemma page_ok_renderLogs: "page_ok p \<Longrightarrow> page_ok (renderLogs br logs p)"
  by (simp add: renderLogs_def page_ok_set logLines_harmless)

lemma page_ok_subscription:
  "page_ok p \<Longrightarrow> page_ok (selectSubscription kind p)" "page_ok p \<Longrightarrow> page_ok (renderSubscription br preview p)"
  "page_ok p \<Longrightarrow> page_ok (askConfirm title message label p)"
  by (simp_all add: selectSubscription_def renderSubscription_def askConfirm_def Let_def page_ok_set)

lemmas page_ok_render = page_ok_showApp page_ok_renderStatus page_ok_renderProxy page_ok_renderEnvironment
  page_ok_renderNodes page_ok_renderLogs page_ok_subscription

lemma page_ok_api: "page_ok p \<Longrightarrow> page_ok (fst (api br path answer p))"
  by (simp add: api_def page_ok_showApp split: option.split)

lemma page_ok_fetchAll: "page_ok p \<Longrightarrow> page_ok (fst (fetchAll br arrived p))"
proof (induction br arrived p rule: fetchAll.induct)
  case (2 br path answer rest p)
  obtain p1 r where api: "api br path answer p = (p1, r)" by fastforce
  then have "page_ok p1" using page_ok_api [OF 2(3)] by (metis fst_conv)
  with 2(1,2) api show ?case
    by (cases r) (auto split: prod.split sum.split)
qed simp

lemma page_ok_showAll: "page_ok p \<Longrightarrow> page_ok (showAll br results p)"
  by (simp add: showAll_def Let_def page_ok_render split: list.split option.split body.split)

lemma page_ok_loadEnd: "page_ok p \<Longrightarrow> page_ok (loadEnd br showFailure arrived p)"
  using page_ok_fetchAll [of p br arrived]
  by (auto simp: loadEnd_def page_ok_showAll page_ok_set split: prod.split sum.split)

lemma page_ok_loadAll: "page_ok p \<Longrightarrow> page_ok (loadAll br showFailure arrived p)"
  by (simp add: loadAll_def page_ok_loadEnd)

lemma page_ok_request:
  "page_ok p \<Longrightarrow> (\<And>b q. page_ok q \<Longrightarrow> page_ok (fst (k b q))) \<Longrightarrow> page_ok (fst (requestThen br path answer k p))"
  using page_ok_api [of p br path answer] by (auto simp: requestThen_def split: prod.split sum.split)

lemma page_ok_command: "page_ok p \<Longrightarrow> page_ok (fst (command br path answer message arrived p))"
  unfolding command_def by (rule page_ok_request) (simp_all add: page_ok_loadAll page_ok_set)

lemma page_ok_runAction:
  assumes "page_ok p" and "inert busyLabel" and "\<And>q. page_ok q \<Longrightarrow> page_ok (fst (action q))"
  shows "page_ok (runAction button busyLabel action p)"
proof -
  let ?p = "setHTML button (busyMarkup busyLabel) (setDisabled button True p)"
  obtain p1 err where r: "action ?p = (p1, err)" by fastforce
  have "page_ok ?p" using assms(1,2) by (simp add: page_ok_set busyMarkup_harmless)
  from assms(3) [OF this] r have "page_ok p1" by simp
  then show ?thesis
    using page_ok_content [OF assms(1), of button]
    by (auto simp: runAction_def r Let_def intro!: page_ok_set page_ok_upd split: option.split)
qed

lemma inert_busy [simp]:
  "inert pg_busy_login" "inert pg_connecting" "inert pg_busy_verify" "inert pg_busy_refresh" "inert pg_busy_classify"
  "inert pg_busy_probe" "inert pg_busy_disconnect" "inert pg_busy_stop" "inert pg_busy_start"
  by code_simp+

lemma page_ok_actions:
  assumes "page_ok p"
  shows "page_ok (loginSubmit br answer arrived p)" "page_ok (nodeClick br answer arrived p)"
    "page_ok (connectClick br answer arrived p)" "page_ok (verifyClick br answer arrived p)"
    "page_ok (refreshClick br answer arrived p)" "page_ok (classifyClick br answer arrived p)"
    "page_ok (probeClick br answer arrived p)" "page_ok (disconnectClick br confirmed answer arrived p)"
    "page_ok (proxyToggleClick br confirmed answer arrived p)" "page_ok (logoutClick br answer p)"
    "page_ok (copyClick allowed p)" "page_ok (startPage br answer arrived p)"
proof -
  have loaded: "page_ok (fst (requestThen br path answer (\<lambda>_ p. (loadAll br True arrived (showApp True p), None)) q))"
    if "page_ok q" for path q
    by (rule page_ok_request) (simp_all add: that page_ok_loadAll page_ok_showApp)
  show "page_ok (loginSubmit br answer arrived p)"
    unfolding loginSubmit_def
  proof (rule page_ok_runAction)
    fix q assume "page_ok q"
    from loaded [OF this, of "''/api/login''"]
    show "page_ok (fst (case requestThen br ''/api/login'' answer (\<lambda>_ p. (loadAll br True arrived (showApp True p), None)) q of
        (p1, None) \<Rightarrow> (p1, None) | (p1, Some err) \<Rightarrow> (setText ''loginError'' err p1, Some err)))"
      by (auto simp: page_ok_set split: prod.split option.split)
  qed (simp_all add: assms page_ok_set)
  show "page_ok (nodeClick br answer arrived p)"
    using page_ok_command [OF assms, of br "''/api/connect''" answer pg_node_connected arrived]
    by (auto simp: nodeClick_def page_ok_set split: prod.split option.split)
  show "page_ok (verifyClick br answer arrived p)"
    unfolding verifyClick_def
    by (rule page_ok_runAction, simp_all add: assms)
      (rule page_ok_request, simp_all add: page_ok_loadAll page_ok_set)
  show "page_ok (logoutClick br answer p)"
    unfolding logoutClick_def by (rule page_ok_request) (simp_all add: assms page_ok_showApp)
  show "page_ok (startPage br answer arrived p)"
    using loaded [OF assms, of "''/api/me''"] by (auto simp: startPage_def page_ok_showApp split: prod.split option.split)
qed (simp_all add: connectClick_def refreshClick_def classifyClick_def probeClick_def disconnectClick_def proxyToggleClick_def
    copyClick_def Let_def page_ok_runAction page_ok_command page_ok_subscription page_ok_set assms)

lemma page_handle_ok: "page_ok p \<Longrightarrow> page_ok (page_handle br p e)"
  by (cases e) (simp_all add: page_ok_actions page_ok_loadEnd page_ok_loadAll page_ok_renderNodes page_ok_subscription page_ok_set)

interpretation console_page: event_machine "page_handle br" page_ok for br
  by unfold_locales (rule page_handle_ok)

lemma page0_ok: "page_ok page0"
proof -
  let ?span = "[open_tag ''span'' [''class''], close_tag ''span'']"
  have inert: "inert pg_arrow" "inert pg_auto_connect" "inert pg_leave" "inert pg_logout" "inert pg_check_mark"
    "inert pg_verify_now" by code_simp+
  have "harmless (symbolLabel pg_arrow pg_auto_connect)" "harmless (symbolLabel pg_leave pg_logout)" "harmless verifyLabel"
    "harmless emptyLogs" "harmless ''''"
    by (rule harmlessI [where ts = "?span @ ?span"] harmlessI [where ts = ?span] harmlessI [where ts = "[]"]
          harmlessI [where ts = "[open_tag ''div'' [''class''], open_tag ''strong'' [], close_tag ''strong'', close_tag ''div'']"];
        simp add: symbolLabel_def verifyLabel_def emptyLogs_def markup_defs skeleton_append inert_skeleton inert pageTags_def; fail)+
  then have "list_all (\<lambda>(el, e). content_ok (ElContent e)) page_elements"
    by (simp add: page_elements_def element_groups element0_def)
  then show ?thesis
    by (auto simp: page_ok_def page0_def element0_def list_all_iff split: option.split dest!: map_of_SomeD)
qed

section \<open>Lost sessions\<close>

lemma toggle_simps:
  "PgDom (toggle el c on p) other = (if other = el then (PgDom p el)\<lparr>ElClass :=
     (if \<not> on then filter (\<lambda>d. d \<noteq> c) (ElClass (PgDom p el)) else if c \<in> set (ElClass (PgDom p el)) then ElClass (PgDom p el)
      else ElClass (PgDom p el) @ [c])\<rparr> else PgDom p other)"
  by (simp add: toggle_def upd_def)

definition login_shown :: "page \<Rightarrow> bool" where
  "login_shown p \<longleftrightarrow> hiddenEl p ''app'' \<and> \<not> hiddenEl p ''login''"

lemma showApp_login: "login_shown (showApp False p)"
  by (simp add: login_shown_def showApp_def hiddenEl_def toggle_simps setValue_def upd_def Let_def)

lemma api_login: "login_shown p \<Longrightarrow> login_shown (fst (api br path answer p))"
  by (simp add: api_def showApp_login split: option.split)

lemma fetchAll_login: "login_shown p \<Longrightarrow> login_shown (fst (fetchAll br arrived p))"
proof (induction br arrived p rule: fetchAll.induct)
  case (2 br path answer rest p)
  obtain p1 r where api: "api br path answer p = (p1, r)" by fastforce
  then have "login_shown p1" using api_login [OF 2(3)] by (metis fst_conv)
  with 2(1,2) api show ?case
    by (cases r) (auto split: prod.split sum.split)
qed simp

definition shown_data :: "page \<Rightarrow> vpn_node list \<times> connection_snapshot option \<times> bool" where
  "shown_data p = (PgNodes p, PgSnapshot p, PgProxyRunning p)"

lemma api_data: "shown_data (fst (api br path answer p)) = shown_data p"
  by (simp add: api_def shown_data_def showApp_def toggle_def setValue_def upd_def Let_def split: option.split)

lemma fetchAll_data: "shown_data (fst (fetchAll br arrived p)) = shown_data p"
proof (induction br arrived p rule: fetchAll.induct)
  case (2 br path answer rest p)
  obtain p1 r where api: "api br path answer p = (p1, r)" by fastforce
  then have "shown_data p1 = shown_data p" using api_data by (metis fst_conv)
  with 2(1,2) api show ?case
    by (cases r) (auto split: prod.split sum.split)
qed simp

definition rejected :: "string \<times> response option \<Rightarrow> bool" where
  "rejected a = (case a of (path, Some r) \<Rightarrow> RespStatus r = 401 \<and> path \<noteq> ''/api/login'' | _ \<Rightarrow> False)"

lemma fetchAll_rejected:
  "list_ex rejected arrived \<Longrightarrow> \<exists>p1 err. fetchAll br arrived p = (p1, Inl err) \<and> login_shown p1"
proof (induction br arrived p rule: fetchAll.induct)
  case (2 br path answer rest p)
  obtain p1 r where api: "api br path answer p = (p1, r)" by fastforce
  show ?case
  proof (cases "rejected (path, answer)")
    case True
    then have "p1 = showApp False p" "r = Inl pg_login_lost"
      using api by (auto simp: rejected_def api_def split: option.splits)
    then show ?thesis using fetchAll_login [OF showApp_login] by (simp add: api)
  next
    case False
    with 2(3) have rest: "list_ex rejected rest" by simp
    show ?thesis
    proof (cases r)
      case (Inl err)
      with 2(1) [OF api [symmetric] Inl rest] api show ?thesis by auto
    next
      case (Inr b)
      with 2(2) [OF api [symmetric] Inr rest] api show ?thesis by auto
    qed
  qed
qed simp

section \<open>Loaded pages\<close>

definition answered :: "body \<Rightarrow> response option" where
  "answered b = Some (writeJSON 200 b)"

definition loaded_with ::
  "connection_snapshot \<Rightarrow> (string \<times> int) list \<Rightarrow> vpn_node list \<Rightarrow> log_entry list \<Rightarrow> proxy_status \<Rightarrow> environment_report \<Rightarrow>
   (string \<times> string) list \<Rightarrow> arrivals" where
  "loaded_with shot counts nodes logs proxy vpn preview =
     zip loadPaths (map answered [StatusBody shot counts, NodesBody nodes, LogsBody logs, ProxyBody proxy,
       EnvironmentBody vpn proxy, PreviewBody preview 0])"

lemma api_answered: "jsonBody b = Some b \<Longrightarrow> api br path (answered b) p = (p, Inr b)"
  by (simp add: api_def answered_def writeJSON_def)

lemma jsonBody_simps [simp]:
  "jsonBody (StatusBody shot counts) = Some (StatusBody shot counts)" "jsonBody (NodesBody ns) = Some (NodesBody ns)"
  "jsonBody (LogsBody ls) = Some (LogsBody ls)" "jsonBody (ProxyBody px) = Some (ProxyBody px)"
  "jsonBody (EnvironmentBody vpn px) = Some (EnvironmentBody vpn px)" "jsonBody (PreviewBody f n) = Some (PreviewBody f n)"
  "jsonBody (VerdictBody v) = Some (VerdictBody v)"
  by (simp_all add: jsonBody_def)

lemma loadAll_loaded:
  "\<not> PgLoadingAll p \<Longrightarrow>
   loadAll br f (loaded_with shot counts nodes logs proxy vpn preview) p =
   (renderSubscription br preview (renderLogs br logs (renderNodes br (renderEnvironment br vpn proxy
      (renderProxy proxy (renderStatus br shot counts (p\<lparr>PgLoadingAll := True, PgNodes := nodes, PgSnapshot := Some shot\<rparr>)))))))
      \<lparr>PgLoadingAll := False\<rparr>"
  by (simp add: loadAll_def loadEnd_def loaded_with_def loadPaths_def showAll_def api_answered)

section \<open>The state of the exit on the page\<close>

lemma dom_set [simp]:
  "other \<noteq> el \<Longrightarrow> PgDom (upd el f q) other = PgDom q other" "PgDom (upd el f q) el = f (PgDom q el)"
  by (simp_all add: upd_def)

lemmas set_defs = setText_def setHTML_def setClass_def setDisabled_def setValue_def setHref_def toggle_def

definition exit_elements :: "string set" where
  "exit_elements = {''verificationState'', ''disconnectBtn'', ''verifyBtn''}"

lemma dom_variables [simp]:
  "PgDom (q\<lparr>PgSubscriptionKind := k, PgSubscriptionURL := u\<rparr>) = PgDom q" by simp

lemma later_renders:
  assumes "el \<in> exit_elements"
  shows "PgDom (renderProxy proxy q) el = PgDom q el" "PgDom (renderEnvironment br vpn core q) el = PgDom q el"
    "PgDom (renderNodes br q) el = PgDom q el" "PgDom (renderLogs br logs q) el = PgDom q el"
    "PgDom (selectSubscription kind q) el = PgDom q el"
  using assms
  by (auto simp: exit_elements_def selectSubscription_def renderLogs_def renderNodes_def renderEnvironment_def
      renderProxy_def set_defs Let_def)

lemma renderSubscription_exit: "el \<in> exit_elements \<Longrightarrow> PgDom (renderSubscription br preview q) el = PgDom q el"
  using later_renders(5) by (auto simp: exit_elements_def renderSubscription_def set_defs Let_def)

lemma renderStatus_verified:
  assumes "LastVerifiedAt shot = Some at" and "State shot \<noteq> ''connected''" and "State shot \<noteq> ''''"
  shows "ElClass (PgDom (renderStatus br shot counts q) ''verificationState'') = [''badge'', ''good'']"
    and "ElContent (PgDom (renderStatus br shot counts q) ''verificationState'') = PlainText (pg_verified @ BrTime br at)"
    and "hiddenEl (renderStatus br shot counts q) ''disconnectBtn''"
    and "hiddenEl (renderStatus br shot counts q) ''verifyBtn''"
proof -
  have "str_fields ''badge good'' = [''badge'', ''good'']" by code_simp
  then show "ElClass (PgDom (renderStatus br shot counts q) ''verificationState'') = [''badge'', ''good'']"
    and "ElContent (PgDom (renderStatus br shot counts q) ''verificationState'') = PlainText (pg_verified @ BrTime br at)"
    and "hiddenEl (renderStatus br shot counts q) ''disconnectBtn''"
    and "hiddenEl (renderStatus br shot counts q) ''verifyBtn''"
    using assms by (simp_all add: renderStatus_def set_defs hiddenEl_def js_or_def Let_def)
qed

lemma upd_toasts [simp]: "PgToasts (upd el f q) = PgToasts q"
  by (simp add: upd_def)

lemma render_toasts:
  "PgToasts (renderSubscription br preview q) = PgToasts q" "PgToasts (renderLogs br logs q) = PgToasts q"
  "PgToasts (renderNodes br q) = PgToasts q" "PgToasts (renderEnvironment br vpn proxy q) = PgToasts q"
  "PgToasts (renderProxy proxy q) = PgToasts q" "PgToasts (renderStatus br shot counts q) = PgToasts q"
  by (simp_all add: renderSubscription_def selectSubscription_def renderLogs_def renderNodes_def renderEnvironment_def
      renderProxy_def set_defs Let_def)
    (simp add: renderStatus_def set_defs Let_def split: option.split)

lemma upd_data [simp]: "PgNodes (upd el f q) = PgNodes q" "PgSnapshot (upd el f q) = PgSnapshot q"
  by (simp_all add: upd_def)

lemma render_data:
  "PgNodes (renderSubscription br preview q) = PgNodes q" "PgSnapshot (renderSubscription br preview q) = PgSnapshot q"
  "PgNodes (renderLogs br logs q) = PgNodes q" "PgSnapshot (renderLogs br logs q) = PgSnapshot q"
  "PgNodes (renderNodes br q) = PgNodes q" "PgSnapshot (renderNodes br q) = PgSnapshot q"
  "PgNodes (renderEnvironment br vpn core q) = PgNodes q" "PgSnapshot (renderEnvironment br vpn core q) = PgSnapshot q"
  "PgNodes (renderProxy proxy q) = PgNodes q" "PgSnapshot (renderProxy proxy q) = PgSnapshot q"
  "PgNodes (renderStatus br shot counts q) = PgNodes q" "PgSnapshot (renderStatus br shot counts q) = PgSnapshot q"
  by (simp_all add: renderSubscription_def selectSubscription_def renderLogs_def renderNodes_def renderEnvironment_def
      renderProxy_def set_defs Let_def)
    (simp_all add: renderStatus_def set_defs Let_def split: option.split)

section \<open>The answers of the server\<close>

text \<open>The body that the page expects under each path of a load.\<close>

definition expects :: "string \<Rightarrow> body \<Rightarrow> bool" where
  "expects path b =
     (case b of
        StatusBody _ _ \<Rightarrow> path = ''/api/status''
      | NodesBody _ \<Rightarrow> path = ''/api/nodes''
      | LogsBody _ \<Rightarrow> path = ''/api/logs''
      | ProxyBody _ \<Rightarrow> path = ''/api/proxy/status''
      | EnvironmentBody _ _ \<Rightarrow> path = ''/api/environment''
      | PreviewBody _ _ \<Rightarrow> path = ''/api/subscription/preview''
      | _ \<Rightarrow> False)"

definition as_expected :: "string \<Rightarrow> handler \<Rightarrow> bool" where
  "as_expected path h \<longleftrightarrow> (\<forall>w r s. let resp = fst (run_state (h w r) s)
     in 200 \<le> RespStatus resp \<and> RespStatus resp < 300 \<longrightarrow> expects path (RespBody resp))"

lemma readers_expected:
  "as_expected ''/api/status'' status" "as_expected ''/api/nodes'' nodes_handler" "as_expected ''/api/logs'' logs_handler"
  "as_expected ''/api/proxy/status'' proxyStatus" "as_expected ''/api/environment'' environment"
  "as_expected ''/api/subscription/preview'' subscriptionPreview"
  by (simp_all add: as_expected_def status_def nodes_handler_def logs_handler_def proxyStatus_def environment_def
      checkEnvironment_def subscriptionPreview_def call_def expects_def writeJSON_def writeError_def Let_def split: sum.split)

lemma requireAuth_expected: "as_expected path h \<Longrightarrow> as_expected path (requireAuth h)"
  by (auto simp: as_expected_def requireAuth_def writeError_def writeJSON_def Let_def split: option.split prod.split)

lemma load_expected: "path \<in> set loadPaths \<Longrightarrow> \<exists>h. map_of routes path = Some h \<and> as_expected path h"
  using requireAuth_expected [OF readers_expected(1)] requireAuth_expected [OF readers_expected(2)]
    requireAuth_expected [OF readers_expected(3)] requireAuth_expected [OF readers_expected(4)]
    requireAuth_expected [OF readers_expected(5)] requireAuth_expected [OF readers_expected(6)]
  by (auto simp: loadPaths_def routes_def protectedRoutes_def)

definition served :: "string \<times> response option \<Rightarrow> bool" where
  "served a = (\<exists>w r s. ReqPath r = fst a \<and> snd a = Some (fst (run_state (Handler w r) s)))"

definition successful :: "string \<times> response option \<Rightarrow> bool" where
  "successful a = (case snd a of Some resp \<Rightarrow> 200 \<le> RespStatus resp \<and> RespStatus resp < 300 | None \<Rightarrow> False)"

lemma securityHeaders_simps [simp]:
  "RespStatus (securityHeaders resp) = RespStatus resp" "RespBody (securityHeaders resp) = RespBody resp"
  by (simp_all add: securityHeaders_def)

lemma served_expected:
  assumes "served (path, a)" and "successful (path, a)" and "path \<in> set loadPaths"
  shows "\<exists>resp. a = Some resp \<and> 200 \<le> RespStatus resp \<and> RespStatus resp < 300 \<and> expects path (RespBody resp)"
proof -
  obtain w r s where a: "ReqPath r = path" "a = Some (fst (run_state (Handler w r) s))"
    using assms(1) by (auto simp: served_def)
  obtain h where h: "map_of routes path = Some h" "as_expected path h"
    using load_expected [OF assms(3)] by blast
  obtain resp t where t: "run_state (h w r) s = (resp, t)" by fastforce
  have "a = Some (securityHeaders resp)" using a h(1) t by (simp add: Handler_def)
  then show ?thesis
    using h(2) t assms(2) unfolding as_expected_def successful_def Let_def by (auto dest!: spec [of _ w] spec [of _ r] spec [of _ s])
qed

lemma expects_json: "expects path b \<Longrightarrow> jsonBody b = Some b"
  by (cases b) (simp_all add: expects_def jsonBody_def)

lemma fetchAll_expected:
  "(\<And>path a. (path, a) \<in> set arrived \<Longrightarrow> path \<in> set loadPaths \<and> served (path, a) \<and> successful (path, a)) \<Longrightarrow>
   \<exists>results. fetchAll br arrived p = (p, Inr results) \<and> map fst results = map fst arrived \<and>
     (\<forall>path. map_option Some (map_of results path) = map_option (map_option RespBody) (map_of arrived path)) \<and>
     list_all (\<lambda>(path, b). expects path b) results"
proof (induction arrived arbitrary: p)
  case (Cons x arrived)
  obtain path a where x: "x = (path, a)" by fastforce
  obtain resp where resp: "a = Some resp" "200 \<le> RespStatus resp" "RespStatus resp < 300" "expects path (RespBody resp)"
    using Cons.prems [of path a] served_expected by (auto simp: x)
  then have "api br path a p = (p, Inr (RespBody resp))"
    by (simp add: api_def expects_json)
  moreover obtain results where "fetchAll br arrived p = (p, Inr results)" "map fst results = map fst arrived"
    "\<forall>path. map_option Some (map_of results path) = map_option (map_option RespBody) (map_of arrived path)"
    "list_all (\<lambda>(path, b). expects path b) results"
    using Cons by (metis list.set_intros(2))
  ultimately show ?case
    using resp by (auto simp: x)
qed simp

lemma expects_iff:
  "expects ''/api/status'' b \<longleftrightarrow> (\<exists>shot counts. b = StatusBody shot counts)"
  "expects ''/api/nodes'' b \<longleftrightarrow> (\<exists>ns. b = NodesBody ns)" "expects ''/api/logs'' b \<longleftrightarrow> (\<exists>ls. b = LogsBody ls)"
  "expects ''/api/proxy/status'' b \<longleftrightarrow> (\<exists>px. b = ProxyBody px)"
  "expects ''/api/environment'' b \<longleftrightarrow> (\<exists>vpn core. b = EnvironmentBody vpn core)"
  "expects ''/api/subscription/preview'' b \<longleftrightarrow> (\<exists>kvs n. b = PreviewBody kvs n)"
  by (cases b; simp add: expects_def)+

lemma showAll_expected:
  assumes "list_all (\<lambda>(path, b). expects path b) results" and "set loadPaths \<subseteq> fst ` set results"
  shows "map_of results ''/api/nodes'' = Some (NodesBody (PgNodes (showAll br results p))) \<and>
    (\<exists>shot counts. map_of results ''/api/status'' = Some (StatusBody shot counts) \<and> PgSnapshot (showAll br results p) = Some shot)"
proof -
  have body: "\<exists>b. map_of results path = Some b \<and> expects path b" if "path \<in> set loadPaths" for path
    using assms that by (metis (no_types, lifting) case_prodD list_all_iff map_of_SomeD map_of_eq_None_iff not_None_eq subsetD)
  obtain shot counts ns ls px vpn core kvs n where
    "map_of results ''/api/status'' = Some (StatusBody shot counts)" "map_of results ''/api/nodes'' = Some (NodesBody ns)"
    "map_of results ''/api/logs'' = Some (LogsBody ls)" "map_of results ''/api/proxy/status'' = Some (ProxyBody px)"
    "map_of results ''/api/environment'' = Some (EnvironmentBody vpn core)"
    "map_of results ''/api/subscription/preview'' = Some (PreviewBody kvs n)"
    using body [of "''/api/status''"] body [of "''/api/nodes''"] body [of "''/api/logs''"] body [of "''/api/proxy/status''"]
      body [of "''/api/environment''"] body [of "''/api/subscription/preview''"]
    unfolding expects_iff by (auto simp: loadPaths_def)
  then show ?thesis
    by (simp add: showAll_def loadPaths_def render_data)
qed

section \<open>Properties\<close>

text \<open>C39: no data of the server changes the structure of the page. Whatever the nodes, log entries,
  states and error texts are, and in whatever order the user acts and the answers come, the markup
  that the script has assigned to an element or shown in a toast consists of the tags of its own
  templates; all else is text and attribute values.\<close>

theorem page_markup_harmless: "page_ok (run_events (page_handle br) page0 es)"
  by (rule console_page.run_invar [OF page0_ok])

text \<open>If one of the answers to a load is that the session is not valid, the page ends up at the
  login form, and the data it had is not replaced by answers of the same load.\<close>

theorem expired_session_shows_login:
  assumes "list_ex rejected arrived" and "\<not> PgLoadingAll p"
  shows "login_shown (loadAll br showFailure arrived p) \<and> \<not> PgLoadingAll (loadAll br showFailure arrived p) \<and>
    shown_data (loadAll br showFailure arrived p) = shown_data p"
proof -
  obtain p1 err where "fetchAll br arrived (p\<lparr>PgLoadingAll := True\<rparr>) = (p1, Inl err)" "login_shown p1"
    using fetchAll_rejected [OF assms(1)] by blast
  moreover from this(1) have "shown_data p1 = shown_data p"
    using fetchAll_data [of br arrived "p\<lparr>PgLoadingAll := True\<rparr>"] by (simp add: shown_data_def)
  ultimately show ?thesis
    using assms(2) by (simp add: loadAll_def loadEnd_def toast_def login_shown_def hiddenEl_def shown_data_def)
qed

theorem expired_session_shows_login_witness:
  "\<forall>br. login_shown (loadAll br True [(''/api/status'', Some (writeJSON 401 (ErrorBody ''unauthorized'')))] page0) \<and>
     \<not> login_shown (showApp True page0)"
proof -
  have "list_ex rejected [(''/api/status'', Some (writeJSON 401 (ErrorBody ''unauthorized'')))]"
    by (simp add: rejected_def writeJSON_def)
  moreover have "\<not> PgLoadingAll page0" by (simp add: page0_def)
  moreover have "\<not> login_shown (showApp True page0)"
    by (simp add: login_shown_def showApp_def hiddenEl_def toggle_simps Let_def)
  ultimately show ?thesis
    using expired_session_shows_login by blast
qed

text \<open>The page understands the server. If the six answers of a load come from the server's
  handlers in any order, each with a success status, then the page shows the nodes of the answer to
  /api/nodes and the snapshot of the answer to /api/status, whatever states the server was in.\<close>

theorem served_load_shown:
  assumes "mset (map fst arrived) = mset loadPaths" and "list_all (\<lambda>a. served a \<and> successful a) arrived"
    and "\<not> PgLoadingAll p"
  shows "\<exists>nodes status counts. map_of arrived ''/api/nodes'' = Some (Some nodes) \<and>
    map_of arrived ''/api/status'' = Some (Some status) \<and>
    RespBody nodes = NodesBody (PgNodes (loadAll br showFailure arrived p)) \<and>
    (\<exists>shot. RespBody status = StatusBody shot counts \<and> PgSnapshot (loadAll br showFailure arrived p) = Some shot)"
proof -
  let ?q = "p\<lparr>PgLoadingAll := True\<rparr>"
  have paths: "set (map fst arrived) = set loadPaths"
    using assms(1) by (metis set_mset_mset)
  have each: "path \<in> set loadPaths \<and> served (path, a) \<and> successful (path, a)" if "(path, a) \<in> set arrived" for path a
    using that paths assms(2) by (force simp: list_all_iff)
  obtain results where results: "fetchAll br arrived ?q = (?q, Inr results)" "map fst results = map fst arrived"
    "\<forall>path. map_option Some (map_of results path) = map_option (map_option RespBody) (map_of arrived path)"
    "list_all (\<lambda>(path, b). expects path b) results"
    using fetchAll_expected [of arrived br ?q, OF each] by blast
  have load: "loadAll br showFailure arrived p = (showAll br results ?q)\<lparr>PgLoadingAll := False\<rparr>"
    using assms(3) results(1) by (simp add: loadAll_def loadEnd_def)
  have "set loadPaths \<subseteq> fst ` set results"
    using results(2) paths by (metis list.set_map order_refl)
  from showAll_expected [OF results(4) this, of br ?q]
  obtain shot counts where shown: "map_of results ''/api/nodes'' = Some (NodesBody (PgNodes (showAll br results ?q)))"
    "map_of results ''/api/status'' = Some (StatusBody shot counts)" "PgSnapshot (showAll br results ?q) = Some shot"
    by blast
  have answer: "\<exists>resp. map_of arrived path = Some (Some resp) \<and> RespBody resp = b" if "map_of results path = Some b" for path b
    using results(3) [rule_format, of path] that by (auto simp: map_option_case split: option.splits)
  from answer [OF shown(1)] answer [OF shown(2)] shown(3) show ?thesis
    unfolding load by (simp) blast
qed

text \<open>After the switch of the proxy its button has the label from before, although the load of the same
  action has shown the new state everywhere else: the action puts back what the button had.\<close>

lemma runAction_label: "ElContent (PgDom (runAction button busy action p) button) = ElContent (PgDom p button)"
  by (simp add: runAction_def Let_def setDisabled_def upd_def split: prod.split)

lemma render_running:
  "PgProxyRunning (renderSubscription br preview q) = PgProxyRunning q" "PgProxyRunning (renderLogs br logs q) = PgProxyRunning q"
  "PgProxyRunning (renderNodes br q) = PgProxyRunning q" "PgProxyRunning (renderEnvironment br vpn proxy q) = PgProxyRunning q"
  "PgProxyRunning (renderProxy proxy q) = StRunning proxy"
  by (simp_all add: renderSubscription_def selectSubscription_def renderLogs_def renderNodes_def renderEnvironment_def
      renderProxy_def setText_def setClass_def setHref_def setHTML_def toggle_def upd_def Let_def)

theorem proxy_toggle_label_stale:
  assumes "\<not> PgLoadingAll p" and "\<not> PgProxyRunning p" and "StRunning proxy"
    and "ElContent (PgDom p ''proxyToggleBtn'') = PlainText pg_start_vmess"
  shows "let p' = proxyToggleClick br True (answered (ProxyBody proxy)) (loaded_with shot counts nodes logs proxy vpn preview) p
    in PgProxyRunning p' \<and> ElContent (PgDom p' ''proxyToggleBtn'') = PlainText pg_start_vmess"
proof -
  let ?q = "toast pg_vmess_started False
    (setHTML ''proxyToggleBtn'' (busyMarkup pg_busy_start) (setDisabled ''proxyToggleBtn'' True p))"
  have "\<not> PgLoadingAll ?q"
    using assms(1) by (simp add: toast_def setHTML_def setDisabled_def upd_def)
  then show ?thesis
    using assms
    by (simp add: proxyToggleClick_def runAction_label)
      (simp add: runAction_def command_def requestThen_def api_answered loadAll_loaded render_running
        setDisabled_def upd_def Let_def)
qed

end
