(* ===== verification/Vpn_Bytes.thy ===== *)
theory Vpn_Bytes
  imports Go_Strings "HOL-Library.Sublist"
begin

text \<open>
  The bytes of the OpenVPN engine: numbers in network order, option strings and PKCS#7 padding
  (src/third_party/minivpn/internal/bytesx/bytesx.go), and the framing of packets on a stream and in
  datagrams (internal/networkio/stream.go, datagram.go, dialer.go). A codec is the interface that the
  numbers and the frames share: what is written is read back from the front of any continuation.
\<close>

unbundle bit_operations_syntax

section \<open>Errors\<close>

text \<open>A call of the engine returns an error or panics (package runtimex, an index out of range).\<close>

datatype engine_error = EngineError string | EnginePanic string

type_synonym 'a eng = "engine_error + 'a"

definition Assert :: "bool \<Rightarrow> string \<Rightarrow> 'a eng \<Rightarrow> 'a eng" where
  "Assert stmt message k = (if \<not> stmt then Inl (EnginePanic message) else k)"

section \<open>Codecs\<close>

fun decode_many :: "(bytes \<Rightarrow> 'e + 'a \<times> bytes) \<Rightarrow> nat \<Rightarrow> bytes \<Rightarrow> 'e + 'a list \<times> bytes" where
  "decode_many dec 0 bs = Inr ([], bs)"
| "decode_many dec (Suc n) bs =
     (case dec bs of
        Inl err \<Rightarrow> Inl err
      | Inr (x, rest) \<Rightarrow>
          (case decode_many dec n rest of
             Inl err \<Rightarrow> Inl err
           | Inr (xs, rest') \<Rightarrow> Inr (x # xs, rest')))"

lemma decode_many_length: "decode_many dec n bs = Inr (xs, rest) \<Longrightarrow> length xs = n"
  by (induction n arbitrary: bs xs) (auto split: sum.splits prod.splits)

locale codec =
  fixes enc :: "'a \<Rightarrow> bytes"
    and dec :: "bytes \<Rightarrow> 'e + 'a \<times> bytes"
    and valid :: "'a \<Rightarrow> bool"
  assumes dec_enc: "valid x \<Longrightarrow> dec (enc x @ rest) = Inr (x, rest)"
begin

lemma decode_many_concat:
  "list_all valid xs \<Longrightarrow> decode_many dec (length xs) (concat (map enc xs) @ rest) = Inr (xs, rest)"
  by (induction xs) (simp_all add: dec_enc)

lemma prefix_free: "valid x \<Longrightarrow> valid y \<Longrightarrow> enc x @ r = enc y @ s \<Longrightarrow> x = y \<and> r = s"
  using dec_enc by (metis prod.inject sum.inject(2))

end

text \<open>A strict codec accepts nothing but what it writes.\<close>

locale strict_codec = codec enc dec valid
  for enc :: "'a \<Rightarrow> bytes" and dec :: "bytes \<Rightarrow> 'e + 'a \<times> bytes" and valid :: "'a \<Rightarrow> bool" +
  assumes enc_dec: "dec bs = Inr (x, rest) \<Longrightarrow> bs = enc x @ rest"
    and dec_valid: "dec bs = Inr (x, rest) \<Longrightarrow> valid x"
begin

lemma decode_many_inverse:
  "decode_many dec n bs = Inr (xs, rest) \<Longrightarrow> bs = concat (map enc xs) @ rest \<and> list_all valid xs"
  by (induction n arbitrary: bs xs) (fastforce split: sum.splits prod.splits dest: enc_dec dec_valid)+

end

section \<open>Numbers in network order\<close>

definition PutUint16 :: "16 word \<Rightarrow> bytes" where
  "PutUint16 v = [ucast (drop_bit 8 v), ucast v]"

fun Uint16 :: "bytes \<Rightarrow> 16 word" where
  "Uint16 (b0 # b1 # _) = ucast b1 OR push_bit 8 (ucast b0)"
| "Uint16 _ = 0"

definition PutUint32 :: "32 word \<Rightarrow> bytes" where
  "PutUint32 v = [ucast (drop_bit 24 v), ucast (drop_bit 16 v), ucast (drop_bit 8 v), ucast v]"

fun Uint32 :: "bytes \<Rightarrow> 32 word" where
  "Uint32 (b0 # b1 # b2 # b3 # _) =
     ucast b3 OR push_bit 8 (ucast b2) OR push_bit 16 (ucast b1) OR push_bit 24 (ucast b0)"
| "Uint32 _ = 0"

text \<open>\<open>io.ReadFull\<close> on a buffer.\<close>

definition ReadFull :: "nat \<Rightarrow> bytes \<Rightarrow> bytes res \<times> bytes" where
  "ReadFull n buf =
     (if n \<le> length buf then (Inr (take n buf), drop n buf)
      else (Inl (if buf = [] then ''EOF'' else ''unexpected EOF''), []))"

definition ReadUint32 :: "bytes \<Rightarrow> string + 32 word \<times> bytes" where
  "ReadUint32 buf = (case ReadFull 4 buf of (Inl err, _) \<Rightarrow> Inl err | (Inr b, rest) \<Rightarrow> Inr (Uint32 b, rest))"

definition WriteUint32 :: "bytes \<Rightarrow> 32 word \<Rightarrow> bytes" where
  "WriteUint32 buf val = buf @ PutUint32 val"

definition WriteUint24 :: "bytes \<Rightarrow> 32 word \<Rightarrow> bytes" where
  "WriteUint24 buf val = buf @ tl (WriteUint32 [] val)"

lemma Uint16_Put [simp]: "Uint16 (PutUint16 v @ rest) = v"
  by (rule bit_word_eqI) (auto simp: PutUint16_def bit_simps)

lemma Uint32_Put [simp]: "Uint32 (PutUint32 v @ rest) = v"
proof (rule bit_word_eqI)
  fix n assume "n < LENGTH(32)"
  then consider "n < 8" | "8 \<le> n" "n < 16" | "16 \<le> n" "n < 24" | "24 \<le> n" "n < 32" by fastforce
  then show "bit (Uint32 (PutUint32 v @ rest)) n = bit v n"
    by cases (auto simp: PutUint32_def bit_simps)
qed

lemma Put_length [simp]: "length (PutUint16 v) = 2" "length (PutUint32 w) = 4"
  by (simp_all add: PutUint16_def PutUint32_def)

lemma byte_high_bit: "8 \<le> n \<Longrightarrow> \<not> bit (b :: byte) n"
  by (auto dest: bit_imp_le_length)

lemma PutUint16_Uint16: "PutUint16 (Uint16 [a, b]) = [a, b]"
  by (auto simp: PutUint16_def bit_simps byte_high_bit intro!: bit_word_eqI)

lemma PutUint32_Uint32: "PutUint32 (Uint32 [a, b, c, d]) = [a, b, c, d]"
  by (auto simp: PutUint32_def bit_simps byte_high_bit intro!: bit_word_eqI)


lemma ReadFull_append [simp]: "length b = n \<Longrightarrow> ReadFull n (b @ rest) = (Inr b, rest)"
  by (simp add: ReadFull_def)

lemma ReadFull_Inr: "ReadFull n buf = (Inr b, rest) \<longleftrightarrow> buf = b @ rest \<and> length b = n"
  by (auto simp: ReadFull_def)

lemma length_two: "length xs = 2 \<Longrightarrow> \<exists>a b. xs = [a, b]"
  by (auto simp: numeral_2_eq_2 length_Suc_conv)

lemma length_four: "length xs = 4 \<Longrightarrow> \<exists>a b c d. xs = [a, b, c, d]"
  by (auto simp: eval_nat_numeral length_Suc_conv)

lemma ReadUint32_Inr: "ReadUint32 buf = Inr (v, rest) \<longleftrightarrow> buf = PutUint32 v @ rest"
proof
  assume "ReadUint32 buf = Inr (v, rest)"
  then obtain b where b: "buf = b @ rest" "length b = 4" "v = Uint32 b"
    by (auto simp: ReadUint32_def ReadFull_Inr split: prod.splits sum.splits)
  then show "buf = PutUint32 v @ rest" using length_four [OF b(2)] PutUint32_Uint32 by auto
qed (use Uint32_Put [of v "[]"] in \<open>simp add: ReadUint32_def\<close>)

interpretation number: strict_codec PutUint32 ReadUint32 "\<lambda>_. True"
  by unfold_locales (simp_all add: ReadUint32_Inr)

lemma WriteUint24_value:
  assumes "v < 2 ^ 24"
  shows "Uint32 (0 # WriteUint24 [] v) = v"
proof -
  have "drop_bit 24 v = 0"
    using assms by (simp add: drop_bit_eq_div div_word_less)
  then have "0 # WriteUint24 [] v = PutUint32 v"
    by (simp add: WriteUint24_def WriteUint32_def PutUint32_def)
  then show ?thesis using Uint32_Put [of v "[]"] by simp
qed

section \<open>Option strings\<close>

definition to_bytes :: "string \<Rightarrow> bytes" where
  "to_bytes s = map (\<lambda>c. of_nat (of_char c)) s"

definition of_bytes :: "bytes \<Rightarrow> string" where
  "of_bytes b = map (\<lambda>x. char_of (unat x)) b"

definition EncodeOptionStringToBytes :: "string \<Rightarrow> bytes eng" where
  "EncodeOptionStringToBytes s =
     (if 65535 \<le> length s then Inl (EngineError ''can't encode option:string too large'')
      else Inr (PutUint16 (of_nat (length s) + 1) @ to_bytes s @ [0]))"

definition decodeError :: "string \<Rightarrow> string eng" where
  "decodeError why = Inl (EngineError (''can't decode option: '' @ why))"

definition DecodeOptionStringFromBytes :: "bytes \<Rightarrow> string eng" where
  "DecodeOptionStringFromBytes b0 =
     (if length b0 < 2 then decodeError ''expected at least two bytes''
      else
        let len = unat (Uint16 (take 2 b0)); b = drop 2 b0
        in if length b < len then
             decodeError (''got '' @ itoa (int (length b)) @ '', expected '' @ itoa (int len))
           else if length b = 0 \<or> len = 0 then
             decodeError (''zero length encoded option is not possible: we need at least one byte for the trailing '' @
               [CHR 0x5C] @ ''0'')
           else if b ! (len - 1) \<noteq> 0 then decodeError (''missing trailing '' @ [CHR 0x5C] @ ''0'')
           else Inr (of_bytes (take (length b - 1) b)))"

section \<open>Padding\<close>

text \<open>PKCS#7: the padding is as many bytes as each of them says, up to a whole block.\<close>

definition BytesPadPKCS7 :: "bytes \<Rightarrow> int \<Rightarrow> bytes eng" where
  "BytesPadPKCS7 b blockSize =
     (if blockSize \<le> 0 then Inl (EnginePanic ''blocksize cannot be negative or zero'')
      else if 255 < blockSize then Inl (EngineError ''PKCS#7 padding error'')
      else let psiz = blockSize - int (length b) mod blockSize
           in Inr (b @ replicate (nat psiz) (of_int psiz)))"

definition BytesUnpadPKCS7 :: "bytes \<Rightarrow> int \<Rightarrow> bytes eng" where
  "BytesUnpadPKCS7 b blockSize =
     (if 255 < blockSize then Inl (EngineError ''PKCS#7 unpadding error: blockSize too large'')
      else if b = [] then Inl (EngineError ''PKCS#7 unpadding error: passed empty buffer'')
      else
        let psiz = uint (last b)
        in if psiz \<le> 0 then Inl (EngineError ''PKCS#7 unpadding error: padding size cannot be zero'')
           else if blockSize < psiz then
             Inl (EngineError ''PKCS#7 unpadding error: padding size cannot be larger than blockSize'')
           else
             let off = int (length b) - psiz
             in Assert (0 \<le> off \<and> off \<le> int (length b)) ''off is out of bounds'' (Inr (take (nat off) b)))"


lemma of_to_bytes [simp]: "of_bytes (to_bytes s) = s"
proof (induction s)
  case (Cons c s)
  have "unat (of_nat (of_char c) :: byte) = of_char c" by (simp add: unat_of_nat)
  with Cons show ?case by (simp add: of_bytes_def to_bytes_def)
qed (simp add: of_bytes_def to_bytes_def)

lemma length_to_bytes [simp]: "length (to_bytes s) = length s"
  by (simp add: to_bytes_def)

lemma of_bytes_append: "of_bytes (a @ b) = of_bytes a @ of_bytes b"
  by (simp add: of_bytes_def)

text \<open>The decoder undoes the encoder. With bytes after the final zero it does not stop there: it
  returns all of them but the last.\<close>

lemma option_string_decoded:
  assumes "EncodeOptionStringToBytes s = Inr b"
  shows "DecodeOptionStringFromBytes (b @ pad) =
    Inr (if pad = [] then s else s @ of_bytes (0 # butlast pad))"
proof -
  have s: "length s < 65535" "b = PutUint16 (of_nat (length s) + 1) @ to_bytes s @ [0]"
    using assms by (auto simp: EncodeOptionStringToBytes_def split: if_splits)
  have "unat (of_nat (length s + 1) :: 16 word) = length s + 1"
    unfolding unat_of_nat using s(1) by simp
  then have "unat (of_nat (length s) + 1 :: 16 word) = length s + 1"
    by (simp only: of_nat_add of_nat_1)
  then have len: "unat (Uint16 (take 2 (b @ pad))) = length s + 1"
    using s(2) Uint16_Put [of "of_nat (length s) + 1" "[]"] by simp
  have body: "drop 2 (b @ pad) = to_bytes s @ 0 # pad" "\<not> length (b @ pad) < 2" using s(2) by simp_all
  have "(to_bytes s @ 0 # pad) ! (length s) = 0"
    using nth_append_length [of "to_bytes s"] by simp
  moreover have "of_bytes (take (length pad + length s) (to_bytes s @ 0 # pad)) =
      (if pad = [] then s else s @ of_bytes (0 # butlast pad))"
    by (cases pad rule: rev_cases) (simp_all add: of_bytes_append)
  ultimately show ?thesis
    by (simp only: DecodeOptionStringFromBytes_def len body Let_def) simp
qed

lemma Pad_Unpad:
  assumes "0 < n" "n < 256"
  shows "\<exists>p. BytesPadPKCS7 b n = Inr p \<and> int (length p) mod n = 0 \<and> length b < length p \<and> BytesUnpadPKCS7 p n = Inr b"
proof -
  define psiz where "psiz = n - int (length b) mod n"
  have "0 \<le> int (length b) mod n" "int (length b) mod n < n" using assms(1) by simp_all
  then have psiz: "0 < psiz" "psiz \<le> n" unfolding psiz_def by linarith+
  have byte: "uint (of_int psiz :: byte) = psiz"
    using psiz assms(2) by (simp add: uint_word_of_int)
  have pad: "BytesPadPKCS7 b n = Inr (b @ replicate (nat psiz) (of_int psiz))"
    using assms by (simp add: BytesPadPKCS7_def psiz_def)
  have "(int (length b) + psiz) mod n = 0"
  proof -
    have "int (length b) + psiz = n * (1 + int (length b) div n)"
      using minus_mod_eq_mult_div [of "int (length b)" n] by (simp add: psiz_def distrib_left)
    then show ?thesis by (metis mod_mult_self1_is_0)
  qed
  moreover have "BytesUnpadPKCS7 (b @ replicate (nat psiz) (of_int psiz)) n = Inr b"
    using psiz assms(2) byte by (simp add: BytesUnpadPKCS7_def Assert_def Let_def last_append)
  ultimately show ?thesis using pad psiz by simp
qed

lemma Unpad_panics_iff:
  assumes "n < 256"
  shows "(\<exists>why. BytesUnpadPKCS7 b n = Inl (EnginePanic why)) \<longleftrightarrow> b \<noteq> [] \<and> uint (last b) \<le> n \<and> int (length b) < uint (last b)"
  using assms by (auto simp: BytesUnpadPKCS7_def Assert_def Let_def)


section \<open>Packets on a stream\<close>

text \<open>What a stream connection will yet deliver is the list of the pieces its reads return, each possibly
  cut to the size of the buffer, and then the error \<open>fin\<close>. \<open>got\<close> tells whether \<open>io.ReadFull\<close> has read
  something already.\<close>

fun streamReadFull :: "string \<Rightarrow> bool \<Rightarrow> nat \<Rightarrow> bytes list \<Rightarrow> bytes res \<times> bytes list" where
  "streamReadFull fin got n cs =
     (if n = 0 then (Inr [], cs)
      else case cs of
          [] \<Rightarrow> (Inl (if got \<and> fin = ''EOF'' then ''unexpected EOF'' else fin), [])
        | c # rest \<Rightarrow>
            if n \<le> length c then (Inr (take n c), drop n c # rest)
            else case streamReadFull fin (got \<or> c \<noteq> []) (n - length c) rest of
                (Inl err, cs1) \<Rightarrow> (Inl err, cs1)
              | (Inr b, cs1) \<Rightarrow> (Inr (c @ b), cs1))"

declare streamReadFull.simps [simp del]

definition ReadRawPacket :: "string \<Rightarrow> bytes list \<Rightarrow> bytes res \<times> bytes list" where
  "ReadRawPacket fin cs =
     (case streamReadFull fin False 2 cs of
        (Inl err, cs1) \<Rightarrow> (Inl err, cs1)
      | (Inr lenbuf, cs1) \<Rightarrow> streamReadFull fin False (unat (Uint16 lenbuf)) cs1)"

definition ErrPacketTooLarge :: string where
  "ErrPacketTooLarge = ''openvpn: packet too large''"

text \<open>The bytes that \<open>WriteRawPacket\<close> hands to the connection.\<close>

definition WriteRawPacket :: "bytes \<Rightarrow> bytes res" where
  "WriteRawPacket pkt =
     (if 65535 < length pkt then Inl ErrPacketTooLarge else Inr (PutUint16 (of_nat (length pkt)) @ pkt))"

text \<open>Datagrams carry one packet each and are cut at the size of the buffer.\<close>

definition datagramRead :: "bytes res \<Rightarrow> bytes res" where
  "datagramRead received = (case received of Inl err \<Rightarrow> Inl err | Inr d \<Rightarrow> Inr (take 65535 d))"

definition datagramWrite :: "bytes \<Rightarrow> bytes res" where
  "datagramWrite pkt = (if 65535 < length pkt then Inl ErrPacketTooLarge else Inr pkt)"

datatype framing = DatagramFraming | StreamFraming

definition dialFraming :: "string \<Rightarrow> framing" where
  "dialFraming network = (if network \<in> set [''udp'', ''udp4'', ''udp6''] then DatagramFraming else StreamFraming)"

text \<open>The frames as a codec on the bytes of the stream, whatever its pieces.\<close>

definition frame :: "bytes \<Rightarrow> bytes" where
  "frame pkt = PutUint16 (of_nat (length pkt)) @ pkt"

definition unframe :: "bytes \<Rightarrow> string + bytes \<times> bytes" where
  "unframe bs =
     (case ReadFull 2 bs of
        (Inl err, _) \<Rightarrow> Inl err
      | (Inr lenbuf, rest) \<Rightarrow>
          (case ReadFull (unat (Uint16 lenbuf)) rest of
             (Inl err, _) \<Rightarrow> Inl err
           | (Inr pkt, rest') \<Rightarrow> Inr (pkt, rest')))"

definition framed :: "bytes \<Rightarrow> bool" where
  "framed pkt \<longleftrightarrow> length pkt \<le> 65535"

lemma WriteRawPacket_frame: "WriteRawPacket pkt = Inr bs \<longleftrightarrow> framed pkt \<and> bs = frame pkt"
  by (auto simp: WriteRawPacket_def framed_def frame_def)

lemma frame_length: "framed pkt \<Longrightarrow> unat (of_nat (length pkt) :: 16 word) = length pkt"
  unfolding unat_of_nat by (simp add: framed_def)

interpretation frames: strict_codec frame unframe framed
proof
  fix pkt rest assume "framed pkt"
  then show "unframe (frame pkt @ rest) = Inr (pkt, rest)"
    using frame_length Uint16_Put [of "of_nat (length pkt)" "[]"] by (simp add: unframe_def frame_def)
next
  fix bs pkt rest assume "unframe bs = Inr (pkt, rest)"
  then obtain lenbuf where l: "bs = lenbuf @ pkt @ rest" "length lenbuf = 2" "length pkt = unat (Uint16 lenbuf)"
    by (auto simp: unframe_def ReadFull_Inr split: prod.splits sum.splits)
  then show "bs = frame pkt @ rest" using length_two [OF l(2)] PutUint16_Uint16 by (auto simp: frame_def)
  show "framed pkt" using l(3) unsigned_less [of "Uint16 lenbuf", where 'a = nat] by (simp add: framed_def)
qed

lemma streamReadFull_enough:
  "n \<le> length (concat cs) \<Longrightarrow>
   \<exists>cs1. streamReadFull fin got n cs = (Inr (take n (concat cs)), cs1) \<and> concat cs1 = drop n (concat cs)"
proof (induction cs arbitrary: got n)
  case (Cons c cs)
  show ?case
  proof (cases "n \<le> length c")
    case False
    with Cons.prems have "n - length c \<le> length (concat cs)" by simp
    from Cons.IH [OF this, of "got \<or> c \<noteq> []"] False show ?thesis
      by (auto simp: streamReadFull.simps [of fin got n])
  qed (simp add: streamReadFull.simps [of fin got n])
qed (simp add: streamReadFull.simps)

lemma streamReadFull_short:
  "length (concat cs) < n \<Longrightarrow> \<exists>err. streamReadFull fin got n cs = (Inl err, [])"
proof (induction cs arbitrary: got n)
  case (Cons c cs)
  then have "length (concat cs) < n - length c" "\<not> n \<le> length c" "n \<noteq> 0" by auto
  with Cons.IH [of "n - length c" "got \<or> c \<noteq> []"] show ?case
    by (auto simp: streamReadFull.simps [of fin got n])
qed (simp add: streamReadFull.simps)


text \<open>Reading from the pieces implements the codec on their concatenation.\<close>

lemma ReadRawPacket_unframe:
  "case unframe (concat cs) of
     Inl _ \<Rightarrow> isl (fst (ReadRawPacket fin cs))
   | Inr (pkt, rest) \<Rightarrow> \<exists>cs1. ReadRawPacket fin cs = (Inr pkt, cs1) \<and> concat cs1 = rest"
proof (cases "2 \<le> length (concat cs)")
  case True
  from streamReadFull_enough [OF this, of fin False]
  obtain cs1 where c: "streamReadFull fin False 2 cs = (Inr (take 2 (concat cs)), cs1)" "concat cs1 = drop 2 (concat cs)"
    by blast
  define n where "n = unat (Uint16 (take 2 (concat cs)))"
  have u: "unframe (concat cs) = (case ReadFull n (concat cs1) of (Inl err, _) \<Rightarrow> Inl err | (Inr pkt, rest) \<Rightarrow> Inr (pkt, rest))"
    using True c(2) by (simp add: unframe_def ReadFull_def [of 2] n_def)
  have r: "ReadRawPacket fin cs = streamReadFull fin False n cs1"
    using c(1) by (simp add: ReadRawPacket_def n_def)
  show ?thesis
  proof (cases "n \<le> length (concat cs1)")
    case True
    from streamReadFull_enough [OF this, of fin False] True u r show ?thesis by (auto simp: ReadFull_def)
  next
    case False
    then have "length (concat cs1) < n" by simp
    from streamReadFull_short [OF this, of fin False] False u r show ?thesis by (auto simp: ReadFull_def)
  qed
next
  case False
  then have "length (concat cs) < 2" by simp
  from streamReadFull_short [OF this, of fin False] False show ?thesis
    by (auto simp: ReadRawPacket_def unframe_def ReadFull_def)
qed

lemma ReadRawPacket_shrinks:
  assumes "ReadRawPacket fin cs = (Inr pkt, cs1)"
  shows "length (concat cs1) < length (concat cs)"
proof -
  obtain rest where u: "unframe (concat cs) = Inr (pkt, rest)" "concat cs1 = rest"
    using ReadRawPacket_unframe [of fin cs] assms by (auto split: sum.splits)
  then have "concat cs = frame pkt @ rest" by (simp add: frames.enc_dec)
  with u(2) show ?thesis by (simp add: frame_def)
qed

section \<open>Workers of the network\<close>

text \<open>The worker that moves packets up reads until the connection fails, and reports the packets it has
  delivered and the error; the worker that moves packets down writes what the muxer sends until a
  packet is too large or the connection fails (\<open>wr\<close> by the number of the write).\<close>

function moveUpWorker :: "string \<Rightarrow> bytes list \<Rightarrow> bytes list \<times> string" where
  "moveUpWorker fin cs =
     (case ReadRawPacket fin cs of
        (Inl err, _) \<Rightarrow> ([], err)
      | (Inr pkt, cs1) \<Rightarrow> (case moveUpWorker fin cs1 of (pkts, err) \<Rightarrow> (pkt # pkts, err)))"
  by pat_completeness auto
termination
  by (relation "measure (\<lambda>(fin, cs). length (concat cs))") (auto dest: ReadRawPacket_shrinks [OF sym])

declare moveUpWorker.simps [simp del]

fun moveDownWorker :: "(nat \<Rightarrow> string option) \<Rightarrow> nat \<Rightarrow> bytes list \<Rightarrow> bytes \<times> string option" where
  "moveDownWorker wr k [] = ([], None)"
| "moveDownWorker wr k (pkt # pkts) =
     (case WriteRawPacket pkt of
        Inl err \<Rightarrow> ([], Some err)
      | Inr bs \<Rightarrow>
          (case wr k of
             Some err \<Rightarrow> ([], Some err)
           | None \<Rightarrow> (case moveDownWorker wr (Suc k) pkts of (sent, err) \<Rightarrow> (bs @ sent, err))))"

lemma moveUpWorker_frames:
  assumes "concat cs = concat (map frame pkts) @ part" and "list_all framed pkts" and "isl (unframe part)"
  shows "fst (moveUpWorker fin cs) = pkts"
  using assms(1,2)
proof (induction pkts arbitrary: cs)
  case Nil
  then show ?case
    using ReadRawPacket_unframe [of fin cs] assms(3)
    by (auto simp: moveUpWorker.simps [of fin cs] isl_def split: prod.splits sum.splits)
next
  case (Cons pkt pkts)
  have "unframe (concat cs) = Inr (pkt, concat (map frame pkts) @ part)"
    using Cons.prems frames.dec_enc by simp
  then obtain cs1 where c: "ReadRawPacket fin cs = (Inr pkt, cs1)" "concat cs1 = concat (map frame pkts) @ part"
    using ReadRawPacket_unframe [of fin cs] by auto
  from Cons.IH [OF c(2)] Cons.prems(2) c(1) show ?case
    by (auto simp: moveUpWorker.simps [of fin cs] split: prod.splits)
qed

lemma moveDownWorker_frames:
  "moveDownWorker wr k pkts = (sent, err) \<Longrightarrow>
   \<exists>n \<le> length pkts. sent = concat (map frame (take n pkts)) \<and> list_all framed (take n pkts) \<and> (err = None \<longrightarrow> n = length pkts)"
proof (induction wr k pkts arbitrary: sent rule: moveDownWorker.induct)
  case (2 wr k pkt pkts)
  show ?case
  proof (cases "framed pkt \<and> wr k = None")
    case True
    then have bs: "WriteRawPacket pkt = Inr (frame pkt)" by (simp add: WriteRawPacket_frame)
    obtain rest where "moveDownWorker wr (Suc k) pkts = (rest, err)" "sent = frame pkt @ rest"
      using 2(2) True bs by (auto split: prod.splits)
    with 2(1) [OF bs] True obtain n where "n \<le> length pkts" "sent = concat (map frame (take (Suc n) (pkt # pkts)))"
      "list_all framed (take (Suc n) (pkt # pkts))" "err = None \<longrightarrow> n = length pkts"
      by fastforce
    then show ?thesis by (intro exI [of _ "Suc n"]) simp
  next
    case False
    then have "sent = [] \<and> err \<noteq> None"
      using 2(2) by (cases "wr k") (auto simp: WriteRawPacket_def framed_def split: if_splits dest: sym)
    then show ?thesis by (intro exI [of _ 0]) simp
  qed
qed simp

lemma unframe_partial: "strict_prefix part (frame pkt) \<Longrightarrow> framed pkt \<Longrightarrow> isl (unframe part)"
proof (rule ccontr)
  assume a: "strict_prefix part (frame pkt)" "framed pkt" "\<not> isl (unframe part)"
  then obtain p rest where u: "unframe part = Inr (p, rest)" by (cases "unframe part") auto
  from a(1) obtain tail where t: "frame pkt = part @ tail" "tail \<noteq> []" by (auto simp: strict_prefix_def prefix_def)
  have "frame pkt @ [] = frame p @ (rest @ tail)" using t(1) frames.enc_dec [OF u] by simp
  then have "rest @ tail = []" using frames.prefix_free [OF a(2) frames.dec_valid [OF u]] by blast
  with t(2) show False by simp
qed


section \<open>Properties\<close>

text \<open>Packets keep their boundaries and their order on a stream. If one side has written packets
  without an error, then however the stream cuts what it carries into pieces, and even if it breaks
  inside the next frame, the other side delivers just these packets.\<close>

theorem stream_delivers_written:
  assumes "moveDownWorker wr k pkts = (sent, None)"
    and "concat cs = sent @ part" and "strict_prefix part (frame pkt)" and "framed pkt"
  shows "fst (moveUpWorker fin cs) = pkts"
proof -
  have "sent = concat (map frame pkts)" "list_all framed pkts"
    using moveDownWorker_frames [OF assms(1)] by auto
  then show ?thesis
    using assms(2) moveUpWorker_frames [OF _ _ unframe_partial [OF assms(3,4)]] by blast
qed

theorem stream_delivers_written_witness:
  "fst (moveUpWorker ''EOF'' [[0], [2, 7, 8, 0], [1, 9, 0]]) = [[7, 8], [9]]"
proof -
  have "moveDownWorker (\<lambda>_. None) 0 [[7, 8], [9]] = ([0, 2, 7, 8, 0, 1, 9], None)" by code_simp
  moreover have "concat [[0], [2, 7, 8, 0], [1, 9, 0]] = [0, 2, 7, 8, 0, 1, 9 :: byte] @ [0]" by simp
  moreover have "strict_prefix [0] (frame [5])" "framed [5]" by (simp_all add: frame_def PutUint16_def framed_def)
  ultimately show ?thesis by (rule stream_delivers_written)
qed

end
