(* ===== verification/Vpn_Packet.thy ===== *)
theory Vpn_Packet
  imports Vpn_Bytes
begin

text \<open>
  The packets of the OpenVPN protocol (src/third_party/minivpn/internal/model/packet.go): opcodes,
  the parser and the serialiser. A control packet is written and read field by field; a data packet is
  an opaque payload behind its first byte. The arrays of the source have a fixed size, which is the
  type invariant \<open>packet_sized\<close> here.
\<close>

section \<open>Opcodes\<close>

type_synonym opcode = byte

definition P_CONTROL_HARD_RESET_CLIENT_V1 :: opcode where "P_CONTROL_HARD_RESET_CLIENT_V1 = 1"
definition P_CONTROL_HARD_RESET_SERVER_V1 :: opcode where "P_CONTROL_HARD_RESET_SERVER_V1 = 2"
definition P_CONTROL_SOFT_RESET_V1 :: opcode where "P_CONTROL_SOFT_RESET_V1 = 3"
definition P_CONTROL_V1 :: opcode where "P_CONTROL_V1 = 4"
definition P_ACK_V1 :: opcode where "P_ACK_V1 = 5"
definition P_DATA_V1 :: opcode where "P_DATA_V1 = 6"
definition P_CONTROL_HARD_RESET_CLIENT_V2 :: opcode where "P_CONTROL_HARD_RESET_CLIENT_V2 = 7"
definition P_CONTROL_HARD_RESET_SERVER_V2 :: opcode where "P_CONTROL_HARD_RESET_SERVER_V2 = 8"
definition P_DATA_V2 :: opcode where "P_DATA_V2 = 9"

lemmas opcode_defs = P_CONTROL_HARD_RESET_CLIENT_V1_def P_CONTROL_HARD_RESET_SERVER_V1_def P_CONTROL_SOFT_RESET_V1_def
  P_CONTROL_V1_def P_ACK_V1_def P_DATA_V1_def P_CONTROL_HARD_RESET_CLIENT_V2_def P_CONTROL_HARD_RESET_SERVER_V2_def
  P_DATA_V2_def

definition opcodeNames :: "(opcode \<times> string) list" where
  "opcodeNames =
     [(P_CONTROL_HARD_RESET_CLIENT_V1, ''CONTROL_HARD_RESET_CLIENT_V1''),
      (P_CONTROL_HARD_RESET_SERVER_V1, ''CONTROL_HARD_RESET_SERVER_V1''),
      (P_CONTROL_SOFT_RESET_V1, ''CONTROL_SOFT_RESET_V1''), (P_CONTROL_V1, ''CONTROL_V1''), (P_ACK_V1, ''ACK_V1''),
      (P_DATA_V1, ''DATA_V1''), (P_CONTROL_HARD_RESET_CLIENT_V2, ''CONTROL_HARD_RESET_CLIENT_V2''),
      (P_CONTROL_HARD_RESET_SERVER_V2, ''CONTROL_HARD_RESET_SERVER_V2''), (P_DATA_V2, ''DATA_V2'')]"

definition NewOpcodeFromString :: "string \<Rightarrow> opcode res" where
  "NewOpcodeFromString s =
     (case find (\<lambda>(_, name). name = s) opcodeNames of Some (op, _) \<Rightarrow> Inr op | None \<Rightarrow> Inl ''unknown opcode'')"

definition opcodeString :: "opcode \<Rightarrow> string" where
  "opcodeString op = (case map_of opcodeNames op of Some name \<Rightarrow> ''P_'' @ name | None \<Rightarrow> ''P_UNKNOWN'')"

definition opcodeIsControl :: "opcode \<Rightarrow> bool" where
  "opcodeIsControl op \<longleftrightarrow> op \<in> set
     [P_CONTROL_HARD_RESET_CLIENT_V1, P_CONTROL_HARD_RESET_SERVER_V1, P_CONTROL_SOFT_RESET_V1, P_CONTROL_V1,
      P_CONTROL_HARD_RESET_CLIENT_V2, P_CONTROL_HARD_RESET_SERVER_V2]"

definition opcodeIsData :: "opcode \<Rightarrow> bool" where
  "opcodeIsData op \<longleftrightarrow> op \<in> set [P_DATA_V1, P_DATA_V2]"

text \<open>The names are those of the printed form without its prefix.\<close>

lemma NewOpcodeFromString_String:
  "op \<in> fst ` set opcodeNames \<Longrightarrow> NewOpcodeFromString (drop 2 (opcodeString op)) = Inr op"
  by (auto simp: opcodeNames_def NewOpcodeFromString_def opcodeString_def opcode_defs)

section \<open>Packets\<close>

type_synonym packet_id = "32 word"

record packet =
  PktOpcode :: opcode
  PktKeyID :: byte
  PktPeerID :: bytes
  PktLocalSessionID :: bytes
  PktACKs :: "packet_id list"
  PktRemoteSessionID :: bytes
  PktID :: packet_id
  PktPayload :: bytes

definition zeros :: "nat \<Rightarrow> bytes" where
  "zeros n = replicate n 0"

definition NewPacket :: "opcode \<Rightarrow> byte \<Rightarrow> bytes \<Rightarrow> packet" where
  "NewPacket op keyID payload =
     \<lparr>PktOpcode = op, PktKeyID = keyID, PktPeerID = zeros 3, PktLocalSessionID = zeros 8, PktACKs = [],
      PktRemoteSessionID = zeros 8, PktID = 0, PktPayload = payload\<rparr>"

definition ErrPacketTooShort :: string where
  "ErrPacketTooShort = ''openvpn: packet too short''"

definition ErrEmptyPayload :: string where
  "ErrEmptyPayload = ''openvpn: empty payload''"

definition ErrParsePacket :: string where
  "ErrParsePacket = ''openvpn: packet parse error''"

definition ErrMarshalPacket :: string where
  "ErrMarshalPacket = ''cannot marshal packet''"

definition parseError :: "string \<Rightarrow> string \<Rightarrow> 'a res" where
  "parseError what err = Inl (ErrParsePacket @ '': '' @ what @ '': '' @ err)"

text \<open>The last two fields of a control packet, after the array of acknowledged packets.\<close>

definition parsePacketID :: "packet \<Rightarrow> bytes \<Rightarrow> packet res" where
  "parsePacketID p buf =
     (if PktOpcode p \<noteq> P_ACK_V1 then
        (case ReadUint32 buf of
           Inl err \<Rightarrow> parseError ''bad packetID'' err
         | Inr (val, rest) \<Rightarrow> Inr (p\<lparr>PktID := val, PktPayload := rest\<rparr>))
      else Inr (p\<lparr>PktPayload := buf\<rparr>))"

definition parseControlOrACKPacket :: "opcode \<Rightarrow> byte \<Rightarrow> bytes \<Rightarrow> packet res" where
  "parseControlOrACKPacket op keyID payload =
     (if length payload = 0 then Inl ErrEmptyPayload
      else if \<not> opcodeIsControl op \<and> op \<noteq> P_ACK_V1 then Inl (ErrParsePacket @ '': expected control/ack packet'')
      else
        (case ReadFull 8 payload of
           (Inl err, _) \<Rightarrow> parseError ''bad sessionID'' err
         | (Inr sid, b1) \<Rightarrow>
             (case b1 of
                [] \<Rightarrow> parseError ''bad ack'' ''EOF''
              | n # b2 \<Rightarrow>
                  (case decode_many ReadUint32 (unat n) b2 of
                     Inl err \<Rightarrow> parseError ''cannot parse ack id'' err
                   | Inr (acks, b3) \<Rightarrow>
                       let p = (NewPacket op keyID payload)\<lparr>PktLocalSessionID := sid, PktACKs := acks\<rparr>
                       in if 0 < unat n then
                            (case ReadFull 8 b3 of
                               (Inl err, _) \<Rightarrow> parseError ''bad remote sessionID'' err
                             | (Inr rid, b4) \<Rightarrow> parsePacketID (p\<lparr>PktRemoteSessionID := rid\<rparr>) b4)
                          else parsePacketID p b3))))"

definition ParsePacket :: "bytes \<Rightarrow> packet res" where
  "ParsePacket buf =
     (if length buf < 2 then Inl ErrPacketTooShort
      else
        let op = drop_bit 3 (hd buf); keyID = hd buf AND 7
        in if op = P_DATA_V2 \<and> length buf < 4 then Inl ErrPacketTooShort
           else
             let (peerID, payload) = (if op = P_DATA_V2 then (take 3 (tl buf), drop 4 buf) else (zeros 3, tl buf))
             in if opcodeIsControl op \<or> op = P_ACK_V1 then parseControlOrACKPacket op keyID payload
                else Inr ((NewPacket op keyID payload)\<lparr>PktPeerID := peerID\<rparr>))"

section \<open>Serialising\<close>

definition headerByte :: "packet \<Rightarrow> byte" where
  "headerByte p = push_bit 3 (PktOpcode p) OR (PktKeyID p AND 7)"

definition packetBytes :: "packet \<Rightarrow> bytes res" where
  "packetBytes p =
     (if PktOpcode p = P_DATA_V1 then Inr (headerByte p # PktPayload p)
      else if PktOpcode p = P_DATA_V2 then Inr (PktPayload p)
      else if 255 < length (PktACKs p) then Inl (ErrMarshalPacket @ '': too many ACKs'')
      else Inr (headerByte p # PktLocalSessionID p @ [of_nat (length (PktACKs p))] @
        concat (map PutUint32 (PktACKs p)) @
        (if PktACKs p \<noteq> [] then PktRemoteSessionID p else []) @
        (if PktOpcode p \<noteq> P_ACK_V1 then PutUint32 (PktID p) else []) @ PktPayload p))"

definition IsControl :: "packet \<Rightarrow> bool" where
  "IsControl p = opcodeIsControl (PktOpcode p)"

definition IsData :: "packet \<Rightarrow> bool" where
  "IsData p = opcodeIsData (PktOpcode p)"

definition pingPayload :: bytes where
  "pingPayload = [0x2A, 0x18, 0x7B, 0xF3, 0x64, 0x1E, 0xB4, 0xCB, 0x07, 0xED, 0x2D, 0x0A, 0x98, 0x1F, 0xC7, 0x48]"

definition IsPing :: "packet \<Rightarrow> bool" where
  "IsPing p \<longleftrightarrow> pingPayload = PktPayload p"


section \<open>Sizes\<close>

definition packet_sized :: "packet \<Rightarrow> bool" where
  "packet_sized p \<longleftrightarrow> PktOpcode p < 32 \<and> PktKeyID p < 8 \<and> length (PktPeerID p) = 3 \<and>
     length (PktLocalSessionID p) = 8 \<and> length (PktRemoteSessionID p) = 8 \<and> length (PktACKs p) \<le> 255"

text \<open>The fields that a control or acknowledgment packet does not carry are zero.\<close>

definition control_packet :: "packet \<Rightarrow> bool" where
  "control_packet p \<longleftrightarrow> packet_sized p \<and> (IsControl p \<or> PktOpcode p = P_ACK_V1) \<and> PktPeerID p = zeros 3 \<and>
     (PktACKs p = [] \<longrightarrow> PktRemoteSessionID p = zeros 8) \<and> (PktOpcode p = P_ACK_V1 \<longrightarrow> PktID p = 0)"

lemma low_bits: "(7 :: byte) = mask 3"
  by (simp add: mask_eq_exp_minus_1)

lemma header_split: "push_bit 3 (drop_bit 3 b) OR (b AND 7 AND 7) = (b :: byte)"
  unfolding low_bits by (rule bit_word_eqI) (auto simp: bit_simps)

lemma byte_small: "b < 2 ^ k \<Longrightarrow> k \<le> n \<Longrightarrow> \<not> bit (b :: byte) n"
  by (metis bit_take_bit_iff leD less_mask_eq take_bit_eq_mask)

lemma header_fields:
  assumes "op < 32" "key < (8 :: byte)"
  shows "drop_bit 3 (push_bit 3 op OR (key AND 7)) = op" "(push_bit 3 op OR (key AND 7)) AND 7 = key"
proof -
  have "\<not> bit op n" if "5 \<le> n" for n using byte_small [of op 5 n] assms(1) that by simp
  then show "drop_bit 3 (push_bit 3 op OR (key AND 7)) = op"
    unfolding low_bits by (intro bit_word_eqI) (auto simp: bit_simps, meson not_le)
  have "\<not> bit key n" if "3 \<le> n" for n using byte_small [of key 3 n] assms(2) that by simp
  then show "(push_bit 3 op OR (key AND 7)) AND 7 = key"
    unfolding low_bits by (intro bit_word_eqI) (auto simp: bit_simps not_less [symmetric])
qed

lemma byte_parts: "drop_bit 3 b < (32 :: byte)" "b AND 7 < (8 :: byte)"
proof -
  show "drop_bit 3 b < 32"
    using unsigned_less [of b, where 'a = nat] by (simp add: word_less_nat_alt drop_bit_eq_div unat_div)
  show "b AND 7 < 8"
    using take_bit_nat_less_exp [of 3 "unat b"]
    by (simp add: word_less_nat_alt low_bits unsigned_take_bit_eq flip: take_bit_eq_mask)
qed


lemma zeros_length [simp]: "length (zeros n) = n"
  by (simp add: zeros_def)

lemma parsePacketID_Inr:
  "parsePacketID p buf = Inr q \<longleftrightarrow>
   (\<exists>i rest. buf = (if PktOpcode p \<noteq> P_ACK_V1 then PutUint32 i else []) @ rest \<and>
      q = p\<lparr>PktID := (if PktOpcode p \<noteq> P_ACK_V1 then i else PktID p), PktPayload := rest\<rparr>)"
  by (auto simp: parsePacketID_def parseError_def ReadUint32_Inr split: sum.splits)
    (metis ReadUint32_Inr prod.inject sum.inject(2) sum.distinct(1))+

text \<open>What the parser of control packets accepts, and what it makes of it.\<close>

lemma parseControlOrACKPacket_Inr:
  assumes "opcodeIsControl op \<or> op = P_ACK_V1"
  shows "parseControlOrACKPacket op keyID payload = Inr q \<longleftrightarrow>
    (\<exists>sid acks rid i rest. length sid = 8 \<and> length rid = 8 \<and> length acks \<le> 255 \<and>
       payload = sid @ [of_nat (length acks)] @ concat (map PutUint32 acks) @ (if acks \<noteq> [] then rid else []) @
         (if op \<noteq> P_ACK_V1 then PutUint32 i else []) @ rest \<and>
       q = \<lparr>PktOpcode = op, PktKeyID = keyID, PktPeerID = zeros 3, PktLocalSessionID = sid, PktACKs = acks,
         PktRemoteSessionID = (if acks \<noteq> [] then rid else zeros 8), PktID = (if op \<noteq> P_ACK_V1 then i else 0),
         PktPayload = rest\<rparr>)" (is "?parse \<longleftrightarrow> (\<exists>sid acks rid i rest. ?fields sid acks rid i rest)")
proof
  assume ?parse
  with assms obtain sid n b2 acks b3 where
    s: "ReadFull 8 payload = (Inr sid, n # b2)" "decode_many ReadUint32 (unat n) b2 = Inr (acks, b3)" and
    q: "(let p = (NewPacket op keyID payload)\<lparr>PktLocalSessionID := sid, PktACKs := acks\<rparr>
       in if 0 < unat n then
            (case ReadFull 8 b3 of
               (Inl err, _) \<Rightarrow> parseError ''bad remote sessionID'' err
             | (Inr rid, b4) \<Rightarrow> parsePacketID (p\<lparr>PktRemoteSessionID := rid\<rparr>) b4)
          else parsePacketID p b3) = Inr q"
    unfolding parseControlOrACKPacket_def by (simp add: parseError_def split: if_splits prod.splits sum.splits list.splits)
  have n: "unat n = length acks" using decode_many_length [OF s(2)] by simp
  then have n': "n = of_nat (length acks)" by (metis of_nat_unat ucast_id)
  have acks: "b2 = concat (map PutUint32 acks) @ b3" using number.decode_many_inverse [OF s(2)] by simp
  have le: "length acks \<le> 255" using n unsigned_less [of n, where 'a = nat] by simp
  show "\<exists>sid acks rid i rest. ?fields sid acks rid i rest"
  proof (cases "acks = []")
    case True
    with q n have "parsePacketID ((NewPacket op keyID payload)\<lparr>PktLocalSessionID := sid, PktACKs := acks\<rparr>) b3 = Inr q"
      by simp
    then obtain i rest where "b3 = (if op \<noteq> P_ACK_V1 then PutUint32 i else []) @ rest"
      "q = (NewPacket op keyID payload)\<lparr>PktLocalSessionID := sid, PktACKs := acks, PktID := (if op \<noteq> P_ACK_V1 then i else 0),
        PktPayload := rest\<rparr>"
      unfolding parsePacketID_Inr by (auto simp: NewPacket_def)
    then have "?fields sid acks (zeros 8) i rest"
      using True s(1) acks le n' by (simp add: ReadFull_Inr NewPacket_def)
    then show ?thesis by blast
  next
    case False
    with q n obtain rid b4 where "ReadFull 8 b3 = (Inr rid, b4)"
      "parsePacketID ((NewPacket op keyID payload)\<lparr>PktLocalSessionID := sid, PktACKs := acks, PktRemoteSessionID := rid\<rparr>) b4 = Inr q"
      by (auto simp: parseError_def split: prod.splits sum.splits)
    then obtain i rest where "b3 = rid @ (if op \<noteq> P_ACK_V1 then PutUint32 i else []) @ rest" "length rid = 8"
      "q = (NewPacket op keyID payload)\<lparr>PktLocalSessionID := sid, PktACKs := acks, PktRemoteSessionID := rid,
        PktID := (if op \<noteq> P_ACK_V1 then i else 0), PktPayload := rest\<rparr>"
      unfolding parsePacketID_Inr by (auto simp: NewPacket_def ReadFull_Inr)
    then have "?fields sid acks rid i rest"
      using False s(1) acks le n' by (simp add: ReadFull_Inr NewPacket_def)
    then show ?thesis by blast
  qed
next
  assume "\<exists>sid acks rid i rest. ?fields sid acks rid i rest"
  then obtain sid acks rid i rest where f: "?fields sid acks rid i rest" by blast
  let ?rest = "(if acks \<noteq> [] then rid else []) @ (if op \<noteq> P_ACK_V1 then PutUint32 i else []) @ rest"
  have n: "unat (of_nat (length acks) :: byte) = length acks" using f unfolding unat_of_nat by simp
  have "decode_many ReadUint32 (length acks) (concat (map PutUint32 acks) @ ?rest) = Inr (acks, ?rest)"
    by (rule number.decode_many_concat) (simp add: list_all_iff)
  with f n assms show ?parse
    by (auto simp: parseControlOrACKPacket_def NewPacket_def parsePacketID_def ReadUint32_Inr [THEN iffD2] Let_def)
qed


lemma control_not_data: "opcodeIsControl op \<or> op = P_ACK_V1 \<Longrightarrow> op \<noteq> P_DATA_V1 \<and> op \<noteq> P_DATA_V2"
  by (auto simp: opcodeIsControl_def opcode_defs)

lemma ParsePacket_control:
  assumes "op = drop_bit 3 b" "opcodeIsControl op \<or> op = P_ACK_V1" "payload \<noteq> []"
  shows "ParsePacket (b # payload) = parseControlOrACKPacket op (b AND 7) payload"
  using assms control_not_data [OF assms(2)] by (cases payload) (auto simp: ParsePacket_def Let_def)

lemma ParsePacket_short: "ParsePacket buf = Inr p \<Longrightarrow> \<exists>b payload. buf = b # payload \<and> payload \<noteq> []"
  by (cases buf; cases "tl buf") (auto simp: ParsePacket_def split: if_splits)

text \<open>A serialised control packet is exactly what the parser reads back, and the parser accepts nothing
  else.\<close>

lemma ParsePacket_control_iff:
  assumes "IsControl p \<or> PktOpcode p = P_ACK_V1"
  shows "ParsePacket buf = Inr p \<longleftrightarrow> control_packet p \<and> packetBytes p = Inr buf"
proof
  assume parse: "ParsePacket buf = Inr p"
  then obtain b payload where buf: "buf = b # payload" "payload \<noteq> []" using ParsePacket_short by blast
  let ?op = "drop_bit 3 b"
  have op: "opcodeIsControl ?op \<or> ?op = P_ACK_V1"
    using parse buf assms by (auto simp: ParsePacket_def IsControl_def NewPacket_def Let_def split: if_splits)
  have "parseControlOrACKPacket ?op (b AND 7) payload = Inr p"
    using parse buf ParsePacket_control [OF refl op] by simp
  then obtain sid acks rid i rest where
    f: "length sid = 8" "length rid = 8" "length acks \<le> 255"
    "payload = sid @ [of_nat (length acks)] @ concat (map PutUint32 acks) @ (if acks \<noteq> [] then rid else []) @
       (if ?op \<noteq> P_ACK_V1 then PutUint32 i else []) @ rest"
    "p = \<lparr>PktOpcode = ?op, PktKeyID = b AND 7, PktPeerID = zeros 3, PktLocalSessionID = sid, PktACKs = acks,
       PktRemoteSessionID = (if acks \<noteq> [] then rid else zeros 8), PktID = (if ?op \<noteq> P_ACK_V1 then i else 0), PktPayload = rest\<rparr>"
    unfolding parseControlOrACKPacket_Inr [OF op] by blast
  have "control_packet p" using f(1-3,5) op byte_parts [of b]
    by (auto simp: control_packet_def packet_sized_def IsControl_def)
  moreover have "packetBytes p = Inr buf"
    using f control_not_data [OF op] header_split [of b] buf(1) by (auto simp: packetBytes_def headerByte_def)
  ultimately show "control_packet p \<and> packetBytes p = Inr buf" by blast
next
  assume c: "control_packet p \<and> packetBytes p = Inr buf"
  let ?op = "PktOpcode p"
  let ?payload = "PktLocalSessionID p @ [of_nat (length (PktACKs p))] @ concat (map PutUint32 (PktACKs p)) @
    (if PktACKs p \<noteq> [] then PktRemoteSessionID p else []) @ (if ?op \<noteq> P_ACK_V1 then PutUint32 (PktID p) else []) @ PktPayload p"
  have op: "opcodeIsControl ?op \<or> ?op = P_ACK_V1" using assms by (simp add: IsControl_def)
  have buf: "buf = headerByte p # ?payload"
    using c control_not_data [OF op] by (auto simp: packetBytes_def control_packet_def packet_sized_def split: if_splits)
  have header: "drop_bit 3 (headerByte p) = ?op" "headerByte p AND 7 = PktKeyID p"
    using header_fields c by (auto simp: control_packet_def packet_sized_def headerByte_def)
  have "parseControlOrACKPacket ?op (PktKeyID p) ?payload = Inr p"
    unfolding parseControlOrACKPacket_Inr [OF op]
    using c by (intro exI [of _ "PktLocalSessionID p"] exI [of _ "PktACKs p"] exI [of _ "PktRemoteSessionID p"]
        exI [of _ "PktID p"] exI [of _ "PktPayload p"]) (cases p, auto simp: control_packet_def packet_sized_def)
  then show "ParsePacket buf = Inr p"
    using ParsePacket_control [of ?op "headerByte p" ?payload] header op buf by simp
qed

lemma ParsePacket_data:
  assumes "ParsePacket buf = Inr p" and "\<not> IsControl p" and "PktOpcode p \<noteq> P_ACK_V1"
  shows "\<exists>b. PktOpcode p = drop_bit 3 b \<and> PktKeyID p = b AND 7 \<and> PktACKs p = [] \<and> PktID p = 0 \<and>
    PktLocalSessionID p = zeros 8 \<and> PktRemoteSessionID p = zeros 8 \<and>
    (if PktOpcode p = P_DATA_V2 then length (PktPeerID p) = 3 \<and> buf = b # PktPeerID p @ PktPayload p
     else PktPeerID p = zeros 3 \<and> buf = b # PktPayload p)"
proof -
  obtain b payload where buf: "buf = b # payload" using ParsePacket_short [OF assms(1)] by blast
  have "\<not> opcodeIsControl (drop_bit 3 b) \<and> drop_bit 3 b \<noteq> P_ACK_V1"
  proof (rule ccontr)
    assume "\<not> ?thesis"
    then have op: "opcodeIsControl (drop_bit 3 b) \<or> drop_bit 3 b = P_ACK_V1" by blast
    from assms(1) buf have "parseControlOrACKPacket (drop_bit 3 b) (b AND 7) payload = Inr p"
      using ParsePacket_control [OF refl op] ParsePacket_short [OF assms(1)] by auto
    then have "PktOpcode p = drop_bit 3 b" unfolding parseControlOrACKPacket_Inr [OF op] by auto
    with op assms(2,3) show False by (simp add: IsControl_def)
  qed
  then show ?thesis
    using assms(1) buf append_take_drop_id [of 3 payload]
    by (intro exI [of _ b]) (auto simp: ParsePacket_def NewPacket_def Let_def numeral_eq_Suc split: if_splits)
qed


section \<open>Properties\<close>

text \<open>C36: the wire format of control packets is exact. A packet whose fields have their sizes, and are
  zero where the format does not carry them, is serialised without an error, and the parser reads it
  from just one byte string: the one that was written.\<close>

theorem control_packet_wire_format:
  assumes "control_packet p"
  shows "\<exists>buf. packetBytes p = Inr buf \<and> (\<forall>received. ParsePacket received = Inr p \<longleftrightarrow> received = buf)"
proof -
  have op: "IsControl p \<or> PktOpcode p = P_ACK_V1" using assms by (simp add: control_packet_def)
  then have "\<not> isl (packetBytes p)"
    using assms control_not_data [of "PktOpcode p"]
    by (auto simp: packetBytes_def control_packet_def packet_sized_def IsControl_def)
  then obtain buf where "packetBytes p = Inr buf" by (cases "packetBytes p") auto
  then show ?thesis using ParsePacket_control_iff [OF op] assms by auto
qed

definition some_control :: packet where
  "some_control = \<lparr>PktOpcode = P_CONTROL_V1, PktKeyID = 0, PktPeerID = zeros 3, PktLocalSessionID = [1, 2, 3, 4, 5, 6, 7, 8],
     PktACKs = [1, 2], PktRemoteSessionID = [8, 7, 6, 5, 4, 3, 2, 1], PktID = 3, PktPayload = [22, 3, 1]\<rparr>"

theorem control_packet_wire_format_witness:
  "\<exists>buf. packetBytes some_control = Inr buf \<and> ParsePacket buf = Inr some_control"
proof -
  have "control_packet some_control"
    by (simp add: control_packet_def packet_sized_def some_control_def IsControl_def opcodeIsControl_def opcode_defs)
  from control_packet_wire_format [OF this] show ?thesis by blast
qed

text \<open>C37: every packet that the parser accepts is well typed, whatever the bytes: the opcode fits in
  five bits, the key identifier in three, the session and peer identifiers have their sizes, there are
  at most 255 acknowledgments, and a packet that is not a control packet acknowledges nothing and has
  no packet identifier.\<close>

theorem ParsePacket_well_typed:
  assumes "ParsePacket buf = Inr p"
  shows "packet_sized p \<and> (\<not> IsControl p \<and> PktOpcode p \<noteq> P_ACK_V1 \<longrightarrow> PktACKs p = [] \<and> PktID p = 0)"
proof (cases "IsControl p \<or> PktOpcode p = P_ACK_V1")
  case True
  then show ?thesis using ParsePacket_control_iff [OF True] assms by (auto simp: control_packet_def)
next
  case False
  then show ?thesis
    using ParsePacket_data [OF assms] byte_parts by (auto simp: packet_sized_def P_DATA_V2_def split: if_splits)
qed

theorem ParsePacket_well_typed_witness:
  "\<exists>p. ParsePacket [0x48, 1, 2, 3, 9] = Inr p \<and> packet_sized p \<and> PktPayload p = [9]"
proof -
  have p: "ParsePacket [0x48, 1, 2, 3, 9] = Inr ((NewPacket P_DATA_V2 0 [9])\<lparr>PktPeerID := [1, 2, 3]\<rparr>)"
    by code_simp
  from ParsePacket_well_typed [OF p] p show ?thesis by (simp add: NewPacket_def)
qed

end
