(* ===== verification/Vpn_Session.thy ===== *)
theory Vpn_Session
  imports Vpn_Packet
begin

text \<open>
  The session of the engine (src/third_party/minivpn/internal/session): the key material of both
  sides, the manager with the identifiers of the session and the counters of packet identifiers, and
  what is known of the tunnel. Every operation of the manager runs under its mutex, so a run of the
  session is a sequence of calls.
\<close>

section \<open>Negotiation states\<close>

type_synonym neg_state = int

definition S_ERROR :: neg_state where "S_ERROR = - 1"
definition S_UNDEF :: neg_state where "S_UNDEF = 0"
definition S_INITIAL :: neg_state where "S_INITIAL = 1"
definition S_PRE_START :: neg_state where "S_PRE_START = 2"
definition S_START :: neg_state where "S_START = 3"
definition S_SENT_KEY :: neg_state where "S_SENT_KEY = 4"
definition S_GOT_KEY :: neg_state where "S_GOT_KEY = 5"
definition S_ACTIVE :: neg_state where "S_ACTIVE = 6"
definition S_GENERATED_KEYS :: neg_state where "S_GENERATED_KEYS = 7"

lemmas neg_state_defs = S_ERROR_def S_UNDEF_def S_INITIAL_def S_PRE_START_def S_START_def S_SENT_KEY_def S_GOT_KEY_def
  S_ACTIVE_def S_GENERATED_KEYS_def

definition negStateString :: "neg_state \<Rightarrow> string" where
  "negStateString sns =
     (case map_of [(S_UNDEF, ''S_UNDEF''), (S_INITIAL, ''S_INITIAL''), (S_PRE_START, ''S_PRE_START''), (S_START, ''S_START''),
        (S_SENT_KEY, ''S_SENT_KEY''), (S_GOT_KEY, ''S_GOT_KEY''), (S_ACTIVE, ''S_ACTIVE''),
        (S_GENERATED_KEYS, ''S_GENERATED_KEYS''), (S_ERROR, ''S_ERROR'')] sns of
        Some name \<Rightarrow> name
      | None \<Rightarrow> ''S_INVALID'')"

section \<open>Key material\<close>

record key_source =
  KsR1 :: bytes
  KsR2 :: bytes
  KsPreMaster :: bytes

definition keySourceBytes :: "key_source \<Rightarrow> bytes" where
  "keySourceBytes k = KsPreMaster k @ KsR1 k @ KsR2 k"

text \<open>\<open>copy\<close> into a fresh array of \<open>n\<close> bytes.\<close>

definition copyArray :: "nat \<Rightarrow> bytes \<Rightarrow> bytes" where
  "copyArray n b = take n b @ zeros (n - length b)"

text \<open>The random source answers by the number of the call and the size.\<close>

type_synonym random_fn = "nat \<Rightarrow> nat \<Rightarrow> bytes res"

definition errRandomBytes :: "string \<Rightarrow> 'a res" where
  "errRandomBytes err = Inl (''error generating random bytes: '' @ err)"

definition NewKeySource :: "random_fn \<Rightarrow> nat \<Rightarrow> key_source res" where
  "NewKeySource rand k =
     (case rand k 32 of
        Inl err \<Rightarrow> errRandomBytes err
      | Inr random1 \<Rightarrow>
          (case rand (k + 1) 32 of
             Inl err \<Rightarrow> errRandomBytes err
           | Inr random2 \<Rightarrow>
               (case rand (k + 2) 48 of
                  Inl err \<Rightarrow> errRandomBytes err
                | Inr random3 \<Rightarrow>
                    Inr \<lparr>KsR1 = copyArray 32 random1, KsR2 = copyArray 32 random2, KsPreMaster = copyArray 48 random3\<rparr>)))"

record data_channel_key =
  DckReady :: bool
  DckLocal :: "key_source option"
  DckRemote :: "key_source option"

definition AddRemoteKey :: "key_source \<Rightarrow> data_channel_key \<Rightarrow> data_channel_key res" where
  "AddRemoteKey k dck =
     (if DckReady dck then Inl ''bad data-channel key: cannot overwrite remote key slot''
      else Inr (dck\<lparr>DckRemote := Some k, DckReady := True\<rparr>))"

definition AddLocalKey :: "key_source \<Rightarrow> data_channel_key \<Rightarrow> data_channel_key" where
  "AddLocalKey k dck = dck\<lparr>DckLocal := Some k\<rparr>"

section \<open>Tunnel\<close>

record tunnel_info =
  TiGW :: string
  TiIP :: string
  TiMTU :: int
  TiNetMask :: string
  TiPeerID :: int
  TiUsePeerID :: bool

definition zero_tunnel :: tunnel_info where
  "zero_tunnel = \<lparr>TiGW = '''', TiIP = '''', TiMTU = 0, TiNetMask = '''', TiPeerID = 0, TiUsePeerID = False\<rparr>"

text \<open>The error of \<open>strconv.Atoi\<close> is named without the value it quotes.\<close>

fun mtuOptions :: "string list \<Rightarrow> tunnel_info \<Rightarrow> tunnel_info res" where
  "mtuOptions [] t = Inr t"
| "mtuOptions (opt # opts) t =
     (case split_on (CHR '' '') opt of
        k # v # _ \<Rightarrow>
          if k = ''tun-mtu'' then
            (case atoi v of
               None \<Rightarrow> Inl ''strconv.Atoi''
             | Some mtu \<Rightarrow> mtuOptions opts (t\<lparr>TiMTU := mtu\<rparr>))
          else mtuOptions opts t
      | _ \<Rightarrow> mtuOptions opts t)"

definition newTunnelInfoFromRemoteOptionsString :: "string \<Rightarrow> tunnel_info res" where
  "newTunnelInfoFromRemoteOptionsString remoteOpts = mtuOptions (split_on (CHR '','') remoteOpts) zero_tunnel"

section \<open>Manager\<close>

record session_manager =
  SesKeyID :: byte
  SesKeys :: "data_channel_key list"
  SesControlPacketID :: packet_id
  SesDataPacketID :: packet_id
  SesLocalSessionID :: bytes
  SesNegState :: neg_state
  SesRemoteSessionID :: "bytes option"
  SesTunnelInfo :: tunnel_info

definition ActiveKey :: "session_manager \<Rightarrow> data_channel_key res" where
  "ActiveKey m =
     (if 255 < length (SesKeys m) \<or> length (SesKeys m) \<le> unat (SesKeyID m) then Inl ''bad data-channel key: no such key id''
      else Inr (SesKeys m ! unat (SesKeyID m)))"

definition setActiveKey :: "data_channel_key \<Rightarrow> session_manager \<Rightarrow> session_manager" where
  "setActiveKey dck m = m\<lparr>SesKeys := (SesKeys m)[unat (SesKeyID m) := dck]\<rparr>"

definition newSessionManager :: "random_fn \<Rightarrow> session_manager res" where
  "newSessionManager rand =
     (let m = \<lparr>SesKeyID = 0, SesKeys = [\<lparr>DckReady = False, DckLocal = None, DckRemote = None\<rparr>], SesControlPacketID = 1,
                SesDataPacketID = 1, SesLocalSessionID = zeros 8, SesNegState = 0, SesRemoteSessionID = None,
                SesTunnelInfo = zero_tunnel\<rparr>
      in case rand 0 8 of
           Inl err \<Rightarrow> Inl err
         | Inr random \<Rightarrow>
             (case NewKeySource rand 1 of
                Inl err \<Rightarrow> Inl err
              | Inr localKey \<Rightarrow>
                  (let m1 = m\<lparr>SesLocalSessionID := take 8 random\<rparr>
                   in case ActiveKey m1 of
                        Inl err \<Rightarrow> Inl err
                      | Inr k \<Rightarrow> Inr (setActiveKey (AddLocalKey localKey k) m1))))"

definition ErrExpiredKey :: string where
  "ErrExpiredKey = ''expired key''"

definition ErrNoRemoteSessionID :: string where
  "ErrNoRemoteSessionID = ''missing remote session ID''"

definition localDataPacketID :: "session_manager \<Rightarrow> packet_id res \<times> session_manager" where
  "localDataPacketID m =
     (let pid = SesDataPacketID m
      in if pid = 0xFFFFFFFF then (Inl ErrExpiredKey, m) else (Inr pid, m\<lparr>SesDataPacketID := pid + 1\<rparr>))"

definition localControlPacketID :: "session_manager \<Rightarrow> packet_id res \<times> session_manager" where
  "localControlPacketID m =
     (let pid = SesControlPacketID m
      in if pid = 0xFFFFFFFF then (Inl ErrExpiredKey, m) else (Inr pid, m\<lparr>SesControlPacketID := pid + 1\<rparr>))"

definition NewACKForPacketIDs :: "packet_id list \<Rightarrow> session_manager \<Rightarrow> packet res" where
  "NewACKForPacketIDs ids m =
     (case SesRemoteSessionID m of
        None \<Rightarrow> Inl ErrNoRemoteSessionID
      | Some remote \<Rightarrow>
          Inr \<lparr>PktOpcode = P_ACK_V1, PktKeyID = SesKeyID m, PktPeerID = zeros 3, PktLocalSessionID = SesLocalSessionID m,
               PktACKs = ids, PktRemoteSessionID = remote, PktID = 0, PktPayload = []\<rparr>)"

definition sessionNewPacket :: "opcode \<Rightarrow> bytes \<Rightarrow> session_manager \<Rightarrow> packet res \<times> session_manager" where
  "sessionNewPacket op payload m =
     (case (if opcodeIsControl op then localControlPacketID m else localDataPacketID m) of
        (Inl err, m1) \<Rightarrow> (Inl err, m1)
      | (Inr pid, m1) \<Rightarrow>
          (let p = (NewPacket op (SesKeyID m) payload)\<lparr>PktLocalSessionID := SesLocalSessionID m, PktID := pid\<rparr>
           in (Inr (case SesRemoteSessionID m of None \<Rightarrow> p | Some remote \<Rightarrow> p\<lparr>PktRemoteSessionID := remote\<rparr>), m1)))"

definition NewHardResetPacket :: "session_manager \<Rightarrow> packet" where
  "NewHardResetPacket m =
     (NewPacket P_CONTROL_HARD_RESET_CLIENT_V2 (SesKeyID m) [])\<lparr>PktID := 0, PktLocalSessionID := SesLocalSessionID m\<rparr>"

text \<open>Setting the last state also signals that the session is ready; the second component tells whether
  the call waits for the reader of that signal.\<close>

definition SetNegotiationState :: "neg_state \<Rightarrow> session_manager \<Rightarrow> session_manager \<times> bool" where
  "SetNegotiationState sns m = (m\<lparr>SesNegState := sns\<rparr>, sns = S_GENERATED_KEYS)"

definition SetRemoteSessionID :: "bytes \<Rightarrow> session_manager \<Rightarrow> session_manager eng" where
  "SetRemoteSessionID remote m =
     Assert (SesRemoteSessionID m = None) ''SetRemoteSessionID called more than once''
       (Inr (m\<lparr>SesRemoteSessionID := Some remote\<rparr>))"

definition InitTunnelInfo :: "string \<Rightarrow> session_manager \<Rightarrow> session_manager res" where
  "InitTunnelInfo remoteOption m =
     (case newTunnelInfoFromRemoteOptionsString remoteOption of
        Inl err \<Rightarrow> Inl err
      | Inr ti \<Rightarrow> Inr (m\<lparr>SesTunnelInfo := ti\<rparr>))"

definition UpdateTunnelInfo :: "tunnel_info \<Rightarrow> session_manager \<Rightarrow> session_manager" where
  "UpdateTunnelInfo ti m = m\<lparr>SesTunnelInfo := (SesTunnelInfo m)\<lparr>TiIP := TiIP ti, TiGW := TiGW ti, TiPeerID := TiPeerID ti,
     TiUsePeerID := TiUsePeerID ti, TiNetMask := TiNetMask ti\<rparr>\<rparr>"


section \<open>Packet identifiers\<close>

lemma counter_below: "i \<noteq> 0xFFFFFFFF \<Longrightarrow> unat (i + 1 :: packet_id) = Suc (unat i)"
proof -
  assume "i \<noteq> 0xFFFFFFFF"
  moreover have "0xFFFFFFFF = (- 1 :: packet_id)" by simp
  ultimately have "1 + i \<noteq> 0" by (metis add_eq_0_iff)
  then show ?thesis by (simp add: unatSuc add.commute)
qed

text \<open>The identifiers that a run gives out, in order.\<close>

fun draws :: "('c \<Rightarrow> 's \<Rightarrow> 's) \<Rightarrow> ('c \<Rightarrow> 's \<Rightarrow> packet_id option) \<Rightarrow> 'c list \<Rightarrow> 's \<Rightarrow> packet_id list" where
  "draws call drawn [] s = []"
| "draws call drawn (c # cs) s =
     (case drawn c s of None \<Rightarrow> draws call drawn cs (call c s) | Some i \<Rightarrow> i # draws call drawn cs (call c s))"

text \<open>A source of identifiers: drawing gives the counter and raises it by one, up to the largest value,
  which is never given out; no other call of the session changes the counter. A call of the session
  that gives out an identifier of this source is a draw.\<close>

locale id_source =
  fixes counter :: "'s \<Rightarrow> packet_id"
    and call :: "'c \<Rightarrow> 's \<Rightarrow> 's"
    and drawn :: "'c \<Rightarrow> 's \<Rightarrow> packet_id option"
  assumes drawn_counter: "drawn c s = Some i \<Longrightarrow> i = counter s \<and> i \<noteq> 0xFFFFFFFF \<and> counter (call c s) = counter s + 1"
    and not_drawn: "drawn c s = None \<Longrightarrow> counter (call c s) = counter s"
begin

text \<open>The identifiers of any run count up from the counter without a gap or a repetition.\<close>

lemma draws_count: "map unat (draws call drawn cs s) = [unat (counter s) ..< unat (counter s) + length (draws call drawn cs s)]"
proof (induction cs arbitrary: s)
  case (Cons c cs)
  show ?case
  proof (cases "drawn c s")
    case (Some i)
    with drawn_counter [OF Some] Cons.IH [of "call c s"] show ?thesis
      by (auto simp: counter_below upt_conv_Cons simp del: upt_Suc)
  qed (use Cons.IH not_drawn in auto)
qed simp

lemma draws_distinct: "distinct (draws call drawn cs s)"
proof -
  have "distinct (map unat (draws call drawn cs s))" unfolding draws_count by simp
  then show ?thesis by (simp add: distinct_map)
qed

end

text \<open>The calls of a session. Each is one critical section of the manager.\<close>

datatype session_call =
    CallNewPacket opcode bytes
  | CallDataPacketID
  | CallNewACK "packet_id list"
  | CallHardReset
  | CallSetState neg_state
  | CallSetRemote bytes
  | CallInitTunnel string
  | CallUpdateTunnel tunnel_info
  | CallAddRemoteKey key_source

fun session_step :: "session_call \<Rightarrow> session_manager \<Rightarrow> session_manager" where
  "session_step (CallNewPacket op payload) m = snd (sessionNewPacket op payload m)"
| "session_step CallDataPacketID m = snd (localDataPacketID m)"
| "session_step (CallNewACK ids) m = m"
| "session_step CallHardReset m = m"
| "session_step (CallSetState sns) m = fst (SetNegotiationState sns m)"
| "session_step (CallSetRemote remote) m = (case SetRemoteSessionID remote m of Inr m1 \<Rightarrow> m1 | Inl _ \<Rightarrow> m)"
| "session_step (CallInitTunnel opts) m = (case InitTunnelInfo opts m of Inr m1 \<Rightarrow> m1 | Inl _ \<Rightarrow> m)"
| "session_step (CallUpdateTunnel ti) m = UpdateTunnelInfo ti m"
| "session_step (CallAddRemoteKey k) m =
     (case ActiveKey m of
        Inl _ \<Rightarrow> m
      | Inr dck \<Rightarrow> (case AddRemoteKey k dck of Inl _ \<Rightarrow> m | Inr dck1 \<Rightarrow> setActiveKey dck1 m))"

fun control_id :: "session_call \<Rightarrow> session_manager \<Rightarrow> packet_id option" where
  "control_id (CallNewPacket op payload) m =
     (if opcodeIsControl op then (case fst (sessionNewPacket op payload m) of Inr p \<Rightarrow> Some (PktID p) | Inl _ \<Rightarrow> None)
      else None)"
| "control_id _ m = None"

fun data_id :: "session_call \<Rightarrow> session_manager \<Rightarrow> packet_id option" where
  "data_id (CallNewPacket op payload) m =
     (if \<not> opcodeIsControl op then (case fst (sessionNewPacket op payload m) of Inr p \<Rightarrow> Some (PktID p) | Inl _ \<Rightarrow> None)
      else None)"
| "data_id CallDataPacketID m = (case fst (localDataPacketID m) of Inr i \<Rightarrow> Some i | Inl _ \<Rightarrow> None)"
| "data_id _ m = None"

lemmas id_defs = sessionNewPacket_def localDataPacketID_def localControlPacketID_def NewPacket_def SetNegotiationState_def
  SetRemoteSessionID_def Assert_def InitTunnelInfo_def UpdateTunnelInfo_def ActiveKey_def AddRemoteKey_def setActiveKey_def

interpretation control_ids: id_source SesControlPacketID session_step control_id
proof
  fix c s i assume "control_id c s = Some i"
  then show "i = SesControlPacketID s \<and> i \<noteq> 0xFFFFFFFF \<and> SesControlPacketID (session_step c s) = SesControlPacketID s + 1"
    by (cases c) (auto simp: id_defs Let_def split: if_splits option.splits)
next
  fix c s assume "control_id c s = None"
  then show "SesControlPacketID (session_step c s) = SesControlPacketID s"
    by (cases c) (auto simp: id_defs Let_def split: if_splits option.splits sum.splits)
qed

interpretation data_ids: id_source SesDataPacketID session_step data_id
proof
  fix c s i assume "data_id c s = Some i"
  then show "i = SesDataPacketID s \<and> i \<noteq> 0xFFFFFFFF \<and> SesDataPacketID (session_step c s) = SesDataPacketID s + 1"
    by (cases c) (auto simp: id_defs Let_def split: if_splits option.splits)
next
  fix c s assume "data_id c s = None"
  then show "SesDataPacketID (session_step c s) = SesDataPacketID s"
    by (cases c) (auto simp: id_defs Let_def split: if_splits option.splits sum.splits)
qed


section \<open>Properties\<close>

text \<open>C38: packet identifiers are never reused. However the calls of a session are interleaved, the
  identifiers of its control packets are 1, 2, 3 and so on without a gap, those of the data channel
  as well, and when the counter is used up there are no further ones.\<close>

theorem packet_ids_never_reused:
  assumes "newSessionManager rand = Inr m"
  shows "map unat (draws session_step control_id cs m) = [1 ..< Suc (length (draws session_step control_id cs m))] \<and>
    map unat (draws session_step data_id cs m) = [1 ..< Suc (length (draws session_step data_id cs m))] \<and>
    distinct (draws session_step control_id cs m) \<and> distinct (draws session_step data_id cs m)"
proof -
  have "SesControlPacketID m = 1" "SesDataPacketID m = 1"
    using assms by (auto simp: newSessionManager_def ActiveKey_def setActiveKey_def Let_def split: sum.splits)
  then show ?thesis
    using control_ids.draws_count [of cs m] data_ids.draws_count [of cs m] control_ids.draws_distinct data_ids.draws_distinct
    by (simp del: upt_Suc)
qed

definition zero_random :: random_fn where
  "zero_random k n = Inr (zeros n)"

definition some_calls :: "session_call list" where
  "some_calls = [CallHardReset, CallSetRemote (zeros 8), CallNewPacket P_CONTROL_V1 [22], CallDataPacketID,
     CallNewPacket P_CONTROL_V1 [23], CallNewACK [1], CallNewPacket P_DATA_V1 [24]]"

theorem packet_ids_never_reused_witness:
  "\<exists>m. newSessionManager zero_random = Inr m \<and> map unat (draws session_step control_id some_calls m) = [1, 2] \<and>
     map unat (draws session_step data_id some_calls m) = [1, 2]"
proof -
  have "\<not> isl (newSessionManager zero_random)" by code_simp
  then obtain m where m: "newSessionManager zero_random = Inr m" by (cases "newSessionManager zero_random") auto
  have "SesControlPacketID m = 1" "SesDataPacketID m = 1" "SesRemoteSessionID m = None"
    using m by (auto simp: newSessionManager_def ActiveKey_def setActiveKey_def Let_def split: sum.splits)
  then have "length (draws session_step control_id some_calls m) = 2" "length (draws session_step data_id some_calls m) = 2"
    by (simp_all add: some_calls_def id_defs opcodeIsControl_def opcode_defs Let_def)
  with packet_ids_never_reused [OF m, of some_calls] m show ?thesis by (simp add: numeral_eq_Suc)
qed

text \<open>The length of an option string is not used to cut it: if the server pads its options, what comes
  after them becomes part of the last option, and a last option tun-mtu makes the session fail.\<close>

theorem padded_tunnel_options_rejected:
  "\<exists>b padded ti. EncodeOptionStringToBytes ''V4,tun-mtu 1500'' = Inr b \<and>
     DecodeOptionStringFromBytes b = Inr ''V4,tun-mtu 1500'' \<and>
     newTunnelInfoFromRemoteOptionsString ''V4,tun-mtu 1500'' = Inr ti \<and> TiMTU ti = 1500 \<and>
     DecodeOptionStringFromBytes (b @ [0]) = Inr padded \<and> isl (newTunnelInfoFromRemoteOptionsString padded)"
proof -
  let ?opts = "''V4,tun-mtu 1500''"
  obtain b where b: "EncodeOptionStringToBytes ?opts = Inr b" by (simp add: EncodeOptionStringToBytes_def)
  have "DecodeOptionStringFromBytes (b @ [0]) = Inr (?opts @ of_bytes [0])"
    using option_string_decoded [OF b, of "[0]"] by simp
  moreover have "DecodeOptionStringFromBytes b = Inr ?opts" using option_string_decoded [OF b, of "[]"] by simp
  moreover have "isl (newTunnelInfoFromRemoteOptionsString (?opts @ of_bytes [0]))" by code_simp
  moreover have "newTunnelInfoFromRemoteOptionsString ?opts = Inr (zero_tunnel\<lparr>TiMTU := 1500\<rparr>)" by code_simp
  ultimately show ?thesis using b by fastforce
qed

end
