(* ===== verification/Vpn_Reliable.thy ===== *)
theory Vpn_Reliable
  imports Vpn_Session Go_Sort Domain
begin

text \<open>
  The reliable transport of the control channel (src/third_party/minivpn/internal/reliabletransport):
  the receiver that puts control packets in order, and the sender that keeps packets until they are
  acknowledged. Each of the two is confined to one goroutine, a loop over events; the receiver tells
  the sender what it has seen through a channel. Buffers have at most twelve entries, for which
  \<open>sort.Sort\<close> is the insertion sort of Go_Sort.
\<close>

section \<open>Constants\<close>

definition RELIABLE_SEND_BUFFER_SIZE :: nat where "RELIABLE_SEND_BUFFER_SIZE = 6"
definition RELIABLE_RECV_BUFFER_SIZE :: nat where "RELIABLE_RECV_BUFFER_SIZE = 12"
definition MAX_ACKS_PER_OUTGOING_PACKET :: nat where "MAX_ACKS_PER_OUTGOING_PACKET = 4"
definition ACK_SET_CAPACITY :: nat where "ACK_SET_CAPACITY = 8"
definition MAX_BACKOFF_SECONDS :: int where "MAX_BACKOFF_SECONDS = 60"
definition SENDER_TICKER_MS :: int where "SENDER_TICKER_MS = 1000 * 60"

definition nanosecond :: duration where "nanosecond = 1"
definition millisecond :: duration where "millisecond = 1000000"
definition second :: duration where "second = 1000000000"

section \<open>Receiver\<close>

record incoming_seen =
  SeenID :: "packet_id option"
  SeenACKs :: "packet_id list option"

definition newIncomingPacketSeen :: "packet \<Rightarrow> incoming_seen" where
  "newIncomingPacketSeen p =
     (if PktOpcode p = P_ACK_V1 then \<lparr>SeenID = None, SeenACKs = Some (PktACKs p)\<rparr>
      else \<lparr>SeenID = Some (PktID p), SeenACKs = Some (PktACKs p)\<rparr>)"

definition incomingSanityChecks :: "packet \<Rightarrow> session_manager \<Rightarrow> bool" where
  "incomingSanityChecks p ses =
     (if PktLocalSessionID p \<noteq> (case SesRemoteSessionID ses of None \<Rightarrow> [] | Some remote \<Rightarrow> remote) then False
      else if PktACKs p = [] then True
      else PktRemoteSessionID p = SesLocalSessionID ses)"

record reliable_receiver =
  RrIncoming :: "packet list"
  RrLastConsumed :: packet_id

definition newReliableReceiver :: reliable_receiver where
  "newReliableReceiver = \<lparr>RrIncoming = [], RrLastConsumed = 0\<rparr>"

definition MaybeInsertIncoming :: "packet \<Rightarrow> reliable_receiver \<Rightarrow> bool \<times> reliable_receiver" where
  "MaybeInsertIncoming p r =
     (if RELIABLE_RECV_BUFFER_SIZE \<le> length (RrIncoming r) then (False, r)
      else (True, r\<lparr>RrIncoming := RrIncoming r @ [p]\<rparr>))"

definition packetLess :: "packet \<Rightarrow> packet \<Rightarrow> bool" where
  "packetLess p q \<longleftrightarrow> PktID p < PktID q"

text \<open>The loop over the sorted packets: the packets that are next in order, those that are kept for
  later, and the last identifier that was consumed.\<close>

fun nextSequence :: "packet_id \<Rightarrow> packet list \<Rightarrow> packet list \<times> packet list \<times> packet_id" where
  "nextSequence lc [] = ([], [], lc)"
| "nextSequence lc (p # ps) =
     (if PktID p - lc = 1 then
        (case nextSequence (lc + 1) ps of (ready, keep, lc') \<Rightarrow> (p # ready, keep, lc'))
      else if lc < PktID p then ([], p # ps, lc)
      else nextSequence lc ps)"

definition NextIncomingSequence :: "reliable_receiver \<Rightarrow> packet list \<times> reliable_receiver" where
  "NextIncomingSequence r =
     (case nextSequence (RrLastConsumed r) (insertion_sort packetLess (RrIncoming r)) of
        (ready, keep, lc) \<Rightarrow> (ready, \<lparr>RrIncoming = keep, RrLastConsumed = lc\<rparr>))"

text \<open>One turn of the worker that moves packets up: what it tells the sender, whether it drops the
  packet, and what it delivers to the control channel.\<close>

record receiver_out =
  OutSeen :: "incoming_seen option"
  OutDropped :: bool
  OutDelivered :: "packet list"

definition receiverStep :: "session_manager \<Rightarrow> packet \<Rightarrow> reliable_receiver \<Rightarrow> receiver_out \<times> reliable_receiver" where
  "receiverStep ses p r =
     (if \<not> incomingSanityChecks p ses then (\<lparr>OutSeen = None, OutDropped = False, OutDelivered = []\<rparr>, r)
      else
        let seen = Some (newIncomingPacketSeen p)
        in if PktOpcode p \<noteq> P_CONTROL_V1 then (\<lparr>OutSeen = seen, OutDropped = False, OutDelivered = []\<rparr>, r)
           else case MaybeInsertIncoming p r of
               (False, r1) \<Rightarrow> (\<lparr>OutSeen = seen, OutDropped = True, OutDelivered = []\<rparr>, r1)
             | (True, r1) \<Rightarrow>
                 (case NextIncomingSequence r1 of
                    (ready, r2) \<Rightarrow> (\<lparr>OutSeen = seen, OutDropped = False, OutDelivered = ready\<rparr>, r2)))"

fun receiverRun :: "session_manager \<Rightarrow> packet list \<Rightarrow> reliable_receiver \<Rightarrow> receiver_out list \<times> reliable_receiver" where
  "receiverRun ses [] r = ([], r)"
| "receiverRun ses (p # ps) r =
     (case receiverStep ses p r of
        (out, r1) \<Rightarrow> (case receiverRun ses ps r1 of (outs, r2) \<Rightarrow> (out # outs, r2)))"

definition received_packets :: "session_manager \<Rightarrow> packet list \<Rightarrow> reliable_receiver \<Rightarrow> packet list" where
  "received_packets ses arrivals r = concat (map OutDelivered (fst (receiverRun ses arrivals r)))"

section \<open>Delivery in order\<close>

lemma nextSequence_ids:
  "nextSequence lc ps = (ready, keep, lc') \<Longrightarrow>
   map PktID ready = map (\<lambda>i. lc + of_nat i) [1 ..< Suc (length ready)] \<and> lc' = lc + of_nat (length ready) \<and>
   set ready \<union> set keep \<subseteq> set ps \<and> length keep \<le> length ps"
proof (induction lc ps arbitrary: ready rule: nextSequence.induct)
  case (2 lc p ps)
  show ?case
  proof (cases "PktID p - lc = 1")
    case True
    then obtain ready1 where r: "nextSequence (lc + 1) ps = (ready1, keep, lc')" "ready = p # ready1"
      using 2(3) by (auto split: prod.splits)
    have ih: "map PktID ready1 = map (\<lambda>i. lc + 1 + of_nat i) [1 ..< Suc (length ready1)]"
      "lc' = lc + 1 + of_nat (length ready1)" "set ready1 \<union> set keep \<subseteq> set ps" "length keep \<le> length ps"
      using 2(1) [OF True r(1)] by auto
    have "PktID p = lc + 1" using True by (metis add.commute diff_add_cancel)
    moreover have "map (\<lambda>i. lc + 1 + of_nat i) [1 ..< Suc (length ready1)] =
        map (\<lambda>i. lc + of_nat i) [2 ..< Suc (Suc (length ready1))]"
    proof -
      have "[2 ..< Suc (Suc (length ready1))] = map Suc [1 ..< Suc (length ready1)]"
        by (simp add: map_Suc_upt numeral_2_eq_2)
      then show ?thesis by (simp add: comp_def add.assoc del: upt_Suc)
    qed
    ultimately show ?thesis using ih r(2)
      by (auto simp: upt_conv_Cons [of "Suc 0"] numeral_2_eq_2 simp del: upt_Suc)
  next
    case False
    then show ?thesis using 2(2,3) by (cases "lc < PktID p") fastforce+
  qed
qed simp


lemma NextIncomingSequence_ids:
  assumes "NextIncomingSequence r = (ready, r')"
  shows "map PktID ready = map (\<lambda>i. RrLastConsumed r + of_nat i) [1 ..< Suc (length ready)]"
    and "RrLastConsumed r' = RrLastConsumed r + of_nat (length ready)"
    and "set ready \<union> set (RrIncoming r') \<subseteq> set (RrIncoming r)"
    and "length (RrIncoming r') \<le> length (RrIncoming r)"
  using assms nextSequence_ids [of "RrLastConsumed r" "insertion_sort packetLess (RrIncoming r)"]
  by (auto simp: NextIncomingSequence_def split: prod.splits)

text \<open>What a packet must be to get into the receiver's buffer.\<close>

definition deliverable :: "session_manager \<Rightarrow> packet \<Rightarrow> bool" where
  "deliverable ses p \<longleftrightarrow> incomingSanityChecks p ses \<and> PktOpcode p = P_CONTROL_V1"

lemma receiverStep_cases:
  obtains (ignored) seen where "\<not> deliverable ses p" "receiverStep ses p r = (\<lparr>OutSeen = seen, OutDropped = False, OutDelivered = []\<rparr>, r)"
  | (dropped) "deliverable ses p" "RELIABLE_RECV_BUFFER_SIZE \<le> length (RrIncoming r)"
    "receiverStep ses p r = (\<lparr>OutSeen = Some (newIncomingPacketSeen p), OutDropped = True, OutDelivered = []\<rparr>, r)"
  | (inserted) ready r' where "deliverable ses p" "length (RrIncoming r) < RELIABLE_RECV_BUFFER_SIZE"
    "NextIncomingSequence (r\<lparr>RrIncoming := RrIncoming r @ [p]\<rparr>) = (ready, r')"
    "receiverStep ses p r = (\<lparr>OutSeen = Some (newIncomingPacketSeen p), OutDropped = False, OutDelivered = ready\<rparr>, r')"
proof (cases "deliverable ses p")
  case False
  then have "receiverStep ses p r =
      (\<lparr>OutSeen = (if incomingSanityChecks p ses then Some (newIncomingPacketSeen p) else None), OutDropped = False,
        OutDelivered = []\<rparr>, r)"
    by (auto simp: receiverStep_def deliverable_def)
  with False show ?thesis by (rule that(1))
next
  case True
  obtain ready r' where n: "NextIncomingSequence (r\<lparr>RrIncoming := RrIncoming r @ [p]\<rparr>) = (ready, r')" by fastforce
  show ?thesis
  proof (cases "RELIABLE_RECV_BUFFER_SIZE \<le> length (RrIncoming r)")
    case full: True
    with True show ?thesis using that(2) by (simp add: receiverStep_def deliverable_def MaybeInsertIncoming_def)
  next
    case room: False
    with True n show ?thesis using that(3) by (simp add: receiverStep_def deliverable_def MaybeInsertIncoming_def)
  qed
qed

lemma delivered_Nil [simp]: "received_packets ses [] r = []"
  by (simp add: received_packets_def)

lemma delivered_Cons:
  "received_packets ses (p # ps) r = OutDelivered (fst (receiverStep ses p r)) @ received_packets ses ps (snd (receiverStep ses p r))"
  by (simp add: received_packets_def split: prod.split)

lemma counted_append:
  assumes "map f xs = map (\<lambda>i. a + of_nat i) [1 ..< Suc (length xs)]"
    and "map f ys = map (\<lambda>i. a + of_nat (length xs) + of_nat i) [1 ..< Suc (length ys)]"
  shows "map f (xs @ ys) = map (\<lambda>i. (a :: packet_id) + of_nat i) [1 ..< Suc (length (xs @ ys))]"
proof -
  have "[Suc (length xs) ..< Suc (length (xs @ ys))] = map ((+) (length xs)) [1 ..< Suc (length ys)]"
    by (rule nth_equalityI) (simp_all del: upt_Suc)
  moreover have "[1 ..< Suc (length (xs @ ys))] = [1 ..< Suc (length xs)] @ [Suc (length xs) ..< Suc (length (xs @ ys))]"
    by (metis add_Suc length_append le_add1 upt_add_eq_append plus_1_eq_Suc)
  ultimately show ?thesis using assms by (simp add: comp_def add.assoc del: upt_Suc)
qed

lemma delivered_counted:
  "map PktID (received_packets ses arrivals r) =
     map (\<lambda>i. RrLastConsumed r + of_nat i) [1 ..< Suc (length (received_packets ses arrivals r))] \<and>
   set (received_packets ses arrivals r) \<subseteq> set (RrIncoming r) \<union> {p \<in> set arrivals. deliverable ses p}"
proof (induction arrivals arbitrary: r)
  case (Cons p arrivals)
  show ?case
  proof (cases ses p r rule: receiverStep_cases)
    case (inserted ready r')
    note n = NextIncomingSequence_ids [OF inserted(3)]
    have d: "received_packets ses (p # arrivals) r = ready @ received_packets ses arrivals r'"
      using inserted(4) by (simp add: delivered_Cons)
    have "map PktID (ready @ received_packets ses arrivals r') =
        map (\<lambda>i. RrLastConsumed r + of_nat i) [1 ..< Suc (length (ready @ received_packets ses arrivals r'))]"
      by (rule counted_append) (use n(1,2) Cons.IH [of r'] in \<open>simp_all del: upt_Suc\<close>)
    moreover have "set (ready @ received_packets ses arrivals r') \<subseteq> set (RrIncoming r) \<union> {q \<in> set (p # arrivals). deliverable ses q}"
      using n(3) Cons.IH [of r'] inserted(1) by auto
    ultimately show ?thesis unfolding d by blast
  qed (use Cons.IH [of r] in \<open>auto simp: delivered_Cons\<close>)
qed simp


section \<open>Nothing is held back\<close>

lemma nextSequence_complete:
  assumes "nextSequence lc ps = (ready, keep, lc')" and "sorted_wrt (\<lambda>p q. PktID p \<le> PktID q) ps"
    and "\<forall>p \<in> set ps. PktID p \<noteq> 0xFFFFFFFF" and "lc \<noteq> 0xFFFFFFFF"
  shows "lc' \<noteq> 0xFFFFFFFF \<and> unat lc' = unat lc + length ready \<and>
    (\<forall>p \<in> set keep. unat lc' + 1 < unat (PktID p)) \<and> (\<forall>p \<in> set ps. unat (PktID p) \<le> unat lc' \<or> p \<in> set keep) \<and>
    (\<forall>i. unat lc < i \<and> i \<le> unat lc' \<longrightarrow> i \<in> (\<lambda>p. unat (PktID p)) ` set ps)"
  using assms
proof (induction lc ps arbitrary: ready rule: nextSequence.induct)
  case (2 lc p ps)
  have next_id: "PktID p - lc = 1 \<longleftrightarrow> PktID p = lc + 1" by (metis add.commute add_diff_cancel_left' diff_add_cancel)
  have Suc: "unat (lc + 1) = Suc (unat lc)" using counter_below [OF 2(6)] .
  consider (follows) "PktID p - lc = 1" | (gap) "PktID p - lc \<noteq> 1" "lc < PktID p" | (stale) "PktID p - lc \<noteq> 1" "\<not> lc < PktID p"
    by blast
  then show ?case
  proof cases
    case follows
    then obtain ready1 where r: "nextSequence (lc + 1) ps = (ready1, keep, lc')" "ready = p # ready1"
      using 2(3) by (auto split: prod.splits)
    have id: "PktID p = lc + 1" using follows next_id by blast
    have "sorted_wrt (\<lambda>p q. PktID p \<le> PktID q) ps" "\<forall>p \<in> set ps. PktID p \<noteq> 0xFFFFFFFF" "lc + 1 \<noteq> 0xFFFFFFFF"
      using 2(4,5) id by auto
    note ih = 2(1) [OF follows r(1) this]
    have "i \<in> (\<lambda>p. unat (PktID p)) ` set (p # ps)" if "unat lc < i" "i \<le> unat lc'" for i
      using that ih id Suc by (cases "i = Suc (unat lc)") (auto simp: image_iff)
    with ih r(2) id Suc show ?thesis by auto
  next
    case gap
    then have "PktID p \<noteq> lc + 1" using next_id by blast
    then have "unat lc + 1 < unat (PktID p)" using gap(2) Suc by (metis Suc_eq_plus1 Suc_lessI word_less_nat_alt word_unat_eq_iff)
    moreover have "\<forall>q \<in> set ps. unat (PktID p) \<le> unat (PktID q)" using 2(4) by (auto simp: word_le_nat_alt)
    ultimately show ?thesis using gap 2(3,6) by (auto dest: less_le_trans)
  next
    case stale
    then have "nextSequence lc ps = (ready, keep, lc')" using 2(3) by simp
    note ih = 2(2) [OF stale this]
    with stale(2) 2(4-6) show ?thesis by (auto simp: word_less_nat_alt)
  qed
qed simp


interpretation packet_order: strict_weak_order packetLess
  by unfold_locales (auto simp: packetLess_def)

text \<open>The receiver after it has accepted packets with the identifiers \<open>A\<close>: everything up to the last
  consumed one has been accepted, and the buffer holds what is beyond the first gap.\<close>

definition receiver_inv :: "nat set \<Rightarrow> reliable_receiver \<Rightarrow> bool" where
  "receiver_inv A r \<longleftrightarrow>
     (let n = unat (RrLastConsumed r); held = (\<lambda>p. unat (PktID p)) ` set (RrIncoming r)
      in RrLastConsumed r \<noteq> 0xFFFFFFFF \<and> {1..n} \<subseteq> A \<and> held \<subseteq> A \<and> A \<subseteq> {..n} \<union> held \<and> (\<forall>i \<in> held. n + 1 < i) \<and>
         (\<forall>p \<in> set (RrIncoming r). PktID p \<noteq> 0xFFFFFFFF))"

lemma receiver_inv_new: "receiver_inv {} newReliableReceiver"
  by (simp add: receiver_inv_def newReliableReceiver_def)

lemma receiver_inv_insert:
  assumes inv: "receiver_inv A r" and id: "PktID p \<noteq> 0xFFFFFFFF"
    and n: "NextIncomingSequence (r\<lparr>RrIncoming := RrIncoming r @ [p]\<rparr>) = (ready, r')"
  shows "receiver_inv (insert (unat (PktID p)) A) r' \<and>
    unat (RrLastConsumed r') = unat (RrLastConsumed r) + length ready"
proof -
  let ?ps = "insertion_sort packetLess (RrIncoming r @ [p])"
  let ?ids = "\<lambda>ps. (\<lambda>p. unat (PktID p)) ` set ps"
  obtain keep lc where s: "nextSequence (RrLastConsumed r) ?ps = (ready, keep, lc)" "r' = \<lparr>RrIncoming = keep, RrLastConsumed = lc\<rparr>"
    using n by (auto simp: NextIncomingSequence_def split: prod.splits)
  have sorted: "sorted_wrt (\<lambda>p q. PktID p \<le> PktID q) ?ps"
    using packet_order.sorted_insertion_sort by (simp add: packetLess_def not_less)
  have bounded: "\<forall>p \<in> set ?ps. PktID p \<noteq> 0xFFFFFFFF" "RrLastConsumed r \<noteq> 0xFFFFFFFF"
    using inv id by (auto simp: receiver_inv_def Let_def)
  have c: "lc \<noteq> 0xFFFFFFFF" "unat lc = unat (RrLastConsumed r) + length ready" "\<forall>p \<in> set keep. unat lc + 1 < unat (PktID p)"
    "\<forall>p \<in> set ?ps. unat (PktID p) \<le> unat lc \<or> p \<in> set keep"
    "\<And>i. unat (RrLastConsumed r) < i \<Longrightarrow> i \<le> unat lc \<Longrightarrow> i \<in> ?ids ?ps"
    using nextSequence_complete [OF s(1) sorted bounded] by blast+
  have kept: "set keep \<subseteq> set (RrIncoming r @ [p])" using nextSequence_ids [OF s(1)] by auto
  have old: "{1..unat (RrLastConsumed r)} \<subseteq> A" "?ids (RrIncoming r) \<subseteq> A" "A \<subseteq> {..unat (RrLastConsumed r)} \<union> ?ids (RrIncoming r)"
    using inv by (auto simp: receiver_inv_def Let_def)
  have "{1..unat lc} \<subseteq> insert (unat (PktID p)) A"
  proof
    fix i assume i: "i \<in> {1..unat lc}"
    show "i \<in> insert (unat (PktID p)) A"
    proof (cases "i \<le> unat (RrLastConsumed r)")
      case False
      then have "i \<in> ?ids ?ps" using c(5) [of i] i by simp
      then show ?thesis using old(2) by auto
    qed (use i old(1) in auto)
  qed
  moreover have "insert (unat (PktID p)) A \<subseteq> {..unat lc} \<union> ?ids keep"
  proof
    fix i assume "i \<in> insert (unat (PktID p)) A"
    then consider "i \<le> unat (RrLastConsumed r)" | "i \<in> ?ids ?ps" using old(3) by auto
    then show "i \<in> {..unat lc} \<union> ?ids keep" using c(2,4) by cases auto
  qed
  moreover have "?ids keep \<subseteq> insert (unat (PktID p)) A" using kept old(2) by auto
  moreover have "\<forall>p \<in> set keep. PktID p \<noteq> 0xFFFFFFFF" using kept bounded(1) by auto
  ultimately show ?thesis using c(1-3) unfolding s(2) by (simp add: receiver_inv_def)
qed

lemma receiverRun_inv:
  assumes "receiver_inv A r" and "list_all (\<lambda>p. PktID p \<noteq> 0xFFFFFFFF) arrivals"
    and "list_all (\<lambda>out. \<not> OutDropped out) (fst (receiverRun ses arrivals r))"
  shows "\<exists>n. unat (RrLastConsumed r) + length (received_packets ses arrivals r) = n \<and>
    {1..n} \<subseteq> A \<union> (\<lambda>p. unat (PktID p)) ` {p \<in> set arrivals. deliverable ses p} \<and>
    Suc n \<notin> A \<union> (\<lambda>p. unat (PktID p)) ` {p \<in> set arrivals. deliverable ses p}"
  using assms
proof (induction arrivals arbitrary: A r)
  case Nil
  then show ?case by (auto simp: receiver_inv_def Let_def) fastforce
next
  case (Cons p arrivals)
  let ?ids = "\<lambda>ps. (\<lambda>p. unat (PktID p)) ` {p \<in> set ps. deliverable ses p}"
  show ?case
  proof (cases ses p r rule: receiverStep_cases)
    case (ignored seen)
    have "received_packets ses (p # arrivals) r = received_packets ses arrivals r" "?ids (p # arrivals) = ?ids arrivals"
      using ignored by (auto simp: delivered_Cons)
    with Cons.IH [OF Cons.prems(1)] Cons.prems(2,3) ignored(2) show ?thesis by (simp split: prod.splits)
  next
    case dropped
    with Cons.prems(3) show ?thesis by (simp split: prod.splits)
  next
    case (inserted ready r')
    have "PktID p \<noteq> 0xFFFFFFFF" using Cons.prems(2) by simp
    note step = receiver_inv_insert [OF Cons.prems(1) this inserted(3)]
    have "received_packets ses (p # arrivals) r = ready @ received_packets ses arrivals r'"
      "A \<union> ?ids (p # arrivals) = insert (unat (PktID p)) A \<union> ?ids arrivals"
      using inserted(1,4) by (auto simp: delivered_Cons)
    with Cons.IH [of "insert (unat (PktID p)) A" r'] step Cons.prems(2,3) inserted(4) show ?thesis
      by (simp add: add.assoc split: prod.splits)
  qed
qed


section \<open>Properties of the receiver\<close>

text \<open>Delivery in order, exactly once. Whatever packets arrive, in whatever order and however often,
  the control packets that the receiver delivers have the identifiers 1, 2, 3 and so on, and each of them
  is one that arrived from the peer of the session.\<close>

theorem receiver_delivers_in_order:
  "map PktID (received_packets ses arrivals newReliableReceiver) =
     map of_nat [1 ..< Suc (length (received_packets ses arrivals newReliableReceiver))] \<and>
   set (received_packets ses arrivals newReliableReceiver) \<subseteq> {p \<in> set arrivals. deliverable ses p}"
  using delivered_counted [of ses arrivals newReliableReceiver]
  by (simp add: newReliableReceiver_def del: upt_Suc)


definition peer_session :: session_manager where
  "peer_session = (case newSessionManager zero_random of Inr m \<Rightarrow> m\<lparr>SesRemoteSessionID := Some [1, 2, 3, 4, 5, 6, 7, 8]\<rparr>
     | Inl _ \<Rightarrow> undefined)"

definition control_with :: "packet_id \<Rightarrow> bytes \<Rightarrow> packet" where
  "control_with i payload = (NewPacket P_CONTROL_V1 0 payload)\<lparr>PktLocalSessionID := [1, 2, 3, 4, 5, 6, 7, 8], PktID := i\<rparr>"



lemma full_receiver_blocked:
  "RELIABLE_RECV_BUFFER_SIZE \<le> length (RrIncoming r) \<Longrightarrow> received_packets ses arrivals r = [] \<and> snd (receiverRun ses arrivals r) = r"
proof (induction arrivals)
  case (Cons p arrivals)
  show ?case
  proof (cases ses p r rule: receiverStep_cases)
    case (inserted ready r')
    with Cons.prems show ?thesis by simp
  qed (use Cons in \<open>auto simp: delivered_Cons split: prod.splits\<close>)
qed simp

text \<open>Duplicates can block the control channel for good. The buffer also takes copies of packets it
  holds already. Twelve copies of the second packet fill it; the first packet is then acknowledged to
  the peer but dropped, and whatever arrives later, nothing is ever delivered.\<close>

theorem duplicates_block_receiver:
  "let blocked = snd (receiverRun peer_session (replicate 12 (control_with 2 [20])) newReliableReceiver)
   in OutSeen (fst (receiverStep peer_session (control_with 1 [10]) blocked)) = Some \<lparr>SeenID = Some 1, SeenACKs = Some []\<rparr> \<and>
      received_packets peer_session arrivals blocked = []"
proof -
  let ?blocked = "snd (receiverRun peer_session (replicate 12 (control_with 2 [20])) newReliableReceiver)"
  have "RELIABLE_RECV_BUFFER_SIZE \<le> length (RrIncoming ?blocked)" by code_simp
  moreover have "OutSeen (fst (receiverStep peer_session (control_with 1 [10]) ?blocked)) =
      Some \<lparr>SeenID = Some 1, SeenACKs = Some []\<rparr>" by code_simp
  ultimately show ?thesis using full_receiver_blocked by (simp only: Let_def)
qed

section \<open>Sender\<close>

text \<open>A moment is the number of nanoseconds since 1970; the zero value of \<open>time.Time\<close> is the beginning of
  the year 1.\<close>

definition zeroTime :: time where
  "zeroTime = - 62135596800 * second"

record in_flight =
  IfDeadline :: time
  IfHigherACKs :: int
  IfPacket :: packet
  IfRetries :: nat

definition newInFlightPacket :: "packet \<Rightarrow> in_flight" where
  "newInFlightPacket p = \<lparr>IfDeadline = zeroTime, IfHigherACKs = 0, IfPacket = p, IfRetries = 0\<rparr>"

definition ACKForHigherPacket :: "in_flight \<Rightarrow> in_flight" where
  "ACKForHigherPacket p = p\<lparr>IfHigherACKs := IfHigherACKs p + 1\<rparr>"

text \<open>The shift and the product are 64 bits wide.\<close>

definition backoff :: "nat \<Rightarrow> duration" where
  "backoff retries =
     (let b = wrap64 (wrap64 (2 ^ retries) * second); maxBackoff = MAX_BACKOFF_SECONDS * second
      in if maxBackoff < b then maxBackoff else b)"

definition ScheduleForRetransmission :: "time \<Rightarrow> in_flight \<Rightarrow> in_flight" where
  "ScheduleForRetransmission t p =
     p\<lparr>IfRetries := IfRetries p + 1, IfDeadline := t + backoff (IfRetries p + 1)\<rparr>"

definition nearestDeadlineTo :: "in_flight list \<Rightarrow> time \<Rightarrow> time" where
  "nearestDeadlineTo sq t =
     (let timeout = fold (\<lambda>p timeout. if IfDeadline p < timeout then IfDeadline p else timeout) sq
                      (t + SENDER_TICKER_MS * millisecond)
      in if timeout < t then t + nanosecond else timeout)"

definition isReady :: "time \<Rightarrow> in_flight \<Rightarrow> bool" where
  "isReady t p \<longleftrightarrow> 3 \<le> IfHigherACKs p \<or> IfDeadline p < t"

definition readyToSend :: "in_flight list \<Rightarrow> time \<Rightarrow> in_flight list" where
  "readyToSend sq t = filter (isReady t) sq"

definition inFlightLess :: "in_flight \<Rightarrow> in_flight \<Rightarrow> bool" where
  "inFlightLess p q \<longleftrightarrow> PktID (IfPacket p) < PktID (IfPacket q)"

text \<open>The set of identifiers that are still to be acknowledged.\<close>

type_synonym ack_set = "packet_id set"

definition maybeAdd :: "packet_id option \<Rightarrow> ack_set \<Rightarrow> ack_set" where
  "maybeAdd i s = (if ACK_SET_CAPACITY \<le> card s then s else case i of None \<Rightarrow> s | Some x \<Rightarrow> insert x s)"

definition nextToACK :: "ack_set \<Rightarrow> packet_id list \<times> ack_set" where
  "nextToACK s = (let next = take MAX_ACKS_PER_OUTGOING_PACKET (sorted_list_of_set s) in (next, s - set next))"

record reliable_sender =
  RsInFlight :: "in_flight list"
  RsPendingACKs :: ack_set

definition newReliableSender :: reliable_sender where
  "newReliableSender = \<lparr>RsInFlight = [], RsPendingACKs = {}\<rparr>"

definition TryInsertOutgoingPacket :: "packet \<Rightarrow> reliable_sender \<Rightarrow> bool \<times> reliable_sender" where
  "TryInsertOutgoingPacket p r =
     (if RELIABLE_SEND_BUFFER_SIZE \<le> length (RsInFlight r) then (False, r)
      else (True, r\<lparr>RsInFlight := RsInFlight r @ [newInFlightPacket p]\<rparr>))"

text \<open>The loop over the packets in flight works on the array: an acknowledged packet is exchanged with the
  last one and the slice gets shorter (\<open>len\<close>), while the loop goes on over the whole array.\<close>

fun evictLoop :: "packet_id \<Rightarrow> nat list \<Rightarrow> in_flight list \<Rightarrow> nat \<Rightarrow> in_flight list" where
  "evictLoop acked [] pkts len = take len pkts"
| "evictLoop acked (i # is) pkts len =
     (let p = pkts ! i
      in if PktID (IfPacket p) < acked then evictLoop acked is (pkts[i := ACKForHigherPacket p]) len
         else if acked = PktID (IfPacket p) then
           evictLoop acked is (pkts[i := pkts ! (length pkts - 1), length pkts - 1 := p]) (length pkts - 1)
         else evictLoop acked is pkts len)"

definition maybeEvictOrMarkWithHigherACK :: "packet_id \<Rightarrow> reliable_sender \<Rightarrow> reliable_sender" where
  "maybeEvictOrMarkWithHigherACK acked r =
     (let pkts = RsInFlight r
      in r\<lparr>RsInFlight := insertion_sort inFlightLess (evictLoop acked [0 ..< length pkts] pkts (length pkts))\<rparr>)"

definition OnIncomingPacketSeen :: "incoming_seen \<Rightarrow> reliable_sender \<Rightarrow> reliable_sender" where
  "OnIncomingPacketSeen seen r =
     (let r1 = r\<lparr>RsPendingACKs := maybeAdd (SeenID seen) (RsPendingACKs r)\<rparr>
      in case SeenACKs seen of None \<Rightarrow> r1 | Some acks \<Rightarrow> fold maybeEvictOrMarkWithHigherACK acks r1)"

definition gracePeriodForOutgoingACKs :: duration where
  "gracePeriodForOutgoingACKs = 20 * millisecond"

definition shouldWakeupAfterACK :: "time \<Rightarrow> reliable_sender \<Rightarrow> bool \<times> duration" where
  "shouldWakeupAfterACK t r =
     (if card (RsPendingACKs r) = 0 then (False, 60 * second)
      else if 2 \<le> card (RsPendingACKs r) then (True, nanosecond)
      else
        let timeout = nearestDeadlineTo (RsInFlight r) t
        in if gracePeriodForOutgoingACKs < timeout - t then (True, gracePeriodForOutgoingACKs) else (True, timeout - t))"


text \<open>Sending what is due, with the acknowledgments that are pending, up to four to a packet.\<close>

fun flushReady :: "time \<Rightarrow> in_flight list \<Rightarrow> ack_set \<Rightarrow> in_flight list \<times> ack_set \<times> packet list" where
  "flushReady now [] acks = ([], acks, [])"
| "flushReady now (p # ps) acks =
     (if isReady now p then
        let (ids, acks1) = nextToACK acks;
            q = (ScheduleForRetransmission now p)\<lparr>IfPacket := (IfPacket p)\<lparr>PktACKs := ids\<rparr>\<rparr>;
            (qs, acks2, out) = flushReady now ps acks1
        in (q # qs, acks2, IfPacket q # out)
      else let (qs, acks2, out) = flushReady now ps acks in (p # qs, acks2, out))"

text \<open>One wake-up of the sender: the new period of the ticker, the packets that go down, and the sender.\<close>

definition blockOnTryingToSend :: "session_manager \<Rightarrow> time \<Rightarrow> reliable_sender \<Rightarrow> duration \<times> packet list \<times> reliable_sender" where
  "blockOnTryingToSend ses now r =
     (let period = nearestDeadlineTo (RsInFlight r) now - now
      in if readyToSend (RsInFlight r) now \<noteq> [] then
           (case flushReady now (RsInFlight r) (RsPendingACKs r) of
              (qs, acks, out) \<Rightarrow> (period, out, \<lparr>RsInFlight = qs, RsPendingACKs = acks\<rparr>))
         else if card (RsPendingACKs r) = 0 then (period, [], r)
         else
           let (ids, acks) = nextToACK (RsPendingACKs r); r1 = r\<lparr>RsPendingACKs := acks\<rparr>
           in case NewACKForPacketIDs ids ses of
                Inl err \<Rightarrow> (period, [], r1)
              | Inr ack \<Rightarrow> (period, [ack], r1))"

text \<open>The events of the worker that moves packets down. The first component of an answer is the new
  period of the ticker, if the event sets it.\<close>

datatype sender_event = Outgoing packet | Seen incoming_seen time | Tick session_manager time

fun senderStep :: "sender_event \<Rightarrow> reliable_sender \<Rightarrow> duration option \<times> packet list \<times> reliable_sender" where
  "senderStep (Outgoing p) r =
     (case TryInsertOutgoingPacket p r of (inserted, r1) \<Rightarrow> (if inserted then Some nanosecond else None, [], r1))"
| "senderStep (Seen seen now) r =
     (let r1 = OnIncomingPacketSeen seen r; (wakeup, period) = shouldWakeupAfterACK now r1
      in (if wakeup then Some period else None, [], r1))"
| "senderStep (Tick ses now) r =
     (case blockOnTryingToSend ses now r of (period, out, r1) \<Rightarrow> (Some period, out, r1))"

fun senderRun :: "sender_event list \<Rightarrow> reliable_sender \<Rightarrow> packet list \<times> reliable_sender" where
  "senderRun [] r = ([], r)"
| "senderRun (e # es) r =
     (case senderStep e r of (_, out, r1) \<Rightarrow> (case senderRun es r1 of (outs, r2) \<Rightarrow> (out @ outs, r2)))"

section \<open>What the sender sends\<close>

text \<open>The part of a packet that does not change from one transmission to the next.\<close>

definition core :: "packet \<Rightarrow> opcode \<times> packet_id \<times> bytes" where
  "core p = (PktOpcode p, PktID p, PktPayload p)"

lemma core_acks [simp]: "core (p\<lparr>PktACKs := ids\<rparr>) = core p"
  by (simp add: core_def)

lemma evictLoop_subset:
  "list_all (\<lambda>i. i < length pkts) is \<Longrightarrow> IfPacket ` set (evictLoop acked is pkts len) \<subseteq> IfPacket ` set pkts"
proof (induction acked "is" pkts len rule: evictLoop.induct)
  case (1 acked pkts len)
  then show ?case using set_take_subset by fastforce
next
  case step: (2 acked i js pkts len)
  let ?p = "pkts ! i" and ?l = "length pkts - 1"
  have i: "i < length pkts" using step(4) by simp
  then have l: "?l < length pkts" by simp
  have mark: "IfPacket ` set (pkts[i := ACKForHigherPacket ?p]) \<subseteq> IfPacket ` set pkts"
  proof -
    have "set (pkts[i := ACKForHigherPacket ?p]) \<subseteq> insert (ACKForHigherPacket ?p) (set pkts)" by (rule set_update_subset_insert)
    moreover have "IfPacket (ACKForHigherPacket ?p) \<in> IfPacket ` set pkts" using i by (simp add: ACKForHigherPacket_def)
    ultimately show ?thesis by auto
  qed
  have swap: "set (pkts[i := pkts ! ?l, ?l := ?p]) = set pkts" using i l by (simp add: set_swap)
  consider "PktID (IfPacket ?p) < acked" | "\<not> PktID (IfPacket ?p) < acked" "acked = PktID (IfPacket ?p)"
    | "\<not> PktID (IfPacket ?p) < acked" "acked \<noteq> PktID (IfPacket ?p)" by blast
  then show ?case
  proof cases
    case 1
    with step(1) [OF refl 1] step(4) have "IfPacket ` set (evictLoop acked js (pkts[i := ACKForHigherPacket ?p]) len) \<subseteq>
        IfPacket ` set (pkts[i := ACKForHigherPacket ?p])" by simp
    with mark 1 show ?thesis by (simp add: Let_def)
  next
    case 2
    with step(2) [OF refl 2] step(4) have "IfPacket ` set (evictLoop acked js (pkts[i := pkts ! ?l, ?l := ?p]) ?l) \<subseteq>
        IfPacket ` set (pkts[i := pkts ! ?l, ?l := ?p])" by simp
    with swap 2 show ?thesis by (simp add: Let_def)
  next
    case 3
    with step(3) [OF refl 3] step(4) show ?thesis by (simp add: Let_def)
  qed
qed

lemma evict_subset: "IfPacket ` set (RsInFlight (maybeEvictOrMarkWithHigherACK acked r)) \<subseteq> IfPacket ` set (RsInFlight r)"
  using evictLoop_subset [of "RsInFlight r" "[0 ..< length (RsInFlight r)]"]
  by (simp add: maybeEvictOrMarkWithHigherACK_def Let_def list_all_iff)

lemma fold_evict_subset: "IfPacket ` set (RsInFlight (fold maybeEvictOrMarkWithHigherACK acks r)) \<subseteq> IfPacket ` set (RsInFlight r)"
  by (induction acks arbitrary: r) (use evict_subset in fastforce)+

lemma Seen_subset: "IfPacket ` set (RsInFlight (OnIncomingPacketSeen seen r)) \<subseteq> IfPacket ` set (RsInFlight r)"
  using fold_evict_subset [of _ "r\<lparr>RsPendingACKs := maybeAdd (SeenID seen) (RsPendingACKs r)\<rparr>"]
  by (auto simp: OnIncomingPacketSeen_def Let_def split: option.split)

lemma flushReady_core:
  "flushReady now ps acks = (qs, acks', out) \<Longrightarrow>
   map (core \<circ> IfPacket) qs = map (core \<circ> IfPacket) ps \<and> map core out = map (core \<circ> IfPacket) (filter (isReady now) ps)"
  by (induction now ps acks arbitrary: qs acks' out rule: flushReady.induct)
    (auto simp: Let_def ScheduleForRetransmission_def split: if_splits prod.splits)


text \<open>A transmission of a packet is the packet with some acknowledgments.\<close>

definition transmission :: "packet \<Rightarrow> packet \<Rightarrow> bool" where
  "transmission q p \<longleftrightarrow> (\<exists>ids. length ids \<le> MAX_ACKS_PER_OUTGOING_PACKET \<and> p = q\<lparr>PktACKs := ids\<rparr>)"

lemma transmission_trans: "transmission q p \<Longrightarrow> transmission p p' \<Longrightarrow> transmission q p'"
  by (auto simp: transmission_def)

lemma transmission_core: "transmission q p \<Longrightarrow> core p = core q"
  by (auto simp: transmission_def)

lemma nextToACK_length: "nextToACK s = (ids, s') \<Longrightarrow> length ids \<le> MAX_ACKS_PER_OUTGOING_PACKET"
  by (auto simp: nextToACK_def Let_def)

lemma flushReady_transmission:
  "flushReady now ps acks = (qs, acks', out) \<Longrightarrow> p \<in> IfPacket ` set qs \<union> set out \<Longrightarrow>
   p \<in> IfPacket ` set ps \<or> (\<exists>q \<in> IfPacket ` set ps. transmission q p)"
proof (induction now ps acks arbitrary: qs acks' out rule: flushReady.induct)
  case (2 now x ps acks)
  show ?case
  proof (cases "isReady now x")
    case True
    obtain ids acks1 where n: "nextToACK acks = (ids, acks1)" by fastforce
    obtain qs1 acks2 out1 where f: "flushReady now ps acks1 = (qs1, acks2, out1)" by (metis prod.exhaust)
    have "transmission (IfPacket x) ((IfPacket x)\<lparr>PktACKs := ids\<rparr>)"
      using nextToACK_length [OF n] by (auto simp: transmission_def)
    then show ?thesis
      using 2(1) [OF True n [symmetric] refl refl f] 2(3,4) True n f by (auto simp: Let_def)
  next
    case False
    obtain qs1 acks2 out1 where f: "flushReady now ps acks = (qs1, acks2, out1)" by (metis prod.exhaust)
    then show ?thesis using 2(2) [OF False f] 2(3,4) False by auto
  qed
qed simp

fun outgoing :: "sender_event list \<Rightarrow> packet list" where
  "outgoing [] = []"
| "outgoing (Outgoing p # es) = p # outgoing es"
| "outgoing (_ # es) = outgoing es"

lemma senderStep_transmission:
  assumes "senderStep e r = (period, out, r')" and "p \<in> IfPacket ` set (RsInFlight r') \<union> set out"
  shows "p \<in> IfPacket ` set (RsInFlight r) \<union> set (outgoing [e]) \<or> PktOpcode p = P_ACK_V1 \<or>
    (\<exists>q \<in> IfPacket ` set (RsInFlight r). transmission q p)"
proof (cases e)
  case (Outgoing q)
  then show ?thesis using assms
    by (auto simp: TryInsertOutgoingPacket_def newInFlightPacket_def split: if_splits)
next
  case (Seen seen now)
  then show ?thesis using assms Seen_subset [of seen r] by (auto simp: Let_def split: prod.splits)
next
  case (Tick ses now)
  obtain qs acks outs where f: "flushReady now (RsInFlight r) (RsPendingACKs r) = (qs, acks, outs)" by (metis prod.exhaust)
  show ?thesis
  proof (cases "readyToSend (RsInFlight r) now = []")
    case False
    then have "out = outs" "RsInFlight r' = qs"
      using assms(1) Tick f by (auto simp: blockOnTryingToSend_def Let_def)
    then show ?thesis using flushReady_transmission [OF f] assms(2) by auto
  next
    case True
    then show ?thesis using assms Tick
      by (auto simp: blockOnTryingToSend_def NewACKForPacketIDs_def Let_def split: if_splits prod.splits sum.splits option.splits)
  qed
qed

lemma senderRun_transmission:
  "p \<in> set (fst (senderRun es r)) \<Longrightarrow> PktOpcode p \<noteq> P_ACK_V1 \<Longrightarrow>
   \<exists>q \<in> IfPacket ` set (RsInFlight r) \<union> set (outgoing es). p = q \<or> transmission q p"
proof (induction es arbitrary: r)
  case (Cons e es)
  obtain period out r1 where step: "senderStep e r = (period, out, r1)" by (metis prod.exhaust)
  have out: "set (outgoing (e # es)) = set (outgoing [e]) \<union> set (outgoing es)" by (cases e) auto
  have here: "\<exists>q \<in> IfPacket ` set (RsInFlight r) \<union> set (outgoing [e]). p' = q \<or> transmission q p'"
    if "p' \<in> IfPacket ` set (RsInFlight r1) \<union> set out" "PktOpcode p' \<noteq> P_ACK_V1" for p'
    using senderStep_transmission [OF step that(1)] that(2) by blast
  consider "p \<in> set out" | "p \<in> set (fst (senderRun es r1))"
    using Cons.prems(1) step by (auto split: prod.splits)
  then show ?case
  proof cases
    case 1
    then show ?thesis using here [of p] Cons.prems(2) out by auto
  next
    case 2
    from Cons.IH [OF 2 Cons.prems(2)]
    obtain q where q: "q \<in> IfPacket ` set (RsInFlight r1) \<union> set (outgoing es)" "p = q \<or> transmission q p" by blast
    then have "PktOpcode q = PktOpcode p" using q(2) transmission_core [of q p] by (auto simp: core_def)
    show ?thesis
    proof (cases "q \<in> set (outgoing es)")
      case False
      with q(1) \<open>PktOpcode q = PktOpcode p\<close> Cons.prems(2) obtain q'
        where "q' \<in> IfPacket ` set (RsInFlight r) \<union> set (outgoing [e])" "q = q' \<or> transmission q' q"
        using here [of q] by auto
      moreover from this(2) q(2) have "p = q' \<or> transmission q' p" using transmission_trans by blast
      ultimately show ?thesis using out by blast
    qed (use q(2) out in blast)
  qed
qed simp


section \<open>What an acknowledgment does\<close>

abbreviation flightID :: "in_flight \<Rightarrow> packet_id" where
  "flightID p \<equiv> PktID (IfPacket p)"

interpretation flight_order: strict_weak_order inFlightLess
  by unfold_locales (auto simp: inFlightLess_def)

definition in_order :: "in_flight list \<Rightarrow> bool" where
  "in_order ps \<longleftrightarrow> sorted_wrt inFlightLess ps"

text \<open>The contract of an acknowledgment: the packet leaves, the packets before it are marked.\<close>

definition acknowledge :: "packet_id \<Rightarrow> in_flight list \<Rightarrow> in_flight list" where
  "acknowledge acked ps =
     map (\<lambda>p. if flightID p < acked then ACKForHigherPacket p else p) (filter (\<lambda>p. flightID p \<noteq> acked) ps)"

lemma evictLoop_low:
  "list_all (\<lambda>p. flightID p < acked) lo \<Longrightarrow>
   evictLoop acked ([length pre ..< length pre + length lo] @ js) (pre @ lo @ post) len =
   evictLoop acked js (pre @ map ACKForHigherPacket lo @ post) len"
proof (induction lo arbitrary: pre)
  case (Cons p lo)
  have "[length pre ..< length pre + length (p # lo)] = length pre # [length (pre @ [ACKForHigherPacket p]) ..<
      length (pre @ [ACKForHigherPacket p]) + length lo]"
    by (simp add: upt_conv_Cons del: upt_Suc)
  with Cons.IH [of "pre @ [ACKForHigherPacket p]"] Cons.prems show ?case
    by (simp add: Let_def list_update_append del: upt_Suc)
qed simp

lemma evictLoop_high:
  "\<forall>i \<in> set js. acked < flightID (pkts ! i) \<Longrightarrow> evictLoop acked (js @ ks) pkts len = evictLoop acked ks pkts len"
  by (induction js) (auto simp: Let_def)

lemma evictLoop_missing:
  assumes "list_all (\<lambda>p. flightID p < acked) lo" and "list_all (\<lambda>p. acked < flightID p) hi"
  shows "evictLoop acked [0 ..< length (lo @ hi)] (lo @ hi) (length (lo @ hi)) = map ACKForHigherPacket lo @ hi"
proof -
  have "[0 ..< length (lo @ hi)] = [length ([] :: in_flight list) ..< length ([] :: in_flight list) + length lo] @
      [length lo ..< length (lo @ hi)]"
    by (simp add: upt_add_eq_append [of 0, simplified])
  then have "evictLoop acked [0 ..< length (lo @ hi)] (lo @ hi) (length (lo @ hi)) =
      evictLoop acked [length lo ..< length (lo @ hi)] (map ACKForHigherPacket lo @ hi) (length (lo @ hi))"
    using evictLoop_low [OF assms(1), of "[]" "[length lo ..< length (lo @ hi)]" hi] by simp
  also have "\<dots> = map ACKForHigherPacket lo @ hi"
  proof -
    have "\<forall>i \<in> set [length lo ..< length (lo @ hi)]. acked < flightID ((map ACKForHigherPacket lo @ hi) ! i)"
      using assms(2) by (auto simp: nth_append list_all_length)
    from evictLoop_high [OF this, of "[]"] show ?thesis by simp
  qed
  finally show ?thesis .
qed

lemma evictLoop_present:
  assumes "list_all (\<lambda>p. flightID p < acked) lo" and "list_all (\<lambda>p. acked < flightID p) hi" and "flightID x = acked"
  shows "mset (evictLoop acked [0 ..< length (lo @ x # hi)] (lo @ x # hi) (length (lo @ x # hi))) =
    mset (map ACKForHigherPacket lo @ hi)"
proof -
  let ?lo = "map ACKForHigherPacket lo" and ?n = "length (lo @ x # hi)"
  have "[0 ..< ?n] = [length ([] :: in_flight list) ..< length ([] :: in_flight list) + length lo] @ length lo # [Suc (length lo) ..< ?n]"
    using upt_add_eq_append [of 0 "length lo" "Suc (length hi)"] by (simp add: upt_conv_Cons del: upt_Suc)
  then have loop: "evictLoop acked [0 ..< ?n] (lo @ x # hi) ?n = evictLoop acked (length lo # [Suc (length lo) ..< ?n]) (?lo @ x # hi) ?n"
    using evictLoop_low [OF assms(1), of "[]" "length lo # [Suc (length lo) ..< ?n]" "x # hi"] by simp
  show ?thesis
  proof (cases hi rule: rev_cases)
    case Nil
    then show ?thesis unfolding loop using assms(3) by (simp add: Let_def nth_append list_update_append)
  next
    case (snoc hs y)
    let ?pkts = "?lo @ y # hs @ [x]"
    have n: "?n = length lo + length hs + 2" using snoc by simp
    have swapped: "(?lo @ x # hi)[length lo := (?lo @ x # hi) ! (?n - 1), ?n - 1 := x] = ?pkts"
      using snoc by (simp add: nth_append list_update_append)
    have high: "\<forall>i \<in> set [Suc (length lo) ..< ?n - 1]. acked < flightID (?pkts ! i)"
    proof
      fix i assume "i \<in> set [Suc (length lo) ..< ?n - 1]"
      then have "i = length lo + Suc (i - Suc (length lo))" "i - Suc (length lo) < length hs" using n by auto
      then obtain j where j: "i = length lo + Suc j" "j < length hs" by blast
      then have "?pkts ! i = hs ! j" by (simp add: nth_append)
      then show "acked < flightID (?pkts ! i)" using assms(2) j(2) snoc by (simp add: list_all_iff)
    qed
    have "evictLoop acked (length lo # [Suc (length lo) ..< ?n]) (?lo @ x # hi) ?n =
        evictLoop acked [Suc (length lo) ..< ?n] ?pkts (?n - 1)"
      using assms(3) swapped by (simp add: Let_def nth_append)
    also have "[Suc (length lo) ..< ?n] = [Suc (length lo) ..< ?n - 1] @ [?n - 1]"
      using n by simp
    also have "evictLoop acked ([Suc (length lo) ..< ?n - 1] @ [?n - 1]) ?pkts (?n - 1) = evictLoop acked [?n - 1] ?pkts (?n - 1)"
      by (rule evictLoop_high [OF high])
    also have "\<dots> = ?lo @ y # hs"
      using assms(3) snoc by (simp add: Let_def nth_append list_update_append)
    finally show ?thesis unfolding loop using snoc by simp
  qed
qed


lemma in_order_split:
  assumes "in_order ps"
  obtains (missing) lo hi where "ps = lo @ hi" "list_all (\<lambda>p. flightID p < acked) lo" "list_all (\<lambda>p. acked < flightID p) hi"
  | (present) lo x hi where "ps = lo @ x # hi" "list_all (\<lambda>p. flightID p < acked) lo" "list_all (\<lambda>p. acked < flightID p) hi"
    "flightID x = acked"
proof -
  let ?lo = "takeWhile (\<lambda>p. flightID p < acked) ps" and ?rest = "dropWhile (\<lambda>p. flightID p < acked) ps"
  have ps: "ps = ?lo @ ?rest" by simp
  have lo: "list_all (\<lambda>p. flightID p < acked) ?lo" by (auto simp: list_all_iff dest: set_takeWhileD)
  have rest: "sorted_wrt inFlightLess ?rest" using assms ps by (metis in_order_def sorted_wrt_append)
  show ?thesis
  proof (cases ?rest)
    case Nil
    then have "list_all (\<lambda>p. flightID p < acked) ps" by (simp add: list_all_iff)
    then show ?thesis using missing [of ps "[]"] by simp
  next
    case (Cons x hi)
    have x: "\<not> flightID x < acked" using Cons hd_dropWhile [of "\<lambda>p. flightID p < acked" ps] by simp
    have hi: "list_all (\<lambda>p. flightID x < flightID p) hi" using rest Cons by (simp add: inFlightLess_def list_all_iff)
    show ?thesis
    proof (cases "flightID x = acked")
      case True
      then show ?thesis using present [of ?lo x hi] ps lo hi Cons by simp
    next
      case False
      then have "list_all (\<lambda>p. acked < flightID p) (x # hi)" using x hi by (auto simp: list_all_iff)
      then show ?thesis using missing [of ?lo "x # hi"] ps lo Cons by simp
    qed
  qed
qed

lemma acknowledge_append: "acknowledge acked (xs @ ys) = acknowledge acked xs @ acknowledge acked ys"
  by (simp add: acknowledge_def)

lemma acknowledge_low: "list_all (\<lambda>p. flightID p < acked) lo \<Longrightarrow> acknowledge acked lo = map ACKForHigherPacket lo"
  by (induction lo) (auto simp: acknowledge_def)

lemma acknowledge_high: "list_all (\<lambda>p. acked < flightID p) hi \<Longrightarrow> acknowledge acked hi = hi"
  by (induction hi) (auto simp: acknowledge_def)

lemma flightID_mark [simp]: "flightID (ACKForHigherPacket p) = flightID p" "IfDeadline (ACKForHigherPacket p) = IfDeadline p"
  by (simp_all add: ACKForHigherPacket_def)

lemma acknowledge_in_order: "in_order ps \<Longrightarrow> in_order (acknowledge acked ps)"
  unfolding in_order_def acknowledge_def sorted_wrt_map
  by (rule sorted_wrt_mono_rel [OF _ sorted_wrt_filter]) (auto simp: inFlightLess_def)

lemma insertion_sort_in_order: "mset xs = mset ys \<Longrightarrow> in_order ys \<Longrightarrow> insertion_sort inFlightLess xs = ys"
proof (rule sorted_wrt_mset_unique [where R = "\<lambda>a b. \<not> inFlightLess b a"])
  assume m: "mset xs = mset ys" and o: "in_order ys"
  show "sorted_wrt (\<lambda>a b. \<not> inFlightLess b a) (insertion_sort inFlightLess xs)" by (rule flight_order.sorted_insertion_sort)
  show "sorted_wrt (\<lambda>a b. \<not> inFlightLess b a) ys"
    using o unfolding in_order_def by (rule sorted_wrt_mono_rel [rotated]) (auto simp: inFlightLess_def)
  fix a b assume ab: "a \<in> set (insertion_sort inFlightLess xs)" "b \<in> set (insertion_sort inFlightLess xs)"
    "\<not> inFlightLess b a" "\<not> inFlightLess a b"
  then have "a \<in> set ys" "b \<in> set ys" using mset_eq_setD [OF m] by simp_all
  then obtain i j where "i < length ys" "ys ! i = a" "j < length ys" "ys ! j = b" by (metis in_set_conv_nth)
  then show "a = b" using o ab(3,4) unfolding in_order_def sorted_wrt_iff_nth_less by (metis nat_neq_iff)
qed simp

text \<open>The loop over the array implements the contract.\<close>

lemma maybeEvict_acknowledge:
  assumes "in_order (RsInFlight r)"
  shows "RsInFlight (maybeEvictOrMarkWithHigherACK acked r) = acknowledge acked (RsInFlight r)"
proof -
  let ?ps = "RsInFlight r"
  have "mset (evictLoop acked [0 ..< length ?ps] ?ps (length ?ps)) = mset (acknowledge acked ?ps)"
  proof (cases rule: in_order_split [OF assms, of acked, case_names missing present])
    case (missing lo hi)
    then show ?thesis
      using evictLoop_missing [OF missing(2,3)] by (simp add: acknowledge_append acknowledge_low acknowledge_high)
  next
    case (present lo x hi)
    have "acknowledge acked ?ps = map ACKForHigherPacket lo @ hi"
      using present(2-4) unfolding present(1)
      using acknowledge_append [of acked lo "x # hi"] acknowledge_append [of acked "[x]" hi]
      by (simp add: acknowledge_low acknowledge_high acknowledge_def [of acked "[x]"])
    then show ?thesis using evictLoop_present [OF present(2-4)] unfolding present(1) by simp
  qed
  then show ?thesis
    using insertion_sort_in_order [OF _ acknowledge_in_order [OF assms]]
    by (simp add: maybeEvictOrMarkWithHigherACK_def Let_def)
qed


section \<open>Retransmission\<close>

lemma fold_acknowledge_in_order: "in_order ps \<Longrightarrow> in_order (fold acknowledge acks ps)"
  by (induction acks arbitrary: ps) (simp_all add: acknowledge_in_order)

lemma fold_evict_acknowledge:
  "in_order (RsInFlight r) \<Longrightarrow>
   RsInFlight (fold maybeEvictOrMarkWithHigherACK acks r) = fold acknowledge acks (RsInFlight r)"
  by (induction acks arbitrary: r) (simp_all add: maybeEvict_acknowledge acknowledge_in_order)

lemma flushReady_flight:
  "flushReady now ps acks = (qs, acks', out) \<Longrightarrow> map flightID qs = map flightID ps"
  by (induction now ps acks arbitrary: qs acks' out rule: flushReady.induct)
    (auto simp: Let_def ScheduleForRetransmission_def split: if_splits prod.splits)

lemma in_order_ids: "map flightID qs = map flightID ps \<Longrightarrow> in_order qs = in_order ps"
  unfolding in_order_def inFlightLess_def by (metis sorted_wrt_map)

text \<open>The acknowledgments among the events, and the sender while its packets come in order.\<close>

fun acked_by :: "sender_event \<Rightarrow> packet_id list" where
  "acked_by (Seen seen _) = (case SeenACKs seen of None \<Rightarrow> [] | Some acks \<Rightarrow> acks)"
| "acked_by _ = []"

definition sender_ready :: "sender_event \<Rightarrow> reliable_sender \<Rightarrow> bool" where
  "sender_ready e r \<longleftrightarrow> in_order (RsInFlight r) \<and>
     (case e of Outgoing p \<Rightarrow> list_all (\<lambda>q. flightID q < PktID p) (RsInFlight r) | _ \<Rightarrow> True)"

text \<open>A packet that is in flight stays there, with what it carries, until it is acknowledged.\<close>

lemma in_flight_kept:
  assumes "senderStep e r = (period, out, r')" and "sender_ready e r" and "q \<in> set (RsInFlight r)"
    and "flightID q \<notin> set (acked_by e)"
  shows "in_order (RsInFlight r') \<and> (\<exists>q' \<in> set (RsInFlight r'). core (IfPacket q') = core (IfPacket q))"
proof (cases e)
  case (Outgoing p)
  then show ?thesis using assms
    by (auto simp: TryInsertOutgoingPacket_def newInFlightPacket_def sender_ready_def in_order_def sorted_wrt_append
        inFlightLess_def list_all_iff split: if_splits)
next
  case (Seen seen now)
  have o: "in_order (RsInFlight r)" using assms(2) by (simp add: sender_ready_def)
  define acks where "acks = acked_by e"
  have r': "RsInFlight r' = fold acknowledge acks (RsInFlight r) \<and> in_order (fold acknowledge acks (RsInFlight r))"
    using assms(1) Seen o fold_acknowledge_in_order [OF o, of acks]
      fold_evict_acknowledge [of "r\<lparr>RsPendingACKs := maybeAdd (SeenID seen) (RsPendingACKs r)\<rparr>" acks]
    by (auto simp: acks_def OnIncomingPacketSeen_def Let_def split: prod.splits option.splits)
  have "\<exists>q' \<in> set (fold acknowledge ids ps). core (IfPacket q') = core (IfPacket q)"
    if "q1 \<in> set ps" "core (IfPacket q1) = core (IfPacket q)" "flightID q \<notin> set ids" for ids ps q1
    using that
  proof (induction ids arbitrary: ps q1)
    case (Cons i ids)
    have "flightID q1 \<noteq> i" using Cons.prems(2,3) by (auto simp: core_def)
    then have "(if flightID q1 < i then ACKForHigherPacket q1 else q1) \<in> set (acknowledge i ps)"
      using Cons.prems(1) unfolding acknowledge_def set_map set_filter by blast
    moreover have "core (IfPacket (if flightID q1 < i then ACKForHigherPacket q1 else q1)) = core (IfPacket q)"
      using Cons.prems(2) by (simp add: ACKForHigherPacket_def)
    ultimately show ?case using Cons.IH [of _ "acknowledge i ps"] Cons.prems(3) by simp
  qed auto
  then show ?thesis using r' assms(3,4) by (auto simp: acks_def)
next
  case (Tick ses now)
  obtain qs acks outs where f: "flushReady now (RsInFlight r) (RsPendingACKs r) = (qs, acks, outs)" by (metis prod.exhaust)
  have o: "in_order (RsInFlight r)" using assms(2) by (simp add: sender_ready_def)
  show ?thesis
  proof (cases "readyToSend (RsInFlight r) now = []")
    case False
    then have "RsInFlight r' = qs" using assms(1) Tick f by (auto simp: blockOnTryingToSend_def Let_def)
    moreover have "core (IfPacket q) \<in> set (map (core \<circ> IfPacket) qs)"
      using flushReady_core [OF f] assms(3) by (metis (no_types, lifting) comp_apply image_eqI list.set_map)
    ultimately show ?thesis using in_order_ids [OF flushReady_flight [OF f]] o by auto
  next
    case True
    then have "RsInFlight r' = RsInFlight r" using assms(1) Tick
      by (auto simp: blockOnTryingToSend_def Let_def split: if_splits prod.splits sum.splits)
    then show ?thesis using o assms(3) by auto
  qed
qed


lemma backoff_max: "backoff retries \<le> 60 * second"
  by (simp add: backoff_def MAX_BACKOFF_SECONDS_def Let_def)

text \<open>Every packet in flight is due a minute after \<open>t\<close> at the latest.\<close>

definition due_by :: "time \<Rightarrow> reliable_sender \<Rightarrow> bool" where
  "due_by t r \<longleftrightarrow> (\<forall>q \<in> set (RsInFlight r). IfDeadline q \<le> t + 60 * second)"

fun tick_by :: "time \<Rightarrow> sender_event \<Rightarrow> bool" where
  "tick_by t (Tick _ now) \<longleftrightarrow> now \<le> t"
| "tick_by t _ \<longleftrightarrow> True"

lemma flushReady_deadlines:
  "flushReady now ps acks = (qs, acks', out) \<Longrightarrow> q \<in> set qs \<Longrightarrow>
   IfDeadline q \<le> now + 60 * second \<or> (\<exists>p \<in> set ps. IfDeadline q = IfDeadline p)"
proof (induction now ps acks arbitrary: qs acks' out rule: flushReady.induct)
  case (2 now x ps acks)
  show ?case
  proof (cases "isReady now x")
    case True
    obtain ids acks1 where n: "nextToACK acks = (ids, acks1)" by fastforce
    obtain qs1 acks2 out1 where f: "flushReady now ps acks1 = (qs1, acks2, out1)" by (metis prod.exhaust)
    show ?thesis
      using 2(1) [OF True n [symmetric] refl refl f] 2(3,4) True n f backoff_max
      by (auto simp: Let_def ScheduleForRetransmission_def)
  next
    case False
    obtain qs1 acks2 out1 where f: "flushReady now ps acks = (qs1, acks2, out1)" by (metis prod.exhaust)
    then show ?thesis using 2(2) [OF False f] 2(3,4) False by auto
  qed
qed simp

lemma acknowledge_deadlines: "q \<in> set (fold acknowledge acks ps) \<Longrightarrow> \<exists>p \<in> set ps. IfDeadline q = IfDeadline p"
proof (induction acks arbitrary: ps)
  case (Cons i acks)
  then obtain p where "p \<in> set (acknowledge i ps)" "IfDeadline q = IfDeadline p" by auto
  then show ?case by (auto simp: acknowledge_def)
qed auto

lemma senderStep_due_by:
  assumes "senderStep e r = (period, out, r')" and "sender_ready e r" and "due_by t r" and "tick_by t e" and "0 \<le> t"
  shows "due_by t r'"
proof (cases e)
  case (Outgoing p)
  then show ?thesis using assms
    by (auto simp: TryInsertOutgoingPacket_def newInFlightPacket_def zeroTime_def second_def due_by_def split: if_splits)
next
  case (Seen seen now)
  define acks where "acks = acked_by e"
  have "RsInFlight r' = fold acknowledge acks (RsInFlight r)"
    using assms(1,2) Seen fold_evict_acknowledge [of "r\<lparr>RsPendingACKs := maybeAdd (SeenID seen) (RsPendingACKs r)\<rparr>" acks]
    by (auto simp: acks_def OnIncomingPacketSeen_def sender_ready_def Let_def split: prod.splits option.splits)
  then show ?thesis using assms(3) acknowledge_deadlines by (fastforce simp: due_by_def)
next
  case (Tick ses now)
  obtain qs acks outs where f: "flushReady now (RsInFlight r) (RsPendingACKs r) = (qs, acks, outs)" by (metis prod.exhaust)
  show ?thesis
  proof (cases "readyToSend (RsInFlight r) now = []")
    case False
    then have "RsInFlight r' = qs" using assms(1) Tick f by (auto simp: blockOnTryingToSend_def Let_def)
    then show ?thesis using flushReady_deadlines [OF f] assms(3,4) Tick by (fastforce simp: due_by_def)
  next
    case True
    then have "RsInFlight r' = RsInFlight r" using assms(1) Tick
      by (auto simp: blockOnTryingToSend_def Let_def split: if_splits prod.splits sum.splits)
    then show ?thesis using assms(3) by (simp add: due_by_def)
  qed
qed

text \<open>A run in which the packets come down in the order of their identifiers.\<close>

fun run_ready :: "sender_event list \<Rightarrow> reliable_sender \<Rightarrow> bool" where
  "run_ready [] r \<longleftrightarrow> in_order (RsInFlight r)"
| "run_ready (e # es) r \<longleftrightarrow> sender_ready e r \<and> run_ready es (snd (snd (senderStep e r)))"

lemma senderRun_kept:
  assumes "run_ready es r" and "q \<in> set (RsInFlight r)" and "list_all (\<lambda>e. flightID q \<notin> set (acked_by e)) es"
    and "due_by t r" and "list_all (tick_by t) es" and "0 \<le> t"
  shows "due_by t (snd (senderRun es r)) \<and> (\<exists>q' \<in> set (RsInFlight (snd (senderRun es r))). core (IfPacket q') = core (IfPacket q))"
  using assms
proof (induction es arbitrary: r q)
  case (Cons e es)
  obtain period out r1 where step: "senderStep e r = (period, out, r1)" by (metis prod.exhaust)
  have ready: "sender_ready e r" "run_ready es r1" using Cons.prems(1) step by simp_all
  have acked: "flightID q \<notin> set (acked_by e)" using Cons.prems(3) by simp
  obtain q1 where q1: "q1 \<in> set (RsInFlight r1)" "core (IfPacket q1) = core (IfPacket q)"
    using in_flight_kept [OF step ready(1) Cons.prems(2) acked] by blast
  have "due_by t r1" using senderStep_due_by [OF step ready(1) Cons.prems(4)] Cons.prems(5,6) by simp
  moreover have "list_all (\<lambda>e. flightID q1 \<notin> set (acked_by e)) es" using Cons.prems(3) q1(2) by (simp add: core_def)
  ultimately have "due_by t (snd (senderRun es r1)) \<and>
      (\<exists>q' \<in> set (RsInFlight (snd (senderRun es r1))). core (IfPacket q') = core (IfPacket q1))"
    using Cons.IH [OF ready(2) q1(1)] Cons.prems(5,6) by simp
  moreover have "snd (senderRun (e # es) r) = snd (senderRun es r1)" using step by (simp split: prod.split)
  ultimately show ?case using q1(2) by simp
qed auto

lemma tick_sends_due:
  assumes "q \<in> set (RsInFlight r)" and "isReady now q"
  shows "core (IfPacket q) \<in> core ` set (fst (snd (senderStep (Tick ses now) r)))"
proof -
  obtain qs acks outs where f: "flushReady now (RsInFlight r) (RsPendingACKs r) = (qs, acks, outs)" by (metis prod.exhaust)
  have "readyToSend (RsInFlight r) now \<noteq> []" using assms by (auto simp: readyToSend_def filter_empty_conv)
  then have "fst (snd (senderStep (Tick ses now) r)) = outs" using f by (simp add: blockOnTryingToSend_def)
  moreover have "core (IfPacket q) \<in> set (map core outs)"
    using flushReady_core [OF f] assms by (auto simp: image_iff)
  ultimately show ?thesis by simp
qed


section \<open>Properties of the sender\<close>


definition two_in_flight :: reliable_sender where
  "two_in_flight = snd (senderRun [Outgoing (control_with 1 [10]), Outgoing (control_with 2 [20]), Tick peer_session 0] newReliableSender)"




text \<open>The delay before a packet is sent again doubles from two seconds to a minute. The product that
  computes it is 64 bits wide and overflows at the thirty-fourth transmission: the delay is negative
  then, and the packet is due at once.\<close>

lemma backoff_doubles: "retries \<le> 33 \<Longrightarrow> backoff retries = min (2 ^ retries * second) (60 * second)"
proof -
  assume "retries \<le> 33"
  then have le: "(2 :: int) ^ retries \<le> 2 ^ 33" by (intro power_increasing) auto
  have "int64_range (2 ^ retries)" "int64_range (2 ^ retries * second)"
    using le by (auto simp: int64_range_def second_def intro: order_trans [of _ 0])
  then show ?thesis by (auto simp: backoff_def MAX_BACKOFF_SECONDS_def Let_def)
qed

theorem backoff_overflows: "backoff 34 < 0"
  by code_simp


text \<open>A packet that comes down while six others are in flight is dropped, although it has its identifier
  already: it is never sent, and as the receiver of the peer delivers in order, nothing after it is
  delivered either.\<close>

theorem full_window_loses_packet:
  assumes "RELIABLE_SEND_BUFFER_SIZE \<le> length (RsInFlight r)" and "list_all (\<lambda>q. flightID q \<noteq> PktID p) (RsInFlight r)"
    and "list_all (\<lambda>q. PktID q \<noteq> PktID p) (outgoing es)"
  shows "list_all (\<lambda>q. PktOpcode q = P_ACK_V1 \<or> PktID q \<noteq> PktID p) (fst (senderRun (Outgoing p # es) r))"
proof -
  have "fst (senderRun (Outgoing p # es) r) = fst (senderRun es r)"
    using assms(1) by (simp add: TryInsertOutgoingPacket_def split: prod.split)
  moreover have "PktID q \<noteq> PktID p" if q: "q \<in> set (fst (senderRun es r))" "PktOpcode q \<noteq> P_ACK_V1" for q
  proof -
    obtain q' where "q' \<in> IfPacket ` set (RsInFlight r) \<union> set (outgoing es)" "core q = core q'"
      using senderRun_transmission [OF q] transmission_core by blast
    then show ?thesis using assms(2,3) by (auto simp: core_def list_all_iff)
  qed
  ultimately show ?thesis by (auto simp: list_all_iff)
qed

end
