(* ===== verification/Vpn_Muxer.thy ===== *)
theory Vpn_Muxer
  imports Vpn_Reliable
begin

text \<open>
  The packet muxer and the control channel of the engine
  (src/third_party/minivpn/internal/packetmuxer, internal/controlchannel). The muxer starts the
  handshake with a hard reset, repeats it until the server answers, and routes incoming packets to the
  reliable transport or to the data channel; the control channel turns TLS records into control packets
  and back. The last section composes one direction of the control channel from the TLS records of one
  side to those of the other.
\<close>

section \<open>Muxer\<close>

text \<open>What the muxer hands to its neighbours.\<close>

datatype mux_out = ToNetwork bytes | ToReliable packet | ToData packet | NotifyTLS

text \<open>The ticker of the hard reset is stopped, or due after a period; a stopped ticker does not fire.\<close>

record muxer =
  MuxSession :: session_manager
  MuxHardResets :: nat
  MuxTicker :: "duration option"

definition longWakeup :: duration where
  "longWakeup = 30 * 24 * 3600 * second"

definition newMuxer :: "session_manager \<Rightarrow> muxer" where
  "newMuxer ses = \<lparr>MuxSession = ses, MuxHardResets = 0, MuxTicker = Some longWakeup\<rparr>"

definition setState :: "neg_state \<Rightarrow> muxer \<Rightarrow> muxer" where
  "setState sns m = m\<lparr>MuxSession := fst (SetNegotiationState sns (MuxSession m))\<rparr>"

definition startHardReset :: "muxer \<Rightarrow> (mux_out list \<times> muxer) eng" where
  "startHardReset m =
     (let m1 = setState S_PRE_START (m\<lparr>MuxHardResets := MuxHardResets m + 1\<rparr>)
      in case packetBytes (NewHardResetPacket (MuxSession m1)) of
           Inl err \<Rightarrow> Inl (EngineError err)
         | Inr raw \<Rightarrow> Inr ([ToNetwork raw], m1\<lparr>MuxTicker := Some (2 * second)\<rparr>))"

definition finishThreeWayHandshake :: "packet \<Rightarrow> muxer \<Rightarrow> (mux_out list \<times> muxer) eng" where
  "finishThreeWayHandshake p m =
     (case SetRemoteSessionID (PktLocalSessionID p) (MuxSession m) of
        Inl err \<Rightarrow> Inl err
      | Inr ses \<Rightarrow> Inr ([ToReliable p, NotifyTLS], setState S_START (m\<lparr>MuxSession := ses\<rparr>)))"

text \<open>A packet that cannot be parsed, and one that is malformed, are logged and the worker goes on.\<close>

definition handleRawPacket :: "bytes \<Rightarrow> muxer \<Rightarrow> (mux_out list \<times> muxer) eng" where
  "handleRawPacket raw m =
     (case ParsePacket raw of
        Inl _ \<Rightarrow> Inr ([], m)
      | Inr p \<Rightarrow>
          if SesNegState (MuxSession m) = S_PRE_START \<and> PktOpcode p = P_CONTROL_HARD_RESET_SERVER_V2 then
            finishThreeWayHandshake p (m\<lparr>MuxTicker := None\<rparr>)
          else if IsControl p \<or> PktOpcode p = P_ACK_V1 then Inr ([ToReliable p], m)
          else if SesNegState (MuxSession m) < S_GENERATED_KEYS \<and> \<not> IsData p then Inr ([], m)
          else Inr ([ToData p], m))"

text \<open>What happens to the muxer: bytes from the network, its ticker, the request for a hard reset, and the
  changes of the negotiation's state by the layers above. A packet that comes down is serialised by the
  other worker.\<close>

datatype mux_event = RawPacket bytes | ResetTick | HardReset | StateChange neg_state | MoveDown packet

definition muxStep :: "mux_event \<Rightarrow> muxer \<Rightarrow> (mux_out list \<times> muxer) eng" where
  "muxStep e m =
     (case e of
        RawPacket raw \<Rightarrow> handleRawPacket raw m
      | ResetTick \<Rightarrow> (if MuxTicker m = None then Inr ([], m) else startHardReset m)
      | HardReset \<Rightarrow> startHardReset m
      | StateChange sns \<Rightarrow> Inr ([], setState sns m)
      | MoveDown p \<Rightarrow> (case packetBytes p of Inl _ \<Rightarrow> Inr ([], m) | Inr raw \<Rightarrow> Inr ([ToNetwork raw], m)))"

fun muxRun :: "mux_event list \<Rightarrow> muxer \<Rightarrow> (mux_out list \<times> muxer) eng" where
  "muxRun [] m = Inr ([], m)"
| "muxRun (e # es) m =
     (case muxStep e m of
        Inl err \<Rightarrow> Inl err
      | Inr (out, m1) \<Rightarrow> (case muxRun es m1 of Inl err \<Rightarrow> Inl err | Inr (outs, m2) \<Rightarrow> Inr (out @ outs, m2)))"

section \<open>Handshake\<close>

text \<open>The layers above set these states; none of them is the one in which the muxer waits for the
  server's answer.\<close>

definition upperStates :: "neg_state list" where
  "upperStates = [S_INITIAL, S_SENT_KEY, S_GOT_KEY, S_ACTIVE, S_GENERATED_KEYS]"

text \<open>After the start there is no other request for a hard reset.\<close>

fun mux_environment :: "mux_event \<Rightarrow> bool" where
  "mux_environment HardReset \<longleftrightarrow> False"
| "mux_environment (StateChange sns) \<longleftrightarrow> sns \<in> set upperStates"
| "mux_environment _ \<longleftrightarrow> True"

definition mux_inv :: "muxer \<Rightarrow> bool" where
  "mux_inv m \<longleftrightarrow> (SesRemoteSessionID (MuxSession m) = None \<longleftrightarrow> MuxTicker m \<noteq> None) \<and>
     (SesRemoteSessionID (MuxSession m) \<noteq> None \<longrightarrow> SesNegState (MuxSession m) \<noteq> S_PRE_START)"

lemma hard_reset_bytes:
  "packetBytes (NewHardResetPacket ses) =
     Inr ((push_bit 3 7 OR (SesKeyID ses AND 7)) # SesLocalSessionID ses @ [0] @ PutUint32 0)"
  by (simp add: packetBytes_def NewHardResetPacket_def NewPacket_def headerByte_def opcode_defs)

lemma setState_simps [simp]:
  "SesRemoteSessionID (MuxSession (setState sns m)) = SesRemoteSessionID (MuxSession m)"
  "SesNegState (MuxSession (setState sns m)) = sns" "MuxTicker (setState sns m) = MuxTicker m"
  "SesLocalSessionID (MuxSession (setState sns m)) = SesLocalSessionID (MuxSession m)"
  "SesKeyID (MuxSession (setState sns m)) = SesKeyID (MuxSession m)"
  by (simp_all add: setState_def SetNegotiationState_def)

lemma muxStep_inv:
  assumes "mux_inv m" and "mux_environment e"
  shows "\<exists>out m'. muxStep e m = Inr (out, m') \<and> mux_inv m' \<and>
    (NotifyTLS \<in> set out \<longrightarrow> SesRemoteSessionID (MuxSession m) = None \<and> SesRemoteSessionID (MuxSession m') \<noteq> None \<and>
       length (filter ((=) NotifyTLS) out) = 1) \<and>
    (SesRemoteSessionID (MuxSession m) \<noteq> None \<longrightarrow> SesRemoteSessionID (MuxSession m') = SesRemoteSessionID (MuxSession m))"
proof (cases e)
  case (RawPacket raw)
  show ?thesis
  proof (cases "ParsePacket raw")
    case (Inr p)
    show ?thesis
    proof (cases "SesNegState (MuxSession m) = S_PRE_START \<and> PktOpcode p = P_CONTROL_HARD_RESET_SERVER_V2")
      case True
      then have "SesRemoteSessionID (MuxSession m) = None" using assms(1) by (auto simp: mux_inv_def)
      with True RawPacket Inr show ?thesis
        by (simp add: muxStep_def handleRawPacket_def finishThreeWayHandshake_def SetRemoteSessionID_def Assert_def mux_inv_def
            neg_state_defs)
    next
      case False
      then show ?thesis using RawPacket Inr assms(1) by (auto simp: muxStep_def handleRawPacket_def)
    qed
  qed (use RawPacket assms(1) in \<open>simp add: muxStep_def handleRawPacket_def\<close>)
next
  case (MoveDown p)
  then show ?thesis using assms(1) by (cases "packetBytes p") (simp_all add: muxStep_def)
qed (use assms in \<open>auto simp: muxStep_def startHardReset_def hard_reset_bytes mux_inv_def upperStates_def neg_state_defs\<close>)

lemma muxRun_inv:
  "mux_inv m \<Longrightarrow> list_all mux_environment es \<Longrightarrow>
   \<exists>outs m'. muxRun es m = Inr (outs, m') \<and> mux_inv m' \<and>
     length (filter ((=) NotifyTLS) outs) \<le> (if SesRemoteSessionID (MuxSession m) = None then 1 else 0)"
proof (induction es arbitrary: m)
  case (Cons e es)
  obtain out m1 where step: "muxStep e m = Inr (out, m1)" "mux_inv m1"
    "NotifyTLS \<in> set out \<longrightarrow> SesRemoteSessionID (MuxSession m) = None \<and> SesRemoteSessionID (MuxSession m1) \<noteq> None \<and>
       length (filter ((=) NotifyTLS) out) = 1"
    "SesRemoteSessionID (MuxSession m) \<noteq> None \<longrightarrow> SesRemoteSessionID (MuxSession m1) = SesRemoteSessionID (MuxSession m)"
    using muxStep_inv [OF Cons.prems(1)] Cons.prems(2) by fastforce
  obtain outs m2 where run: "muxRun es m1 = Inr (outs, m2)" "mux_inv m2"
    "length (filter ((=) NotifyTLS) outs) \<le> (if SesRemoteSessionID (MuxSession m1) = None then 1 else 0)"
    using Cons.IH [OF step(2)] Cons.prems(2) by auto
  have "NotifyTLS \<notin> set out \<Longrightarrow> filter ((=) NotifyTLS) out = []" by (auto simp: filter_empty_conv)
  then show ?case using step run by (cases "NotifyTLS \<in> set out") (auto split: if_splits)
qed simp


section \<open>Control channel\<close>

datatype control_out = ToTLS bytes | ResetTLS | ControlIgnored

definition controlMoveUp :: "packet \<Rightarrow> session_manager \<Rightarrow> control_out \<times> session_manager" where
  "controlMoveUp p ses =
     (if PktOpcode p = P_CONTROL_SOFT_RESET_V1 then
        if SesNegState ses < S_GENERATED_KEYS then (ControlIgnored, ses)
        else (ResetTLS, fst (SetNegotiationState S_INITIAL ses))
      else if PktOpcode p = P_CONTROL_V1 then (ToTLS (PktPayload p), ses)
      else (ControlIgnored, ses))"

text \<open>The records that go down become the packets of the session, in order, until the identifiers are
  used up and the worker ends.\<close>

fun controlMoveDown :: "bytes list \<Rightarrow> session_manager \<Rightarrow> packet list \<times> session_manager" where
  "controlMoveDown [] ses = ([], ses)"
| "controlMoveDown (record # records) ses =
     (case sessionNewPacket P_CONTROL_V1 record ses of
        (Inl err, ses1) \<Rightarrow> ([], ses1)
      | (Inr p, ses1) \<Rightarrow> (case controlMoveDown records ses1 of (ps, ses2) \<Rightarrow> (p # ps, ses2)))"

text \<open>The records that TLS gets from the packets that arrive at the reliable transport.\<close>

definition tlsRecords :: "session_manager \<Rightarrow> packet list \<Rightarrow> bytes list" where
  "tlsRecords ses arrivals =
     concat (map (\<lambda>p. case fst (controlMoveUp p ses) of ToTLS b \<Rightarrow> [b] | _ \<Rightarrow> []) (received_packets ses arrivals newReliableReceiver))"

definition toReliable :: "mux_out list \<Rightarrow> packet list" where
  "toReliable outs = concat (map (\<lambda>out. case out of ToReliable p \<Rightarrow> [p] | _ \<Rightarrow> []) outs)"

definition session_sized :: "session_manager \<Rightarrow> bool" where
  "session_sized ses \<longleftrightarrow> length (SesLocalSessionID ses) = 8 \<and> SesKeyID ses < 8 \<and>
     (case SesRemoteSessionID ses of None \<Rightarrow> True | Some remote \<Rightarrow> length remote = 8)"

lemma controlMoveDown_packets:
  assumes "controlMoveDown records ses = (ps, ses')" and "session_sized ses"
  shows "map unat (map PktID ps) = [unat (SesControlPacketID ses) ..< unat (SesControlPacketID ses) + length ps] \<and>
    (\<exists>k. map PktPayload ps = take k records) \<and> list_all (\<lambda>p. PktOpcode p = P_CONTROL_V1 \<and> packet_sized p) ps"
  using assms
proof (induction records ses arbitrary: ps rule: controlMoveDown.induct)
  case (2 r records ses)
  have op: "opcodeIsControl P_CONTROL_V1" by (simp add: opcodeIsControl_def)
  show ?case
  proof (cases "SesControlPacketID ses = 0xFFFFFFFF")
    case True
    then have "ps = []" using 2(2) op by (simp add: sessionNewPacket_def localControlPacketID_def)
    then show ?thesis by (auto intro: exI [of _ 0])
  next
    case False
    define ses1 where "ses1 = ses\<lparr>SesControlPacketID := SesControlPacketID ses + 1\<rparr>"
    obtain p where p: "sessionNewPacket P_CONTROL_V1 r ses = (Inr p, ses1)"
      "PktID p = SesControlPacketID ses" "PktPayload p = r" "PktOpcode p = P_CONTROL_V1" "packet_sized p"
    proof -
      let ?p = "(NewPacket P_CONTROL_V1 (SesKeyID ses) r)\<lparr>PktLocalSessionID := SesLocalSessionID ses, PktID := SesControlPacketID ses\<rparr>"
      let ?q = "case SesRemoteSessionID ses of None \<Rightarrow> ?p | Some remote \<Rightarrow> ?p\<lparr>PktRemoteSessionID := remote\<rparr>"
      have "sessionNewPacket P_CONTROL_V1 r ses = (Inr ?q, ses1)"
        using False op by (simp add: sessionNewPacket_def localControlPacketID_def ses1_def Let_def)
      moreover have "packet_sized ?q"
        using 2(3) by (auto simp: session_sized_def packet_sized_def NewPacket_def P_CONTROL_V1_def split: option.splits)
      moreover have "PktID ?q = SesControlPacketID ses" "PktPayload ?q = r" "PktOpcode ?q = P_CONTROL_V1"
        by (simp_all add: NewPacket_def split: option.split)
      ultimately show ?thesis using that by blast
    qed
    obtain ps1 where ps: "controlMoveDown records ses1 = (ps1, ses')" "ps = p # ps1"
      using 2(2) p(1) by (auto split: prod.splits)
    have "session_sized ses1" using 2(3) by (simp add: session_sized_def ses1_def)
    from 2(1) [OF p(1) [symmetric] refl ps(1) this] obtain k where
      ih: "map unat (map PktID ps1) = [unat (SesControlPacketID ses1) ..< unat (SesControlPacketID ses1) + length ps1]"
      "map PktPayload ps1 = take k records" "list_all (\<lambda>p. PktOpcode p = P_CONTROL_V1 \<and> packet_sized p) ps1" by blast
    have "unat (SesControlPacketID ses1) = Suc (unat (SesControlPacketID ses))"
      using counter_below [OF False] by (simp add: ses1_def)
    then show ?thesis using ih ps(2) p(2-5)
      by (auto simp: upt_conv_Cons simp del: upt_Suc intro!: exI [of _ "Suc k"])
  qed
qed simp

text \<open>What arrives of a control packet has the same identifier and payload.\<close>

lemma wire_opcode:
  assumes "packetBytes p = Inr raw" and "ParsePacket raw = Inr a" and "PktOpcode p < 32" and "PktOpcode p \<noteq> P_DATA_V2"
  shows "PktOpcode a = PktOpcode p"
proof -
  obtain rest where raw: "raw = headerByte p # rest"
    using assms(1,4) by (auto simp: packetBytes_def split: if_splits)
  have "\<not> bit (PktOpcode p) n" if "5 \<le> n" for n using byte_small [of "PktOpcode p" 5 n] assms(3) that by simp
  then have op: "drop_bit 3 (headerByte p) = PktOpcode p"
    unfolding headerByte_def low_bits by (intro bit_word_eqI) (auto simp: bit_simps, meson not_le)
  show ?thesis
  proof (cases "IsControl a \<or> PktOpcode a = P_ACK_V1")
    case True
    then have "headerByte a # tl raw = raw" "PktOpcode a < 32" "PktKeyID a < 8"
      using ParsePacket_control_iff [OF True] assms(2) control_not_data [of "PktOpcode a"] raw
      by (auto simp: packetBytes_def IsControl_def control_packet_def packet_sized_def split: if_splits)
    then show ?thesis using op raw header_fields(1) [of "PktOpcode a" "PktKeyID a"] by (simp add: headerByte_def)
  next
    case False
    then show ?thesis using ParsePacket_data [OF assms(2)] op raw by (auto split: if_splits)
  qed
qed

lemma wire_control:
  assumes "packetBytes p = Inr raw" and "ParsePacket raw = Inr a" and "packet_sized p" and "PktOpcode p = P_CONTROL_V1"
  shows "core a = core p"
proof -
  define q where "q = p\<lparr>PktPeerID := zeros 3, PktRemoteSessionID := (if PktACKs p = [] then zeros 8 else PktRemoteSessionID p)\<rparr>"
  have "packetBytes q = packetBytes p" by (cases "PktACKs p = []") (simp_all add: q_def packetBytes_def headerByte_def)
  then have "packetBytes q = Inr raw" using assms(1) by simp
  moreover have "control_packet q" using assms(3,4)
    by (auto simp: q_def control_packet_def packet_sized_def IsControl_def opcodeIsControl_def opcode_defs)
  moreover have "IsControl q \<or> PktOpcode q = P_ACK_V1" using assms(4) by (simp add: q_def IsControl_def opcodeIsControl_def)
  ultimately have "ParsePacket raw = Inr q" using ParsePacket_control_iff by blast
  then show ?thesis using assms(2) by (auto simp: q_def core_def)
qed


section \<open>One direction of the control channel\<close>

lemma muxRun_reliable:
  "muxRun es m = Inr (outs, m') \<Longrightarrow> p \<in> set (toReliable outs) \<Longrightarrow> \<exists>raw. RawPacket raw \<in> set es \<and> ParsePacket raw = Inr p"
proof (induction es arbitrary: m outs)
  case Nil
  then show ?case by (simp add: toReliable_def)
next
  case (Cons e es)
  obtain out m1 outs1 where run: "muxStep e m = Inr (out, m1)" "muxRun es m1 = Inr (outs1, m')" "outs = out @ outs1"
    using Cons.prems(1) by (auto split: sum.splits prod.splits)
  show ?case
  proof (cases "p \<in> set (toReliable out)")
    case True
    then have "\<exists>raw. e = RawPacket raw \<and> ParsePacket raw = Inr p"
      using run(1) by (cases e)
        (auto simp: muxStep_def handleRawPacket_def finishThreeWayHandshake_def startHardReset_def toReliable_def Let_def
          split: sum.splits if_splits)
    then show ?thesis by auto
  next
    case False
    then have "p \<in> set (toReliable outs1)" using Cons.prems(2) run(3) by (auto simp: toReliable_def)
    from Cons.IH [OF run(2) this] show ?thesis by auto
  qed
qed

lemma counted_prefix:
  assumes sent: "map unat (map PktID ps) = [1 ..< Suc (length ps)]"
    and got: "map PktID ds = map of_nat [1 ..< Suc (length ds)]"
    and origin: "\<And>d. d \<in> set ds \<Longrightarrow> \<exists>p \<in> set ps. PktID d = PktID p \<and> PktPayload d = PktPayload p"
  shows "map PktPayload ds = take (length ds) (map PktPayload ps)"
proof -
  have id: "unat (PktID (ps ! i)) = Suc i" if "i < length ps" for i
  proof -
    have "map unat (map PktID ps) ! i = Suc i" unfolding sent using that by (simp del: upt_Suc)
    then show ?thesis using that by simp
  qed
  have at: "\<exists>i < length ps. unat (of_nat (Suc j) :: packet_id) = Suc i \<and> PktPayload (ds ! j) = PktPayload (ps ! i)"
    if "j < length ds" for j
  proof -
    have "map PktID ds ! j = of_nat (Suc j)" unfolding got using that by (simp del: upt_Suc of_nat_Suc)
    then have "PktID (ds ! j) = of_nat (Suc j)" using that by simp
    then show ?thesis using origin [of "ds ! j"] that id by (metis in_set_conv_nth nth_mem)
  qed
  have small: "length ps < 2 ^ 32"
  proof (cases ps rule: rev_cases)
    case (snoc qs q)
    have "unat (PktID q) = length ps" using id [of "length qs"] snoc by simp
    then show ?thesis using unsigned_less [of "PktID q", where 'a = nat] by simp
  qed simp
  have len: "length ds \<le> length ps"
  proof (rule ccontr)
    assume "\<not> length ds \<le> length ps"
    then obtain i where i: "i < length ps" "unat (of_nat (Suc (length ps)) :: packet_id) = Suc i"
      using at [of "length ps"] by auto
    then have "Suc (length ps) mod 2 ^ 32 = Suc i" unfolding unat_of_nat by simp
    with i(1) small show False by (cases "Suc (length ps) = 2 ^ 32") auto
  qed
  show ?thesis
  proof (rule nth_equalityI)
    fix j assume "j < length (map PktPayload ds)"
    then have j: "j < length ds" by simp
    then obtain i where i: "unat (of_nat (Suc j) :: packet_id) = Suc i" "PktPayload (ds ! j) = PktPayload (ps ! i)"
      using at by blast
    have "unat (of_nat (Suc j) :: packet_id) = Suc j" unfolding unat_of_nat using j len small by simp
    then show "map PktPayload ds ! j = take (length ds) (map PktPayload ps) ! j" using i j len by simp
  qed (use len in simp)
qed

lemma tlsRecords_payloads: "tlsRecords ses arrivals = map PktPayload (received_packets ses arrivals newReliableReceiver)"
proof -
  have "\<forall>p \<in> set (received_packets ses arrivals newReliableReceiver). PktOpcode p = P_CONTROL_V1"
    using delivered_counted [of ses arrivals newReliableReceiver] by (auto simp: deliverable_def newReliableReceiver_def)
  then have "map (\<lambda>p. case fst (controlMoveUp p ses) of ToTLS b \<Rightarrow> [b] | _ \<Rightarrow> []) (received_packets ses arrivals newReliableReceiver) =
      map (\<lambda>p. [PktPayload p]) (received_packets ses arrivals newReliableReceiver)"
    by (auto simp: controlMoveUp_def opcode_defs)
  then show ?thesis unfolding tlsRecords_def by (simp only: concat_map_singleton)
qed


section \<open>Properties\<close>

text \<open>C11: the handshake survives any input. From the hard reset on, whatever bytes the network delivers,
  however often the ticker fires and whatever the layers above do, the muxer neither panics nor ends,
  and it tells TLS at most once to start: a second answer of the server, or a forged one, does not
  replace the session.\<close>

theorem handshake_survives_any_input:
  assumes "newSessionManager rand = Inr ses" and "list_all mux_environment es"
  shows "\<exists>outs m. muxRun (HardReset # es) (newMuxer ses) = Inr (outs, m) \<and> length (filter ((=) NotifyTLS) outs) \<le> 1"
proof -
  have remote: "SesRemoteSessionID ses = None"
    using assms(1) by (auto simp: newSessionManager_def ActiveKey_def setActiveKey_def Let_def split: sum.splits)
  obtain raw m where start: "muxStep HardReset (newMuxer ses) = Inr ([ToNetwork raw], m)" "mux_inv m"
    "SesRemoteSessionID (MuxSession m) = None"
    using remote by (auto simp: muxStep_def startHardReset_def hard_reset_bytes newMuxer_def mux_inv_def)
  from muxRun_inv [OF start(2) assms(2)] start show ?thesis by auto
qed

definition server_reset :: bytes where
  "server_reset = [0x40, 9, 9, 9, 9, 9, 9, 9, 9, 0, 0, 0, 0, 0]"

theorem handshake_survives_any_input_witness:
  "\<exists>ses outs m. newSessionManager zero_random = Inr ses \<and>
     muxRun (HardReset # [ResetTick, RawPacket server_reset, RawPacket [], RawPacket server_reset, ResetTick]) (newMuxer ses) =
       Inr (outs, m) \<and> length (filter ((=) NotifyTLS) outs) = 1"
proof -
  let ?es = "[ResetTick, RawPacket server_reset, RawPacket [], RawPacket server_reset, ResetTick]"
  have "(case newSessionManager zero_random of
      Inr ses \<Rightarrow> (case muxRun (HardReset # ?es) (newMuxer ses) of
          Inr (outs, m) \<Rightarrow> NotifyTLS \<in> set outs | Inl _ \<Rightarrow> False) | Inl _ \<Rightarrow> False)" by code_simp
  then obtain ses outs m where r: "newSessionManager zero_random = Inr ses" "muxRun (HardReset # ?es) (newMuxer ses) = Inr (outs, m)"
    "NotifyTLS \<in> set outs" by (auto split: sum.splits prod.splits)
  have "list_all mux_environment ?es" by simp
  from handshake_survives_any_input [OF r(1) this] r(2) have "length (filter ((=) NotifyTLS) outs) \<le> 1" by simp
  moreover have "length (filter ((=) NotifyTLS) outs) \<noteq> 0" using r(3) by (auto simp: filter_empty_conv)
  ultimately show ?thesis using r(1,2) by (metis One_nat_def le_less less_Suc0)
qed



text \<open>Two records, sent as two packets; the network delivers the second one twice, before and after the
  first one.\<close>

definition link_sender :: session_manager where
  "link_sender = (case newSessionManager zero_random of Inr ses \<Rightarrow> ses | Inl _ \<Rightarrow> peer_session)"

definition link_events :: "sender_event list" where
  "link_events = map Outgoing (fst (controlMoveDown [[10], [20]] link_sender)) @ [Tick link_sender 0]"

definition link_raws :: "bytes list" where
  "link_raws =
     (case map packetBytes (fst (senderRun link_events newReliableSender)) of [Inr a, Inr b] \<Rightarrow> [b, a, b] | _ \<Rightarrow> [])"

definition link_receiver :: muxer where
  "link_receiver = newMuxer (link_sender\<lparr>SesRemoteSessionID := Some (zeros 8), SesNegState := S_START\<rparr>)"

lemma link_run:
  "case muxRun (map RawPacket link_raws) link_receiver of
     Inr (outs, m) \<Rightarrow> tlsRecords (MuxSession m) (toReliable outs) = [[10], [20]] | Inl _ \<Rightarrow> False"
  by code_simp


text \<open>A soft reset of the server does not reach the control channel, which has code for it: the reliable
  transport passes nothing up but plain control packets.\<close>

theorem soft_reset_unreachable:
  "list_all (\<lambda>p. fst (controlMoveUp p ses') \<noteq> ResetTLS) (received_packets ses arrivals newReliableReceiver)"
  using delivered_counted [of ses arrivals newReliableReceiver]
  by (auto simp: list_all_iff deliverable_def newReliableReceiver_def controlMoveUp_def opcode_defs)

end
