(* ===== verification/Vpn_Data.thy ===== *)
theory Vpn_Data
  imports Vpn_Muxer Vpn_Options
begin

text \<open>
  The data channel of the engine (src/third_party/minivpn/internal/datachannel): the choice of the
  cipher, the derivation of the keys, and the way of a payload through padding, encryption and framing
  to the peer and back. The block cipher, the authenticated cipher and the hash functions are arguments
  (a record of functions); what the code relies on are the laws \<open>crypto_laws\<close>. Chaining of blocks,
  padding, framing and the key derivation are those of the source.
\<close>

section \<open>Primitives\<close>

record crypto =
  CrEncryptBlock :: "bytes \<Rightarrow> bytes \<Rightarrow> bytes"
  CrDecryptBlock :: "bytes \<Rightarrow> bytes \<Rightarrow> bytes"
  CrSeal :: "bytes \<Rightarrow> bytes \<Rightarrow> bytes \<Rightarrow> bytes \<Rightarrow> bytes"
  CrOpen :: "bytes \<Rightarrow> bytes \<Rightarrow> bytes \<Rightarrow> bytes \<Rightarrow> bytes option"
  CrHMAC :: "string \<Rightarrow> bytes \<Rightarrow> bytes \<Rightarrow> bytes"

definition hashSize :: "string \<Rightarrow> nat" where
  "hashSize name =
     (if name = ''md5'' then 16 else if name = ''sha1'' then 20 else if name = ''sha256'' then 32
      else if name = ''sha512'' then 64 else 0)"

text \<open>Decrypting a block undoes encrypting it, opening undoes sealing, a sealed text is longer by the tag,
  and the sum of a hash function has its size.\<close>

definition crypto_laws :: "crypto \<Rightarrow> bool" where
  "crypto_laws cr \<longleftrightarrow>
     (\<forall>key b. length b = 16 \<longrightarrow> length (CrEncryptBlock cr key b) = 16 \<and> CrDecryptBlock cr key (CrEncryptBlock cr key b) = b) \<and>
     (\<forall>key iv p ad. length (CrSeal cr key iv p ad) = length p + 16 \<and> CrOpen cr key iv (CrSeal cr key iv p ad) ad = Some p) \<and>
     (\<forall>name key m. length (CrHMAC cr name key m) = hashSize name)"

definition xor_bytes :: "bytes \<Rightarrow> bytes \<Rightarrow> bytes" where
  "xor_bytes a b = map2 (XOR) a b"

text \<open>Cipher block chaining on whole blocks of 16 bytes.\<close>

function cbcEncrypt :: "(bytes \<Rightarrow> bytes) \<Rightarrow> bytes \<Rightarrow> bytes \<Rightarrow> bytes" where
  "cbcEncrypt E iv p =
     (if length p < 16 then []
      else let c = E (xor_bytes iv (take 16 p)) in c @ cbcEncrypt E c (drop 16 p))"
  by pat_completeness auto
termination
  by (relation "measure (\<lambda>(E, iv, p). length p)") auto

function cbcDecrypt :: "(bytes \<Rightarrow> bytes) \<Rightarrow> bytes \<Rightarrow> bytes \<Rightarrow> bytes" where
  "cbcDecrypt D iv c =
     (if length c < 16 then [] else xor_bytes iv (D (take 16 c)) @ cbcDecrypt D (take 16 c) (drop 16 c))"
  by pat_completeness auto
termination
  by (relation "measure (\<lambda>(D, iv, c). length c)") auto

declare cbcEncrypt.simps [simp del] cbcDecrypt.simps [simp del]

section \<open>Ciphers\<close>

datatype cipher_mode = CipherModeCBC | CipherModeGCM

record data_cipher =
  DcKeySize :: nat
  DcMode :: cipher_mode

definition isAEAD :: "data_cipher \<Rightarrow> bool" where
  "isAEAD dc \<longleftrightarrow> DcMode dc \<noteq> CipherModeCBC"

definition blockSize :: "data_cipher \<Rightarrow> nat" where
  "blockSize dc = (case DcMode dc of CipherModeCBC \<Rightarrow> 16 | CipherModeGCM \<Rightarrow> 16)"

definition newDataCipher :: "nat \<Rightarrow> cipher_mode \<Rightarrow> data_cipher res" where
  "newDataCipher bits mode =
     (if bits mod 8 \<noteq> 0 \<or> 512 < bits \<or> bits < 64 then Inl (''invalid key size: '' @ itoa (int bits))
      else Inr \<lparr>DcKeySize = bits div 8, DcMode = mode\<rparr>)"

definition newDataCipherFromCipherSuite :: "string \<Rightarrow> data_cipher res" where
  "newDataCipherFromCipherSuite c =
     (if c = ''AES-128-CBC'' then newDataCipher 128 CipherModeCBC
      else if c = ''AES-192-CBC'' then newDataCipher 192 CipherModeCBC
      else if c = ''AES-256-CBC'' then newDataCipher 256 CipherModeCBC
      else if c = ''AES-128-GCM'' then newDataCipher 128 CipherModeGCM
      else if c = ''AES-256-GCM'' then newDataCipher 256 CipherModeGCM
      else Inl ''unsupported cipher'')"

definition newHMACFactory :: "string \<Rightarrow> string option" where
  "newHMACFactory name = (if name \<in> set [''sha1'', ''sha256'', ''sha512''] then Some name else None)"

text \<open>The size of a key that \<open>aes.NewCipher\<close> takes.\<close>

definition aesKeyError :: "bytes \<Rightarrow> string option" where
  "aesKeyError k = (if length k \<in> {16, 24, 32} then None else Some (''crypto/aes: invalid key size '' @ itoa (int (length k))))"

definition ivError :: "string \<Rightarrow> bytes \<Rightarrow> 'a eng" where
  "ivError what iv = Inl (EngineError (what @ '': wrong size for iv: '' @ itoa (int (length iv))))"

definition cipherEncrypt :: "crypto \<Rightarrow> data_cipher \<Rightarrow> bytes \<Rightarrow> bytes \<Rightarrow> bytes \<Rightarrow> bytes \<Rightarrow> bytes eng" where
  "cipherEncrypt cr dc key iv plaintext aead =
     (if length key < DcKeySize dc then Inl (EngineError ''invalid key size'')
      else
        let k = take (DcKeySize dc) key
        in case aesKeyError k of
             Some err \<Rightarrow> Inl (EngineError err)
           | None \<Rightarrow>
               (case DcMode dc of
                  CipherModeCBC \<Rightarrow>
                    if length iv \<noteq> 16 then ivError ''cannot encrypt'' iv
                    else if length plaintext mod 16 \<noteq> 0 then Inl (EngineError ''cannot encrypt: wrong padding'')
                    else Inr (cbcEncrypt (CrEncryptBlock cr k) iv plaintext)
                | CipherModeGCM \<Rightarrow>
                    if length iv \<noteq> 12 then ivError ''cannot encrypt'' iv else Inr (CrSeal cr k iv plaintext aead)))"

text \<open>\<open>CryptBlocks\<close> panics on a text that is not made of whole blocks. The plaintext of chained blocks is a
  slice of a longer array: the second part of the result is what lies behind it there, which the reader of
  the packet identifier can reach.\<close>

definition cipherDecrypt :: "crypto \<Rightarrow> data_cipher \<Rightarrow> bytes \<Rightarrow> bytes \<Rightarrow> bytes \<Rightarrow> bytes \<Rightarrow> (bytes \<times> bytes) eng" where
  "cipherDecrypt cr dc key iv ciphertext aead =
     (if length key < DcKeySize dc then Inl (EngineError ''invalid key size'')
      else
        let k = take (DcKeySize dc) key
        in case aesKeyError k of
             Some err \<Rightarrow> Inl (EngineError err)
           | None \<Rightarrow>
               (case DcMode dc of
                  CipherModeCBC \<Rightarrow>
                    if length iv \<noteq> 16 then ivError ''cannot decrypt'' iv
                    else if length ciphertext mod 16 \<noteq> 0 then Inl (EnginePanic ''crypto/cipher: input not full blocks'')
                    else
                      let plaintext = cbcDecrypt (CrDecryptBlock cr k) iv ciphertext
                      in (case BytesUnpadPKCS7 plaintext 16 of
                            Inl err \<Rightarrow> Inl err
                          | Inr b \<Rightarrow> Inr (b, drop (length b) plaintext))
                | CipherModeGCM \<Rightarrow>
                    if length iv \<noteq> 12 then ivError ''cannot decrypt'' iv
                    else case CrOpen cr k iv ciphertext aead of
                        None \<Rightarrow> Inl (EngineError ''cipher: message authentication failed'')
                      | Some plaintext \<Rightarrow> Inr (plaintext, [])))"

section \<open>Key derivation\<close>

text \<open>The loop of \<open>pHash\<close> writes sums into the result until it is full; it ends only if the sums are not
  empty, so it is a partial function. \<open>h\<close> is the keyed hash.\<close>

partial_function (option) pHashLoop :: "(bytes \<Rightarrow> bytes) \<Rightarrow> bytes \<Rightarrow> bytes \<Rightarrow> bytes \<Rightarrow> nat \<Rightarrow> bytes option" where
  "pHashLoop h seed a result j =
     (if \<not> j < length result then Some result
      else
        let b = h (a @ seed); n = min (length b) (length result - j)
        in pHashLoop h seed (h a) (take j result @ take n b @ drop (j + n) result) (j + length b))"

definition pHash :: "crypto \<Rightarrow> string \<Rightarrow> bytes \<Rightarrow> bytes \<Rightarrow> nat \<Rightarrow> bytes option" where
  "pHash cr name secret seed olen =
     (let h = CrHMAC cr name secret in pHashLoop h seed (h seed) (zeros olen) 0)"

definition splitPreMasterSecret :: "bytes \<Rightarrow> bytes \<times> bytes" where
  "splitPreMasterSecret secret = (take ((length secret + 1) div 2) secret, drop (length secret div 2) secret)"

definition prf10 :: "crypto \<Rightarrow> nat \<Rightarrow> bytes \<Rightarrow> bytes \<Rightarrow> bytes \<Rightarrow> bytes option" where
  "prf10 cr olen secret label seed =
     (let (s1, s2) = splitPreMasterSecret secret
      in case (pHash cr ''md5'' s1 (label @ seed) olen, pHash cr ''sha1'' s2 (label @ seed) olen) of
           (Some result, Some result2) \<Rightarrow> Some (xor_bytes result result2)
         | _ \<Rightarrow> None)"

definition openvpn_prf :: "crypto \<Rightarrow> bytes \<Rightarrow> string \<Rightarrow> bytes \<Rightarrow> bytes \<Rightarrow> bytes \<Rightarrow> bytes \<Rightarrow> nat \<Rightarrow> bytes option" where
  "openvpn_prf cr secret label clientSeed serverSeed clientSid serverSid olen =
     prf10 cr olen secret (to_bytes label) (clientSeed @ serverSeed @ clientSid @ serverSid)"


section \<open>Data channel\<close>

record data_channel =
  DchCompress :: string
  DchCipher :: data_cipher
  DchHash :: string
  DchKeyLocal :: bytes
  DchHmacLocal :: bytes
  DchKeyRemote :: bytes
  DchHmacRemote :: bytes
  DchRemotePacketID :: packet_id

definition NewDataChannelFromOptions :: "openvpn_options \<Rightarrow> data_channel eng" where
  "NewDataChannelFromOptions opt =
     Assert (length (Cipher opt) \<noteq> 0) ''need a configured cipher option''
       (Assert (length (OptAuth opt) \<noteq> 0) ''need a configured auth option''
         (case newDataCipherFromCipherSuite (Cipher opt) of
            Inl err \<Rightarrow> Inl (EngineError err)
          | Inr dc \<Rightarrow>
              (case newHMACFactory (to_lower (OptAuth opt)) of
                 None \<Rightarrow> Inl (EngineError (''improperly initialized: no such mac: '' @ OptAuth opt))
               | Some h \<Rightarrow>
                   Inr \<lparr>DchCompress = Compress opt, DchCipher = dc, DchHash = h, DchKeyLocal = zeros 64, DchHmacLocal = zeros 64,
                        DchKeyRemote = zeros 64, DchHmacRemote = zeros 64, DchRemotePacketID = 0\<rparr>)))"

text \<open>The expansion of the key material of both sides; \<open>None\<close> if the derivation does not end.\<close>

definition setupKeys :: "crypto \<Rightarrow> data_channel_key \<Rightarrow> session_manager \<Rightarrow> data_channel \<Rightarrow> data_channel eng option" where
  "setupKeys cr dck ses d =
     (if \<not> DckReady dck then Some (Inl (EngineError ''bad key: key not ready''))
      else case (DckLocal dck, DckRemote dck) of
          (Some l, Some r) \<Rightarrow>
            (case openvpn_prf cr (KsPreMaster l) ''OpenVPN master secret'' (KsR1 l) (KsR1 r) [] [] 48 of
               None \<Rightarrow> None
             | Some master \<Rightarrow>
                 (case openvpn_prf cr master ''OpenVPN key expansion'' (KsR2 l) (KsR2 r) (SesLocalSessionID ses)
                    (case SesRemoteSessionID ses of None \<Rightarrow> [] | Some sid \<Rightarrow> sid) 256 of
                    None \<Rightarrow> None
                  | Some keys \<Rightarrow>
                      Some (Inr (d\<lparr>DchKeyLocal := copyArray 64 (take 64 keys),
                        DchHmacLocal := copyArray 64 (take 64 (drop 64 keys)),
                        DchKeyRemote := copyArray 64 (take 64 (drop 128 keys)),
                        DchHmacRemote := copyArray 64 (take 64 (drop 192 keys))\<rparr>))))
        | _ \<Rightarrow> Some (Inl (EnginePanic ''invalid memory address or nil pointer dereference'')))"

section \<open>Writing\<close>

definition wrapError :: "string \<Rightarrow> engine_error \<Rightarrow> engine_error" where
  "wrapError what err = (case err of EngineError e \<Rightarrow> EngineError (what @ '': '' @ e) | EnginePanic why \<Rightarrow> EnginePanic why)"

definition dataOpcodeAndKeyHeader :: "opcode \<Rightarrow> session_manager \<Rightarrow> byte" where
  "dataOpcodeAndKeyHeader op ses = push_bit 3 op OR (SesKeyID ses AND 7)"

definition prependPacketID :: "packet_id \<Rightarrow> bytes \<Rightarrow> bytes" where
  "prependPacketID p buf = PutUint32 p @ buf"

definition doCompress :: "bytes \<Rightarrow> string \<Rightarrow> bytes eng" where
  "doCompress b compress =
     (if compress = ''stub'' then
        (case b of
           [] \<Rightarrow> Inl (EnginePanic ''index out of range [0] with length 0'')
         | x # xs \<Rightarrow> Inr (0xfb # xs @ [x]))
      else if compress = ''lzo-no'' then Inr (0xfa # b)
      else Inr b)"

definition doPadding :: "bytes \<Rightarrow> string \<Rightarrow> nat \<Rightarrow> bytes eng" where
  "doPadding b compress bs =
     (if length b = 0 then Inl (EngineError ''padding error: nothing to pad'')
      else if compress = ''stub'' then
        (case BytesPadPKCS7 (butlast b) (int bs) of
           Inl err \<Rightarrow> Inl err
         | Inr padded \<Rightarrow> Inr (butlast padded @ [last b]))
      else BytesPadPKCS7 b (int bs))"

text \<open>The associated data of an authenticated packet: header byte, peer identifier, packet identifier.\<close>

definition aeadHeader :: "session_manager \<Rightarrow> bytes \<Rightarrow> bytes" where
  "aeadHeader ses packetID =
     WriteUint24 [dataOpcodeAndKeyHeader P_DATA_V2 ses] (of_int (TiPeerID (SesTunnelInfo ses))) @ packetID"

definition encryptAndEncodePayloadAEAD ::
  "crypto \<Rightarrow> data_channel \<Rightarrow> bytes \<Rightarrow> session_manager \<Rightarrow> bytes eng \<times> session_manager" where
  "encryptAndEncodePayloadAEAD cr d padded ses =
     (case localDataPacketID ses of
        (Inl _, ses1) \<Rightarrow> (Inl (EngineError ''bad packet id''), ses1)
      | (Inr pid, ses1) \<Rightarrow>
          let aead = aeadHeader ses (PutUint32 pid); iv = PutUint32 pid @ take 8 (DchHmacLocal d)
          in (case cipherEncrypt cr (DchCipher d) (DchKeyLocal d) iv padded aead of
                Inl err \<Rightarrow> Inl err
              | Inr encrypted \<Rightarrow>
                  if length encrypted < 16 then Inl (EnginePanic ''slice bounds out of range'')
                  else let boundary = length encrypted - 16
                       in Inr (aead @ drop boundary encrypted @ take boundary encrypted), ses1))"

definition encryptAndEncodePayloadNonAEAD ::
  "crypto \<Rightarrow> bytes res \<Rightarrow> data_channel \<Rightarrow> bytes \<Rightarrow> session_manager \<Rightarrow> bytes eng" where
  "encryptAndEncodePayloadNonAEAD cr rnd d padded ses =
     (case rnd of
        Inl err \<Rightarrow> Inl (EngineError err)
      | Inr iv \<Rightarrow>
          (case cipherEncrypt cr (DchCipher d) (DchKeyLocal d) iv padded [] of
             Inl err \<Rightarrow> Inl err
           | Inr ciphertext \<Rightarrow>
               let mac = CrHMAC cr (DchHash d) (take (hashSize (DchHash d)) (DchHmacLocal d)) (iv @ ciphertext);
                   header = (if TiUsePeerID (SesTunnelInfo ses) then
                               WriteUint24 [dataOpcodeAndKeyHeader P_DATA_V2 ses] (of_int (TiPeerID (SesTunnelInfo ses)))
                             else [])
               in Inr (header @ mac @ iv @ ciphertext)))"

definition encryptAndEncodePayload ::
  "crypto \<Rightarrow> bytes res \<Rightarrow> data_channel \<Rightarrow> bytes \<Rightarrow> session_manager \<Rightarrow> bytes eng \<times> session_manager" where
  "encryptAndEncodePayload cr rnd d plaintext ses =
     (if length plaintext = 0 then (Inl (EngineError ''cannot encrypt: nothing to encrypt''), ses)
      else case doPadding plaintext (DchCompress d) (blockSize (DchCipher d)) of
          Inl err \<Rightarrow> (Inl (wrapError ''cannot encrypt'' err), ses)
        | Inr padded \<Rightarrow>
            (case (if isAEAD (DchCipher d) then encryptAndEncodePayloadAEAD cr d padded ses
                   else (encryptAndEncodePayloadNonAEAD cr rnd d padded ses, ses)) of
               (Inl err, ses1) \<Rightarrow> (Inl (wrapError ''cannot encrypt'' err), ses1)
             | (Inr encrypted, ses1) \<Rightarrow> (Inr encrypted, ses1)))"

definition peerIDBytes :: "int \<Rightarrow> bytes" where
  "peerIDBytes i = [of_int (i div 65536), of_int (i div 256), of_int i]"

definition writePacket ::
  "crypto \<Rightarrow> bytes res \<Rightarrow> data_channel \<Rightarrow> bytes \<Rightarrow> session_manager \<Rightarrow> packet eng \<times> session_manager" where
  "writePacket cr rnd d payload ses =
     (let aead = isAEAD (DchCipher d);
          (payload1, ses1) =
            (if aead then (payload, ses)
             else case localDataPacketID ses of
                 (Inl _, s) \<Rightarrow> (prependPacketID 0 payload, s)
               | (Inr pid, s) \<Rightarrow> (prependPacketID pid payload, s))
      in case doCompress payload1 (DchCompress d) of
           Inl err \<Rightarrow> (Inl (wrapError ''cannot encrypt'' err), ses1)
         | Inr compressed \<Rightarrow>
             (case encryptAndEncodePayload cr rnd d compressed ses1 of
                (Inl err, ses2) \<Rightarrow> (Inl (wrapError ''cannot encrypt'' err), ses2)
              | (Inr encrypted, ses2) \<Rightarrow>
                  let op = (if aead \<or> TiUsePeerID (SesTunnelInfo ses2) then P_DATA_V2 else P_DATA_V1);
                      p = NewPacket op (SesKeyID ses2) encrypted
                  in (Inr (if op = P_DATA_V2 then p\<lparr>PktPeerID := peerIDBytes (TiPeerID (SesTunnelInfo ses2))\<rparr> else p), ses2)))"

section \<open>Reading\<close>

record encrypted_data =
  EncIV :: bytes
  EncCiphertext :: bytes
  EncAEAD :: bytes

definition decodeEncryptedPayloadAEAD :: "data_channel \<Rightarrow> session_manager \<Rightarrow> bytes \<Rightarrow> encrypted_data eng" where
  "decodeEncryptedPayloadAEAD d ses buf =
     (if length buf < 20 then Inl (EngineError (''too short: '' @ itoa (int (length buf)) @ '' bytes''))
      else
        let packet_id = take 4 buf
        in Inr \<lparr>EncIV = packet_id @ take 8 (DchHmacRemote d), EncCiphertext = drop 20 buf @ take 16 (drop 4 buf),
                EncAEAD = aeadHeader ses packet_id\<rparr>)"

text \<open>The channel is built without a logger, so the warning about a wrong sum is a call through a nil
  interface.\<close>

definition decodeEncryptedPayloadNonAEAD :: "crypto \<Rightarrow> data_channel \<Rightarrow> bytes \<Rightarrow> encrypted_data eng" where
  "decodeEncryptedPayloadNonAEAD cr d buf =
     (let hs = hashSize (DchHash d); bs = blockSize (DchCipher d)
      in if length buf < hs + bs then Inl (EngineError (''cannot decode: too short ('' @ itoa (int (length buf)) @ '' bytes)''))
         else
           let received = take hs buf; iv = take bs (drop hs buf); ciphertext = drop (hs + bs) buf
           in if CrHMAC cr (DchHash d) (take hs (DchHmacRemote d)) (iv @ ciphertext) \<noteq> received then
                Inl (EnginePanic ''invalid memory address or nil pointer dereference'')
              else Inr \<lparr>EncIV = iv, EncCiphertext = ciphertext, EncAEAD = []\<rparr>)"

definition dataDecrypt :: "crypto \<Rightarrow> data_channel \<Rightarrow> session_manager \<Rightarrow> bytes \<Rightarrow> (bytes \<times> bytes) eng" where
  "dataDecrypt cr d ses encrypted =
     (case (if isAEAD (DchCipher d) then decodeEncryptedPayloadAEAD d ses encrypted
            else decodeEncryptedPayloadNonAEAD cr d encrypted) of
        Inl err \<Rightarrow> Inl (wrapError ''cannot decrypt'' err)
      | Inr e \<Rightarrow>
          if length (EncCiphertext e) = 0 then Inl (EngineError ''cannot decrypt: nothing to decrypt'')
          else case cipherDecrypt cr (DchCipher d) (DchKeyRemote d) (EncIV e) (EncCiphertext e) (EncAEAD e) of
              Inl err \<Rightarrow> Inl (wrapError ''cannot decrypt'' err)
            | Inr plaintext \<Rightarrow> Inr plaintext)"

text \<open>The framing of the compression modes: the compression byte and the payload behind it.\<close>

definition compressionFrame :: "string \<Rightarrow> bytes \<Rightarrow> (byte \<times> bytes) eng" where
  "compressionFrame compress b =
     (if compress = CompressionStub \<or> compress = CompressionLZONo then
        (case b of [] \<Rightarrow> Inl (EnginePanic ''index out of range'') | x # xs \<Rightarrow> Inr (x, xs))
      else Inr (0, b))"

definition unstub :: "byte \<Rightarrow> bytes \<Rightarrow> bytes eng" where
  "unstub compr payload =
     (if compr = 0xfb then
        if payload = [] then Inl (EnginePanic ''index out of range [-1]'') else Inr (last payload # butlast payload)
      else if compr = 0 \<or> compr = 0xfa then Inr payload
      else Inl (EngineError ''bad compression: cannot handle compression''))"

text \<open>\<open>b[:4]\<close> reaches behind a short slice, \<open>b[4:]\<close> does not: \<open>behind\<close> is what follows \<open>b\<close> in its array.\<close>

definition maybeDecompress :: "bytes \<Rightarrow> bytes \<Rightarrow> data_channel \<Rightarrow> bytes eng \<times> data_channel" where
  "maybeDecompress b behind d =
     (let finish = (\<lambda>rest. case compressionFrame (DchCompress d) rest of Inl err \<Rightarrow> Inl err | Inr (compr, payload) \<Rightarrow> unstub compr payload)
      in if isAEAD (DchCipher d) then (finish b, d)
         else if length (b @ behind) < 4 then (Inl (EnginePanic ''slice bounds out of range''), d)
         else
           let remotePacketID = Uint32 (take 4 (b @ behind))
           in if DchRemotePacketID d = 0xFFFFFFFF then (Inl (EngineError ''key is expired''), d)
              else if remotePacketID \<le> DchRemotePacketID d then (Inl (EngineError ''replay attack''), d)
              else (if length b < 4 then Inl (EnginePanic ''slice bounds out of range'') else finish (drop 4 b),
                    d\<lparr>DchRemotePacketID := remotePacketID\<rparr>))"

definition readPacket :: "crypto \<Rightarrow> session_manager \<Rightarrow> packet \<Rightarrow> data_channel \<Rightarrow> bytes eng \<times> data_channel" where
  "readPacket cr ses p d =
     (if length (PktPayload p) = 0 then (Inl (EngineError ''cannot decrypt: empty payload''), d)
      else if \<not> IsData p then (Inl (EnginePanic ''ReadPacket expects data packet''), d)
      else case dataDecrypt cr d ses (PktPayload p) of
          Inl err \<Rightarrow> (Inl err, d)
        | Inr (plaintext, behind) \<Rightarrow> maybeDecompress plaintext behind d)"

text \<open>The worker that moves packets up: what goes to the network stack, \<open>None\<close> after an error and for a
  keepalive of 16 bytes. A panic ends the program.\<close>

definition dataMoveUp :: "crypto \<Rightarrow> session_manager \<Rightarrow> packet \<Rightarrow> data_channel \<Rightarrow> bytes option eng \<times> data_channel" where
  "dataMoveUp cr ses p d =
     (case readPacket cr ses p d of
        (Inl (EnginePanic why), d1) \<Rightarrow> (Inl (EnginePanic why), d1)
      | (Inl (EngineError _), d1) \<Rightarrow> (Inr None, d1)
      | (Inr decrypted, d1) \<Rightarrow> (Inr (if length decrypted = 16 then None else Some decrypted), d1))"


section \<open>Chaining and derivation\<close>

lemma xor_bytes_length [simp]: "length (xor_bytes a b) = min (length a) (length b)"
  by (simp add: xor_bytes_def)

lemma xor_bytes_twice: "length a = length b \<Longrightarrow> xor_bytes a (xor_bytes a b) = b"
proof (induction a b rule: list_induct2)
  case (Cons x xs y ys)
  have "x XOR (x XOR y) = y" by (simp flip: xor.assoc)
  with Cons show ?case by (simp add: xor_bytes_def)
qed (simp add: xor_bytes_def)

lemma cbc_inverse:
  assumes laws: "\<And>b. length b = 16 \<Longrightarrow> length (E b) = 16 \<and> D (E b) = b"
  shows "length iv = 16 \<Longrightarrow> length p mod 16 = 0 \<Longrightarrow>
    cbcDecrypt D iv (cbcEncrypt E iv p) = p \<and> length (cbcEncrypt E iv p) = length p"
proof (induction p arbitrary: iv rule: length_induct)
  case (1 p)
  show ?case
  proof (cases "length p < 16")
    case True
    with 1(3) have "p = []" by simp
    then show ?thesis by (simp add: cbcEncrypt.simps cbcDecrypt.simps)
  next
    case False
    let ?x = "xor_bytes iv (take 16 p)"
    let ?c = "E ?x"
    have c: "length ?c = 16" "D ?c = ?x" using laws [of ?x] False 1(2) by simp_all
    have "length (drop 16 p) < length p" "length (drop 16 p) mod 16 = 0" using False 1(3) by (simp_all add: mod_if)
    with 1(1) c(1) have ih: "cbcDecrypt D ?c (cbcEncrypt E ?c (drop 16 p)) = drop 16 p"
      "length (cbcEncrypt E ?c (drop 16 p)) = length p - 16" by simp_all
    have enc: "cbcEncrypt E iv p = ?c @ cbcEncrypt E ?c (drop 16 p)" using False by (simp add: cbcEncrypt.simps [of E iv p] Let_def)
    have "cbcDecrypt D iv (?c @ cbcEncrypt E ?c (drop 16 p)) = xor_bytes iv ?x @ drop 16 p"
      using c ih(1) by (simp add: cbcDecrypt.simps [of D iv])
    moreover have "xor_bytes iv ?x = take 16 p" using False 1(2) by (simp add: xor_bytes_twice)
    ultimately show ?thesis using enc ih(2) c(1) False by simp
  qed
qed

lemma pHashLoop_returns:
  assumes "\<And>m. length (h m) = n" and "0 < n"
  shows "\<exists>r. pHashLoop h seed a result j = Some r \<and> length r = length result"
proof (induction "length result - j" arbitrary: a result j rule: less_induct)
  case less
  show ?case
  proof (cases "j < length result")
    case True
    let ?k = "min n (length result - j)"
    let ?r = "take j result @ take ?k (h (a @ seed)) @ drop (j + ?k) result"
    have len: "length ?r = length result" using True assms(1) by simp
    have "length ?r - (j + n) < length result - j" using True len assms(2) by simp
    from less [OF this, of "h a"] len show ?thesis
      using True by (subst pHashLoop.simps) (simp add: Let_def assms(1))
  qed (subst pHashLoop.simps, simp)
qed

lemma prf_returns:
  assumes "crypto_laws cr"
  shows "\<exists>r. openvpn_prf cr secret label cs ss csid ssid olen = Some r \<and> length r = olen"
proof -
  have len: "length (CrHMAC cr name k m) = hashSize name" for name k m using assms by (simp add: crypto_laws_def)
  have hash: "\<exists>r. pHash cr name s seed olen = Some r \<and> length r = olen" if "0 < hashSize name" for name s seed
    using pHashLoop_returns [of "CrHMAC cr name s" "hashSize name" seed "CrHMAC cr name s seed" "zeros olen" 0] len that
    by (simp add: pHash_def Let_def)
  have "0 < hashSize ''md5''" "0 < hashSize ''sha1''" by (simp_all add: hashSize_def)
  then obtain r1 r2 where
    "pHash cr ''md5'' (fst (splitPreMasterSecret secret)) (to_bytes label @ cs @ ss @ csid @ ssid) olen = Some r1" "length r1 = olen"
    "pHash cr ''sha1'' (snd (splitPreMasterSecret secret)) (to_bytes label @ cs @ ss @ csid @ ssid) olen = Some r2" "length r2 = olen"
    using hash by blast
  then show ?thesis by (auto simp: openvpn_prf_def prf10_def split: prod.splits)
qed


section \<open>From one channel to the other\<close>

text \<open>Two channels with the same options, where one reads with the keys the other writes with.\<close>

definition paired :: "data_channel \<Rightarrow> data_channel \<Rightarrow> bool" where
  "paired d e \<longleftrightarrow> DchCipher e = DchCipher d \<and> DchHash e = DchHash d \<and> DchCompress e = DchCompress d \<and>
     DchKeyRemote e = DchKeyLocal d \<and> DchHmacRemote e = DchHmacLocal d \<and> length (DchKeyLocal d) = 64 \<and>
     length (DchHmacLocal d) = 64 \<and> DcKeySize (DchCipher d) \<in> {16, 24, 32}"

lemma Pad16: "\<exists>padded. BytesPadPKCS7 b 16 = Inr padded \<and> length padded mod 16 = 0 \<and> length b < length padded \<and>
    BytesUnpadPKCS7 padded 16 = Inr b"
proof -
  have "int (length p) mod 16 = 0 \<longleftrightarrow> length p mod 16 = 0" for p :: bytes by presburger
  with Pad_Unpad [of 16 b] show ?thesis by simp
qed

lemma blockSize_16 [simp]: "blockSize dc = 16"
  by (simp add: blockSize_def split: cipher_mode.split)

lemma cipher_keys:
  assumes "paired d e"
  shows "\<not> length (DchKeyLocal d) < DcKeySize (DchCipher d)" "aesKeyError (take (DcKeySize (DchCipher d)) (DchKeyLocal d)) = None"
  using assms by (auto simp: paired_def aesKeyError_def)

text \<open>What a channel without authenticated encryption writes, its peer decrypts.\<close>

lemma nonAEAD_decrypts:
  assumes laws: "crypto_laws cr" and pair: "paired d e" and cbc: "DcMode (DchCipher d) = CipherModeCBC"
    and b: "b \<noteq> []" and stub: "DchCompress d \<noteq> ''stub''" and iv: "length iv = 16"
  shows "\<exists>body. encryptAndEncodePayload cr (Inr iv) d b ses =
      (Inr ((if TiUsePeerID (SesTunnelInfo ses) then
         WriteUint24 [dataOpcodeAndKeyHeader P_DATA_V2 ses] (of_int (TiPeerID (SesTunnelInfo ses))) else []) @ body), ses) \<and>
    body \<noteq> [] \<and> (\<exists>behind. dataDecrypt cr e ses' body = Inr (b, behind))"
proof -
  let ?k = "take (DcKeySize (DchCipher d)) (DchKeyLocal d)"
  obtain padded where p: "BytesPadPKCS7 b 16 = Inr padded" "length padded mod 16 = 0" "length b < length padded"
    "BytesUnpadPKCS7 padded 16 = Inr b" using Pad16 [of b] by (elim exE conjE)
  define ct where "ct = cbcEncrypt (CrEncryptBlock cr ?k) iv padded"
  have inv: "cbcDecrypt (CrDecryptBlock cr ?k) iv ct = padded" "length ct = length padded"
  proof -
    have "length (CrEncryptBlock cr ?k x) = 16 \<and> CrDecryptBlock cr ?k (CrEncryptBlock cr ?k x) = x" if "length x = 16" for x
      using laws that unfolding crypto_laws_def by blast
    from cbc_inverse [of "CrEncryptBlock cr ?k" "CrDecryptBlock cr ?k", OF this iv p(2)]
    show "cbcDecrypt (CrDecryptBlock cr ?k) iv ct = padded" "length ct = length padded" unfolding ct_def by blast+
  qed
  define mac where "mac = CrHMAC cr (DchHash d) (take (hashSize (DchHash d)) (DchHmacLocal d)) (iv @ ct)"
  have mac: "length mac = hashSize (DchHash d)" using laws unfolding mac_def crypto_laws_def by blast
  have enc: "cipherEncrypt cr (DchCipher d) (DchKeyLocal d) iv padded [] = Inr ct"
    using cipher_keys [OF pair] cbc iv p(2) by (simp add: cipherEncrypt_def ct_def Let_def)
  have dec: "cipherDecrypt cr (DchCipher d) (DchKeyLocal d) iv ct [] = Inr (b, drop (length b) padded)"
    using cipher_keys [OF pair] cbc iv inv p(2,4) by (simp add: cipherDecrypt_def Let_def)
  have "dataDecrypt cr e ses' (mac @ iv @ ct) = Inr (b, drop (length b) padded)"
  proof -
    have same: "DchCipher e = DchCipher d" "DchHash e = DchHash d" "DchKeyRemote e = DchKeyLocal d" "DchHmacRemote e = DchHmacLocal d"
      using pair by (simp_all add: paired_def)
    have "decodeEncryptedPayloadNonAEAD cr e (mac @ iv @ ct) = Inr \<lparr>EncIV = iv, EncCiphertext = ct, EncAEAD = []\<rparr>"
      using mac iv unfolding decodeEncryptedPayloadNonAEAD_def same Let_def by (simp add: mac_def [symmetric])
    moreover have "length ct \<noteq> 0" using inv(2) p(3) by linarith
    ultimately show ?thesis using cbc dec by (simp add: dataDecrypt_def isAEAD_def same)
  qed
  moreover have "encryptAndEncodePayload cr (Inr iv) d b ses =
      (Inr ((if TiUsePeerID (SesTunnelInfo ses) then
         WriteUint24 [dataOpcodeAndKeyHeader P_DATA_V2 ses] (of_int (TiPeerID (SesTunnelInfo ses))) else []) @ mac @ iv @ ct), ses)"
    using b stub cbc p(1) enc
    by (simp add: encryptAndEncodePayload_def doPadding_def isAEAD_def encryptAndEncodePayloadNonAEAD_def Let_def mac_def)
  moreover have "mac @ iv @ ct \<noteq> []" using iv by auto
  ultimately show ?thesis by blast
qed


section \<open>Over the wire\<close>

lemma data_header: "drop_bit 3 (dataOpcodeAndKeyHeader op ses) = op" if "op < 32"
proof -
  have key: "SesKeyID ses AND 7 < 8" using byte_parts(2) by simp
  have "(SesKeyID ses AND 7) AND 7 = SesKeyID ses AND 7" by (simp add: and.assoc)
  with header_fields(1) [OF that key] show ?thesis by (simp add: dataOpcodeAndKeyHeader_def)
qed

lemma wire_V2:
  assumes "body \<noteq> []"
  shows "\<exists>q. ParsePacket (WriteUint24 [dataOpcodeAndKeyHeader P_DATA_V2 ses] v @ body) = Inr q \<and> IsData q \<and> PktPayload q = body"
proof -
  have op: "drop_bit 3 (dataOpcodeAndKeyHeader P_DATA_V2 ses) = P_DATA_V2" by (rule data_header) (simp add: opcode_defs)
  obtain a b c where h: "WriteUint24 [dataOpcodeAndKeyHeader P_DATA_V2 ses] v = [dataOpcodeAndKeyHeader P_DATA_V2 ses, a, b, c]"
    by (simp add: WriteUint24_def WriteUint32_def PutUint32_def)
  show ?thesis unfolding h using assms op
    by (simp add: ParsePacket_def Let_def IsData_def opcodeIsData_def NewPacket_def opcodeIsControl_def opcode_defs)
qed

lemma wire_V1:
  assumes "body \<noteq> []"
  shows "\<exists>q. ParsePacket (headerByte (NewPacket P_DATA_V1 (SesKeyID (ses :: session_manager)) b) # body) = Inr q \<and> IsData q \<and> PktPayload q = body"
proof -
  have "headerByte (NewPacket P_DATA_V1 (SesKeyID ses) b) = dataOpcodeAndKeyHeader P_DATA_V1 ses"
    by (simp add: headerByte_def dataOpcodeAndKeyHeader_def NewPacket_def)
  moreover have "drop_bit 3 (dataOpcodeAndKeyHeader P_DATA_V1 ses) = P_DATA_V1" by (rule data_header) (simp add: opcode_defs)
  moreover obtain x xs where "body = x # xs" using assms by (cases body) simp_all
  ultimately show ?thesis
    by (simp add: ParsePacket_def Let_def IsData_def opcodeIsData_def NewPacket_def opcodeIsControl_def opcode_defs)
qed

lemma nonAEAD_sent:
  assumes laws: "crypto_laws cr" and pair: "paired d e" and cbc: "DcMode (DchCipher d) = CipherModeCBC"
    and plain: "DchCompress d \<noteq> CompressionStub" "DchCompress d \<noteq> CompressionLZONo"
    and iv: "length iv = 16" and pid: "localDataPacketID ses = (Inr i, ses1)"
  shows "\<exists>p buf q behind. writePacket cr (Inr iv) d payload ses = (Inr p, ses1) \<and> packetBytes p = Inr buf \<and>
    ParsePacket buf = Inr q \<and> IsData q \<and> PktPayload q \<noteq> [] \<and>
    dataDecrypt cr e ses' (PktPayload q) = Inr (PutUint32 i @ payload, behind)"
proof -
  let ?b = "PutUint32 i @ payload" and ?v2 = "TiUsePeerID (SesTunnelInfo ses1)"
  let ?h = "WriteUint24 [dataOpcodeAndKeyHeader P_DATA_V2 ses1] (of_int (TiPeerID (SesTunnelInfo ses1)))"
  have b: "?b \<noteq> []" by (simp add: PutUint32_def)
  have stub: "DchCompress d \<noteq> ''stub''" "DchCompress d \<noteq> ''lzo-no''" using plain by (simp_all add: CompressionStub_def CompressionLZONo_def)
  from nonAEAD_decrypts [OF laws pair cbc b stub(1) iv, of ses1 ses'] obtain body behind where
    enc: "encryptAndEncodePayload cr (Inr iv) d ?b ses1 = (Inr ((if ?v2 then ?h else []) @ body), ses1)"
    and body: "body \<noteq> []" and dec: "dataDecrypt cr e ses' body = Inr (?b, behind)" by (elim exE conjE)
  let ?op = "if ?v2 then P_DATA_V2 else P_DATA_V1"
  let ?n = "NewPacket ?op (SesKeyID ses1) ((if ?v2 then ?h else []) @ body)"
  let ?p = "if ?op = P_DATA_V2 then ?n\<lparr>PktPeerID := peerIDBytes (TiPeerID (SesTunnelInfo ses1))\<rparr> else ?n"
  have w: "writePacket cr (Inr iv) d payload ses = (Inr ?p, ses1)"
    using enc pid stub cbc by (simp add: writePacket_def isAEAD_def prependPacketID_def doCompress_def Let_def)
  have "\<exists>buf q. packetBytes ?p = Inr buf \<and> ParsePacket buf = Inr q \<and> IsData q \<and> PktPayload q = body"
  proof (cases ?v2)
    case True
    then have "packetBytes ?p = Inr (?h @ body)" by (simp add: packetBytes_def NewPacket_def opcode_defs)
    with wire_V2 [OF body, of ses1] show ?thesis by auto
  next
    case False
    then have "packetBytes ?p = Inr (headerByte (NewPacket P_DATA_V1 (SesKeyID ses1) body) # body)"
      by (simp add: packetBytes_def NewPacket_def opcode_defs)
    with wire_V1 [OF body, of ses1 body] show ?thesis by auto
  qed
  then obtain buf q where "packetBytes ?p = Inr buf" "ParsePacket buf = Inr q" "IsData q" "PktPayload q = body"
    by (elim exE conjE)
  with w body dec show ?thesis by auto
qed

section \<open>Streams of packets\<close>

text \<open>The worker that moves payloads down: a payload that cannot be encrypted is dropped, and nothing follows
  a panic. Each payload comes with the random bytes drawn for it.\<close>

fun dataMoveDown :: "crypto \<Rightarrow> data_channel \<Rightarrow> (bytes \<times> bytes) list \<Rightarrow> session_manager \<Rightarrow> packet list" where
  "dataMoveDown cr d [] ses = []"
| "dataMoveDown cr d ((iv, payload) # ms) ses =
     (case writePacket cr (Inr iv) d payload ses of
        (Inl (EnginePanic _), ses1) \<Rightarrow> []
      | (Inl (EngineError _), ses1) \<Rightarrow> dataMoveDown cr d ms ses1
      | (Inr p, ses1) \<Rightarrow> p # dataMoveDown cr d ms ses1)"

text \<open>The payloads that a channel accepts from a sequence of packets, up to a panic.\<close>

fun readAll :: "crypto \<Rightarrow> session_manager \<Rightarrow> packet list \<Rightarrow> data_channel \<Rightarrow> bytes list \<times> data_channel" where
  "readAll cr ses [] d = ([], d)"
| "readAll cr ses (p # ps) d =
     (case readPacket cr ses p d of
        (Inl (EnginePanic _), d1) \<Rightarrow> ([], d1)
      | (Inl (EngineError _), d1) \<Rightarrow> readAll cr ses ps d1
      | (Inr payload, d1) \<Rightarrow> (payload # fst (readAll cr ses ps d1), snd (readAll cr ses ps d1)))"

text \<open>The reference: a counter that admits only what is numbered above everything it has admitted.\<close>

fun admitted :: "packet_id \<Rightarrow> (packet_id \<times> bytes) list \<Rightarrow> bytes list" where
  "admitted n [] = []"
| "admitted n ((i, b) # xs) = (if n = 0xFFFFFFFF \<or> i \<le> n then admitted n xs else b # admitted i xs)"

fun numbered :: "packet_id \<Rightarrow> bytes list \<Rightarrow> (packet_id \<times> bytes) list" where
  "numbered n [] = []"
| "numbered n (b # bs) = (n, b) # numbered (n + 1) bs"

lemma numbered_payloads [simp]: "map snd (numbered n bs) = bs"
  by (induction bs arbitrary: n) simp_all

lemma numbered_sorted:
  assumes "unat n + length bs < 2 ^ 32"
  shows "sorted_wrt (\<lambda>x y. fst x < fst y) (numbered n bs) \<and> (\<forall>x \<in> set (numbered n bs). n \<le> fst x)"
  using assms
proof (induction bs arbitrary: n)
  case (Cons b bs)
  then have "n \<noteq> 0xFFFFFFFF" by auto
  then have u: "unat (n + 1) = Suc (unat n)" by (rule counter_below)
  with Cons have ih: "sorted_wrt (\<lambda>x y. fst x < fst y) (numbered (n + 1) bs)" "\<forall>x \<in> set (numbered (n + 1) bs). n + 1 \<le> fst x"
    by simp_all
  have less: "n < fst x" if "x \<in> set (numbered (n + 1) bs)" for x
    using ih(2) that u by (auto simp: word_less_nat_alt word_le_nat_alt)
  show ?case using ih(1) less by (auto intro: less_imp_le)
qed simp

lemma admitted_subseq:
  assumes "sorted_wrt (\<lambda>x y. fst x < fst y) sent" and "set xs \<subseteq> set sent"
  shows "subseq (admitted n xs) (map snd (filter (\<lambda>x. n < fst x) sent))"
  using assms(2)
proof (induction xs arbitrary: n)
  case (Cons x xs)
  obtain i b where x: "x = (i, b)" by (cases x)
  show ?case
  proof (cases "n = 0xFFFFFFFF \<or> i \<le> n")
    case False
    from Cons.prems x obtain l r where s: "sent = l @ (i, b) # r" by (auto dest: split_list)
    have "filter (\<lambda>x. i < fst x) sent = r"
      using assms(1) unfolding s by (auto simp: sorted_wrt_append filter_empty_conv filter_id_conv)
    with Cons.IH [of i] Cons.prems have ih: "subseq (admitted i xs) (map snd r)" by simp
    have "filter (\<lambda>x. n < fst x) r = r"
      using assms(1) False unfolding s by (auto simp: sorted_wrt_append filter_id_conv)
    then have "map snd (filter (\<lambda>x. n < fst x) sent) = map snd (filter (\<lambda>x. n < fst x) l) @ b # map snd r"
      using False unfolding s by (simp add: not_le)
    with ih False show ?thesis unfolding x by (simp add: list_emb_append2)
  qed (use Cons x in simp)
qed simp

lemma admitted_all:
  assumes "unat n + length bs < 2 ^ 32" and "m < n"
  shows "admitted m (numbered n bs) = bs"
  using assms
proof (induction bs arbitrary: n m)
  case (Cons b bs)
  then have "n \<noteq> 0xFFFFFFFF" by auto
  then have u: "unat (n + 1) = Suc (unat n)" by (rule counter_below)
  then have "n < n + 1" by (simp add: word_less_nat_alt)
  with Cons u have "admitted n (numbered (n + 1) bs) = bs" by simp
  moreover have "m \<noteq> 0xFFFFFFFF" using Cons.prems(2) unsigned_less [of n, where 'a = nat] by (auto simp: word_less_nat_alt)
  moreover have "\<not> n \<le> m" using Cons.prems(2) by (simp add: not_le)
  ultimately show ?case by simp
qed simp

text \<open>A packet carries a numbered payload if the channel finds both in it, and it arrives as what the peer
  parses out of its bytes.\<close>

definition carries :: "crypto \<Rightarrow> data_channel \<Rightarrow> packet \<Rightarrow> packet_id \<times> bytes \<Rightarrow> bool" where
  "carries cr e q x \<longleftrightarrow> IsData q \<and> PktPayload q \<noteq> [] \<and>
     (\<forall>ses. \<exists>behind. dataDecrypt cr e ses (PktPayload q) = Inr (PutUint32 (fst x) @ snd x, behind))"

definition arrives :: "packet \<Rightarrow> packet \<Rightarrow> bool" where
  "arrives p q \<longleftrightarrow> (\<exists>buf. packetBytes p = Inr buf \<and> ParsePacket buf = Inr q)"

lemma arrives_unique: "arrives p q \<Longrightarrow> arrives p q' \<Longrightarrow> q = q'"
  by (auto simp: arrives_def)

lemma dataDecrypt_session:
  "\<not> isAEAD (DchCipher d) \<Longrightarrow> dataDecrypt cr (d\<lparr>DchRemotePacketID := i\<rparr>) ses b = dataDecrypt cr d ses' b"
proof -
  have "decodeEncryptedPayloadNonAEAD cr (d\<lparr>DchRemotePacketID := i\<rparr>) b = decodeEncryptedPayloadNonAEAD cr d b"
    by (simp add: decodeEncryptedPayloadNonAEAD_def Let_def)
  then show "\<not> isAEAD (DchCipher d) \<Longrightarrow> ?thesis" by (simp add: dataDecrypt_def split: sum.split)
qed

lemma readPacket_carried:
  assumes "carries cr e q (i, b)" and "\<not> isAEAD (DchCipher e)"
    and "DchCompress e \<noteq> CompressionStub" "DchCompress e \<noteq> CompressionLZONo"
  shows "readPacket cr ses q (e\<lparr>DchRemotePacketID := n\<rparr>) =
    (if n = 0xFFFFFFFF then (Inl (EngineError ''key is expired''), e\<lparr>DchRemotePacketID := n\<rparr>)
     else if i \<le> n then (Inl (EngineError ''replay attack''), e\<lparr>DchRemotePacketID := n\<rparr>)
     else (Inr b, e\<lparr>DchRemotePacketID := i\<rparr>))"
proof -
  from assms(1) obtain behind where dec: "dataDecrypt cr e ses (PktPayload q) = Inr (PutUint32 i @ b, behind)"
    by (auto simp: carries_def)
  have "Uint32 (PutUint32 i) = i" using Uint32_Put [of i "[]"] by simp
  then show ?thesis
    using assms dec unfolding readPacket_def dataDecrypt_session [OF assms(2), of cr n ses _ ses]
    by (simp add: carries_def maybeDecompress_def compressionFrame_def unstub_def Let_def)
qed

lemma readAll_admits:
  assumes "list_all2 (carries cr e) qs xs" and "\<not> isAEAD (DchCipher e)"
    and "DchCompress e \<noteq> CompressionStub" "DchCompress e \<noteq> CompressionLZONo"
  shows "fst (readAll cr ses qs (e\<lparr>DchRemotePacketID := n\<rparr>)) = admitted n xs"
  using assms(1)
proof (induction arbitrary: n rule: list_all2_induct)
  case (Cons q qs x xs)
  obtain i b where x: "x = (i, b)" by (cases x)
  show ?case
    using Cons readPacket_carried [OF Cons.hyps(1) [unfolded x] assms(2-4), of ses n] by (simp add: x)
qed simp

lemma moved_down_carried:
  assumes laws: "crypto_laws cr" and pair: "paired d e" and cbc: "DcMode (DchCipher d) = CipherModeCBC"
    and plain: "DchCompress d \<noteq> CompressionStub" "DchCompress d \<noteq> CompressionLZONo"
    and iv: "list_all (\<lambda>m. length (fst m) = 16) ms" and ids: "unat (SesDataPacketID ses) + length ms < 2 ^ 32"
  shows "\<exists>qs. list_all2 arrives (dataMoveDown cr d ms ses) qs \<and>
    list_all2 (carries cr e) qs (numbered (SesDataPacketID ses) (map snd ms))"
  using iv ids
proof (induction ms arbitrary: ses)
  case (Cons m ms)
  obtain iv b where m: "m = (iv, b)" by (cases m)
  let ?i = "SesDataPacketID ses" and ?ses = "ses\<lparr>SesDataPacketID := SesDataPacketID ses + 1\<rparr>"
  have "?i \<noteq> 0xFFFFFFFF" using Cons.prems(2) by auto
  then have pid: "localDataPacketID ses = (Inr ?i, ?ses)" and u: "unat (?i + 1) = Suc (unat ?i)"
    by (simp add: localDataPacketID_def Let_def, rule counter_below)
  have iv: "length iv = 16" using Cons.prems(1) m by simp
  from nonAEAD_sent [OF laws pair cbc plain iv pid, of b ses] obtain p buf q behind where
    w: "writePacket cr (Inr iv) d b ses = (Inr p, ?ses)" and q: "packetBytes p = Inr buf" "ParsePacket buf = Inr q"
    "IsData q" "PktPayload q \<noteq> []" "dataDecrypt cr e ses (PktPayload q) = Inr (PutUint32 ?i @ b, behind)"
    by (elim exE conjE)
  have "\<not> isAEAD (DchCipher e)" using pair cbc by (simp add: paired_def isAEAD_def)
  then have "dataDecrypt cr e s (PktPayload q) = Inr (PutUint32 ?i @ b, behind)" for s
    using dataDecrypt_session [of e cr "DchRemotePacketID e" s "PktPayload q" ses] q(5) by simp
  with q(3,4) have "carries cr e q (?i, b)" by (simp add: carries_def)
  moreover have "arrives p q" using q by (auto simp: arrives_def)
  moreover from Cons.IH [of ?ses] Cons.prems u obtain qs where "list_all2 arrives (dataMoveDown cr d ms ?ses) qs"
    "list_all2 (carries cr e) qs (numbered (?i + 1) (map snd ms))" by auto
  ultimately show ?case unfolding m using w by (intro exI [of _ "q # qs"]) simp
qed simp

lemma list_all2_partner: "list_all2 P xs ys \<Longrightarrow> x \<in> set xs \<Longrightarrow> \<exists>y \<in> set ys. P x y"
  by (induction rule: list_all2_induct) auto


text \<open>Primitives that satisfy the laws, and a channel that is its own peer.\<close>

definition plain_crypto :: crypto where
  "plain_crypto = \<lparr>CrEncryptBlock = (\<lambda>k b. b), CrDecryptBlock = (\<lambda>k b. b), CrSeal = (\<lambda>k iv p ad. p @ zeros 16),
     CrOpen = (\<lambda>k iv c ad. if length c < 16 then None else Some (take (length c - 16) c)),
     CrHMAC = (\<lambda>name k m. zeros (hashSize name))\<rparr>"

definition some_channel :: "cipher_mode \<Rightarrow> data_channel" where
  "some_channel mode = \<lparr>DchCompress = CompressionEmpty, DchCipher = \<lparr>DcKeySize = 16, DcMode = mode\<rparr>, DchHash = ''sha1'',
     DchKeyLocal = zeros 64, DchHmacLocal = zeros 64, DchKeyRemote = zeros 64, DchHmacRemote = zeros 64, DchRemotePacketID = 0\<rparr>"

lemma plain_crypto_laws [simp]: "crypto_laws plain_crypto"
  by (simp add: crypto_laws_def plain_crypto_def zeros_def)

lemma some_channel_paired [simp]: "paired (some_channel mode) (some_channel mode)"
  by (simp add: paired_def some_channel_def zeros_def)

lemma some_channel_fields [simp]:
  "DcMode (DchCipher (some_channel mode)) = mode" "DchCompress (some_channel mode) = CompressionEmpty"
  "DchRemotePacketID (some_channel mode) = 0" "CompressionEmpty \<noteq> CompressionStub" "CompressionEmpty \<noteq> CompressionLZONo"
  by (simp_all add: some_channel_def CompressionEmpty_def CompressionStub_def CompressionLZONo_def)

lemma peer_session_data_id [simp]: "SesDataPacketID peer_session = 1"
  by code_simp


section \<open>Keys, replays and forgeries\<close>

lemma setupKeys_returns:
  assumes "crypto_laws cr" and "DckReady dck" "DckLocal dck = Some l" "DckRemote dck = Some r"
  shows "\<exists>k1 k2 k3 k4. setupKeys cr dck ses d =
      Some (Inr (d\<lparr>DchKeyLocal := k1, DchHmacLocal := k2, DchKeyRemote := k3, DchHmacRemote := k4\<rparr>)) \<and>
    length k1 = 64 \<and> length k2 = 64 \<and> length k3 = 64 \<and> length k4 = 64"
proof -
  let ?sid = "case SesRemoteSessionID ses of None \<Rightarrow> [] | Some sid \<Rightarrow> sid"
  obtain master where m: "openvpn_prf cr (KsPreMaster l) ''OpenVPN master secret'' (KsR1 l) (KsR1 r) [] [] 48 = Some master"
    using prf_returns [OF assms(1), of "KsPreMaster l" "''OpenVPN master secret''" "KsR1 l" "KsR1 r" "[]" "[]" 48]
    by (elim exE conjE)
  obtain keys where "openvpn_prf cr master ''OpenVPN key expansion'' (KsR2 l) (KsR2 r) (SesLocalSessionID ses) ?sid 256 = Some keys"
    "length keys = 256"
    using prf_returns [OF assms(1), of master "''OpenVPN key expansion''" "KsR2 l" "KsR2 r" "SesLocalSessionID ses" ?sid 256]
    by (elim exE conjE)
  with assms(2-4) m have "setupKeys cr dck ses d = Some (Inr (d\<lparr>DchKeyLocal := copyArray 64 (take 64 keys),
      DchHmacLocal := copyArray 64 (take 64 (drop 64 keys)), DchKeyRemote := copyArray 64 (take 64 (drop 128 keys)),
      DchHmacRemote := copyArray 64 (take 64 (drop 192 keys))\<rparr>))"
    by (simp add: setupKeys_def)
  then show ?thesis by (intro exI conjI) (assumption, simp_all add: copyArray_def zeros_def)
qed

text \<open>C23: the derivation of the keys always returns, although its loop has no bound of its own. From a key
  that is ready and has the material of both sides it gives four keys of 64 bytes, and it changes nothing
  else of the channel.\<close>

theorem key_derivation_returns:
  assumes "crypto_laws cr"
  shows "\<exists>result. setupKeys cr dck ses d = Some result \<and>
    (DckReady dck \<and> DckLocal dck \<noteq> None \<and> DckRemote dck \<noteq> None \<longrightarrow>
      (\<exists>k1 k2 k3 k4. result = Inr (d\<lparr>DchKeyLocal := k1, DchHmacLocal := k2, DchKeyRemote := k3, DchHmacRemote := k4\<rparr>) \<and>
        length k1 = 64 \<and> length k2 = 64 \<and> length k3 = 64 \<and> length k4 = 64))"
proof (cases "DckReady dck \<and> DckLocal dck \<noteq> None \<and> DckRemote dck \<noteq> None")
  case True
  then obtain l r where "DckReady dck" "DckLocal dck = Some l" "DckRemote dck = Some r" by auto
  from setupKeys_returns [OF assms this, of ses d] show ?thesis
    by (elim exE conjE) (intro exI conjI impI, assumption, rule refl, assumption+)
qed (auto simp: setupKeys_def split: option.split)

theorem key_derivation_returns_witness:
  "\<exists>result. setupKeys plain_crypto \<lparr>DckReady = True, DckLocal = Some \<lparr>KsR1 = zeros 32, KsR2 = zeros 32, KsPreMaster = zeros 48\<rparr>,
      DckRemote = Some \<lparr>KsR1 = zeros 32, KsR2 = zeros 32, KsPreMaster = []\<rparr>\<rparr> peer_session (some_channel CipherModeCBC) = Some (Inr result) \<and>
    length (DchHmacRemote result) = 64"
  using key_derivation_returns [OF plain_crypto_laws, of "\<lparr>DckReady = True, DckLocal = Some \<lparr>KsR1 = zeros 32, KsR2 = zeros 32,
      KsPreMaster = zeros 48\<rparr>, DckRemote = Some \<lparr>KsR1 = zeros 32, KsR2 = zeros 32, KsPreMaster = []\<rparr>\<rparr>" peer_session
      "some_channel CipherModeCBC"]
  by auto

lemma remote_id_kept: "\<exists>i. d = d\<lparr>DchRemotePacketID := i\<rparr> \<and> DchRemotePacketID d \<le> i"
  by (rule exI [of _ "DchRemotePacketID d"]) simp

lemma readPacket_shape:
  assumes "\<not> isAEAD (DchCipher d)"
  shows "\<exists>i. snd (readPacket cr ses p d) = d\<lparr>DchRemotePacketID := i\<rparr> \<and> DchRemotePacketID d \<le> i"
proof -
  have read: "\<exists>i. snd (maybeDecompress b behind d) = d\<lparr>DchRemotePacketID := i\<rparr> \<and> DchRemotePacketID d \<le> i" for b behind
  proof -
    let ?i = "Uint32 (take 4 (b @ behind))"
    have s: "snd (maybeDecompress b behind d) =
        (if length (b @ behind) < 4 \<or> DchRemotePacketID d = 0xFFFFFFFF \<or> ?i \<le> DchRemotePacketID d then d
         else d\<lparr>DchRemotePacketID := ?i\<rparr>)"
      using assms by (simp add: maybeDecompress_def Let_def)
    show ?thesis
    proof (cases "length (b @ behind) < 4 \<or> DchRemotePacketID d = 0xFFFFFFFF \<or> ?i \<le> DchRemotePacketID d")
      case True
      show ?thesis unfolding s if_P [OF True] by (rule remote_id_kept)
    next
      case False
      then have "DchRemotePacketID d \<le> ?i" using linear [of ?i "DchRemotePacketID d"] by argo
      then show ?thesis unfolding s if_not_P [OF False] by (intro exI conjI) (rule refl)
    qed
  qed
  show ?thesis
    using read remote_id_kept [of d] by (simp add: readPacket_def split: sum.split prod.split)
qed

lemma readAll_shape:
  "\<not> isAEAD (DchCipher d) \<Longrightarrow> \<exists>i. snd (readAll cr ses ps d) = d\<lparr>DchRemotePacketID := i\<rparr> \<and> DchRemotePacketID d \<le> i"
proof (induction ps arbitrary: d)
  case (Cons p ps)
  from readPacket_shape [OF Cons.prems, of cr ses p] obtain i where
    i: "snd (readPacket cr ses p d) = d\<lparr>DchRemotePacketID := i\<rparr>" "DchRemotePacketID d \<le> i" by (elim exE conjE)
  have "\<not> isAEAD (DchCipher (d\<lparr>DchRemotePacketID := i\<rparr>))" using Cons.prems by simp
  from Cons.IH [OF this] obtain j where
    j: "snd (readAll cr ses ps (d\<lparr>DchRemotePacketID := i\<rparr>)) = d\<lparr>DchRemotePacketID := j\<rparr>" "i \<le> j" by auto
  have "DchRemotePacketID d \<le> j" using i(2) j(2) by (rule order_trans)
  with i j show ?case by (auto split: prod.splits sum.splits engine_error.splits)
qed (unfold readAll.simps snd_conv, rule remote_id_kept)

text \<open>C15: no replay with block chaining. A packet that the channel has accepted is rejected with an error
  whenever it comes again, whatever other packets - genuine or not - are read in between.\<close>

theorem cbc_packet_accepted_once:
  assumes "DcMode (DchCipher d) = CipherModeCBC" and "readPacket cr ses p d = (Inr payload, d1)"
  shows "\<exists>err. fst (readPacket cr ses2 p (snd (readAll cr ses1 between d1))) = Inl (EngineError err)"
proof -
  have cbc: "\<not> isAEAD (DchCipher d)" using assms(1) by (simp add: isAEAD_def)
  from assms(2) cbc obtain b behind where dec: "PktPayload p \<noteq> []" "IsData p"
    "dataDecrypt cr d ses (PktPayload p) = Inr (b, behind)" "\<not> length (b @ behind) < 4"
    "d1 = d\<lparr>DchRemotePacketID := Uint32 (take 4 (b @ behind))\<rparr>"
    by (cases "dataDecrypt cr d ses (PktPayload p)")
      (auto simp: readPacket_def maybeDecompress_def Let_def split: if_splits)
  from readAll_shape [of d1 cr ses1 between] cbc dec(5) obtain i where
    i: "snd (readAll cr ses1 between d1) = d\<lparr>DchRemotePacketID := i\<rparr>" "Uint32 (take 4 (b @ behind)) \<le> i" by auto
  have "dataDecrypt cr (d\<lparr>DchRemotePacketID := i\<rparr>) ses2 (PktPayload p) = Inr (b, behind)"
    using dataDecrypt_session [OF cbc, of cr i ses2 "PktPayload p" ses] dec(3) by (rule trans)
  with i dec(1,2,4) cbc show ?thesis by (auto simp: readPacket_def maybeDecompress_def Let_def)
qed

definition some_data :: packet where
  "some_data = NewPacket P_DATA_V1 0 (zeros 36 @ [0, 0, 0, 1, 69, 0] @ replicate 10 10)"

lemma some_data_read: "fst (readPacket plain_crypto peer_session some_data (some_channel CipherModeCBC)) = Inr [69, 0]"
  by code_simp

theorem cbc_packet_accepted_once_witness:
  "fst (readPacket plain_crypto peer_session some_data (some_channel CipherModeCBC)) = Inr [69, 0] \<and>
   (\<exists>err. fst (readPacket plain_crypto peer_session some_data
      (snd (readPacket plain_crypto peer_session some_data (some_channel CipherModeCBC)))) = Inl (EngineError err))"
proof -
  obtain d1 where d1: "readPacket plain_crypto peer_session some_data (some_channel CipherModeCBC) = (Inr [69, 0], d1)"
    using some_data_read by (cases "readPacket plain_crypto peer_session some_data (some_channel CipherModeCBC)") simp
  have "DcMode (DchCipher (some_channel CipherModeCBC)) = CipherModeCBC" by simp
  from cbc_packet_accepted_once [OF this d1, of peer_session peer_session "[]"] d1 show ?thesis by simp
qed

text \<open>C14: once keys are there, bytes that anyone can send end the program. A packet with an opcode that does
  not exist passes the muxer and fails the assertion of the reader; with block chaining, a data packet with
  a wrong authentication sum makes the reader log through a logger that was never set. Neither needs a key.\<close>

theorem forged_packets_crash_client:
  assumes "ParsePacket raw = Inr p" and "PktPayload p \<noteq> []" and "\<not> IsControl p" "PktOpcode p \<noteq> P_ACK_V1"
    and "S_GENERATED_KEYS \<le> SesNegState (MuxSession m)"
    and "\<not> IsData p \<or> DcMode (DchCipher d) = CipherModeCBC \<and> hashSize (DchHash d) + 16 \<le> length (PktPayload p) \<and>
      CrHMAC cr (DchHash d) (take (hashSize (DchHash d)) (DchHmacRemote d)) (drop (hashSize (DchHash d)) (PktPayload p)) \<noteq>
        take (hashSize (DchHash d)) (PktPayload p)"
  shows "handleRawPacket raw m = Inr ([ToData p], m) \<and>
    (\<exists>why. fst (dataMoveUp cr ses p d) = Inl (EnginePanic why))"
proof -
  have "PktOpcode p \<noteq> P_CONTROL_HARD_RESET_SERVER_V2" using assms(3) by (auto simp: IsControl_def opcodeIsControl_def)
  then have "handleRawPacket raw m = Inr ([ToData p], m)" using assms(1,3-5) by (simp add: handleRawPacket_def not_less)
  moreover have "\<exists>why. fst (readPacket cr ses p d) = Inl (EnginePanic why)"
  proof (cases "IsData p")
    case True
    let ?n = "hashSize (DchHash d)" and ?b = "PktPayload p"
    have f: "DcMode (DchCipher d) = CipherModeCBC" "?n + 16 \<le> length ?b"
      "CrHMAC cr (DchHash d) (take ?n (DchHmacRemote d)) (drop ?n ?b) \<noteq> take ?n ?b" using assms(6) True by simp_all
    have "take 16 (drop ?n ?b) @ drop (?n + 16) ?b = drop ?n ?b"
      using append_take_drop_id [of 16 "drop ?n ?b"] by (simp add: add.commute)
    with f(2,3) have "decodeEncryptedPayloadNonAEAD cr d ?b = Inl (EnginePanic ''invalid memory address or nil pointer dereference'')"
      by (simp add: decodeEncryptedPayloadNonAEAD_def Let_def)
    with f(1) True assms(2) show ?thesis by (simp add: readPacket_def dataDecrypt_def isAEAD_def wrapError_def)
  qed (use assms(2) in \<open>simp add: readPacket_def\<close>)
  then have "\<exists>why. fst (dataMoveUp cr ses p d) = Inl (EnginePanic why)"
    by (cases "readPacket cr ses p d") (auto simp: dataMoveUp_def)
  ultimately show ?thesis ..
qed

theorem forged_packets_crash_client_witness:
  "\<exists>p why. handleRawPacket [0, 0] (setState S_GENERATED_KEYS (newMuxer peer_session)) =
      Inr ([ToData p], setState S_GENERATED_KEYS (newMuxer peer_session)) \<and>
    fst (dataMoveUp plain_crypto peer_session p (some_channel CipherModeGCM)) = Inl (EnginePanic why)"
proof -
  have p: "ParsePacket [0, 0] = Inr (NewPacket 0 0 [0])" by code_simp
  have q: "PktPayload (NewPacket 0 0 [0]) \<noteq> []" "\<not> IsControl (NewPacket 0 0 [0])" "PktOpcode (NewPacket 0 0 [0]) \<noteq> P_ACK_V1"
    "\<not> IsData (NewPacket 0 0 [0])" by code_simp+
  have "S_GENERATED_KEYS \<le> SesNegState (MuxSession (setState S_GENERATED_KEYS (newMuxer peer_session)))" by code_simp
  from forged_packets_crash_client [OF p q(1-3) this disjI1 [OF q(4)], where ses = peer_session]
  show ?thesis by (intro exI [of _ "NewPacket 0 0 [0]"]) auto
qed

section \<open>Authenticated encryption\<close>

text \<open>A packet sealed under the number \<open>i\<close>: header, number, tag and ciphertext, where the nonce is the
  number and the first bytes of the authentication key.\<close>

definition gcmNonce :: "data_channel \<Rightarrow> packet_id \<Rightarrow> bytes" where
  "gcmNonce d i = PutUint32 i @ take 8 (DchHmacLocal d)"

definition sealed_with :: "crypto \<Rightarrow> data_channel \<Rightarrow> packet \<Rightarrow> packet_id \<Rightarrow> bool" where
  "sealed_with cr d p i \<longleftrightarrow>
     (\<exists>padded header. let c = CrSeal cr (take (DcKeySize (DchCipher d)) (DchKeyLocal d)) (gcmNonce d i) padded (header @ PutUint32 i)
        in length header = 4 \<and> 16 \<le> length c \<and>
           PktPayload p = header @ PutUint32 i @ drop (length c - 16) c @ take (length c - 16) c)"

lemma aeadHeader_parts: "\<exists>header. length header = 4 \<and> aeadHeader ses b = header @ b"
  by (rule exI [of _ "WriteUint24 [dataOpcodeAndKeyHeader P_DATA_V2 ses] (of_int (TiPeerID (SesTunnelInfo ses)))"])
    (simp add: aeadHeader_def WriteUint24_def WriteUint32_def PutUint32_def)

lemma encodeAEAD_sealed:
  assumes "DcMode (DchCipher d) = CipherModeGCM" and "encryptAndEncodePayloadAEAD cr d padded ses = (Inr b, ses1)"
  shows "SesDataPacketID ses \<noteq> 0xFFFFFFFF \<and> ses1 = ses\<lparr>SesDataPacketID := SesDataPacketID ses + 1\<rparr> \<and>
    (\<forall>p. PktPayload p = b \<longrightarrow> sealed_with cr d p (SesDataPacketID ses))"
proof -
  let ?i = "SesDataPacketID ses"
  obtain header where h: "length header = 4" "aeadHeader ses (PutUint32 ?i) = header @ PutUint32 ?i"
    using aeadHeader_parts [of ses "PutUint32 ?i"] by (elim exE conjE)
  have i: "?i \<noteq> 0xFFFFFFFF" using assms(2) by (auto simp: encryptAndEncodePayloadAEAD_def localDataPacketID_def Let_def)
  let ?c = "CrSeal cr (take (DcKeySize (DchCipher d)) (DchKeyLocal d)) (gcmNonce d ?i) padded (header @ PutUint32 ?i)"
  have "cipherEncrypt cr (DchCipher d) (DchKeyLocal d) (gcmNonce d ?i) padded (header @ PutUint32 ?i) \<in> range Inl \<union> {Inr ?c}"
    using assms(1) by (auto simp: cipherEncrypt_def ivError_def Let_def split: option.split)
  with assms(2) i h(2) have b: "16 \<le> length ?c" "b = header @ PutUint32 ?i @ drop (length ?c - 16) ?c @ take (length ?c - 16) ?c"
    "ses1 = ses\<lparr>SesDataPacketID := ?i + 1\<rparr>"
    by (auto simp: encryptAndEncodePayloadAEAD_def localDataPacketID_def gcmNonce_def [symmetric] Let_def split: if_splits)
  have "sealed_with cr d p ?i" if "PktPayload p = b" for p
    unfolding sealed_with_def Let_def
    by (rule exI [of _ padded], rule exI [of _ header], intro conjI, rule h(1), rule b(1)) (simp only: that b(2))
  with i b(3) show ?thesis by simp
qed

lemma writePacket_sealed:
  assumes "DcMode (DchCipher d) = CipherModeGCM"
  shows "case writePacket cr rnd d payload ses of
      (Inr p, ses1) \<Rightarrow> SesDataPacketID ses \<noteq> 0xFFFFFFFF \<and> ses1 = ses\<lparr>SesDataPacketID := SesDataPacketID ses + 1\<rparr> \<and>
        sealed_with cr d p (SesDataPacketID ses)
    | (Inl _, ses1) \<Rightarrow> SesDataPacketID ses \<le> SesDataPacketID ses1"
proof (cases "writePacket cr rnd d payload ses")
  case (Pair r ses1)
  have aead: "isAEAD (DchCipher d)" using assms by (simp add: isAEAD_def)
  have next_id: "SesDataPacketID ses \<le> SesDataPacketID (snd (encryptAndEncodePayloadAEAD cr d padded ses))" for padded
    using counter_below [of "SesDataPacketID ses"]
    by (auto simp: encryptAndEncodePayloadAEAD_def localDataPacketID_def Let_def word_le_nat_alt)
  show ?thesis
  proof (cases r)
    case (Inl err)
    then show ?thesis using Pair aead next_id
      by (auto simp: writePacket_def encryptAndEncodePayload_def Let_def split: sum.splits prod.splits if_splits) (metis snd_conv)+
  next
    case (Inr p)
    then obtain padded b where "encryptAndEncodePayloadAEAD cr d padded ses = (Inr b, ses1)" "PktPayload p = b"
      using Pair aead
      by (auto simp: writePacket_def encryptAndEncodePayload_def NewPacket_def Let_def split: sum.splits prod.splits if_splits)
    with encodeAEAD_sealed [OF assms] Pair Inr show ?thesis by auto
  qed
qed

lemma moved_down_sealed:
  assumes "DcMode (DchCipher d) = CipherModeGCM"
  shows "\<exists>ids. list_all2 (sealed_with cr d) (dataMoveDown cr d ms ses) ids \<and> distinct ids \<and> (\<forall>i \<in> set ids. SesDataPacketID ses \<le> i)"
proof (induction ms arbitrary: ses)
  case (Cons m ms)
  obtain iv b where m: "m = (iv, b)" by (cases m)
  obtain r ses1 where w: "writePacket cr (Inr iv) d b ses = (r, ses1)" by (cases "writePacket cr (Inr iv) d b ses")
  from Cons.IH [of ses1] obtain ids where ids: "list_all2 (sealed_with cr d) (dataMoveDown cr d ms ses1) ids" "distinct ids"
    "\<forall>i \<in> set ids. SesDataPacketID ses1 \<le> i" by (elim exE conjE)
  note s = writePacket_sealed [OF assms, of ses cr "Inr iv" b, unfolded w prod.case]
  show ?case
  proof (cases r)
    case (Inl err)
    have "SesDataPacketID ses \<le> i" if "i \<in> set ids" for i using s Inl ids(3) that by (auto intro: order_trans)
    with ids(1,2) Inl show ?thesis unfolding m by (cases err) (auto simp: w)
  next
    case (Inr p)
    let ?i = "SesDataPacketID ses"
    have p: "?i \<noteq> 0xFFFFFFFF" "SesDataPacketID ses1 = ?i + 1" "sealed_with cr d p ?i" using s Inr by simp_all
    have less: "?i < i" if "i \<in> set ids" for i
      using ids(3) that p(2) counter_below [OF p(1)] by (auto simp: word_less_nat_alt word_le_nat_alt)
    then have "?i \<notin> set ids" by auto
    moreover have "\<forall>i \<in> set (?i # ids). ?i \<le> i" using less by (auto intro: less_imp_le)
    ultimately show ?thesis using ids(1,2) p(3) unfolding m by (intro exI [of _ "?i # ids"]) (simp add: w Inr)
  qed
qed simp

lemma gcmNonce_inject: "inj (gcmNonce d)"
proof (rule injI)
  fix i j assume "gcmNonce d i = gcmNonce d j"
  then have "Uint32 (PutUint32 i @ take 8 (DchHmacLocal d)) = Uint32 (PutUint32 j @ take 8 (DchHmacLocal d))"
    by (simp add: gcmNonce_def)
  then show "i = j" by simp
qed

text \<open>C13: with authenticated encryption no nonce is used twice. Every packet that a session sends, however
  many payloads there are and whichever of them fail, is sealed under a nonce of its own; when the numbers are
  exhausted, nothing is sealed any more.\<close>

theorem gcm_nonces_never_repeat:
  assumes "DcMode (DchCipher d) = CipherModeGCM"
  shows "\<exists>ids. list_all2 (sealed_with cr d) (dataMoveDown cr d ms ses) ids \<and> distinct (map (gcmNonce d) ids)"
proof -
  obtain ids where "list_all2 (sealed_with cr d) (dataMoveDown cr d ms ses) ids" "distinct ids"
    using moved_down_sealed [OF assms, of cr ms ses] by (elim exE conjE)
  then show ?thesis using gcmNonce_inject [of d] by (auto simp: distinct_map intro: inj_on_subset)
qed

theorem gcm_nonces_never_repeat_witness:
  "\<exists>ids. list_all2 (sealed_with plain_crypto (some_channel CipherModeGCM))
      (dataMoveDown plain_crypto (some_channel CipherModeGCM) [([], [69, 0]), ([], []), ([], [69, 1])] peer_session) ids \<and>
    length ids = 2 \<and> distinct (map (gcmNonce (some_channel CipherModeGCM)) ids)"
proof -
  let ?ps = "dataMoveDown plain_crypto (some_channel CipherModeGCM) [([], [69, 0]), ([], []), ([], [69, 1])] peer_session"
  have "DcMode (DchCipher (some_channel CipherModeGCM)) = CipherModeGCM" by simp
  from gcm_nonces_never_repeat [OF this, of plain_crypto "[([], [69, 0]), ([], []), ([], [69, 1])]" peer_session]
  obtain ids where ids: "list_all2 (sealed_with plain_crypto (some_channel CipherModeGCM)) ?ps ids"
    "distinct (map (gcmNonce (some_channel CipherModeGCM)) ids)" by (elim exE conjE)
  moreover have "length ?ps = 2" by code_simp
  ultimately show ?thesis by (intro exI [of _ ids]) (simp add: list_all2_lengthD [OF ids(1), symmetric])
qed

lemma Pad16_shape: "\<exists>pad. BytesPadPKCS7 b 16 = Inr (b @ pad) \<and> 1 \<le> length pad \<and> length pad \<le> 16"
proof -
  have "0 < 16 - int (length b) mod 16" "16 - int (length b) mod 16 \<le> 16" by (simp_all add: pos_mod_bound)
  then show ?thesis by (auto simp: BytesPadPKCS7_def Let_def nat_le_iff le_nat_iff)
qed

lemma gcm_decrypts:
  fixes padded :: bytes
  assumes laws: "crypto_laws cr" and pair: "paired d e" and gcm: "DcMode (DchCipher d) = CipherModeGCM"
    and header: "aeadHeader ses' (PutUint32 i) = aeadHeader ses (PutUint32 i)"
  defines "c \<equiv> CrSeal cr (take (DcKeySize (DchCipher d)) (DchKeyLocal d)) (gcmNonce d i) padded (aeadHeader ses (PutUint32 i))"
  shows "cipherEncrypt cr (DchCipher d) (DchKeyLocal d) (gcmNonce d i) padded (aeadHeader ses (PutUint32 i)) = Inr c" (is ?enc)
    and "length c = length padded + 16" (is ?len)
    and "dataDecrypt cr e ses' (PutUint32 i @ drop (length padded) c @ take (length padded) c) = Inr (padded, [])" (is ?dec)
proof -
  have key: "length (DchHmacLocal d) = 64" "DchCipher e = DchCipher d" "DchKeyRemote e = DchKeyLocal d" "DchHmacRemote e = DchHmacLocal d"
    using pair by (simp_all add: paired_def)
  have nonce: "length (gcmNonce d i) = 12" using key(1) by (simp add: gcmNonce_def)
  show ?enc using cipher_keys [OF pair] gcm nonce by (simp add: cipherEncrypt_def c_def Let_def)
  have "CrOpen cr (take (DcKeySize (DchCipher d)) (DchKeyLocal d)) (gcmNonce d i) c (aeadHeader ses (PutUint32 i)) = Some padded"
    using laws unfolding crypto_laws_def c_def by blast
  then have dec: "cipherDecrypt cr (DchCipher d) (DchKeyLocal d) (gcmNonce d i) c (aeadHeader ses (PutUint32 i)) = Inr (padded, [])"
    using cipher_keys [OF pair] gcm nonce by (simp add: cipherDecrypt_def Let_def)
  show len: ?len using laws unfolding crypto_laws_def c_def by blast
  then have "decodeEncryptedPayloadAEAD e ses' (PutUint32 i @ drop (length padded) c @ take (length padded) c) =
      Inr \<lparr>EncIV = gcmNonce d i, EncCiphertext = c, EncAEAD = aeadHeader ses (PutUint32 i)\<rparr>"
    by (simp add: decodeEncryptedPayloadAEAD_def Let_def gcmNonce_def key(4) header)
  moreover have "c \<noteq> []" using len by auto
  ultimately show ?dec using gcm dec by (simp add: dataDecrypt_def isAEAD_def key)
qed

lemma readAll_repeated:
  "readPacket cr ses q e = (Inr b, e) \<Longrightarrow> readAll cr ses (replicate n q) e = (replicate n b, e)"
  by (induction n) simp_all

text \<open>With authenticated encryption a payload arrives with the padding that the sender added, which
  nothing removes, and nothing remembers its number: every copy of the packet is accepted again.\<close>

theorem gcm_payload_padded_and_replayable:
  assumes laws: "crypto_laws cr" and pair: "paired d e" and gcm: "DcMode (DchCipher d) = CipherModeGCM"
    and plain: "DchCompress d \<noteq> CompressionStub" "DchCompress d \<noteq> CompressionLZONo" and payload: "payload \<noteq> []"
    and pid: "localDataPacketID ses = (Inr i, ses1)"
    and same: "SesKeyID ses' = SesKeyID ses" "TiPeerID (SesTunnelInfo ses') = TiPeerID (SesTunnelInfo ses)"
  shows "\<exists>p q pad. writePacket cr rnd d payload ses = (Inr p, ses1) \<and> arrives p q \<and> 1 \<le> length pad \<and> length pad \<le> 16 \<and>
    (\<forall>n. readAll cr ses' (replicate n q) e = (replicate n (payload @ pad), e))"
proof -
  obtain pad where pad: "BytesPadPKCS7 payload 16 = Inr (payload @ pad)" "1 \<le> length pad" "length pad \<le> 16"
    using Pad16_shape [of payload] by (elim exE conjE)
  let ?padded = "payload @ pad" and ?h = "aeadHeader ses (PutUint32 i)"
  have header: "aeadHeader ses' (PutUint32 i) = ?h" using same by (simp add: aeadHeader_def dataOpcodeAndKeyHeader_def)
  define c where "c = CrSeal cr (take (DcKeySize (DchCipher d)) (DchKeyLocal d)) (gcmNonce d i) ?padded ?h"
  note g = gcm_decrypts [OF laws pair gcm header, of ?padded, folded c_def]
  let ?body = "drop (length ?padded) c @ take (length ?padded) c"
  have stub: "DchCompress d \<noteq> ''stub''" "DchCompress d \<noteq> ''lzo-no''" using plain by (simp_all add: CompressionStub_def CompressionLZONo_def)
  have "encryptAndEncodePayloadAEAD cr d ?padded ses = (Inr (?h @ ?body), ses1)"
    using g(1,2) pid by (simp add: encryptAndEncodePayloadAEAD_def gcmNonce_def [symmetric] Let_def)
  then have "encryptAndEncodePayload cr rnd d payload ses = (Inr (?h @ ?body), ses1)"
    using payload pad(1) stub gcm by (simp add: encryptAndEncodePayload_def doPadding_def isAEAD_def)
  then have w: "writePacket cr rnd d payload ses =
      (Inr ((NewPacket P_DATA_V2 (SesKeyID ses1) (?h @ ?body))\<lparr>PktPeerID := peerIDBytes (TiPeerID (SesTunnelInfo ses1))\<rparr>), ses1)"
    using gcm stub by (simp add: writePacket_def isAEAD_def doCompress_def Let_def)
  have "PutUint32 i @ ?body \<noteq> []" by (simp add: PutUint32_def)
  from wire_V2 [OF this, of ses "of_int (TiPeerID (SesTunnelInfo ses))"] obtain q where
    q: "ParsePacket (?h @ ?body) = Inr q" "IsData q" "PktPayload q = PutUint32 i @ ?body" by (auto simp: aeadHeader_def)
  have "maybeDecompress ?padded [] e = (Inr ?padded, e)"
    using pair gcm plain by (simp add: maybeDecompress_def paired_def isAEAD_def compressionFrame_def unstub_def)
  with q g(3) have "readPacket cr ses' q e = (Inr ?padded, e)" by (simp add: readPacket_def)
  from readAll_repeated [OF this] have "\<forall>n. readAll cr ses' (replicate n q) e = (replicate n ?padded, e)" by simp
  with w q(1) pad(2,3) show ?thesis
    by (intro exI [of _ "(NewPacket P_DATA_V2 (SesKeyID ses1) (?h @ ?body))\<lparr>PktPeerID := peerIDBytes (TiPeerID (SesTunnelInfo ses1))\<rparr>"]
        exI [of _ q] exI [of _ pad]) (simp add: arrives_def packetBytes_def NewPacket_def opcode_defs)
qed

theorem gcm_payload_padded_and_replayable_witness:
  "\<exists>p q pad ses1. writePacket plain_crypto (Inr []) (some_channel CipherModeGCM) [69, 0] peer_session = (Inr p, ses1) \<and> arrives p q \<and>
     pad \<noteq> [] \<and> fst (readAll plain_crypto peer_session [q, q] (some_channel CipherModeGCM)) = [[69, 0] @ pad, [69, 0] @ pad]"
proof -
  have "localDataPacketID peer_session = (Inr 1, peer_session\<lparr>SesDataPacketID := 2\<rparr>)" by (simp add: localDataPacketID_def)
  from gcm_payload_padded_and_replayable [OF plain_crypto_laws some_channel_paired [of CipherModeGCM] _ _ _ _ this,
      where payload = "[69, 0]" and rnd = "Inr []" and ses' = peer_session]
  obtain p q pad where "writePacket plain_crypto (Inr []) (some_channel CipherModeGCM) [69, 0] peer_session =
      (Inr p, peer_session\<lparr>SesDataPacketID := 2\<rparr>)" "arrives p q" "1 \<le> length pad"
    "\<forall>n. readAll plain_crypto peer_session (replicate n q) (some_channel CipherModeGCM) =
      (replicate n ([69, 0] @ pad), some_channel CipherModeGCM)" by auto
  moreover from this(4) have "readAll plain_crypto peer_session (replicate 2 q) (some_channel CipherModeGCM) =
      (replicate 2 ([69, 0] @ pad), some_channel CipherModeGCM)" by (rule spec)
  moreover have "pad \<noteq> []" using calculation(3) by (cases pad) simp_all
  ultimately show ?thesis
    by (intro exI [of _ p] exI [of _ q] exI [of _ pad]) (simp add: numeral_2_eq_2)
qed

section \<open>Options that the channel does not serve\<close>

text \<open>With block chaining and the option for no compression the writer puts the compression byte in front of
  the packet identifier, the reader looks for it behind: the channel cannot read what it has written.\<close>

theorem lzo_no_unreadable:
  "\<exists>p q ses1. writePacket plain_crypto (Inr (zeros 16)) ((some_channel CipherModeCBC)\<lparr>DchCompress := CompressionLZONo\<rparr>) [69, 0] peer_session =
      (Inr p, ses1) \<and> arrives p q \<and>
    fst (readPacket plain_crypto peer_session q ((some_channel CipherModeCBC)\<lparr>DchCompress := CompressionLZONo\<rparr>)) =
      Inl (EngineError ''bad compression: cannot handle compression'')"
proof -
  let ?d = "(some_channel CipherModeCBC)\<lparr>DchCompress := CompressionLZONo\<rparr>"
  have "(case writePacket plain_crypto (Inr (zeros 16)) ?d [69, 0] peer_session of
      (Inr p, ses1) \<Rightarrow> (case packetBytes p of
          Inr buf \<Rightarrow> (case ParsePacket buf of
              Inr q \<Rightarrow> fst (readPacket plain_crypto peer_session q ?d) = Inl (EngineError ''bad compression: cannot handle compression'')
            | _ \<Rightarrow> False)
        | _ \<Rightarrow> False)
    | _ \<Rightarrow> False)" by code_simp
  then show ?thesis by (auto simp: arrives_def split: prod.splits sum.splits)
qed

text \<open>The options accept one cipher that the data channel has no implementation for: for every other
  combination of a cipher and a digest that the parser accepts, the channel is built, with the sizes of its cipher.\<close>

theorem parsed_options_served_except_one:
  assumes "supported opt" and "Cipher opt \<noteq> ''''" "OptAuth opt \<noteq> ''''"
  shows "if Cipher opt = ''AES-192-GCM'' then NewDataChannelFromOptions opt = Inl (EngineError ''unsupported cipher'')
    else \<exists>d. NewDataChannelFromOptions opt = Inr d \<and> DcKeySize (DchCipher d) \<in> {16, 24, 32} \<and> 0 < hashSize (DchHash d) \<and>
      hashSize (DchHash d) \<le> length (DchHmacLocal d)"
proof -
  have c: "Cipher opt \<in> set SupportedCiphers" "OptAuth opt \<in> set SupportedAuth" using assms by (auto simp: supported_def)
  have "newHMACFactory (to_lower a) \<noteq> None \<and> 0 < hashSize (to_lower a) \<and> hashSize (to_lower a) \<le> 64" if "a \<in> set SupportedAuth" for a
  proof -
    have "\<forall>a \<in> set SupportedAuth. newHMACFactory (to_lower a) \<noteq> None \<and> 0 < hashSize (to_lower a) \<and> hashSize (to_lower a) \<le> 64"
      by code_simp
    with that show ?thesis by simp
  qed
  from this [OF c(2)] obtain h where h: "newHMACFactory (to_lower (OptAuth opt)) = Some h" "0 < hashSize h" "hashSize h \<le> 64"
    by (auto simp: newHMACFactory_def split: if_splits)
  have "Cipher opt \<noteq> ''AES-192-GCM'' \<Longrightarrow> \<exists>dc. newDataCipherFromCipherSuite (Cipher opt) = Inr dc \<and> DcKeySize dc \<in> {16, 24, 32}"
    using c(1) by (auto simp: SupportedCiphers_def newDataCipherFromCipherSuite_def newDataCipher_def)
  moreover have "newDataCipherFromCipherSuite ''AES-192-GCM'' = Inl ''unsupported cipher''" by code_simp
  ultimately show ?thesis using h assms(2,3)
    by (auto simp: NewDataChannelFromOptions_def Assert_def zeros_def)
qed

end
