(* ===== verification/Vpn_Control.thy ===== *)
theory Vpn_Control
  imports Vpn_Data
begin

text \<open>
  The negotiation inside the TLS session (src/third_party/minivpn/internal/tlssession): the messages that
  are exchanged, their encoding and parsing, and the run of the negotiation up to the keys of the data
  channel. The TLS connection is an argument: the outcome of its handshake, of its writes and of its reads.
\<close>

section \<open>Client message\<close>

definition controlMessageHeader :: bytes where
  "controlMessageHeader = [0, 0, 0, 0]"

definition ivVer :: string where
  "ivVer = ''2.5.5''"

definition ivProto :: string where
  "ivProto = ''2''"

definition optionsText :: "openvpn_options \<Rightarrow> string eng" where
  "optionsText o' =
     (case ServerOptionsString o' of
        Inl (GoPanic why) \<Rightarrow> Inl (EnginePanic why)
      | Inl (BadConfig err) \<Rightarrow> Inl (EngineError err)
      | Inr s \<Rightarrow> Inr s)"

definition encodeClientControlMessageAsBytes :: "key_source \<Rightarrow> openvpn_options \<Rightarrow> bytes eng" where
  "encodeClientControlMessageAsBytes k o' =
     (case optionsText o' of
        Inl err \<Rightarrow> Inl err
      | Inr text' \<Rightarrow>
          (case EncodeOptionStringToBytes text' of
             Inl err \<Rightarrow> Inl err
           | Inr opt \<Rightarrow>
               (case EncodeOptionStringToBytes (OptUsername o') of
                  Inl err \<Rightarrow> Inl err
                | Inr user \<Rightarrow>
                    (case EncodeOptionStringToBytes (OptPassword o') of
                       Inl err \<Rightarrow> Inl err
                     | Inr pass \<Rightarrow>
                         let rawInfo = ''IV_VER='' @ ivVer @ newline @ ''IV_PROTO='' @ ivProto @ newline;
                             peerInfo = (case EncodeOptionStringToBytes rawInfo of Inl _ \<Rightarrow> [] | Inr b \<Rightarrow> b)
                         in Inr (controlMessageHeader @ [2] @ keySourceBytes k @ opt @ user @ pass @ peerInfo)))))"

section \<open>Server messages\<close>

definition parseServerControlMessage :: "bytes \<Rightarrow> (key_source \<times> string) eng" where
  "parseServerControlMessage message =
     (if length message < 4 then Inl (EngineError ''missing four-byte all-zero header'')
      else if take 4 message \<noteq> controlMessageHeader then Inl (EngineError ''expected four-byte all-zero header'')
      else if length message < 71 then
        Inl (EngineError (''cannot parse control message: bad len from server:'' @ itoa (int (length message))))
      else if message ! 4 \<noteq> 2 then
        Inl (EngineError (''unsupported key method: '' @ itoa (int (unat (message ! 4)))))
      else
        (case DecodeOptionStringFromBytes (drop 69 message) of
           Inl (EnginePanic why) \<Rightarrow> Inl (EnginePanic why)
         | Inl (EngineError _) \<Rightarrow> Inl (EngineError ''cannot parse control message:bad options string'')
         | Inr options \<Rightarrow>
             Inr (\<lparr>KsR1 = copyArray 32 (take 32 (drop 5 message)), KsR2 = copyArray 32 (take 32 (drop 37 message)),
                   KsPreMaster = zeros 48\<rparr>, options)))"

definition serverBadAuth :: bytes where
  "serverBadAuth = to_bytes ''AUTH_FAILED''"

definition serverPushReply :: bytes where
  "serverPushReply = to_bytes ''PUSH_REPLY''"

type_synonym remote_options = "string \<rightharpoonup> string list"

fun pushOption :: "string \<Rightarrow> remote_options \<Rightarrow> remote_options" where
  "pushOption opt optMap =
     (case split_on (CHR '' '') opt of
        k # v \<Rightarrow> optMap(k \<mapsto> v)
      | [] \<Rightarrow> optMap)"

definition pushedOptionsAsMap :: "bytes \<Rightarrow> remote_options" where
  "pushedOptionsAsMap pushedOptions =
     (if length pushedOptions = 0 then Map.empty
      else fold pushOption (split_on (CHR '','') (of_bytes (butlast pushedOptions))) Map.empty)"

text \<open>An absent key reads as an empty list.\<close>

definition optionValues :: "remote_options \<Rightarrow> string \<Rightarrow> string list" where
  "optionValues opts k = (case opts k of None \<Rightarrow> [] | Some v \<Rightarrow> v)"

definition pushedGateway :: "remote_options \<Rightarrow> string" where
  "pushedGateway opts =
     (case optionValues opts ''route'' of
        gw # _ \<Rightarrow> gw
      | [] \<Rightarrow> (case optionValues opts ''route-gateway'' of gw # _ \<Rightarrow> gw | [] \<Rightarrow> ''''))"

definition newTunnelInfoFromPushedOptions :: "remote_options \<Rightarrow> tunnel_info" where
  "newTunnelInfoFromPushedOptions opts =
     (let ifconfig = optionValues opts ''ifconfig'';
          t = zero_tunnel\<lparr>TiGW := pushedGateway opts,
                TiIP := (if 1 \<le> length ifconfig then ifconfig ! 0 else ''''),
                TiNetMask := (if 2 \<le> length ifconfig then ifconfig ! 1 else '''')\<rparr>
      in case optionValues opts ''peer-id'' of
           [peerID] \<Rightarrow> (case atoi peerID of None \<Rightarrow> t | Some peer \<Rightarrow> t\<lparr>TiPeerID := peer, TiUsePeerID := True\<rparr>)
         | _ \<Rightarrow> t)"

definition parseServerPushReply :: "bytes \<Rightarrow> tunnel_info eng" where
  "parseServerPushReply resp =
     (if take (length serverBadAuth) resp = serverBadAuth then Inl (EngineError ''server says: bad auth'')
      else if take (length serverPushReply) resp \<noteq> serverPushReply then
        Inl (EngineError ''bad server reply:expected push reply'')
      else Inr (newTunnelInfoFromPushedOptions (pushedOptionsAsMap resp)))"

section \<open>Negotiation\<close>

record tls_conn =
  TlsHandshake :: "string option"
  TlsWrite :: "nat \<Rightarrow> string option"
  TlsRead :: "nat \<Rightarrow> bytes res"

text \<open>A run of the negotiation: its error, the key that went up to the data channel, the session, and the
  messages that were written.\<close>

record auth_run =
  AuthError :: "engine_error option"
  AuthKeyUp :: "data_channel_key option"
  AuthSession :: session_manager
  AuthSent :: "bytes list"

definition authFailed :: "engine_error \<Rightarrow> session_manager \<Rightarrow> bytes list \<Rightarrow> auth_run" where
  "authFailed err m sent = \<lparr>AuthError = Some err, AuthKeyUp = None, AuthSession = m, AuthSent = sent\<rparr>"

definition sendAuthRequestMessage :: "tls_conn \<Rightarrow> openvpn_options \<Rightarrow> data_channel_key \<Rightarrow> bytes eng" where
  "sendAuthRequestMessage conn o' activeKey =
     (case DckLocal activeKey of
        None \<Rightarrow> Inl (EnginePanic ''invalid memory address or nil pointer dereference'')
      | Some l \<Rightarrow>
          (case encodeClientControlMessageAsBytes l o' of
             Inl err \<Rightarrow> Inl err
           | Inr ctrlMsg \<Rightarrow> (case TlsWrite conn 0 of Some err \<Rightarrow> Inl (EngineError err) | None \<Rightarrow> Inr ctrlMsg)))"

definition recvAuthReplyMessage :: "tls_conn \<Rightarrow> (key_source \<times> string) eng" where
  "recvAuthReplyMessage conn =
     (case TlsRead conn 0 of Inl err \<Rightarrow> Inl (EngineError err) | Inr data \<Rightarrow> parseServerControlMessage data)"

definition pushRequest :: bytes where
  "pushRequest = to_bytes ''PUSH_REQUEST'' @ [0]"

definition sendPushRequestMessage :: "tls_conn \<Rightarrow> bytes eng" where
  "sendPushRequestMessage conn =
     (case TlsWrite conn 1 of Some err \<Rightarrow> Inl (EngineError err) | None \<Rightarrow> Inr pushRequest)"

definition recvPushResponseMessage :: "tls_conn \<Rightarrow> tunnel_info eng" where
  "recvPushResponseMessage conn =
     (case TlsRead conn 1 of Inl err \<Rightarrow> Inl (EngineError err) | Inr data \<Rightarrow> parseServerPushReply data)"

text \<open>From the remote key on: the error of adding it is not looked at.\<close>

definition finishTLSAuth :: "tls_conn \<Rightarrow> key_source \<Rightarrow> data_channel_key \<Rightarrow> session_manager \<Rightarrow> bytes list \<Rightarrow> auth_run" where
  "finishTLSAuth conn remoteKey activeKey m sent =
     (let key = (case AddRemoteKey remoteKey activeKey of Inl _ \<Rightarrow> activeKey | Inr k \<Rightarrow> k);
          m1 = fst (SetNegotiationState S_GOT_KEY (setActiveKey key m))
      in case sendPushRequestMessage conn of
           Inl err \<Rightarrow> authFailed err m1 sent
         | Inr req \<Rightarrow>
             (case recvPushResponseMessage conn of
                Inl err \<Rightarrow> authFailed err m1 (sent @ [req])
              | Inr tinfo \<Rightarrow>
                  \<lparr>AuthError = None, AuthKeyUp = Some key,
                   AuthSession = fst (SetNegotiationState S_ACTIVE (UpdateTunnelInfo tinfo m1)), AuthSent = sent @ [req]\<rparr>))"

definition doTLSAuth :: "tls_conn \<Rightarrow> openvpn_options \<Rightarrow> session_manager \<Rightarrow> auth_run" where
  "doTLSAuth conn o' m =
     (case TlsHandshake conn of
        Some err \<Rightarrow> authFailed (EngineError err) m []
      | None \<Rightarrow>
          (case ActiveKey m of
             Inl err \<Rightarrow> authFailed (EngineError err) m []
           | Inr activeKey \<Rightarrow>
               (case sendAuthRequestMessage conn o' activeKey of
                  Inl err \<Rightarrow> authFailed err m []
                | Inr msg \<Rightarrow>
                    let m1 = fst (SetNegotiationState S_SENT_KEY m)
                    in (case recvAuthReplyMessage conn of
                          Inl err \<Rightarrow> authFailed err m1 [msg]
                        | Inr (remoteKey, serverOptions) \<Rightarrow>
                            (case InitTunnelInfo serverOptions m1 of
                               Inl err \<Rightarrow> authFailed (EngineError err) m1 [msg]
                             | Inr m2 \<Rightarrow> finishTLSAuth conn remoteKey activeKey m2 [msg])))))"

text \<open>The worker of the data channel that waits for keys; \<open>None\<close> if the derivation does not return.\<close>

definition keyWorker :: "crypto \<Rightarrow> data_channel_key \<Rightarrow> session_manager \<Rightarrow> data_channel \<Rightarrow> (data_channel \<times> session_manager) eng option" where
  "keyWorker cr key ses d =
     (case setupKeys cr key ses d of
        None \<Rightarrow> None
      | Some (Inl (EnginePanic why)) \<Rightarrow> Some (Inl (EnginePanic why))
      | Some (Inl (EngineError _)) \<Rightarrow> Some (Inr (d, ses))
      | Some (Inr d1) \<Rightarrow> Some (Inr (d1, fst (SetNegotiationState S_GENERATED_KEYS ses))))"

section \<open>Outcome\<close>

lemmas negotiation_defs = authFailed_def SetNegotiationState_def UpdateTunnelInfo_def setActiveKey_def

lemma finishTLSAuth_outcome:
  assumes "\<not> DckReady activeKey" and "DckLocal activeKey = Some l"
  shows "let run = finishTLSAuth conn remoteKey activeKey m sent
    in if AuthError run = None
       then (\<exists>key. AuthKeyUp run = Some key \<and> DckReady key \<and> DckLocal key = Some l \<and> DckRemote key = Some remoteKey) \<and>
         SesNegState (AuthSession run) = S_ACTIVE
       else AuthKeyUp run = None \<and> SesNegState (AuthSession run) = S_GOT_KEY"
  using assms
  by (cases "sendPushRequestMessage conn"; cases "recvPushResponseMessage conn")
    (simp_all add: finishTLSAuth_def AddRemoteKey_def negotiation_defs Let_def)

lemma sendAuthRequest_local: "sendAuthRequestMessage conn o' key = Inr msg \<Longrightarrow> \<exists>l. DckLocal key = Some l"
  by (auto simp: sendAuthRequestMessage_def split: option.splits)

lemma doTLSAuth_outcome:
  assumes key: "ActiveKey m = Inr activeKey" "\<not> DckReady activeKey" and start: "SesNegState m < S_ACTIVE"
  shows "let run = doTLSAuth conn o' m
    in if AuthError run = None
       then (\<exists>key l r. AuthKeyUp run = Some key \<and> DckReady key \<and> DckLocal key = Some l \<and> DckRemote key = Some r) \<and>
         SesNegState (AuthSession run) = S_ACTIVE
       else AuthKeyUp run = None \<and> SesNegState (AuthSession run) < S_ACTIVE"
proof -
  have states: "S_SENT_KEY < S_ACTIVE" "S_GOT_KEY < S_ACTIVE" by (simp_all add: neg_state_defs)
  show ?thesis
  proof (cases "sendAuthRequestMessage conn o' activeKey")
    case (Inr msg)
    obtain l where l: "DckLocal activeKey = Some l" using sendAuthRequest_local [OF Inr] by (elim exE)
    show ?thesis
    proof (cases "recvAuthReplyMessage conn")
      case reply: (Inr r)
      show ?thesis
      proof (cases "InitTunnelInfo (snd r) (fst (SetNegotiationState S_SENT_KEY m))")
        case tunnel: (Inr m2)
        from finishTLSAuth_outcome [OF key(2) l, of conn "fst r" m2 "[msg]"] states
        show ?thesis using key Inr reply tunnel start
          by (cases r, cases "TlsHandshake conn") (auto simp: doTLSAuth_def authFailed_def Let_def split: if_splits)
      qed (use key Inr reply start states in \<open>cases r, cases "TlsHandshake conn", simp_all add: doTLSAuth_def negotiation_defs Let_def\<close>)
    qed (use key Inr start states in \<open>cases "TlsHandshake conn", simp_all add: doTLSAuth_def negotiation_defs Let_def\<close>)
  qed (use key start in \<open>cases "TlsHandshake conn", simp_all add: doTLSAuth_def negotiation_defs Let_def\<close>)
qed

text \<open>C12: the negotiation gives keys or nothing. In a session whose key is not ready yet, a run without an
  error hands up a key with the material of both sides in the state \<open>S_ACTIVE\<close>, and from it the worker of the
  data channel derives four keys of 64 bytes and enters \<open>S_GENERATED_KEYS\<close>. A run with an error, wherever
  it happens, hands up no key and stays below \<open>S_ACTIVE\<close>.\<close>

theorem negotiation_yields_keys:
  assumes "crypto_laws cr" and "ActiveKey m = Inr activeKey" "\<not> DckReady activeKey" and "SesNegState m < S_ACTIVE"
  shows "let run = doTLSAuth conn o' m
    in if AuthError run = None
       then \<exists>key d1 ses1. AuthKeyUp run = Some key \<and> SesNegState (AuthSession run) = S_ACTIVE \<and>
         keyWorker cr key (AuthSession run) d = Some (Inr (d1, ses1)) \<and> SesNegState ses1 = S_GENERATED_KEYS \<and>
         length (DchKeyLocal d1) = 64 \<and> length (DchHmacLocal d1) = 64 \<and>
         length (DchKeyRemote d1) = 64 \<and> length (DchHmacRemote d1) = 64
       else AuthKeyUp run = None \<and> SesNegState (AuthSession run) < S_ACTIVE"
proof -
  define run where "run = doTLSAuth conn o' m"
  note out = doTLSAuth_outcome [OF assms(2-4), of conn o', folded run_def, unfolded Let_def]
  show ?thesis
  proof (cases "AuthError run = None")
    case True
    with out obtain key l r where key: "AuthKeyUp run = Some key" "DckReady key" "DckLocal key = Some l" "DckRemote key = Some r"
      and active: "SesNegState (AuthSession run) = S_ACTIVE" by auto
    from setupKeys_returns [OF assms(1) key(2-4), of "AuthSession run" d] obtain k1 k2 k3 k4 where
      k: "setupKeys cr key (AuthSession run) d =
        Some (Inr (d\<lparr>DchKeyLocal := k1, DchHmacLocal := k2, DchKeyRemote := k3, DchHmacRemote := k4\<rparr>))"
      "length k1 = 64" "length k2 = 64" "length k3 = 64" "length k4 = 64" by (elim exE conjE)
    then have "keyWorker cr key (AuthSession run) d =
        Some (Inr (d\<lparr>DchKeyLocal := k1, DchHmacLocal := k2, DchKeyRemote := k3, DchHmacRemote := k4\<rparr>,
          fst (SetNegotiationState S_GENERATED_KEYS (AuthSession run))))" by (simp add: keyWorker_def)
    with True key(1) active k(2-5) show ?thesis unfolding run_def [symmetric] Let_def
      by (simp add: SetNegotiationState_def)
  next
    case False
    with out show ?thesis unfolding run_def [symmetric] Let_def by simp
  qed
qed

definition some_conn :: tls_conn where
  "some_conn = \<lparr>TlsHandshake = None, TlsWrite = (\<lambda>_. None),
     TlsRead = (\<lambda>i. Inr (if i = 0 then controlMessageHeader @ [2] @ zeros 64 @ PutUint16 13 @ to_bytes ''tun-mtu 1500'' @ [0]
       else to_bytes ''PUSH_REPLY,ifconfig 10.0.0.2 10.0.0.1,peer-id 7'' @ [0]))\<rparr>"

theorem negotiation_yields_keys_witness:
  "\<exists>key d1 ses1. AuthKeyUp (doTLSAuth some_conn parsed_profile link_sender) = Some key \<and>
     keyWorker plain_crypto key (AuthSession (doTLSAuth some_conn parsed_profile link_sender)) (some_channel CipherModeCBC) =
       Some (Inr (d1, ses1)) \<and> SesNegState ses1 = S_GENERATED_KEYS \<and> length (DchHmacRemote d1) = 64"
proof -
  have "(case ActiveKey link_sender of Inr k \<Rightarrow> \<not> DckReady k | Inl _ \<Rightarrow> False)" by code_simp
  then obtain k where k: "ActiveKey link_sender = Inr k" "\<not> DckReady k" by (auto split: sum.splits)
  have n: "SesNegState link_sender < S_ACTIVE" by code_simp
  have "AuthError (doTLSAuth some_conn parsed_profile link_sender) = None" by code_simp
  with negotiation_yields_keys [OF plain_crypto_laws k n, of some_conn parsed_profile "some_channel CipherModeCBC"]
  show ?thesis by (auto simp: Let_def)
qed

section \<open>Pushed options\<close>

definition pushText :: "(string \<times> string list) list \<Rightarrow> string" where
  "pushText opts = join '','' (map (\<lambda>(k, v). join '' '' (k # v)) opts)"

definition pushable :: "string \<times> string list \<Rightarrow> bool" where
  "pushable x \<longleftrightarrow> list_all (\<lambda>w. CHR '','' \<notin> set w \<and> CHR '' '' \<notin> set w) (fst x # snd x)"

lemma pushOption_joined: "pushable (k, v) \<Longrightarrow> pushOption (join '' '' (k # v)) m = m(k \<mapsto> v)"
  using split_on_join [of "k # v" "CHR '' ''"] by (simp add: pushable_def list_all_iff)

lemma pushable_no_comma: "pushable (k, v) \<Longrightarrow> CHR '','' \<notin> set (join '' '' (k # v))"
proof -
  have "CHR '','' \<notin> set (join '' '' ws)" if "list_all (\<lambda>w. CHR '','' \<notin> set w \<and> CHR '' '' \<notin> set w) ws" for ws
    using that by (induction "'' ''" ws rule: join.induct) auto
  then show "pushable (k, v) \<Longrightarrow> ?thesis" by (simp add: pushable_def)
qed

lemma pushed_map:
  assumes "opts \<noteq> []" and "list_all pushable opts"
  shows "pushedOptionsAsMap (to_bytes (pushText opts) @ [0]) = map_of (rev opts)"
proof -
  have "split_on (CHR '','') (pushText opts) = map (\<lambda>(k, v). join '' '' (k # v)) opts"
    unfolding pushText_def using assms pushable_no_comma by (intro split_on_join) (auto simp: list_all_iff)
  moreover have "fold pushOption (map (\<lambda>(k, v). join '' '' (k # v)) opts) m = m ++ map_of (rev opts)" for m
    using assms(2)
  proof (induction opts arbitrary: m)
    case (Cons x opts)
    obtain k v where x: "x = (k, v)" by (cases x)
    with Cons pushOption_joined [of k v m] show ?case by (simp del: pushOption.simps add: map_add_upd_left)
  qed simp
  ultimately show ?thesis by (simp add: pushedOptionsAsMap_def)
qed

lemma pushText_prefix: "\<exists>rest. pushText ((''PUSH_REPLY'', []) # opts) = ''PUSH_REPLY'' @ rest"
  by (cases opts) (simp_all add: pushText_def)

text \<open>What the server pushes is what the tunnel uses. From a reply that lists options without commas and
  blanks in their words, each key once, the client takes the address, the mask and the peer identifier that
  the reply names, and it uses the packet format with the peer identifier.\<close>

theorem pushed_options_applied:
  assumes "list_all pushable opts" and "distinct (map fst opts)" and "''PUSH_REPLY'' \<notin> fst ` set opts"
    and "(''ifconfig'', [ip, netmask]) \<in> set opts" and "(''peer-id'', [itoa peer]) \<in> set opts" and "int64_range peer"
  shows "\<exists>ti. parseServerPushReply (to_bytes (pushText ((''PUSH_REPLY'', []) # opts)) @ [0]) = Inr ti \<and>
    TiIP ti = ip \<and> TiNetMask ti = netmask \<and> TiPeerID ti = peer \<and> TiUsePeerID ti"
proof -
  let ?all = "(''PUSH_REPLY'', []) # opts" and ?resp = "to_bytes (pushText ((''PUSH_REPLY'', []) # opts)) @ [0]"
  obtain rest where rest: "pushText ?all = ''PUSH_REPLY'' @ rest" using pushText_prefix [of opts] by (elim exE)
  have starts: "take (length serverPushReply) ?resp = serverPushReply" "take (length serverBadAuth) ?resp \<noteq> serverBadAuth"
    unfolding rest by (simp_all add: serverPushReply_def serverBadAuth_def to_bytes_def)
  have "list_all pushable ?all" using assms(1) by (simp add: pushable_def)
  then have map: "pushedOptionsAsMap ?resp = map_of (rev ?all)" by (intro pushed_map) simp_all
  have d: "distinct (map fst (rev ?all))" using assms(2,3) by (simp add: rev_map [symmetric] distinct_map image_iff)
  have look: "map_of (rev ?all) k = Some v" if "(k, v) \<in> set ?all" for k v using that by (intro map_of_is_SomeI d) simp
  have "optionValues (map_of (rev ?all)) ''ifconfig'' = [ip, netmask]" "optionValues (map_of (rev ?all)) ''peer-id'' = [itoa peer]"
    using look [of "''ifconfig''"] look [of "''peer-id''"] assms(4,5) by (simp_all add: optionValues_def)
  then show ?thesis using starts map atoi_itoa [OF assms(6)]
    by (simp add: parseServerPushReply_def newTunnelInfoFromPushedOptions_def Let_def)
qed

theorem pushed_options_applied_witness:
  "\<exists>ti. parseServerPushReply (to_bytes (pushText [(''PUSH_REPLY'', []), (''ifconfig'', [''10.0.0.2'', ''10.0.0.1'']), (''peer-id'', [''7''])]) @ [0]) =
     Inr ti \<and> TiIP ti = ''10.0.0.2'' \<and> TiPeerID ti = 7 \<and> TiUsePeerID ti"
proof -
  have i: "itoa 7 = ''7''" by code_simp
  show ?thesis
    using pushed_options_applied [of "[(''ifconfig'', [''10.0.0.2'', ''10.0.0.1'']), (''peer-id'', [''7''])]" "''10.0.0.2''" "''10.0.0.1''" 7]
    by (auto simp: i pushable_def int64_range_def)
qed

text \<open>The last byte of a reply is dropped whatever it is: a reply without the final zero loses a digit.\<close>

theorem unterminated_reply_truncated:
  "parseServerPushReply (to_bytes ''PUSH_REPLY,ifconfig 10.0.0.2 10.0.0.1,peer-id 12'') =
     Inr (zero_tunnel\<lparr>TiIP := ''10.0.0.2'', TiNetMask := ''10.0.0.1'', TiPeerID := 1, TiUsePeerID := True\<rparr>)"
  by code_simp

end
