(* ===== verification/Spec2Isabelle.thy ===== *)
theory Spec2Isabelle
  imports "HOL-Library.State_Monad" Failover Probe Vpngate Residential Exit_Verify Json_Store Subscription Vpn_Options
    Xray Openvpn Tunnel_Controller Session_Tracker Web_Example Cli Page Vpn_Control
begin

text \<open>
  Verification of the residential IP manager: a console that lists VPNGate servers, grades their
  addresses, opens a tunnel through one of them with an embedded OpenVPN client, checks the address at
  the exit and runs a proxy core on top of the tunnel.

  \<^bold>\<open>Parts and interaction.\<close> The listing is fetched and parsed (src/internal/source), the nodes are graded by a
  lookup service (src/internal/classify) and probed (src/internal/probe). The console (src/internal/web)
  chooses a candidate, the tunnel controller (src/internal/tunnel) cleans its profile, starts the engine
  (src/third_party/minivpn) and bridges packets; the exit is verified (src/internal/verify), then the
  proxy core starts (src/internal/proxycore) and subscriptions are served (src/internal/subscription).
  State is saved (src/internal/storage), the configuration loaded (src/internal/config), services are
  installed (src/internal/service), and the commands are in src/cmd/rim.

  \<^bold>\<open>Conventions.\<close> Go strings are byte strings (\<open>string\<close>), byte slices are lists of 8-bit words, fixed-width
  counters are words, \<open>int\<close> and durations are integers with the wrap-around at 64 bits written out. A
  fallible function returns \<open>string + 'a\<close>; in the engine \<open>engine_error + 'a\<close>, where a panic is a value of
  its own. Network, clock, disk, random source, the lookup service, the proxy core and the TLS library
  are arguments, mostly functions of the number of the call, so that a run may see any sequence of
  answers. A critical section under a mutex is one step; what other goroutines do between two sections
  is an explicit sequence of steps or a step relation.

  \<^bold>\<open>Library.\<close> \<open>Rim_Prelude\<close> has the shared lemmas and collections; \<open>Go_Sort\<close>, \<open>Go_Strings\<close>, \<open>Go_Net\<close>,
  \<open>Go_Encoding\<close> and \<open>Go_Flag\<close> model what the sources use of the Go library; \<open>Messages\<close> and \<open>Page_Text\<close> hold
  the literals that are not ASCII.

  \<^bold>\<open>Nodes.\<close> \<open>Domain\<close> (src/internal/domain/models.go), \<open>Vpngate\<close> (source/vpngate.go: \<open>ParseVPNGateCSV\<close>, \<open>rowToNode\<close>,
  \<open>Fetch\<close>), \<open>Residential\<close> (classify/residential.go: \<open>Classify\<close>), \<open>Probe\<close> (probe/tcp.go: \<open>Probe\<close>), \<open>Failover\<close>
  (web/failover.go: candidates and cooldown). Shown: fetched nodes are public and consistent with their
  profile, evidence against a node dominates its grade, candidates are the best connectable nodes, and a
  node that failed is not chosen during its cooldown.

  \<^bold>\<open>Configuration and files.\<close> \<open>Config\<close> (config/config.go), \<open>Json_Store\<close> (storage/json_store.go), \<open>Service\<close>
  (service/service.go), \<open>Subscription\<close> (subscription/vmess.go), \<open>Ovpn_Config\<close> (tunnel/ovpn_config.go), \<open>Vpn_Options\<close>
  (minivpn/pkg/config). Shown: \<open>Validate\<close> accepts exactly the sound configurations, a crash or a failure at
  any point of a save leaves the old or the new state, a cleaned profile has no dangerous directive, the
  link of a subscription decodes to its fields.

  \<^bold>\<open>Tunnel and proxy.\<close> \<open>Openvpn\<close> has the operations of the controller (tunnel/openvpn.go: \<open>connect\<close>, \<open>watch\<close>,
  \<open>Disconnect\<close>), \<open>Tunnel_Controller\<close> their interleaving as the step relation \<open>tunnel_step\<close> and its refinement
  to phases, \<open>Session_Tracker\<close> the dials and connections of a session (\<open>tracker_step\<close>), \<open>Xray\<close> the proxy core
  (proxycore/xray.go), \<open>Exit_Verify\<close> the verdict on the exit (verify/exit.go). Shown: at most one tunnel is
  up, a failed attempt leaves no engine, after waiting no connection is open and waiting always can
  make progress, and the proxy core never runs without a tunnel.

  \<^bold>\<open>Console.\<close> \<open>Server_Monad\<close>, \<open>Web_State\<close>, \<open>Web_Exit\<close> and \<open>Web_Server\<close> are src/internal/web/server.go in the state
  monad; \<open>Web_Frame\<close> says what each operation leaves alone, \<open>Web_System\<close> has the runs of the whole console,
  \<open>Web_Agreement\<close> the agreement of snapshot and tunnel, \<open>Web_Example\<close> concrete runs. \<open>ReqPath\<close> is the path as the
  router has cleaned it. \<open>Page_View\<close> and \<open>Page\<close> are the script of src/internal/web/static.go over a record of
  its variables and elements. \<open>Cli\<close> is src/cmd/rim/main.go. Shown: no request without a session passes,
  sessions come from a login only, the snapshot names the tunnel that is up, and no data of the server
  changes the structure of the page.

  \<^bold>\<open>Engine.\<close> The theories \<open>Vpn_*\<close> model src/third_party/minivpn/internal: \<open>Vpn_Bytes\<close> (bytesx, networkio),
  \<open>Vpn_Packet\<close> (model/packet.go), \<open>Vpn_Session\<close> (session), \<open>Vpn_Reliable\<close> (reliabletransport), \<open>Vpn_Muxer\<close>
  (packetmuxer, controlchannel), \<open>Vpn_Data\<close> (datachannel), \<open>Vpn_Control\<close> (the messages and the negotiation of
  tlssession). A turn of a worker is a step, a channel is the list of what was sent on it. The ciphers
  and hash functions of the Go library are the record \<open>crypto\<close> with the laws \<open>crypto_laws\<close>. Shown: the wire
  format is exact and the parser well typed, identifiers and nonces are never reused, the control
  channel delivers a prefix of what was sent over any network, a packet is sent again until it is
  acknowledged, the handshake survives any bytes, the negotiation yields complete keys or none, and with
  block chaining payloads arrive in order and at most once. The theorems also state where the code
  fails: \<open>forged_packets_crash_client\<close>, \<open>duplicates_block_receiver\<close>, \<open>full_window_loses_packet\<close>,
  \<open>gcm_payload_padded_and_replayable\<close>, \<open>lzo_no_unreadable\<close>, and in this theory \<open>vetted_remote_not_dialed\<close> and
  \<open>failed_verification_shown_as_passed\<close>.

  \<^bold>\<open>Interfaces.\<close> The locales are the contracts between components: codecs (\<open>codec\<close>, \<open>strict_codec\<close> in \<open>Vpn_Bytes\<close>),
  sources of identifiers (\<open>id_source\<close> in \<open>Vpn_Session\<close>), event systems and invariants of the console and of
  the page. Each is interpreted on the definitions of the component that provides it.

  \<^bold>\<open>Bounds and fuel.\<close> Loops over data are structural or have a termination proof. The loop of the key
  derivation is a partial function, and \<open>key_derivation_returns\<close> shows that it returns. Loops that wait
  for events are runs over an arbitrary finite list of events; no bound is put on its length.

  \<^bold>\<open>Not modelled.\<close> The TLS handshake itself, which crypto/tls and a third-party library do, with the check of
  certificates; the adapters from Go channels to \<open>net.Conn\<close>, the packet device and the bookkeeping of
  goroutines (tlssession/tlshandshake.go, tlsbio.go, tun, workers); tracing and logging, except where a
  logger is missing; the style sheet and the decoration of the console page, and the layout the browser
  makes of it; the HTTP transport below the handlers. Scheduling inside a critical section and
  data races between workers of the engine are outside the model.
\<close>

section \<open>The listing and the engine\<close>

text \<open>A listing with one node. Its profile has two remotes: the first is the address of the row, the
  second a private one.\<close>

definition two_remotes_csv :: string where
  "two_remotes_csv = join newline
     [''*vpn_servers'', ''#HostName,IP,CountryShort,OpenVPN_ConfigData_Base64'',
      ''vpn1,1.2.3.4,jp,cHJvdG8gdGNwCnJlbW90ZSAxLjIuMy40IDQ0MwpjaXBoZXIgQUVTLTEyOC1DQkMKYXV0aCBTSEExCnJlbW90ZSAxMC4wLjAuMSAyMg=='', ''*'', '''']"

definition two_remotes_node :: vpn_node where
  "two_remotes_node = zero_node\<lparr>ID := ''JP_1.2.3.4_443_tcp'', IP := ''1.2.3.4'', RemoteHost := ''1.2.3.4'',
     RemotePort := 443, Protocol := ''tcp'', CountryCode := ''JP'', PurityGrade := PurityCandidate,
     Status := NodeUnknown,
     OpenVPNConfig := join newline [''proto tcp'', ''remote 1.2.3.4 443'', ''cipher AES-128-CBC'', ''auth SHA1'', ''remote 10.0.0.1 22'']\<rparr>"

lemma two_remotes_fetched: "ParseVPNGateCSV two_remotes_csv = Inr [two_remotes_node]"
  by code_simp

lemma two_remotes_dialed:
  "map (\<lambda>c. case c of EngineStart t opt \<Rightarrow> OptRemote opt | _ \<Rightarrow> '''')
     (snd (connect some_io (OpenVPN Default) ''/data/runtime'' 1 two_remotes_node)) = [''10.0.0.1'', '''']"
  by code_simp


section \<open>The server and the page\<close>

text \<open>The run of the example server after the exit has come up; now the lookup through the exit reports
  a proxy.\<close>

definition proxied_world :: world where
  "proxied_world = (gate_world 17)\<lparr>WVerify := (\<lambda>_. Inr (200, Inr (home_payload\<lparr>PayProxy := True\<rparr>)))\<rparr>"

definition verify_request :: request where
  "verify_request = \<lparr>ReqMethod = ''POST'', ReqPath = ''/api/exit/verify'', ReqCookie = None, ReqTLS = False,
     ReqToken = '''', ReqLogin = Inl '''', ReqNodeID = ''''\<rparr>"

lemma proxied_tick: "tick proxied_world s = s\<lparr>SrvTicks := Suc (SrvTicks s)\<rparr>"
  by (simp add: tick_def tunnelDrop_def proxied_world_def gate_world_simps)

lemma proxied_verdict:
  obtains result where "Verify (Inr (200, Inr (home_payload\<lparr>PayProxy := True\<rparr>))) probed_node = Inr result"
    "\<not> ResPassed result"
proof -
  have "case Verify (Inr (200, Inr (home_payload\<lparr>PayProxy := True\<rparr>))) probed_node of
      Inr result \<Rightarrow> \<not> ResPassed result | Inl _ \<Rightarrow> False"
    by code_simp
  then show ?thesis using that by (auto split: sum.splits)
qed

lemma proxied_saveLocked:
  "\<exists>files. run_state (saveLocked proxied_world) s = ((), s\<lparr>SrvTicks := Suc (Suc (SrvTicks s)), SrvFiles := files\<rparr>)"
proof -
  have "WSave proxied_world = (\<lambda>_. smooth)" by (simp add: proxied_world_def gate_world_simps)
  then show ?thesis
    by (simp add: saveLocked_def storeSave_def proxied_tick SaveState_def save_steps_def smooth_def exI)
qed

lemma proxied_verify:
  assumes "SrvNodes s = [probed_node]" and "CtlSession (SrvTunnel s) = Some x" and "ActiveNodeID (SrvSnapshot s) = ID probed_node"
  shows "\<exists>result now s'. run_state (verifyExit proxied_world verify_request) s = (writeJSON 200 (VerdictBody result), s') \<and>
    \<not> ResPassed result \<and> SrvSnapshot s' = verdictSnapshot probed_node result now (SrvSnapshot s) \<and> SrvTunnel s' = SrvTunnel s"
proof -
  obtain result where result: "Verify (Inr (200, Inr (home_payload\<lparr>PayProxy := True\<rparr>))) probed_node = Inr result"
    "\<not> ResPassed result" by (rule proxied_verdict)
  have nonempty: "ID probed_node \<noteq> ''''" by code_simp
  have answer: "WVerify proxied_world k = Inr (200, Inr (home_payload\<lparr>PayProxy := True\<rparr>))" for k
    by (simp add: proxied_world_def)
  have verdict: "run_state (verifyNodeExit proxied_world probed_node) s = (Inr result, s\<lparr>SrvTicks := Suc (SrvTicks s)\<rparr>)"
    using result(1) assms(2) by (simp add: verifyNodeExit_def proxied_tick through_tunnel_def DialContext_def answer)
  have active: "run_state activeNode s = (Some probed_node, s)"
    using assms nonempty by (simp add: activeNode_def findActive_def)
  define now where "now = WClock proxied_world (Suc (SrvTicks s))"
  define s2 where "s2 = snd (run_state (addLog proxied_world ''info'' (msg_verified @ ResMessage result))
    (s\<lparr>SrvTicks := Suc (Suc (SrvTicks s)), SrvSnapshot := verdictSnapshot probed_node result now (SrvSnapshot s)\<rparr>))"
  obtain files where saved: "run_state (saveLocked proxied_world) s2 = ((), s2\<lparr>SrvTicks := Suc (Suc (SrvTicks s2)), SrvFiles := files\<rparr>)"
    using proxied_saveLocked by blast
  have "run_state (verifyExit proxied_world verify_request) s =
      (writeJSON 200 (VerdictBody result), s2\<lparr>SrvTicks := Suc (Suc (SrvTicks s2)), SrvFiles := files\<rparr>)"
    using saved by (simp add: verifyExit_def postOnly_def verify_request_def active verdict applyVerifyResult_def proxied_tick
      s2_def now_def)
  moreover have "SrvSnapshot s2 = verdictSnapshot probed_node result now (SrvSnapshot s)" "SrvTunnel s2 = SrvTunnel s"
    by (simp_all add: s2_def proxied_tick)
  ultimately show ?thesis using result(2) by fastforce
qed

text \<open>A failed verification is shown as passed. In a run of the server the exit is connected; then
  the user asks for a verification and the lookup finds a proxy. The server answers that with status
  200 and keeps the tunnel, the page reports success, marks the exit as verified and hides the
  button that would close it.\<close>

theorem failed_verification_shown_as_passed:
  "\<exists>s s' resp result.
     run_events (serve (gate_world 17)) (Some (gate_start 17, 0)) [ConnectExit] = Some (s, 0) \<and>
     run_state (verifyExit proxied_world verify_request) s = (resp, s') \<and>
     RespBody resp = VerdictBody result \<and> \<not> ResPassed result \<and> CtlSession (SrvTunnel s') \<noteq> None \<and>
     (let p = verifyClick br (Some resp) (loaded_with (SrvSnapshot s') counts nodes logs proxy vpn preview) page0
      in (''toast'', toastMarkup (pg_exit_verified @ ResExitIP result)) \<in> set (PgToasts p) \<and>
         ElClass (PgDom p ''verificationState'') = [''badge'', ''good''] \<and> hiddenEl p ''disconnectBtn'')"
proof -
  obtain s where s: "run_events (serve (gate_world 17)) (Some (gate_start 17, 0)) [ConnectExit] = Some (s, 0)"
    "SrvNodes s = [probed_node]" "CtlSession (SrvTunnel s) = Some (gate_session 9)"
    "ActiveNodeID (SrvSnapshot s) = ID probed_node"
    using gate_connected by blast
  obtain result now s' where v: "run_state (verifyExit proxied_world verify_request) s = (writeJSON 200 (VerdictBody result), s')"
    "\<not> ResPassed result" "SrvSnapshot s' = verdictSnapshot probed_node result now (SrvSnapshot s)" "SrvTunnel s' = SrvTunnel s"
    using proxied_verify [OF s(2-4)] by blast
  have error: "connection_snapshot.State (SrvSnapshot s') = ''error''" "LastVerifiedAt (SrvSnapshot s') = Some now"
    using v(2,3) by (simp_all add: verdictSnapshot_def StateError_def)
  let ?toast = "toast (pg_exit_verified @ ResExitIP result) False"
  let ?p0 = "setHTML ''verifyBtn'' (busyMarkup pg_busy_verify) (setDisabled ''verifyBtn'' True page0)"
  let ?loads = "loaded_with (SrvSnapshot s') counts nodes logs proxy vpn preview"
  define q where "q = loadAll br True ?loads (?toast ?p0)"
  have click: "verifyClick br (Some (writeJSON 200 (VerdictBody result))) ?loads page0 =
      setDisabled ''verifyBtn'' False (upd ''verifyBtn'' (\<lambda>e. e\<lparr>ElContent := ElContent (PgDom page0 ''verifyBtn'')\<rparr>) q)"
    by (simp add: verifyClick_def runAction_def requestThen_def api_answered [unfolded answered_def] q_def Let_def)
  have idle: "\<not> PgLoadingAll (?toast ?p0)"
    by (simp add: toast_def setHTML_def setDisabled_def upd_def page0_def)
  have "PgToasts q = PgToasts (?toast ?p0)"
    unfolding q_def loadAll_loaded [OF idle] by (simp add: render_toasts)
  moreover have "ElClass (PgDom q ''verificationState'') = [''badge'', ''good'']" "hiddenEl q ''disconnectBtn''"
    unfolding q_def loadAll_loaded [OF idle] hiddenEl_def
    by (simp_all add: renderSubscription_exit later_renders exit_elements_def
        renderStatus_verified [OF error(2), unfolded hiddenEl_def] error)
  ultimately have "let p = verifyClick br (Some (writeJSON 200 (VerdictBody result))) ?loads page0
      in (''toast'', toastMarkup (pg_exit_verified @ ResExitIP result)) \<in> set (PgToasts p) \<and>
         ElClass (PgDom p ''verificationState'') = [''badge'', ''good''] \<and> hiddenEl p ''disconnectBtn''"
    by (simp add: click setDisabled_def hiddenEl_def toast_def)
  moreover have "RespBody (writeJSON 200 (VerdictBody result)) = VerdictBody result" by (simp add: writeJSON_def)
  moreover have "CtlSession (SrvTunnel s') \<noteq> None" using s(3) v(4) by simp
  ultimately show ?thesis using s(1) v(1,2) by blast
qed


text \<open>A server with one open session answers the six requests of a load: the hypotheses of the theorem
  on a load hold for its answers.\<close>

definition open_server :: server where
  "open_server = fresh_server\<lparr>SrvSessions := [''session'' \<mapsto> 1000000]\<rparr>"

definition load_request :: "string \<Rightarrow> request" where
  "load_request path = \<lparr>ReqMethod = ''GET'', ReqPath = path, ReqCookie = Some ''session'', ReqTLS = False,
     ReqToken = '''', ReqLogin = Inl '''', ReqNodeID = ''''\<rparr>"

definition load_answer :: "string \<Rightarrow> string \<times> response option" where
  "load_answer path = (path, Some (fst (run_state (Handler calm_world (load_request path)) open_server)))"

lemma load_answer_served: "served (load_answer path)"
  unfolding served_def load_answer_def
  by (rule exI [of _ calm_world], rule exI [of _ "load_request path"], rule exI [of _ open_server])
    (simp add: load_request_def)

lemma calm_tick: "tick calm_world s = s\<lparr>SrvTicks := Suc (SrvTicks s)\<rparr>"
  by (simp add: tick_def tunnelDrop_def calm_world_def)

lemma open_server_simps:
  "SrvSessions open_server = [''session'' \<mapsto> 1000000]" "SrvCfg open_server = some_gateway" "SrvNodes open_server = []"
  "SrvTicks open_server = 2"
  by (simp_all add: open_server_def fresh_server_simps)
    (simp_all add: fresh_server_def NewServer_def LoadState_def empty_files_def setNodes_def setSnapshot_def newState_def
      calm_tick)

lemma calm_world_simps: "WClock calm_world k = int k" "WAddrs calm_world k = Inr []"
  by (simp_all add: calm_world_def)

lemma open_preview: "\<exists>t. VMESS (Inr []) (Subscription some_gateway) [] = Inr t"
  by (simp add: VMESS_def Let_def some_gateway_def generated_def Default_def)

lemma load_answer_successful: "path \<in> set loadPaths \<Longrightarrow> successful (load_answer path)"
  using open_preview
  by (auto simp: loadPaths_def successful_def load_answer_def Handler_def routes_def protectedRoutes_def load_request_def
      requireAuth_def sessionValid_def open_server_simps calm_tick calm_world_simps status_def nodes_handler_def
      logs_handler_def proxyStatus_def environment_def checkEnvironment_def subscriptionPreview_def writeJSON_def Let_def)

theorem served_load_shown_witness:
  "\<forall>br. \<exists>nodes. map_of (rev (map load_answer loadPaths)) ''/api/nodes'' = Some (Some nodes) \<and>
     RespBody nodes = NodesBody (PgNodes (loadAll br True (rev (map load_answer loadPaths)) page0))"
proof
  fix br
  have "mset (map fst (rev (map load_answer loadPaths))) = mset loadPaths"
    by (simp add: rev_map load_answer_def comp_def)
  moreover have "list_all (\<lambda>a. served a \<and> successful a) (rev (map load_answer loadPaths))"
    using load_answer_served load_answer_successful by (simp add: list_all_iff)
  moreover have "\<not> PgLoadingAll page0" by (simp add: page0_def)
  ultimately show "\<exists>nodes. map_of (rev (map load_answer loadPaths)) ''/api/nodes'' = Some (Some nodes) \<and>
     RespBody nodes = NodesBody (PgNodes (loadAll br True (rev (map load_answer loadPaths)) page0))"
    using served_load_shown [of "rev (map load_answer loadPaths)" page0 br True] by blast
qed

end
